(* ===== verification/Go_Prelude.thy ===== *)
theory Go_Prelude
  imports Main "HOL-Library.Word"
begin

text \<open>
  Shared vocabulary of the development: how the values of the Go sources are represented, the
  fact collections the component theories add to, and the generic lemmas on lists, options, sums
  and maps that the component proofs use.

  Representation of Go values:
  \<^item> a Go string is a byte string, here \<open>string\<close> (a list of 8-bit characters);
  \<^item> a Go \<open>error\<close> is represented by its text, so a function returning \<open>(T, error)\<close> is a value of
    \<open>error + T\<close> with \<open>Inl\<close> for the error;
  \<^item> a \<open>map[string]string\<close> is a partial map; indexing a missing key yields the zero value;
  \<^item> a nil pointer is \<open>None\<close>;
  \<^item> \<open>int32\<close> and \<open>int64\<close> are words of that width.
\<close>

section \<open>Types\<close>

type_synonym error = string
type_synonym strmap = "string \<rightharpoonup> string"
type_synonym int32 = "32 word"
type_synonym int64 = "64 word"

text \<open>Errors of the file system: \<open>os.IsNotExist\<close> is the only distinction the sources make.\<close>

datatype fs_error = NotExist | FsError error

fun fs_text :: "fs_error \<Rightarrow> error" where
  "fs_text NotExist = ''no such file or directory''"
| "fs_text (FsError e) = e"

text \<open>The fact collections the component theories add to at the definitions themselves: the named
  string constants of the source, and the functions that build environments and containers.\<close>

named_theorems const_defs \<open>the named string constants of the webhook\<close>
named_theorems env_builder_defs \<open>the functions that build a container's environment\<close>
named_theorems container_builder_defs \<open>the functions that build a container\<close>

section \<open>Indexing a Go map\<close>

definition map_get :: "strmap \<Rightarrow> string \<Rightarrow> string" where
  "map_get m k = (case m k of None \<Rightarrow> [] | Some v \<Rightarrow> v)"

lemma map_get_simps [simp]:
  "m k = None \<Longrightarrow> map_get m k = []"
  "m k = Some v \<Longrightarrow> map_get m k = v"
  by (simp_all add: map_get_def)

lemma map_get_nonempty: "map_get m k \<noteq> [] \<Longrightarrow> m k = Some (map_get m k)"
  by (cases "m k") simp_all

section \<open>Results\<close>

definition is_ok :: "'e + 'a \<Rightarrow> bool" where
  "is_ok r = (case r of Inl _ \<Rightarrow> False | Inr _ \<Rightarrow> True)"

lemma is_ok_simps [simp]: "is_ok (Inr x)" "\<not> is_ok (Inl e)"
  by (simp_all add: is_ok_def)

lemma is_ok_iff: "is_ok r \<longleftrightarrow> (\<exists>x. r = Inr x)"
  by (cases r) simp_all

lemma map_sum_eq_Inr [simp]: "map_sum f g r = Inr a \<longleftrightarrow> (\<exists>b. r = Inr b \<and> a = g b)"
  by (cases r) auto

section \<open>Lists\<close>

lemma find_eq_None_iff: "find P xs = None \<longleftrightarrow> (\<forall>x\<in>set xs. \<not> P x)"
  by (induction xs) auto

lemma find_eq_SomeD: "find P xs = Some x \<Longrightarrow> x \<in> set xs \<and> P x"
  by (induction xs) (auto split: if_splits)

lemma find_append:
  "find P (xs @ ys) = (case find P xs of None \<Rightarrow> find P ys | Some x \<Rightarrow> Some x)"
  by (induction xs) auto

text \<open>A step relation reached by a finite number of steps; the counterpart of a handler being run
  any number of times.\<close>

inductive steps :: "('s \<Rightarrow> 's \<Rightarrow> bool) \<Rightarrow> 's \<Rightarrow> 's \<Rightarrow> bool" for r where
  steps_refl: "steps r s s"
| steps_step: "steps r s t \<Longrightarrow> r t u \<Longrightarrow> steps r s u"

lemma steps_trans: "steps r s t \<Longrightarrow> steps r t u \<Longrightarrow> steps r s u"
  by (rotate_tac, induction rule: steps.induct) (auto intro: steps.intros)

lemma steps_single: "r s t \<Longrightarrow> steps r s t"
  by (blast intro: steps.intros)

lemma steps_invariant:
  assumes "steps r s t" and "I s" and "\<And>x y. I x \<Longrightarrow> r x y \<Longrightarrow> I y"
  shows "I t"
  using assms by (induction rule: steps.induct) blast+

end
