(* ===== verification/Go_Strings.thy ===== *)
theory Go_Strings
  imports Go_Prelude
begin

text \<open>
  The functions of Go's \<open>strings\<close>, \<open>strconv\<close> and \<open>net\<close> packages that the sources call, on byte
  strings, with the laws the components rely on: prefix and suffix trimming, splitting and
  joining, white-space trimming (Unicode white space in its UTF-8 encoding), decimal conversion in
  both directions, case folding against ASCII literals, and \<open>net.SplitHostPort\<close>.
\<close>

text \<open>The double quote, and lines joined to a text.\<close>

definition quote :: string where
  "quote = [CHR 0x22]"

definition unlines :: "string list \<Rightarrow> string" where
  "unlines ls = concat (map (\<lambda>l. l @ [CHR 0x0A]) ls)"

section \<open>Prefixes and suffixes\<close>

definition HasPrefix :: "string \<Rightarrow> string \<Rightarrow> bool" where
  "HasPrefix s p \<longleftrightarrow> take (length p) s = p"

definition TrimPrefix :: "string \<Rightarrow> string \<Rightarrow> string" where
  "TrimPrefix s p = (if HasPrefix s p then drop (length p) s else s)"

definition HasSuffix :: "string \<Rightarrow> string \<Rightarrow> bool" where
  "HasSuffix s p \<longleftrightarrow> length p \<le> length s \<and> drop (length s - length p) s = p"

definition TrimSuffix :: "string \<Rightarrow> string \<Rightarrow> string" where
  "TrimSuffix s p = (if HasSuffix s p then take (length s - length p) s else s)"

text \<open>\<open>strings.TrimRight(s, cutset)\<close> for a cutset of one byte.\<close>

definition TrimRight :: "string \<Rightarrow> char \<Rightarrow> string" where
  "TrimRight s c = rev (dropWhile (\<lambda>x. x = c) (rev s))"

lemma HasPrefix_append [simp]: "HasPrefix (p @ s) p"
  by (simp add: HasPrefix_def)

lemma HasPrefix_iff: "HasPrefix s p \<longleftrightarrow> (\<exists>r. s = p @ r)"
  by (metis HasPrefix_append HasPrefix_def append_take_drop_id)

lemma TrimPrefix_append [simp]: "TrimPrefix (p @ s) p = s"
  by (simp add: TrimPrefix_def)

lemma TrimPrefix_eq_iff: "TrimPrefix s p = s \<longleftrightarrow> p = [] \<or> \<not> HasPrefix s p"
  by (auto simp: TrimPrefix_def HasPrefix_iff)

lemma length_TrimPrefix: "length (TrimPrefix s p) \<le> length s"
  by (simp add: TrimPrefix_def)

lemma TrimSuffix_append [simp]: "TrimSuffix (s @ p) p = s"
  by (simp add: TrimSuffix_def HasSuffix_def)

lemma TrimRight_last: "TrimRight s c \<noteq> [] \<Longrightarrow> last (TrimRight s c) \<noteq> c"
  using hd_dropWhile [of "\<lambda>x. x = c" "rev s"] by (simp add: TrimRight_def last_rev del: dropWhile_eq_Nil_conv)

lemma TrimRight_prefix: "\<exists>k. s = TrimRight s c @ replicate k c"
proof -
  have "takeWhile (\<lambda>x. x = c) (rev s) = replicate (length (takeWhile (\<lambda>x. x = c) (rev s))) c"
    by (metis (mono_tags, lifting) replicate_length_same set_takeWhileD)
  then obtain k where k: "takeWhile (\<lambda>x. x = c) (rev s) = replicate k c" by blast
  have "s = rev (takeWhile (\<lambda>x. x = c) (rev s) @ dropWhile (\<lambda>x. x = c) (rev s))" by simp
  also have "\<dots> = TrimRight s c @ replicate k c" by (simp add: TrimRight_def k del: takeWhile_dropWhile_id)
  finally show ?thesis by blast
qed

section \<open>Searching for a byte\<close>

fun IndexByte :: "string \<Rightarrow> char \<Rightarrow> nat option" where
  "IndexByte [] c = None"
| "IndexByte (x # xs) c = (if x = c then Some 0 else map_option Suc (IndexByte xs c))"

definition LastIndexByte :: "string \<Rightarrow> char \<Rightarrow> nat option" where
  "LastIndexByte s c = map_option (\<lambda>i. length s - 1 - i) (IndexByte (rev s) c)"

lemma IndexByte_None_iff: "IndexByte s c = None \<longleftrightarrow> c \<notin> set s"
  by (induction s) auto

lemma IndexByte_split: "c \<notin> set a \<Longrightarrow> IndexByte (a @ c # b) c = Some (length a)"
  by (induction a) auto

lemma LastIndexByte_None_iff: "LastIndexByte s c = None \<longleftrightarrow> c \<notin> set s"
  by (simp add: LastIndexByte_def IndexByte_None_iff)

lemma LastIndexByte_split: "c \<notin> set b \<Longrightarrow> LastIndexByte (a @ c # b) c = Some (length a)"
  by (simp add: LastIndexByte_def IndexByte_split)

lemma take_IndexByte:
  "(case IndexByte s c of Some i \<Rightarrow> take i s | None \<Rightarrow> s) = takeWhile (\<lambda>x. x \<noteq> c) s"
proof (induction s)
  case (Cons a s)
  then show ?case by (cases "IndexByte s c") auto
qed simp

section \<open>Splitting and joining\<close>

text \<open>\<open>strings.Split(s, sep)\<close> for a separator of one byte.\<close>

fun Split :: "string \<Rightarrow> char \<Rightarrow> string list" where
  "Split [] c = [[]]"
| "Split (x # xs) c =
     (if x = c then [] # Split xs c
      else (case Split xs c of [] \<Rightarrow> [[x]] | y # ys \<Rightarrow> (x # y) # ys))"

fun Join :: "string list \<Rightarrow> string \<Rightarrow> string" where
  "Join [] sep = []"
| "Join [x] sep = x"
| "Join (x # y # ys) sep = x @ sep @ Join (y # ys) sep"

lemma Split_nonempty [simp]: "Split s c \<noteq> []"
  by (induction s) (auto split: list.splits)

lemma Split_no_sep [simp]: "c \<notin> set s \<Longrightarrow> Split s c = [s]"
  by (induction s) auto

lemma Split_append_sep: "c \<notin> set a \<Longrightarrow> Split (a @ c # b) c = a # Split b c"
  by (induction a) auto

lemma Split_elem_no_sep: "x \<in> set (Split s c) \<Longrightarrow> c \<notin> set x"
proof (induction s arbitrary: x)
  case (Cons a s)
  then show ?case by (cases "Split s c") (auto split: if_splits)
qed simp

lemma Split_Join: "xs \<noteq> [] \<Longrightarrow> \<forall>x\<in>set xs. c \<notin> set x \<Longrightarrow> Split (Join xs [c]) c = xs"
  by (induction xs "[c]" rule: Join.induct) (auto simp: Split_append_sep)

lemma Join_Cons: "ys \<noteq> [] \<Longrightarrow> Join (y # ys) sep = y @ sep @ Join ys sep"
  by (cases ys) simp_all

lemma Join_Split: "Join (Split s c) [c] = s"
proof (induction s)
  case (Cons a s)
  have "Split s c \<noteq> []" by simp
  then obtain y ys where eq: "Split s c = y # ys" by (cases "Split s c") auto
  show ?case
  proof (cases "a = c")
    case True
    with Cons show ?thesis by (simp add: Join_Cons)
  next
    case False
    with Cons eq show ?thesis by (cases ys) simp_all
  qed
qed simp

section \<open>White space\<close>

text \<open>The code points for which \<open>unicode.IsSpace\<close> holds, in UTF-8. A leading (trailing) white-space
  rune is exactly a prefix (suffix) among these encodings.\<close>

definition space_encodings :: "string list" where
  "space_encodings =
     [[CHR 0x09], [CHR 0x0A], [CHR 0x0B], [CHR 0x0C], [CHR 0x0D], [CHR 0x20],
      [CHR 0xC2, CHR 0x85], [CHR 0xC2, CHR 0xA0], [CHR 0xE1, CHR 0x9A, CHR 0x80],
      [CHR 0xE2, CHR 0x80, CHR 0x80], [CHR 0xE2, CHR 0x80, CHR 0x81],
      [CHR 0xE2, CHR 0x80, CHR 0x82], [CHR 0xE2, CHR 0x80, CHR 0x83],
      [CHR 0xE2, CHR 0x80, CHR 0x84], [CHR 0xE2, CHR 0x80, CHR 0x85],
      [CHR 0xE2, CHR 0x80, CHR 0x86], [CHR 0xE2, CHR 0x80, CHR 0x87],
      [CHR 0xE2, CHR 0x80, CHR 0x88], [CHR 0xE2, CHR 0x80, CHR 0x89],
      [CHR 0xE2, CHR 0x80, CHR 0x8A], [CHR 0xE2, CHR 0x80, CHR 0xA8],
      [CHR 0xE2, CHR 0x80, CHR 0xA9], [CHR 0xE2, CHR 0x80, CHR 0xAF],
      [CHR 0xE2, CHR 0x81, CHR 0x9F], [CHR 0xE3, CHR 0x80, CHR 0x80]]"

function trim_front :: "string list \<Rightarrow> string \<Rightarrow> string" where
  "trim_front encs s =
     (case find (\<lambda>e. e \<noteq> [] \<and> HasPrefix s e) encs of
        None \<Rightarrow> s
      | Some e \<Rightarrow> trim_front encs (drop (length e) s))"
  by pat_completeness auto
termination
  by (relation "measure (\<lambda>(encs, s). length s)")
     (auto simp: HasPrefix_iff dest!: find_eq_SomeD)

declare trim_front.simps [simp del]

definition TrimSpace :: "string \<Rightarrow> string" where
  "TrimSpace s =
     rev (trim_front (map rev space_encodings) (rev (trim_front space_encodings s)))"

lemma trim_front_id:
  "(\<forall>e\<in>set encs. e = [] \<or> \<not> HasPrefix s e) \<Longrightarrow> trim_front encs s = s"
  by (subst trim_front.simps) (auto simp: find_None_iff split: option.splits dest!: find_eq_SomeD)

lemma trim_front_suffix: "\<exists>p. s = p @ trim_front encs s"
proof (induction encs s rule: trim_front.induct)
  case (1 encs s)
  show ?case
  proof (cases "find (\<lambda>e. e \<noteq> [] \<and> HasPrefix s e) encs")
    case None
    then show ?thesis by (simp add: trim_front.simps [of encs s])
  next
    case (Some e)
    with 1 obtain p where p: "drop (length e) s = p @ trim_front encs (drop (length e) s)" by blast
    have "s = (take (length e) s @ p) @ trim_front encs (drop (length e) s)"
      using p by (metis append.assoc append_take_drop_id)
    moreover have "trim_front encs s = trim_front encs (drop (length e) s)"
      using Some by (simp add: trim_front.simps [of encs s])
    ultimately show ?thesis by metis
  qed
qed

lemma TrimSpace_infix: "\<exists>p q. s = p @ TrimSpace s @ q"
proof -
  obtain p where p: "s = p @ trim_front space_encodings s" using trim_front_suffix by blast
  obtain q where "rev (trim_front space_encodings s) =
      q @ trim_front (map rev space_encodings) (rev (trim_front space_encodings s))"
    using trim_front_suffix by blast
  then have "trim_front space_encodings s = TrimSpace s @ rev q"
    by (metis TrimSpace_def rev_append rev_rev_ident)
  with p show ?thesis by (metis append.assoc)
qed

lemma set_TrimSpace: "set (TrimSpace s) \<subseteq> set s"
  by (metis TrimSpace_infix Un_iff set_append subsetI)

text \<open>A string whose ends are printable ASCII bytes is not changed by trimming.\<close>

definition printable :: "char \<Rightarrow> bool" where
  "printable c \<longleftrightarrow> 33 \<le> (of_char c :: nat) \<and> (of_char c :: nat) < 127"

lemma space_encodings_ends:
  "list_all (\<lambda>e. e \<noteq> [] \<and> \<not> printable (hd e) \<and> \<not> printable (last e)) space_encodings"
  by code_simp

lemma space_encodings_hd:
  assumes "e \<in> set space_encodings"
  shows "\<exists>c r. e = c # r \<and> \<not> printable c"
proof -
  have "e \<noteq> [] \<and> \<not> printable (hd e)"
    using assms space_encodings_ends unfolding list_all_iff by blast
  then show ?thesis by (cases e) simp_all
qed

lemma space_encodings_last:
  assumes "e \<in> set space_encodings"
  shows "\<exists>c r. rev e = c # r \<and> \<not> printable c"
proof -
  have "e \<noteq> [] \<and> \<not> printable (last e)"
    using assms space_encodings_ends unfolding list_all_iff by blast
  then show ?thesis by (cases e rule: rev_cases) simp_all
qed

lemma trim_front_printable:
  assumes "\<And>e. e \<in> set encs \<Longrightarrow> \<exists>c r. e = c # r \<and> \<not> printable c"
    and "s \<noteq> [] \<Longrightarrow> printable (hd s)"
  shows "trim_front encs s = s"
proof (rule trim_front_id, intro ballI disjI2)
  fix e assume "e \<in> set encs"
  then obtain c r where "e = c # r" "\<not> printable c" using assms(1) by blast
  with assms(2) show "\<not> HasPrefix s e" by (auto simp: HasPrefix_iff)
qed

lemma TrimSpace_printable:
  assumes "\<forall>c\<in>set s. printable c"
  shows "TrimSpace s = s"
proof -
  have "trim_front space_encodings s = s"
    using assms by (intro trim_front_printable) (auto dest: space_encodings_hd)
  moreover have "trim_front (map rev space_encodings) (rev s) = rev s"
    using assms by (intro trim_front_printable) (auto dest!: space_encodings_last simp: hd_rev)
  ultimately show ?thesis by (simp add: TrimSpace_def)
qed

lemma TrimSpace_Nil [simp]: "TrimSpace [] = []"
  by (rule TrimSpace_printable) simp

section \<open>Decimal numbers\<close>

definition digit_char :: "nat \<Rightarrow> char" where
  "digit_char d = char_of (48 + d)"

definition is_digit :: "char \<Rightarrow> bool" where
  "is_digit c \<longleftrightarrow> 48 \<le> (of_char c :: nat) \<and> (of_char c :: nat) \<le> 57"

definition digit_val :: "char \<Rightarrow> nat" where
  "digit_val c = of_char c - 48"

fun dec_digits :: "nat \<Rightarrow> string" where
  "dec_digits n =
     (if n < 10 then [digit_char n] else dec_digits (n div 10) @ [digit_char (n mod 10)])"

declare dec_digits.simps [simp del]

text \<open>\<open>strconv.Itoa\<close>, and \<open>fmt.Sprintf("%d", v)\<close> for a signed value.\<close>

definition Itoa :: "int \<Rightarrow> string" where
  "Itoa v = (if v < 0 then CHR ''-'' # dec_digits (nat (- v)) else dec_digits (nat v))"

text \<open>\<open>fmt.Sprintf("%t", b)\<close>.\<close>

definition FormatBool :: "bool \<Rightarrow> string" where
  "FormatBool b = (if b then ''true'' else ''false'')"

fun atoi_digits :: "nat \<Rightarrow> string \<Rightarrow> nat option" where
  "atoi_digits acc [] = Some acc"
| "atoi_digits acc (c # cs) =
     (if is_digit c then atoi_digits (acc * 10 + digit_val c) cs else None)"

text \<open>\<open>strconv.Atoi\<close> on a 64-bit platform: an optional sign, then at least one decimal digit and
  nothing else; a value outside \<open>int64\<close> is an error.\<close>

definition Atoi :: "string \<Rightarrow> int option" where
  "Atoi s =
     (let (neg, ds) =
        (case s of
           [] \<Rightarrow> (False, [])
         | c # cs \<Rightarrow>
             if c = CHR ''-'' then (True, cs) else if c = CHR ''+'' then (False, cs) else (False, s))
      in if ds = [] then None
         else (case atoi_digits 0 ds of
                 None \<Rightarrow> None
               | Some n \<Rightarrow>
                   let v = (if neg then - int n else int n)
                   in if - (2 ^ 63) \<le> v \<and> v < 2 ^ 63 then Some v else None))"

lemma of_char_digit_char: "d < 10 \<Longrightarrow> of_char (digit_char d) = 48 + d"
  by (simp add: digit_char_def)

lemma is_digit_digit_char [simp]: "d < 10 \<Longrightarrow> is_digit (digit_char d)"
  by (simp add: is_digit_def of_char_digit_char)

lemma digit_val_digit_char [simp]: "d < 10 \<Longrightarrow> digit_val (digit_char d) = d"
  by (simp add: digit_val_def of_char_digit_char)

lemma is_digit_printable: "is_digit c \<Longrightarrow> printable c"
  by (simp add: is_digit_def printable_def)

lemma is_digit_not_punct: "is_digit c \<Longrightarrow> c \<notin> {CHR ''-'', CHR ''+'', CHR '',''}"
  by (auto simp: is_digit_def)

lemma dec_digits_nonempty [simp]: "dec_digits n \<noteq> []"
  by (subst dec_digits.simps) simp

lemma dec_digits_digits: "c \<in> set (dec_digits n) \<Longrightarrow> is_digit c"
proof (induction n rule: dec_digits.induct)
  case (1 n)
  then show ?case
    by (subst (asm) (2) dec_digits.simps) (auto split: if_splits)
qed

lemma atoi_digits_append:
  "atoi_digits acc (xs @ ys) =
     (case atoi_digits acc xs of None \<Rightarrow> None | Some n \<Rightarrow> atoi_digits n ys)"
  by (induction acc xs rule: atoi_digits.induct) auto

lemma atoi_dec_digits: "atoi_digits 0 (dec_digits n) = Some n"
proof (induction n rule: dec_digits.induct)
  case (1 n)
  then show ?case
    by (subst dec_digits.simps) (auto simp: atoi_digits_append)
qed

lemma Itoa_digits: "0 \<le> v \<Longrightarrow> c \<in> set (Itoa v) \<Longrightarrow> is_digit c"
  by (auto simp: Itoa_def dest: dec_digits_digits)

lemma Itoa_nonempty [simp]: "Itoa v \<noteq> []"
  by (simp add: Itoa_def)

lemma Atoi_Itoa:
  assumes "- (2 ^ 63) \<le> v" "v < 2 ^ 63"
  shows "Atoi (Itoa v) = Some v"
proof (cases "v < 0")
  case True
  then show ?thesis using assms by (simp add: Itoa_def Atoi_def atoi_dec_digits)
next
  case False
  obtain c cs where eq: "dec_digits (nat v) = c # cs" by (cases "dec_digits (nat v)") auto
  then have "is_digit c" using dec_digits_digits [of c "nat v"] by simp
  then have "c \<noteq> CHR ''-''" "c \<noteq> CHR ''+''" by (auto dest: is_digit_not_punct)
  then show ?thesis
    using assms False eq atoi_dec_digits [of "nat v"] by (simp add: Itoa_def Atoi_def)
qed

lemma Itoa_inject:
  assumes "- (2 ^ 63) \<le> v" "v < 2 ^ 63" "- (2 ^ 63) \<le> w" "w < 2 ^ 63" "Itoa v = Itoa w"
  shows "v = w"
  using Atoi_Itoa assms by (metis option.inject)

lemma Itoa_no_comma: "0 \<le> v \<Longrightarrow> CHR '','' \<notin> set (Itoa v)"
  by (auto dest!: Itoa_digits dest: is_digit_not_punct)

lemma TrimSpace_Itoa: "0 \<le> v \<Longrightarrow> TrimSpace (Itoa v) = Itoa v"
  by (rule TrimSpace_printable) (auto dest: Itoa_digits intro: is_digit_printable)

lemma Atoi_bounds: "Atoi s = Some v \<Longrightarrow> - (2 ^ 63) \<le> v \<and> v < 2 ^ 63"
  by (auto simp: Atoi_def Let_def split: if_splits option.splits list.splits prod.splits)

section \<open>Case folding\<close>

text \<open>
  \<open>strings.EqualFold(s, t)\<close> where \<open>t\<close> is ASCII, as in every call of the sources. Simple Unicode
  folding relates an ASCII letter to its other case, and additionally \<open>s\<close> to U+017F and \<open>k\<close> to
  U+212A, whose UTF-8 encodings are the two byte sequences below.
\<close>

definition ascii_lower :: "char \<Rightarrow> char" where
  "ascii_lower c =
     (if 65 \<le> (of_char c :: nat) \<and> (of_char c :: nat) \<le> 90 then char_of (of_char c + 32 :: nat) else c)"

definition fold_alternative :: "char \<Rightarrow> string" where
  "fold_alternative b =
     (if ascii_lower b = CHR ''s'' then [CHR 0xC5, CHR 0xBF]
      else if ascii_lower b = CHR ''k'' then [CHR 0xE2, CHR 0x84, CHR 0xAA] else [])"

fun EqualFold :: "string \<Rightarrow> string \<Rightarrow> bool" where
  "EqualFold s [] \<longleftrightarrow> s = []"
| "EqualFold s (b # t) \<longleftrightarrow>
     (case s of
        [] \<Rightarrow> False
      | a # s' \<Rightarrow>
          if ascii_lower a = ascii_lower b then EqualFold s' t
          else fold_alternative b \<noteq> [] \<and> HasPrefix s (fold_alternative b)
               \<and> EqualFold (drop (length (fold_alternative b)) s) t)"

lemma EqualFold_refl [simp]: "EqualFold s s"
  by (induction s) auto

text \<open>On ASCII strings, folding compares the lower-case forms.\<close>

lemma EqualFold_ascii:
  assumes "\<forall>c\<in>set s. (of_char c :: nat) < 128"
  shows "EqualFold s t \<longleftrightarrow> map ascii_lower s = map ascii_lower t"
  using assms
proof (induction s t rule: EqualFold.induct)
  case (2 s b t)
  show ?case
  proof (cases s)
    case (Cons a s')
    moreover have "\<not> (fold_alternative b \<noteq> [] \<and> HasPrefix s (fold_alternative b))"
      using 2(3) Cons by (auto simp: fold_alternative_def HasPrefix_iff)
    ultimately show ?thesis using 2 by auto
  qed simp
qed simp

section \<open>Host and port\<close>

definition byte_at :: "string \<Rightarrow> nat \<Rightarrow> char option" where
  "byte_at s i = (if i < length s then Some (s ! i) else None)"

text \<open>\<open>net.SplitHostPort\<close>, with the four error texts of the library (the error wraps the address as
  well, which no caller reads).\<close>

definition SplitHostPort :: "string \<Rightarrow> error + (string \<times> string)" where
  "SplitHostPort hp =
     (case LastIndexByte hp (CHR '':'') of
        None \<Rightarrow> Inl ''missing port in address''
      | Some i \<Rightarrow>
          let bracketed =
            (if byte_at hp 0 = Some (CHR ''['') then
               (case IndexByte hp (CHR '']'') of
                  None \<Rightarrow> Inl ''missing ']' in address''
                | Some e \<Rightarrow>
                    if e + 1 = length hp then Inl ''missing port in address''
                    else if e + 1 = i then Inr (take (e - 1) (drop 1 hp), 1, e + 1)
                    else if byte_at hp (e + 1) = Some (CHR '':'') then Inl ''too many colons in address''
                    else Inl ''missing port in address'')
             else if CHR '':'' \<in> set (take i hp) then Inl ''too many colons in address''
             else Inr (take i hp, 0, 0))
          in case bracketed of
               Inl err \<Rightarrow> Inl err
             | Inr (host, j, k) \<Rightarrow>
                 if CHR ''['' \<in> set (drop j hp) then Inl ''unexpected '[' in address''
                 else if CHR '']'' \<in> set (drop k hp) then Inl ''unexpected ']' in address''
                 else Inr (host, drop (i + 1) hp))"

text \<open>A plain host with a plain port splits into its two parts; a host with no colon is an error.\<close>

lemma SplitHostPort_plain:
  assumes "set h \<inter> {CHR '':'', CHR ''['', CHR '']''} = {}"
    and "set p \<inter> {CHR '':'', CHR ''['', CHR '']''} = {}"
  shows "SplitHostPort (h @ CHR '':'' # p) = Inr (h, p)"
proof -
  have last: "LastIndexByte (h @ CHR '':'' # p) (CHR '':'') = Some (length h)"
    using assms by (intro LastIndexByte_split) auto
  have hd: "byte_at (h @ CHR '':'' # p) 0 \<noteq> Some (CHR ''['')"
    using assms by (cases h) (auto simp: byte_at_def)
  show ?thesis
    using assms by (auto simp: SplitHostPort_def last hd)
qed

lemma SplitHostPort_no_colon:
  "CHR '':'' \<notin> set h \<Longrightarrow> SplitHostPort h = Inl ''missing port in address''"
  by (simp add: SplitHostPort_def LastIndexByte_None_iff [THEN iffD2])

end
