(* ===== verification/Platform_Config.thy ===== *)
theory Platform_Config
  imports Go_Strings
begin

text \<open>
  The webhook's platform configuration and feature gates
  (\<open>internal/webhook/config/types.go\<close>, \<open>defaults.go\<close>, \<open>feature_gates.go\<close>): the structs, the compiled
  defaults and the validation of a merged configuration. The structs are values here;
  \<open>Deep_Copy\<close> justifies this for the copies that the loader hands out. The resource requirements have no
  claims: the loader hands out its configuration, to callers of \<open>Get\<close> and to callbacks, only through
  \<open>DeepCopy\<close>, which drops them (see \<open>Deep_Copy\<close>), and validation does not look at them, so that
  no user of a configuration ever sees one. A resource quantity is identified with the text that
  \<open>resource.MustParse\<close> reads it from, and a nil resource list is \<open>None\<close>.
\<close>

section \<open>Configuration structs\<close>

datatype Quantity = MustParse string

type_synonym ResourceList = "(string \<rightharpoonup> Quantity) option"

record ResourceRequirements =
  rr_Requests :: ResourceList
  rr_Limits :: ResourceList

record ImageConfig =
  img_EnvoyProxy :: string
  img_ProxyInit :: string
  img_SpiffeHelper :: string
  img_ClientRegistration :: string
  img_AuthBridge :: string
  img_PullPolicy :: string

record ProxyConfig =
  px_Port :: int32
  px_UID :: int64
  px_InboundProxyPort :: int32
  px_AdminPort :: int32

record ResourcesConfig =
  res_EnvoyProxy :: ResourceRequirements
  res_ProxyInit :: ResourceRequirements
  res_SpiffeHelper :: ResourceRequirements
  res_ClientRegistration :: ResourceRequirements
  res_AuthBridge :: ResourceRequirements

record TokenExchangeDefaults =
  te_TokenURL :: string
  te_DefaultAudience :: string
  te_DefaultScopes :: "string list"

record SpiffeConfig =
  spf_TrustDomain :: string
  spf_SocketPath :: string

record ObservabilityConfig =
  obs_LogLevel :: string
  obs_EnableMetrics :: bool
  obs_EnableTracing :: bool
  obs_TracingBackend :: string

record SidecarDefault =
  sd_Enabled :: bool

record SidecarDefaults =
  sds_EnvoyProxy :: SidecarDefault
  sds_SpiffeHelper :: SidecarDefault
  sds_ClientRegistration :: SidecarDefault

record PlatformConfig =
  pc_Images :: ImageConfig
  pc_Proxy :: ProxyConfig
  pc_Resources :: ResourcesConfig
  pc_TokenExchange :: TokenExchangeDefaults
  pc_Spiffe :: SpiffeConfig
  pc_Observability :: ObservabilityConfig
  pc_Sidecars :: SidecarDefaults

section \<open>Compiled defaults\<close>

definition cpu_mem :: "string \<Rightarrow> string \<Rightarrow> ResourceList" where
  "cpu_mem cpu mem = Some [''cpu'' \<mapsto> MustParse cpu, ''memory'' \<mapsto> MustParse mem]"

definition CompiledDefaults :: PlatformConfig where
  "CompiledDefaults =
     \<lparr>pc_Images =
        \<lparr>img_EnvoyProxy = ''ghcr.io/kagenti/kagenti-extensions/envoy-with-processor:latest'',
         img_ProxyInit = ''ghcr.io/kagenti/kagenti-extensions/proxy-init:latest'',
         img_SpiffeHelper = ''ghcr.io/kagenti/kagenti-extensions/spiffe-helper:latest'',
         img_ClientRegistration = ''ghcr.io/kagenti/kagenti-extensions/client-registration:latest'',
         img_AuthBridge = ''ghcr.io/kagenti/kagenti-extensions/authbridge:latest'',
         img_PullPolicy = ''IfNotPresent''\<rparr>,
      pc_Proxy = \<lparr>px_Port = 15123, px_UID = 1337, px_InboundProxyPort = 15124, px_AdminPort = 9901\<rparr>,
      pc_Resources =
        \<lparr>res_EnvoyProxy = \<lparr>rr_Requests = cpu_mem ''50m'' ''64Mi'', rr_Limits = cpu_mem ''200m'' ''256Mi''\<rparr>,
         res_ProxyInit = \<lparr>rr_Requests = cpu_mem ''10m'' ''10Mi'', rr_Limits = cpu_mem ''10m'' ''10Mi''\<rparr>,
         res_SpiffeHelper = \<lparr>rr_Requests = cpu_mem ''50m'' ''64Mi'', rr_Limits = cpu_mem ''100m'' ''128Mi''\<rparr>,
         res_ClientRegistration =
           \<lparr>rr_Requests = cpu_mem ''50m'' ''64Mi'', rr_Limits = cpu_mem ''100m'' ''128Mi''\<rparr>,
         res_AuthBridge =
           \<lparr>rr_Requests = cpu_mem ''100m'' ''128Mi'', rr_Limits = cpu_mem ''300m'' ''384Mi''\<rparr>\<rparr>,
      pc_TokenExchange = \<lparr>te_TokenURL = [], te_DefaultAudience = [], te_DefaultScopes = [''openid'']\<rparr>,
      pc_Spiffe = \<lparr>spf_TrustDomain = ''cluster.local'',
                   spf_SocketPath = ''unix:///spiffe-workload-api/spire-agent.sock''\<rparr>,
      pc_Observability = \<lparr>obs_LogLevel = ''info'', obs_EnableMetrics = True, obs_EnableTracing = False,
                          obs_TracingBackend = []\<rparr>,
      pc_Sidecars = \<lparr>sds_EnvoyProxy = \<lparr>sd_Enabled = True\<rparr>, sds_SpiffeHelper = \<lparr>sd_Enabled = True\<rparr>,
                     sds_ClientRegistration = \<lparr>sd_Enabled = True\<rparr>\<rparr>\<rparr>"

section \<open>Validation\<close>

definition port_out_of_range :: "int32 \<Rightarrow> bool" where
  "port_out_of_range p \<longleftrightarrow> sint p < 1024 \<or> sint p > 65535"

text \<open>\<open>None\<close> is the nil error.\<close>

definition Validate :: "PlatformConfig \<Rightarrow> error option" where
  "Validate c =
     (if port_out_of_range (px_Port (pc_Proxy c))
      then Some ''proxy.port must be between 1024 and 65535''
      else if port_out_of_range (px_InboundProxyPort (pc_Proxy c))
      then Some ''proxy.inboundProxyPort must be between 1024 and 65535''
      else if port_out_of_range (px_AdminPort (pc_Proxy c))
      then Some ''proxy.adminPort must be between 1024 and 65535''
      else if img_EnvoyProxy (pc_Images c) = [] then Some ''images.envoyProxy is required''
      else if img_ProxyInit (pc_Images c) = [] then Some ''images.proxyInit is required''
      else if img_SpiffeHelper (pc_Images c) = [] then Some ''images.spiffeHelper is required''
      else if img_ClientRegistration (pc_Images c) = [] then Some ''images.clientRegistration is required''
      else None)"

section \<open>Feature gates\<close>

record FeatureGates =
  fg_GlobalEnabled :: bool
  fg_EnvoyProxy :: bool
  fg_SpiffeHelper :: bool
  fg_ClientRegistration :: bool
  fg_InjectTools :: bool
  fg_PerWorkloadConfigResolution :: bool
  fg_CombinedSidecar :: bool

definition DefaultFeatureGates :: FeatureGates where
  "DefaultFeatureGates =
     \<lparr>fg_GlobalEnabled = True, fg_EnvoyProxy = True, fg_SpiffeHelper = True,
      fg_ClientRegistration = True, fg_InjectTools = False,
      fg_PerWorkloadConfigResolution = False, fg_CombinedSidecar = False\<rparr>"

definition zero_FeatureGates :: FeatureGates where
  "zero_FeatureGates =
     \<lparr>fg_GlobalEnabled = False, fg_EnvoyProxy = False, fg_SpiffeHelper = False,
      fg_ClientRegistration = False, fg_InjectTools = False,
      fg_PerWorkloadConfigResolution = False, fg_CombinedSidecar = False\<rparr>"

section \<open>What a valid configuration guarantees\<close>

definition unprivileged_port :: "int32 \<Rightarrow> bool" where
  "unprivileged_port p \<longleftrightarrow> 1024 \<le> unat p \<and> unat p \<le> 65535"

lemma unprivileged_port_uint: "unprivileged_port p \<longleftrightarrow> 1024 \<le> uint p \<and> uint p \<le> 65535"
proof -
  have "uint p = int (unat p)" by simp
  then show ?thesis unfolding unprivileged_port_def by linarith
qed

lemma port_in_range_iff: "\<not> port_out_of_range p \<longleftrightarrow> unprivileged_port p"
proof (cases "uint p < 2 ^ 31")
  case True
  then have "sint p = uint p"
    using signed_take_bit_int_eq_self [of 31 "uint p"] uint_ge_0 [of p] by (simp add: sint_uint)
  then show ?thesis
    by (simp add: port_out_of_range_def unprivileged_port_uint not_less)
next
  case False
  then have "sint p \<le> uint p - 2 ^ 32"
    using signed_take_bit_int_less_eq [of 31 "uint p"] by (simp add: sint_uint)
  moreover have "uint p < 2 ^ 32" using uint_lt2p [of p] by simp
  ultimately have "sint p < 0" by linarith
  with False show ?thesis
    by (simp add: port_out_of_range_def unprivileged_port_uint)
qed

lemma Validate_None_iff:
  "Validate c = None \<longleftrightarrow>
     unprivileged_port (px_Port (pc_Proxy c)) \<and> unprivileged_port (px_InboundProxyPort (pc_Proxy c))
     \<and> unprivileged_port (px_AdminPort (pc_Proxy c))
     \<and> img_EnvoyProxy (pc_Images c) \<noteq> [] \<and> img_ProxyInit (pc_Images c) \<noteq> []
     \<and> img_SpiffeHelper (pc_Images c) \<noteq> [] \<and> img_ClientRegistration (pc_Images c) \<noteq> []"
  by (auto simp: Validate_def port_in_range_iff [symmetric])

lemma CompiledDefaults_valid: "Validate CompiledDefaults = None"
  unfolding Validate_None_iff by (simp add: CompiledDefaults_def unprivileged_port_def)

end
