(* ===== verification/Kube_Types.thy ===== *)
theory Kube_Types
  imports Platform_Config
begin

text \<open>
  The part of the Kubernetes API (\<open>k8s.io/api/core/v1\<close>) that the webhook reads and writes: pods,
  containers, volumes and environment variables, as records with the API's field names, and the
  operations the webhook asks of the API server, as the record \<open>client\<close> over an abstract cluster
  state \<open>'w\<close>. Fields that the webhook neither reads nor writes are left out. A nil slice and an empty
  one are the same list; a nil pointer is \<open>None\<close>.
\<close>

section \<open>Containers\<close>

datatype EnvVarSource =
    ConfigMapKeyRef (ref_Name: string) (ref_Key: string) (ref_Optional: "bool option")
  | SecretKeyRef (ref_Name: string) (ref_Key: string) (ref_Optional: "bool option")
  | FieldRef (ref_FieldPath: string)
  | ResourceFieldRef (ref_Resource: string)

record EnvVar =
  env_Name :: string
  env_Value :: string
  env_ValueFrom :: "EnvVarSource option"

record VolumeMount =
  vm_Name :: string
  vm_MountPath :: string
  vm_SubPath :: string
  vm_ReadOnly :: bool

record ContainerPort =
  cp_Name :: string
  cp_ContainerPort :: int32
  cp_Protocol :: string

record Capabilities =
  cap_Add :: "string list"
  cap_Drop :: "string list"

record SecurityContext =
  sc_RunAsUser :: "int64 option"
  sc_RunAsGroup :: "int64 option"
  sc_RunAsNonRoot :: "bool option"
  sc_Privileged :: "bool option"
  sc_AllowPrivilegeEscalation :: "bool option"
  sc_Capabilities :: "Capabilities option"

record Container =
  ctr_Name :: string
  ctr_Image :: string
  ctr_ImagePullPolicy :: string
  ctr_Command :: "string list"
  ctr_Resources :: ResourceRequirements
  ctr_Ports :: "ContainerPort list"
  ctr_Env :: "EnvVar list"
  ctr_VolumeMounts :: "VolumeMount list"
  ctr_SecurityContext :: "SecurityContext option"

text \<open>The forms of composite literals the builders use: fields not mentioned are zero.\<close>

definition env_literal :: "string \<Rightarrow> string \<Rightarrow> EnvVar" where
  "env_literal n v = \<lparr>env_Name = n, env_Value = v, env_ValueFrom = None\<rparr>"

definition env_from :: "string \<Rightarrow> EnvVarSource \<Rightarrow> EnvVar" where
  "env_from n src = \<lparr>env_Name = n, env_Value = [], env_ValueFrom = Some src\<rparr>"

definition mount :: "string \<Rightarrow> string \<Rightarrow> bool \<Rightarrow> VolumeMount" where
  "mount n path ro = \<lparr>vm_Name = n, vm_MountPath = path, vm_SubPath = [], vm_ReadOnly = ro\<rparr>"

lemma env_simps [simp]:
  "env_Name (env_literal n v) = n" "env_Name (env_from n src) = n"
  "env_ValueFrom (env_literal n v) = None" "env_ValueFrom (env_from n src) = Some src"
  "env_Value (env_literal n v) = v" "env_Value (env_from n src) = []"
  by (simp_all add: env_literal_def env_from_def)

lemma mount_simps [simp]:
  "vm_Name (mount n path ro) = n" "vm_MountPath (mount n path ro) = path"
  "vm_ReadOnly (mount n path ro) = ro" "vm_SubPath (mount n path ro) = []"
  by (simp_all add: mount_def)

section \<open>Volumes and pods\<close>

datatype VolumeSource =
    EmptyDir
  | CSI (csi_Driver: string) (csi_ReadOnly: "bool option")
  | ConfigMapVolume (src_Name: string) (src_Optional: "bool option")
  | SecretVolume (src_Name: string) (src_Optional: "bool option")
  | OtherVolume string

record Volume =
  vol_Name :: string
  vol_Source :: VolumeSource

record PodSecurityContext =
  psc_FSGroup :: "int64 option"

record PodSpec =
  ps_Containers :: "Container list"
  ps_InitContainers :: "Container list"
  ps_Volumes :: "Volume list"
  ps_ServiceAccountName :: string
  ps_SecurityContext :: "PodSecurityContext option"

record Pod =
  pod_Name :: string
  pod_GenerateName :: string
  pod_UID :: string
  pod_Labels :: strmap
  pod_Annotations :: strmap
  pod_Spec :: PodSpec

section \<open>The API server\<close>

text \<open>\<open>apierrors.IsAlreadyExists\<close> is the only distinction the sources make.\<close>

datatype api_error = AlreadyExists error | ApiError error

fun api_text :: "api_error \<Rightarrow> error" where
  "api_text (AlreadyExists e) = e"
| "api_text (ApiError e) = e"

type_synonym float64 = "64 word"   \<comment> \<open>the bits; the sources only copy it\<close>

text \<open>\<open>'o\<close> is the type of unstructured objects; \<open>NestedString\<close> and \<open>NestedFloat64\<close> return a value only
  when it is found (the sources ignore the error).\<close>

record ('w, 'o) client =
  GetConfigMap :: "'w \<Rightarrow> string \<Rightarrow> string \<Rightarrow> error + strmap"
  GetServiceAccount :: "'w \<Rightarrow> string \<Rightarrow> string \<Rightarrow> error + strmap"
  CreateServiceAccount :: "'w \<Rightarrow> string \<Rightarrow> string \<Rightarrow> strmap \<Rightarrow> api_error option \<times> 'w"
  ListAgentRuntimes :: "'w \<Rightarrow> string \<Rightarrow> error + 'o list"
  NestedString :: "'o \<Rightarrow> string list \<Rightarrow> string option"
  NestedFloat64 :: "'o \<Rightarrow> string list \<Rightarrow> float64 option"

section \<open>Named items\<close>

text \<open>Containers, volumes and mounts are found by name in a list; an item is added only if there is no
  item of that name. The contract of the \<open>...Exists\<close> functions and what adding by name keeps:\<close>

locale named_items =
  fixes name_of :: "'i \<Rightarrow> string"
    and exists :: "'i list \<Rightarrow> string \<Rightarrow> bool"
  assumes exists_iff: "exists xs n \<longleftrightarrow> n \<in> name_of ` set xs"
begin

definition add :: "'i \<Rightarrow> 'i list \<Rightarrow> 'i list" where
  "add x xs = (if exists xs (name_of x) then xs else xs @ [x])"

lemma names_add: "name_of ` set (add x xs) = insert (name_of x) (name_of ` set xs)"
  by (auto simp: add_def exists_iff)

lemma distinct_add: "distinct (map name_of xs) \<Longrightarrow> distinct (map name_of (add x xs))"
  by (auto simp: add_def exists_iff)

lemma add_prefix: "\<exists>ys. add x xs = xs @ ys"
  by (simp add: add_def)

lemma add_noop: "name_of x \<in> name_of ` set xs \<Longrightarrow> add x xs = xs"
  by (simp add: add_def exists_iff)

lemma fold_suffix: "\<exists>ys. fold add new xs = xs @ ys \<and> set ys \<subseteq> set new"
proof (induction new arbitrary: xs)
  case (Cons x new)
  obtain ys where "add x xs = xs @ ys" "set ys \<subseteq> {x}"
    by (cases "exists xs (name_of x)") (auto simp: add_def)
  with Cons [of "xs @ ys"] show ?case by auto
qed simp

lemma fold_prefix: "\<exists>ys. fold add new xs = xs @ ys"
  using fold_suffix by blast

lemma fold_names: "name_of ` set (fold add new xs) = name_of ` set new \<union> name_of ` set xs"
  by (induction new arbitrary: xs) (simp_all add: names_add)

lemma fold_distinct: "distinct (map name_of xs) \<Longrightarrow> distinct (map name_of (fold add new xs))"
  by (induction new arbitrary: xs) (simp_all add: distinct_add)

lemma fold_noop: "name_of ` set new \<subseteq> name_of ` set xs \<Longrightarrow> fold add new xs = xs"
  by (induction new arbitrary: xs) (simp_all add: add_noop)

lemma fold_new: "x \<in> set (fold add new xs) \<Longrightarrow> x \<in> set xs \<or> x \<in> set new"
  by (induction new arbitrary: xs) (fastforce simp: add_def split: if_splits)+

end

end
