(* ===== verification/Workload_Config.thy ===== *)
theory Workload_Config
  imports Kube_Types
begin

text \<open>
  The configuration of one workload (\<open>injector/namespace_config.go\<close>, \<open>agentruntime_config.go\<close>,
  \<open>agentruntime_types.go\<close>, \<open>resolved_config.go\<close>): the values read from the well-known ConfigMaps of
  the namespace, the overrides read from the AgentRuntime resource that targets the workload, and their
  merge with the platform configuration.
\<close>

section \<open>Namespace configuration\<close>

definition AuthBridgeConfigMapName :: string where [const_defs]:
  "AuthBridgeConfigMapName = ''authbridge-config''"

definition KeycloakAdminSecretName :: string where [const_defs]:
  "KeycloakAdminSecretName = ''keycloak-admin-secret''"

definition SpiffeHelperConfigMapName :: string where [const_defs]:
  "SpiffeHelperConfigMapName = ''spiffe-helper-config''"

definition EnvoyConfigMapName :: string where [const_defs]:
  "EnvoyConfigMapName = ''envoy-config''"

definition AuthproxyRoutesConfigMapName :: string where [const_defs]:
  "AuthproxyRoutesConfigMapName = ''authproxy-routes''"

record NamespaceConfig =
  nc_KeycloakURL :: string
  nc_KeycloakRealm :: string
  nc_SpireEnabled :: string
  nc_PlatformClientIDs :: string
  nc_TokenURL :: string
  nc_Issuer :: string
  nc_ExpectedAudience :: string
  nc_TargetAudience :: string
  nc_TargetScopes :: string
  nc_DefaultOutboundPolicy :: string
  nc_ClientAuthType :: string
  nc_SpiffeIdpAlias :: string
  nc_JWTAudience :: string
  nc_SpiffeHelperConf :: string
  nc_EnvoyYAML :: string
  nc_AuthproxyRoutesYAML :: string

definition empty_NamespaceConfig :: NamespaceConfig where
  "empty_NamespaceConfig =
     \<lparr>nc_KeycloakURL = [], nc_KeycloakRealm = [], nc_SpireEnabled = [], nc_PlatformClientIDs = [],
      nc_TokenURL = [], nc_Issuer = [], nc_ExpectedAudience = [], nc_TargetAudience = [],
      nc_TargetScopes = [], nc_DefaultOutboundPolicy = [], nc_ClientAuthType = [], nc_SpiffeIdpAlias = [],
      nc_JWTAudience = [], nc_SpiffeHelperConf = [], nc_EnvoyYAML = [], nc_AuthproxyRoutesYAML = []\<rparr>"

definition getConfigMap :: "('w, 'o) client \<Rightarrow> 'w \<Rightarrow> string \<Rightarrow> string \<Rightarrow> error + strmap" where
  "getConfigMap c w namespace name = GetConfigMap c w namespace name"

text \<open>The sixteen reads; a ConfigMap that cannot be read leaves its fields as they are. The function
  never returns an error.\<close>

definition set_authbridge :: "error + strmap \<Rightarrow> NamespaceConfig \<Rightarrow> NamespaceConfig" where
  "set_authbridge r cfg =
     (case r of
        Inl err \<Rightarrow> cfg
      | Inr data \<Rightarrow> cfg\<lparr>nc_KeycloakURL := map_get data ''KEYCLOAK_URL'',
                        nc_KeycloakRealm := map_get data ''KEYCLOAK_REALM'',
                        nc_SpireEnabled := map_get data ''SPIRE_ENABLED'',
                        nc_PlatformClientIDs := map_get data ''PLATFORM_CLIENT_IDS'',
                        nc_TokenURL := map_get data ''TOKEN_URL'',
                        nc_Issuer := map_get data ''ISSUER'',
                        nc_ExpectedAudience := map_get data ''EXPECTED_AUDIENCE'',
                        nc_TargetAudience := map_get data ''TARGET_AUDIENCE'',
                        nc_TargetScopes := map_get data ''TARGET_SCOPES'',
                        nc_DefaultOutboundPolicy := map_get data ''DEFAULT_OUTBOUND_POLICY'',
                        nc_ClientAuthType := map_get data ''CLIENT_AUTH_TYPE'',
                        nc_SpiffeIdpAlias := map_get data ''SPIFFE_IDP_ALIAS'',
                        nc_JWTAudience := map_get data ''JWT_AUDIENCE''\<rparr>)"

definition set_raw :: "((string \<Rightarrow> string) \<Rightarrow> NamespaceConfig \<Rightarrow> NamespaceConfig) \<Rightarrow> string
    \<Rightarrow> error + strmap \<Rightarrow> NamespaceConfig \<Rightarrow> NamespaceConfig" where
  "set_raw upd key r cfg = (case r of Inl err \<Rightarrow> cfg | Inr data \<Rightarrow> upd (\<lambda>_. map_get data key) cfg)"

definition ReadNamespaceConfig :: "('w, 'o) client \<Rightarrow> 'w \<Rightarrow> string \<Rightarrow> error + NamespaceConfig" where
  "ReadNamespaceConfig c w namespace =
     (let cfg = set_authbridge (getConfigMap c w namespace AuthBridgeConfigMapName) empty_NamespaceConfig;
          cfg = set_raw nc_SpiffeHelperConf_update ''helper.conf''
                  (getConfigMap c w namespace SpiffeHelperConfigMapName) cfg;
          cfg = set_raw nc_EnvoyYAML_update ''envoy.yaml''
                  (getConfigMap c w namespace EnvoyConfigMapName) cfg;
          cfg = set_raw nc_AuthproxyRoutesYAML_update ''routes.yaml''
                  (getConfigMap c w namespace AuthproxyRoutesConfigMapName) cfg
      in Inr cfg)"

section \<open>AgentRuntime overrides\<close>

record AgentRuntimeOverrides =
  ar_SpiffeTrustDomain :: "string option"
  ar_ClientRegistrationProvider :: "string option"
  ar_ClientRegistrationRealm :: "string option"
  ar_AdminCredentialsSecretName :: "string option"
  ar_AdminCredentialsSecretNamespace :: "string option"
  ar_TraceEndpoint :: "string option"
  ar_TraceProtocol :: "string option"
  ar_TraceSamplingRate :: "float64 option"

definition nonempty_string :: "('w, 'o) client \<Rightarrow> 'o \<Rightarrow> string list \<Rightarrow> string option" where
  "nonempty_string c obj path =
     (case NestedString c obj path of Some v \<Rightarrow> if v \<noteq> [] then Some v else None | None \<Rightarrow> None)"

definition extractOverrides :: "('w, 'o) client \<Rightarrow> 'o \<Rightarrow> AgentRuntimeOverrides" where
  "extractOverrides c obj =
     \<lparr>ar_SpiffeTrustDomain = nonempty_string c obj [''spec'', ''identity'', ''spiffe'', ''trustDomain''],
      ar_ClientRegistrationProvider =
        nonempty_string c obj [''spec'', ''identity'', ''clientRegistration'', ''provider''],
      ar_ClientRegistrationRealm =
        nonempty_string c obj [''spec'', ''identity'', ''clientRegistration'', ''realm''],
      ar_AdminCredentialsSecretName =
        nonempty_string c obj [''spec'', ''identity'', ''clientRegistration'', ''adminCredentialsSecret'', ''name''],
      ar_AdminCredentialsSecretNamespace =
        nonempty_string c obj [''spec'', ''identity'', ''clientRegistration'', ''adminCredentialsSecret'', ''namespace''],
      ar_TraceEndpoint = nonempty_string c obj [''spec'', ''trace'', ''endpoint''],
      ar_TraceProtocol = nonempty_string c obj [''spec'', ''trace'', ''protocol''],
      ar_TraceSamplingRate = NestedFloat64 c obj [''spec'', ''trace'', ''sampling'', ''rate'']\<rparr>"

fun find_target :: "('w, 'o) client \<Rightarrow> string \<Rightarrow> 'o list \<Rightarrow> AgentRuntimeOverrides option" where
  "find_target c workloadName [] = None"
| "find_target c workloadName (obj # objs) =
     (case NestedString c obj [''spec'', ''targetRef'', ''name''] of
        None \<Rightarrow> find_target c workloadName objs
      | Some targetName \<Rightarrow>
          if targetName \<noteq> workloadName then find_target c workloadName objs
          else Some (extractOverrides c obj))"

definition ReadAgentRuntimeOverrides :: "('w, 'o) client \<Rightarrow> 'w \<Rightarrow> string \<Rightarrow> string
    \<Rightarrow> error + AgentRuntimeOverrides option" where
  "ReadAgentRuntimeOverrides c w namespace workloadName =
     (case ListAgentRuntimes c w namespace of
        Inl err \<Rightarrow> Inr None
      | Inr items \<Rightarrow> Inr (find_target c workloadName items))"

section \<open>The merged configuration\<close>

record ResolvedConfig =
  rc_Platform :: PlatformConfig
  rc_KeycloakURL :: string
  rc_KeycloakRealm :: string
  rc_AdminCredentialsSecretName :: string
  rc_SpireEnabled :: string
  rc_SpiffeTrustDomain :: string
  rc_PlatformClientIDs :: string
  rc_TokenURL :: string
  rc_Issuer :: string
  rc_ExpectedAudience :: string
  rc_TargetAudience :: string
  rc_TargetScopes :: string
  rc_DefaultOutboundPolicy :: string
  rc_ClientAuthType :: string
  rc_SpiffeIdpAlias :: string
  rc_JWTAudience :: string
  rc_SpiffeHelperConf :: string
  rc_EnvoyYAML :: string
  rc_AuthproxyRoutesYAML :: string
  rc_TraceEndpoint :: string
  rc_TraceProtocol :: string
  rc_TraceSamplingRate :: "float64 option"

definition override_with :: "'v option \<Rightarrow> 'v \<Rightarrow> 'v" where
  "override_with v old = (case v of None \<Rightarrow> old | Some x \<Rightarrow> x)"

definition apply_overrides :: "AgentRuntimeOverrides \<Rightarrow> ResolvedConfig \<Rightarrow> ResolvedConfig" where
  "apply_overrides ar r =
     r\<lparr>rc_SpiffeTrustDomain := override_with (ar_SpiffeTrustDomain ar) (rc_SpiffeTrustDomain r),
       rc_KeycloakRealm := override_with (ar_ClientRegistrationRealm ar) (rc_KeycloakRealm r),
       rc_TraceEndpoint := override_with (ar_TraceEndpoint ar) (rc_TraceEndpoint r),
       rc_TraceProtocol := override_with (ar_TraceProtocol ar) (rc_TraceProtocol r),
       rc_TraceSamplingRate :=
         (case ar_TraceSamplingRate ar of None \<Rightarrow> rc_TraceSamplingRate r | Some x \<Rightarrow> Some x)\<rparr>"

definition ResolveConfig :: "PlatformConfig option \<Rightarrow> NamespaceConfig option
    \<Rightarrow> AgentRuntimeOverrides option \<Rightarrow> ResolvedConfig" where
  "ResolveConfig platform ns ar =
     (let platform = (case platform of None \<Rightarrow> CompiledDefaults | Some p \<Rightarrow> p);
          ns = (case ns of None \<Rightarrow> empty_NamespaceConfig | Some n \<Rightarrow> n);
          resolved =
            \<lparr>rc_Platform = platform, rc_KeycloakURL = nc_KeycloakURL ns,
             rc_KeycloakRealm = nc_KeycloakRealm ns,
             rc_AdminCredentialsSecretName = KeycloakAdminSecretName,
             rc_SpireEnabled = nc_SpireEnabled ns,
             rc_SpiffeTrustDomain = spf_TrustDomain (pc_Spiffe platform),
             rc_PlatformClientIDs = nc_PlatformClientIDs ns, rc_TokenURL = nc_TokenURL ns,
             rc_Issuer = nc_Issuer ns, rc_ExpectedAudience = nc_ExpectedAudience ns,
             rc_TargetAudience = nc_TargetAudience ns, rc_TargetScopes = nc_TargetScopes ns,
             rc_DefaultOutboundPolicy = nc_DefaultOutboundPolicy ns,
             rc_ClientAuthType = nc_ClientAuthType ns, rc_SpiffeIdpAlias = nc_SpiffeIdpAlias ns,
             rc_JWTAudience = nc_JWTAudience ns, rc_SpiffeHelperConf = nc_SpiffeHelperConf ns,
             rc_EnvoyYAML = nc_EnvoyYAML ns, rc_AuthproxyRoutesYAML = nc_AuthproxyRoutesYAML ns,
             rc_TraceEndpoint = [], rc_TraceProtocol = [], rc_TraceSamplingRate = None\<rparr>
      in case ar of None \<Rightarrow> resolved | Some a \<Rightarrow> apply_overrides a resolved)"

text \<open>The three steps as the mutator composes them for one workload; errors of the reads are logged and
  replaced by empty values.\<close>

definition resolve_workload :: "('w, 'o) client \<Rightarrow> 'w \<Rightarrow> PlatformConfig \<Rightarrow> string \<Rightarrow> string \<Rightarrow> ResolvedConfig" where
  "resolve_workload c w currentConfig namespace crName =
     (let nsConfig = (case ReadNamespaceConfig c w namespace of
                        Inl err \<Rightarrow> empty_NamespaceConfig | Inr n \<Rightarrow> n);
          arOverrides = (case ReadAgentRuntimeOverrides c w namespace crName of
                           Inl err \<Rightarrow> None | Inr a \<Rightarrow> a)
      in ResolveConfig (Some currentConfig) (Some nsConfig) arOverrides)"

section \<open>Properties\<close>

lemma set_raw_simps [simp]:
  "set_raw upd key (Inl e) cfg = cfg"
  "set_raw upd key (Inr data) cfg = upd (\<lambda>_. map_get data key) cfg"
  by (simp_all add: set_raw_def)

text \<open>The data of a ConfigMap as the webhook sees it: nothing if it cannot be read.\<close>

definition config_data :: "('w, 'o) client \<Rightarrow> 'w \<Rightarrow> string \<Rightarrow> string \<Rightarrow> strmap" where
  "config_data c w namespace name =
     (case GetConfigMap c w namespace name of Inl _ \<Rightarrow> Map.empty | Inr data \<Rightarrow> data)"

lemma map_get_empty [simp]: "map_get Map.empty k = []"
  by (simp add: map_get_def)

lemma ReadNamespaceConfig_eq:
  "ReadNamespaceConfig c w namespace =
     (let d = config_data c w namespace ''authbridge-config''
      in Inr \<lparr>nc_KeycloakURL = map_get d ''KEYCLOAK_URL'', nc_KeycloakRealm = map_get d ''KEYCLOAK_REALM'',
           nc_SpireEnabled = map_get d ''SPIRE_ENABLED'',
           nc_PlatformClientIDs = map_get d ''PLATFORM_CLIENT_IDS'', nc_TokenURL = map_get d ''TOKEN_URL'',
           nc_Issuer = map_get d ''ISSUER'', nc_ExpectedAudience = map_get d ''EXPECTED_AUDIENCE'',
           nc_TargetAudience = map_get d ''TARGET_AUDIENCE'', nc_TargetScopes = map_get d ''TARGET_SCOPES'',
           nc_DefaultOutboundPolicy = map_get d ''DEFAULT_OUTBOUND_POLICY'',
           nc_ClientAuthType = map_get d ''CLIENT_AUTH_TYPE'',
           nc_SpiffeIdpAlias = map_get d ''SPIFFE_IDP_ALIAS'', nc_JWTAudience = map_get d ''JWT_AUDIENCE'',
           nc_SpiffeHelperConf = map_get (config_data c w namespace ''spiffe-helper-config'') ''helper.conf'',
           nc_EnvoyYAML = map_get (config_data c w namespace ''envoy-config'') ''envoy.yaml'',
           nc_AuthproxyRoutesYAML =
             map_get (config_data c w namespace ''authproxy-routes'') ''routes.yaml''\<rparr>)"
proof -
  let ?r = "GetConfigMap c w namespace"
  have "set_authbridge (?r ''authbridge-config'') empty_NamespaceConfig =
      set_authbridge (Inr (config_data c w namespace ''authbridge-config'')) empty_NamespaceConfig"
    by (cases "?r ''authbridge-config''")
      (simp_all add: set_authbridge_def config_data_def empty_NamespaceConfig_def)
  then show ?thesis
    by (cases "?r ''spiffe-helper-config''"; cases "?r ''envoy-config''"; cases "?r ''authproxy-routes''")
      (simp_all add: ReadNamespaceConfig_def getConfigMap_def Let_def set_authbridge_def
        empty_NamespaceConfig_def const_defs config_data_def)
qed

lemma find_target_eq:
  "find_target c name objs =
     map_option (extractOverrides c)
       (find (\<lambda>obj. NestedString c obj [''spec'', ''targetRef'', ''name''] = Some name) objs)"
  by (induction objs) (auto split: option.splits)

text \<open>The AgentRuntime that targets a workload: the first in list order, none if listing fails.\<close>

definition targeting :: "('w, 'o) client \<Rightarrow> 'w \<Rightarrow> string \<Rightarrow> string \<Rightarrow> 'o option" where
  "targeting c w namespace name =
     (case ListAgentRuntimes c w namespace of
        Inl _ \<Rightarrow> None
      | Inr objs \<Rightarrow> find (\<lambda>obj. NestedString c obj [''spec'', ''targetRef'', ''name''] = Some name) objs)"

lemma ReadAgentRuntimeOverrides_eq:
  "ReadAgentRuntimeOverrides c w namespace name = Inr (map_option (extractOverrides c) (targeting c w namespace name))"
  by (simp add: ReadAgentRuntimeOverrides_def targeting_def find_target_eq split: sum.split)

lemma override_nonempty:
  "override_with (nonempty_string c obj p) old =
     (case NestedString c obj p of None \<Rightarrow> old | Some v \<Rightarrow> if v = [] then old else v)"
  by (auto simp: override_with_def nonempty_string_def split: option.splits)

text \<open>C38 (workload_layers). The configuration of a workload is layered as follows: the realm and the
  trust domain come from the first AgentRuntime that targets the workload if it sets them to something
  non-empty, else from the namespace ConfigMap and the platform configuration; every other setting that
  reaches a container comes from the namespace ConfigMap alone, empty when the ConfigMap or the key is
  missing, so that the token URL, the target audience and the target scopes do not fall through to the
  platform configuration as the design document says; and the administrator credentials are always those of the well-known Secret, also when the
  AgentRuntime names another one.\<close>

theorem workload_layers:
  "let r = resolve_workload c w pc namespace name;
       d = config_data c w namespace ''authbridge-config'';
       setting = (\<lambda>path old. case targeting c w namespace name of
           None \<Rightarrow> old
         | Some obj \<Rightarrow> (case NestedString c obj path of
             None \<Rightarrow> old | Some v \<Rightarrow> if v = [] then old else v))
   in rc_KeycloakRealm r =
        setting [''spec'', ''identity'', ''clientRegistration'', ''realm''] (map_get d ''KEYCLOAK_REALM'')
    \<and> rc_SpiffeTrustDomain r =
        setting [''spec'', ''identity'', ''spiffe'', ''trustDomain''] (spf_TrustDomain (pc_Spiffe pc))
    \<and> rc_KeycloakURL r = map_get d ''KEYCLOAK_URL'' \<and> rc_TokenURL r = map_get d ''TOKEN_URL''
    \<and> rc_Issuer r = map_get d ''ISSUER'' \<and> rc_ExpectedAudience r = map_get d ''EXPECTED_AUDIENCE''
    \<and> rc_TargetAudience r = map_get d ''TARGET_AUDIENCE'' \<and> rc_TargetScopes r = map_get d ''TARGET_SCOPES''
    \<and> rc_DefaultOutboundPolicy r = map_get d ''DEFAULT_OUTBOUND_POLICY''
    \<and> rc_PlatformClientIDs r = map_get d ''PLATFORM_CLIENT_IDS''
    \<and> rc_ClientAuthType r = map_get d ''CLIENT_AUTH_TYPE'' \<and> rc_SpiffeIdpAlias r = map_get d ''SPIFFE_IDP_ALIAS''
    \<and> rc_JWTAudience r = map_get d ''JWT_AUDIENCE''
    \<and> rc_AdminCredentialsSecretName r = ''keycloak-admin-secret'' \<and> rc_Platform r = pc"
  by (cases "targeting c w namespace name")
    (simp_all add: resolve_workload_def ReadNamespaceConfig_eq ReadAgentRuntimeOverrides_eq Let_def
      ResolveConfig_def apply_overrides_def extractOverrides_def override_nonempty const_defs
      split: option.split)

lemma resolve_workload_platform [simp]: "rc_Platform (resolve_workload c w pc namespace name) = pc"
  by (simp add: resolve_workload_def ResolveConfig_def Let_def apply_overrides_def split: option.split)

end
