(* ===== verification/Port_Exclusion.thy ===== *)
theory Port_Exclusion
  imports Go_Strings
begin

text \<open>
  The port exclusion lists of the proxy-init container
  (\<open>validateAndDeduplicatePorts\<close>, \<open>buildOutboundExcludeValue\<close> and \<open>buildPortExcludeValue\<close> of
  \<open>injector/container_builder.go\<close>): an annotation with comma-separated ports becomes a clean list for
  the iptables script. The warnings about ignored tokens are not modelled.
\<close>

section \<open>Operations\<close>

text \<open>The port a token stands for, if it is valid.\<close>

definition port_of :: "string \<Rightarrow> int option" where
  "port_of tok =
     (case Atoi tok of None \<Rightarrow> None | Some p \<Rightarrow> if p < 1 \<or> p > 65535 then None else Some p)"

fun port_loop :: "string set \<Rightarrow> string list \<Rightarrow> string list \<Rightarrow> string list" where
  "port_loop seen ports [] = ports"
| "port_loop seen ports (tok # toks) =
     (let tok' = TrimSpace tok
      in if tok' = [] then port_loop seen ports toks
         else (case port_of tok' of
                 None \<Rightarrow> port_loop seen ports toks
               | Some p \<Rightarrow>
                   let normalized = Itoa p
                   in if normalized \<in> seen then port_loop seen ports toks
                      else port_loop (insert normalized seen) (ports @ [normalized]) toks))"

definition validateAndDeduplicatePorts :: "string \<Rightarrow> string list \<Rightarrow> string list" where
  "validateAndDeduplicatePorts raw initialPorts =
     port_loop (set initialPorts) initialPorts (Split raw (CHR '',''))"

definition mandatoryOutboundExclude :: string where
  "mandatoryOutboundExclude = ''8080''"

definition buildOutboundExcludeValue :: "string \<Rightarrow> string" where
  "buildOutboundExcludeValue extra =
     (if extra = [] then mandatoryOutboundExclude
      else Join (validateAndDeduplicatePorts extra [mandatoryOutboundExclude]) '','')"

definition buildPortExcludeValue :: "string \<Rightarrow> string" where
  "buildPortExcludeValue raw =
     (if raw = [] then [] else Join (validateAndDeduplicatePorts raw []) '','')"

section \<open>The loop\<close>

definition valid_port :: "int \<Rightarrow> bool" where
  "valid_port p \<longleftrightarrow> 1 \<le> p \<and> p \<le> 65535"

text \<open>The ports a comma-separated annotation asks for, in order and possibly repeated.\<close>

definition requested :: "string list \<Rightarrow> int list" where
  "requested toks = List.map_filter (\<lambda>tok. port_of (TrimSpace tok)) toks"

lemma port_of_valid: "port_of t = Some p \<Longrightarrow> valid_port p"
  by (auto simp: port_of_def valid_port_def split: option.splits if_splits)

lemma port_of_Itoa: "valid_port p \<Longrightarrow> port_of (Itoa p) = Some p"
  using Atoi_Itoa [of p] by (simp add: port_of_def valid_port_def)

lemma port_of_Nil [simp]: "port_of [] = None"
  by (simp add: port_of_def Atoi_def)

lemma Itoa_port_inject: "valid_port p \<Longrightarrow> valid_port q \<Longrightarrow> Itoa p = Itoa q \<longleftrightarrow> p = q"
  using Itoa_inject [of p q] by (auto simp: valid_port_def)

lemma requested_simps [simp]:
  "requested [] = []"
  "requested (t # ts) = (case port_of (TrimSpace t) of None \<Rightarrow> requested ts | Some p \<Rightarrow> p # requested ts)"
  by (simp_all add: requested_def map_filter_simps split: option.split)

lemma requested_valid: "p \<in> set (requested toks) \<Longrightarrow> valid_port p"
  by (induction toks) (auto split: option.splits dest: port_of_valid)

text \<open>What the loop computes: the requested ports not seen before, each once, in order.\<close>

fun fresh :: "string set \<Rightarrow> int list \<Rightarrow> int list" where
  "fresh seen [] = []"
| "fresh seen (p # ps) = (if Itoa p \<in> seen then fresh seen ps else p # fresh (insert (Itoa p) seen) ps)"

lemma port_loop_eq: "port_loop seen ports toks = ports @ map Itoa (fresh seen (requested toks))"
  by (induction seen ports toks rule: port_loop.induct) (auto simp: Let_def split: option.splits)

lemma fresh_set: "set (map Itoa (fresh seen ps)) = Itoa ` set ps - seen"
  by (induction seen ps rule: fresh.induct) auto

lemma fresh_distinct: "distinct (map Itoa (fresh seen ps))"
proof (induction seen ps rule: fresh.induct)
  case (2 seen p ps)
  then show ?case using fresh_set [of "insert (Itoa p) seen" ps] by auto
qed simp

lemma fresh_subset: "set (fresh seen ps) \<subseteq> set ps"
  by (induction seen ps rule: fresh.induct) auto

lemma fresh_requested_valid: "p \<in> set (fresh seen (requested toks)) \<Longrightarrow> valid_port p"
  using fresh_subset requested_valid by blast

lemma fresh_id:
  assumes "distinct (map Itoa ps)" "Itoa ` set ps \<inter> seen = {}"
  shows "fresh seen ps = ps"
  using assms by (induction seen ps rule: fresh.induct) auto

lemma requested_Itoa: "\<forall>p\<in>set ps. valid_port p \<Longrightarrow> requested (map Itoa ps) = ps"
  by (induction ps) (auto simp: port_of_Itoa TrimSpace_Itoa valid_port_def)

text \<open>The values the two build functions join.\<close>

lemma validate_eq:
  "validateAndDeduplicatePorts raw initial =
     initial @ map Itoa (fresh (set initial) (requested (Split raw (CHR '',''))))"
  by (simp add: validateAndDeduplicatePorts_def port_loop_eq)

lemma Itoa_8080: "mandatoryOutboundExclude = Itoa 8080"
proof -
  have "char_of (56 :: nat) = CHR ''8''" "char_of (48 :: nat) = CHR ''0''" by code_simp+
  then show ?thesis
    by (simp add: mandatoryOutboundExclude_def Itoa_def dec_digits.simps digit_char_def)
qed

lemma outbound_ports:
  obtains ps where "buildOutboundExcludeValue extra = Join (map Itoa (8080 # ps)) '',''"
    "ps = fresh {Itoa 8080} (requested (Split extra (CHR '','')))"
proof
  show "buildOutboundExcludeValue extra =
      Join (map Itoa (8080 # fresh {Itoa 8080} (requested (Split extra (CHR '',''))))) '',''"
    by (simp add: buildOutboundExcludeValue_def validate_eq Itoa_8080)
qed simp

lemma Split_ports:
  assumes "\<forall>p\<in>set ps. valid_port p" "ps \<noteq> []"
  shows "Split (Join (map Itoa ps) '','') (CHR '','') = map Itoa ps"
proof (rule Split_Join)
  show "map Itoa ps \<noteq> []" using assms(2) by simp
  show "\<forall>x\<in>set (map Itoa ps). CHR '','' \<notin> set x"
    using assms(1) Itoa_no_comma by (auto simp: valid_port_def)
qed

lemma valid_8080 [simp]: "valid_port 8080"
  by (simp add: valid_port_def)

lemma port_of_iff: "port_of t = Some p \<longleftrightarrow> Atoi t = Some p \<and> valid_port p"
  by (auto simp: port_of_def valid_port_def split: option.splits if_splits)

lemma requested_mem: "p \<in> set (requested toks) \<longleftrightarrow> (\<exists>tok\<in>set toks. port_of (TrimSpace tok) = Some p)"
  by (induction toks) (auto split: option.splits)

lemma requested_iff:
  "p \<in> set (requested toks) \<longleftrightarrow> valid_port p \<and> (\<exists>tok\<in>set toks. Atoi (TrimSpace tok) = Some p)"
  by (auto simp: requested_mem port_of_iff)

lemma requested_set:
  "set (requested toks) = {p. valid_port p \<and> (\<exists>tok\<in>set toks. Atoi (TrimSpace tok) = Some p)}"
  by (auto simp: requested_iff)

section \<open>Properties\<close>

text \<open>C24 (outbound_exclusions). The outbound exclusion list always starts with the mandatory port 8080, has
  no duplicates, and consists of exactly 8080 and the ports between 1 and 65535 that the annotation names,
  each in canonical decimal form: nothing else from the annotation, which the workload's author controls,
  reaches the iptables script.\<close>

theorem outbound_exclusions:
  "let ports = Split (buildOutboundExcludeValue extra) (CHR '','')
   in hd ports = ''8080'' \<and> distinct ports
    \<and> set ports = {Itoa p |p. valid_port p \<and>
        (p = 8080 \<or> (\<exists>tok\<in>set (Split extra (CHR '','')). Atoi (TrimSpace tok) = Some p))}"
proof -
  let ?req = "requested (Split extra (CHR '',''))"
  obtain ps where v: "buildOutboundExcludeValue extra = Join (map Itoa (8080 # ps)) '',''"
    and ps: "ps = fresh {Itoa 8080} ?req" by (rule outbound_ports)
  have "\<forall>p\<in>set (8080 # ps). valid_port p" using ps fresh_requested_valid by auto
  then have s: "Split (buildOutboundExcludeValue extra) (CHR '','') = map Itoa (8080 # ps)"
    unfolding v by (rule Split_ports) simp
  have "set (map Itoa ps) = Itoa ` set ?req - {Itoa 8080}"
    unfolding ps by (rule fresh_set)
  then have "set (map Itoa (8080 # ps)) = insert (Itoa 8080) (Itoa ` set ?req)" by auto
  also have "\<dots> = {Itoa p |p. valid_port p \<and>
        (p = 8080 \<or> (\<exists>tok\<in>set (Split extra (CHR '','')). Atoi (TrimSpace tok) = Some p))}"
    unfolding requested_set by auto
  finally have "set (map Itoa (8080 # ps)) = \<dots>" .
  moreover have "distinct (map Itoa (8080 # ps))"
    using fresh_distinct [of "{Itoa 8080}" ?req] fresh_set [of "{Itoa 8080}" ?req] ps by auto
  moreover have "hd (map Itoa (8080 # ps)) = ''8080''"
    using Itoa_8080 by (simp add: mandatoryOutboundExclude_def)
  ultimately show ?thesis unfolding s by (simp only: Let_def simp_thms)
qed

lemma inbound_ports:
  "buildPortExcludeValue raw = Join (map Itoa (fresh {} (requested (Split raw (CHR '',''))))) '',''"
  by (simp add: buildPortExcludeValue_def validate_eq)

lemma fresh_Nil_iff: "fresh {} ps = [] \<longleftrightarrow> ps = []"
  by (cases ps) simp_all

lemma Join_Itoa_Nil_iff: "Join (map Itoa ps) '','' = [] \<longleftrightarrow> ps = []"
  by (cases ps; cases "tl ps") (auto simp: neq_Nil_conv)

text \<open>The inbound exclusion value is empty, so that the variable is left out,
  exactly when the annotation names no valid port; otherwise it is the duplicate-free list of the valid
  ports it names. \<close>

theorem inbound_exclusions:
  "if buildPortExcludeValue raw = []
   then (\<nexists>p. valid_port p \<and> (\<exists>tok\<in>set (Split raw (CHR '','')). Atoi (TrimSpace tok) = Some p))
   else distinct (Split (buildPortExcludeValue raw) (CHR '',''))
      \<and> set (Split (buildPortExcludeValue raw) (CHR '','')) = {Itoa p |p. valid_port p \<and>
          (\<exists>tok\<in>set (Split raw (CHR '','')). Atoi (TrimSpace tok) = Some p)}"
proof (cases "requested (Split raw (CHR '','')) = []")
  case True
  then have "\<nexists>p. valid_port p \<and> (\<exists>tok\<in>set (Split raw (CHR '','')). Atoi (TrimSpace tok) = Some p)"
    by (metis requested_iff empty_iff list.set(1))
  with True show ?thesis by (simp add: inbound_ports)
next
  case False
  let ?ps = "fresh {} (requested (Split raw (CHR '','')))"
  have ne: "?ps \<noteq> []" using False by (simp add: fresh_Nil_iff)
  have s: "Split (buildPortExcludeValue raw) (CHR '','') = map Itoa ?ps"
    unfolding inbound_ports using fresh_requested_valid ne by (intro Split_ports) auto
  have "set (map Itoa ?ps) = {Itoa p |p. valid_port p \<and>
          (\<exists>tok\<in>set (Split raw (CHR '','')). Atoi (TrimSpace tok) = Some p)}"
    unfolding fresh_set requested_set by auto
  with s ne fresh_distinct show ?thesis
    by (simp add: inbound_ports [of raw] Join_Itoa_Nil_iff del: set_map)
qed

text \<open>Both exclusion values are normal forms: feeding a computed value back
  through the same function gives the value again, so the result does not depend on how often a
  workload's annotation is processed.\<close>

theorem exclusions_normal_form:
  "buildOutboundExcludeValue (buildOutboundExcludeValue extra) = buildOutboundExcludeValue extra
   \<and> buildPortExcludeValue (buildPortExcludeValue raw) = buildPortExcludeValue raw"
proof
  obtain ps where v: "buildOutboundExcludeValue extra = Join (map Itoa (8080 # ps)) '',''"
    and ps: "ps = fresh {Itoa 8080} (requested (Split extra (CHR '','')))" by (rule outbound_ports)
  have val: "\<forall>p\<in>set (8080 # ps). valid_port p" using ps fresh_requested_valid by auto
  then have s: "Split (buildOutboundExcludeValue extra) (CHR '','') = map Itoa (8080 # ps)"
    unfolding v by (rule Split_ports) simp
  have "fresh {Itoa 8080} (8080 # ps) = ps"
    using fresh_distinct [of "{Itoa 8080}"] fresh_set [of "{Itoa 8080}"] unfolding ps
    by (subst fresh.simps, simp, intro fresh_id) auto
  then have "fresh {Itoa 8080} (requested (Split (buildOutboundExcludeValue extra) (CHR '',''))) = ps"
    unfolding s requested_Itoa [OF val] .
  then show "buildOutboundExcludeValue (buildOutboundExcludeValue extra) = buildOutboundExcludeValue extra"
    by (metis outbound_ports v)
next
  let ?ps = "fresh {} (requested (Split raw (CHR '','')))"
  show "buildPortExcludeValue (buildPortExcludeValue raw) = buildPortExcludeValue raw"
  proof (cases "?ps = []")
    case True
    then have "buildPortExcludeValue raw = []" by (simp add: inbound_ports)
    then show ?thesis by (simp add: buildPortExcludeValue_def [of "[]"])
  next
    case False
    have val: "\<forall>p\<in>set ?ps. valid_port p" using fresh_requested_valid by blast
    have "requested (Split (buildPortExcludeValue raw) (CHR '','')) = ?ps"
      unfolding inbound_ports Split_ports [OF val False] by (rule requested_Itoa [OF val])
    moreover have "fresh {} ?ps = ?ps" by (rule fresh_id) (simp_all add: fresh_distinct del: distinct_map)
    ultimately show ?thesis by (simp add: inbound_ports)
  qed
qed

end
