(* ===== verification/Container_Builder.thy ===== *)
theory Container_Builder
  imports Workload_Config Port_Exclusion
begin

text \<open>
  The container builder (\<open>injector/container_builder.go\<close>): the containers the webhook injects, in the
  legacy mode, in which environment variables refer to ConfigMaps and Secrets, and in the resolved mode,
  in which the webhook writes the values it read. Shell scripts are the literal texts of the source.
\<close>

section \<open>Builder\<close>

definition SpiffeHelperContainerName :: string where [const_defs]:
  "SpiffeHelperContainerName = ''spiffe-helper''"

definition ClientRegistrationContainerName :: string where [const_defs]:
  "ClientRegistrationContainerName = ''kagenti-client-registration''"

definition EnvoyProxyContainerName :: string where [const_defs]:
  "EnvoyProxyContainerName = ''envoy-proxy''"

definition ProxyInitContainerName :: string where [const_defs]:
  "ProxyInitContainerName = ''proxy-init''"

definition AuthBridgeContainerName :: string where [const_defs]:
  "AuthBridgeContainerName = ''authbridge''"

record ContainerBuilder =
  b_cfg :: PlatformConfig
  b_resolved :: "ResolvedConfig option"

definition NewContainerBuilder :: "PlatformConfig option \<Rightarrow> ContainerBuilder" where
  "NewContainerBuilder cfg =
     \<lparr>b_cfg = (case cfg of None \<Rightarrow> CompiledDefaults | Some c \<Rightarrow> c), b_resolved = None\<rparr>"

definition NewResolvedContainerBuilder :: "ResolvedConfig option \<Rightarrow> ContainerBuilder" where
  "NewResolvedContainerBuilder resolved =
     (let r = (case resolved of None \<Rightarrow> ResolveConfig None None None | Some r \<Rightarrow> r)
      in \<lparr>b_cfg = rc_Platform r, b_resolved = Some r\<rparr>)"

text \<open>Optional and required keys of a ConfigMap, and keys of a Secret.\<close>

definition cm_optional :: "string \<Rightarrow> string \<Rightarrow> EnvVar" where
  "cm_optional cm key = env_from key (ConfigMapKeyRef cm key (Some True))"

definition secret_key :: "string \<Rightarrow> string \<Rightarrow> EnvVar" where
  "secret_key name key = env_from key (SecretKeyRef name key None)"

definition non_root :: SecurityContext where
  "non_root = \<lparr>sc_RunAsUser = None, sc_RunAsGroup = None, sc_RunAsNonRoot = Some True,
     sc_Privileged = None, sc_AllowPrivilegeEscalation = Some False, sc_Capabilities = None\<rparr>"

definition proxy_user :: "int64 \<Rightarrow> SecurityContext" where
  "proxy_user uid = non_root\<lparr>sc_RunAsUser := Some uid, sc_RunAsGroup := Some uid\<rparr>"

section \<open>spiffe-helper\<close>

definition BuildSpiffeHelperContainer :: "ContainerBuilder \<Rightarrow> Container" where [container_builder_defs]:
  "BuildSpiffeHelperContainer b =
     \<lparr>ctr_Name = SpiffeHelperContainerName, ctr_Image = img_SpiffeHelper (pc_Images (b_cfg b)),
      ctr_ImagePullPolicy = img_PullPolicy (pc_Images (b_cfg b)),
      ctr_Command = [''/spiffe-helper'', ''-config=/etc/spiffe-helper/helper.conf'', ''run''],
      ctr_Resources = res_SpiffeHelper (pc_Resources (b_cfg b)), ctr_Ports = [], ctr_Env = [],
      ctr_VolumeMounts =
        [mount ''spiffe-helper-config'' ''/etc/spiffe-helper'' False,
         mount ''spire-agent-socket'' ''/spiffe-workload-api'' False,
         mount ''svid-output'' ''/opt'' False,
         mount ''shared-data'' ''/shared'' False],
      ctr_SecurityContext = Some non_root\<rparr>"

section \<open>client registration\<close>

definition script :: "string list \<Rightarrow> string" where
  "script ls = CHR 0x0A # concat (map (\<lambda>l. l @ [CHR 0x0A]) ls)"

definition spire_command :: string where
  \<open>spire_command = script
     [''echo "Waiting for SPIFFE credentials..."'',
      ''while [ ! -f /opt/jwt_svid.token ]; do'',
      ''  echo "waiting for SVID"'',
      ''  sleep 1'',
      ''done'',
      ''echo "SPIFFE credentials ready!"'',
      [],
      ''# Extract client ID (SPIFFE ID) from JWT and save to file'',
      ''JWT_PAYLOAD=$(cat /opt/jwt_svid.token | cut -d'' @ [CHR 0x27] @ ''.'' @ [CHR 0x27] @ '' -f2)'',
      ''if ! CLIENT_ID=$(echo "${JWT_PAYLOAD}==" | base64 -d | python -c "import sys,json; print(json.load(sys.stdin).get('' @ [CHR 0x27] @ ''sub'' @ [CHR 0x27] @ '','' @ [CHR 0x27, CHR 0x27] @ ''))"); then'',
      ''  echo "Error: Failed to decode JWT payload or extract client ID" >&2'',
      ''  exit 1'',
      ''fi'',
      ''if [ -z "$CLIENT_ID" ]; then'',
      ''  echo "Error: Extracted client ID is empty" >&2'',
      ''  exit 1'',
      ''fi'',
      ''echo "$CLIENT_ID" > /shared/client-id.txt'',
      ''echo "Client ID (SPIFFE ID): $CLIENT_ID"'',
      [],
      ''echo "Starting client registration..."'',
      ''python client_registration.py'',
      ''echo "Client registration complete!"'',
      ''tail -f /dev/null'']\<close>

definition static_command :: string where
  \<open>static_command = script
     [''echo "SPIRE disabled - using static client ID"'',
      [],
      ''# Use CLIENT_NAME as the client ID'',
      ''echo "$CLIENT_NAME" > /shared/client-id.txt'',
      ''echo "Client ID: $CLIENT_NAME"'',
      [],
      ''echo "Starting client registration..."'',
      ''python client_registration.py'',
      ''echo "Client registration complete!"'',
      ''tail -f /dev/null'']\<close>

definition admin_secret_name :: "ResolvedConfig \<Rightarrow> string" where
  "admin_secret_name r =
     (if rc_AdminCredentialsSecretName r = [] then KeycloakAdminSecretName
      else rc_AdminCredentialsSecretName r)"

definition buildClientRegistrationEnvResolved :: "ResolvedConfig \<Rightarrow> string \<Rightarrow> bool \<Rightarrow> EnvVar list" where [env_builder_defs]:
  "buildClientRegistrationEnvResolved r clientName spireEnabled =
     [env_literal ''SPIRE_ENABLED'' (FormatBool spireEnabled),
      env_literal ''KEYCLOAK_URL'' (rc_KeycloakURL r),
      env_literal ''KEYCLOAK_REALM'' (rc_KeycloakRealm r),
      secret_key (admin_secret_name r) ''KEYCLOAK_ADMIN_USERNAME'',
      secret_key (admin_secret_name r) ''KEYCLOAK_ADMIN_PASSWORD'',
      env_literal ''CLIENT_NAME'' clientName,
      env_literal ''SECRET_FILE_PATH'' ''/shared/client-secret.txt'',
      env_literal ''PLATFORM_CLIENT_IDS'' (rc_PlatformClientIDs r),
      env_literal ''CLIENT_AUTH_TYPE'' (rc_ClientAuthType r),
      env_literal ''SPIFFE_IDP_ALIAS'' (rc_SpiffeIdpAlias r),
      env_literal ''JWT_AUDIENCE'' (rc_JWTAudience r)]"

definition buildClientRegistrationEnvLegacy :: "string \<Rightarrow> bool \<Rightarrow> EnvVar list" where [env_builder_defs]:
  "buildClientRegistrationEnvLegacy clientName spireEnabled =
     [env_literal ''SPIRE_ENABLED'' (FormatBool spireEnabled),
      cm_optional AuthBridgeConfigMapName ''KEYCLOAK_URL'',
      env_from ''KEYCLOAK_REALM'' (ConfigMapKeyRef AuthBridgeConfigMapName ''KEYCLOAK_REALM'' None),
      secret_key ''keycloak-admin-secret'' ''KEYCLOAK_ADMIN_USERNAME'',
      secret_key ''keycloak-admin-secret'' ''KEYCLOAK_ADMIN_PASSWORD'',
      env_literal ''CLIENT_NAME'' clientName,
      env_literal ''SECRET_FILE_PATH'' ''/shared/client-secret.txt'',
      cm_optional AuthBridgeConfigMapName ''PLATFORM_CLIENT_IDS'',
      cm_optional AuthBridgeConfigMapName ''CLIENT_AUTH_TYPE'',
      cm_optional AuthBridgeConfigMapName ''SPIFFE_IDP_ALIAS'',
      cm_optional AuthBridgeConfigMapName ''JWT_AUDIENCE'']"

definition BuildClientRegistrationContainerWithSpireOption ::
  "ContainerBuilder \<Rightarrow> string \<Rightarrow> string \<Rightarrow> bool \<Rightarrow> Container" where [container_builder_defs]:
  "BuildClientRegistrationContainerWithSpireOption b name namespace spireEnabled =
     (let clientName = namespace @ ''/'' @ name;
          env = (case b_resolved b of
                   Some r \<Rightarrow> buildClientRegistrationEnvResolved r clientName spireEnabled
                 | None \<Rightarrow> buildClientRegistrationEnvLegacy clientName spireEnabled);
          volumeMounts =
            (if spireEnabled
             then [mount ''svid-output'' ''/opt'' False, mount ''shared-data'' ''/shared'' False]
             else [mount ''shared-data'' ''/shared'' False]);
          command = (if spireEnabled then spire_command else static_command)
      in \<lparr>ctr_Name = ClientRegistrationContainerName,
          ctr_Image = img_ClientRegistration (pc_Images (b_cfg b)),
          ctr_ImagePullPolicy = img_PullPolicy (pc_Images (b_cfg b)),
          ctr_Command = [''/bin/sh'', ''-c'', command],
          ctr_Resources = res_ClientRegistration (pc_Resources (b_cfg b)), ctr_Ports = [],
          ctr_Env = env, ctr_VolumeMounts = volumeMounts, ctr_SecurityContext = Some non_root\<rparr>)"

definition BuildClientRegistrationContainer :: "ContainerBuilder \<Rightarrow> string \<Rightarrow> string \<Rightarrow> Container" where
  "BuildClientRegistrationContainer b name namespace =
     BuildClientRegistrationContainerWithSpireOption b name namespace True"

section \<open>envoy-proxy\<close>

definition buildEnvoyProxyEnvResolved :: "ResolvedConfig \<Rightarrow> EnvVar list" where [env_builder_defs]:
  "buildEnvoyProxyEnvResolved r =
     [env_literal ''KEYCLOAK_URL'' (rc_KeycloakURL r),
      env_literal ''KEYCLOAK_REALM'' (rc_KeycloakRealm r),
      env_literal ''TOKEN_URL'' (rc_TokenURL r),
      env_literal ''ISSUER'' (rc_Issuer r),
      env_literal ''EXPECTED_AUDIENCE'' (rc_ExpectedAudience r),
      env_literal ''TARGET_AUDIENCE'' (rc_TargetAudience r),
      env_literal ''TARGET_SCOPES'' (rc_TargetScopes r),
      env_literal ''CLIENT_ID_FILE'' ''/shared/client-id.txt'',
      env_literal ''CLIENT_SECRET_FILE'' ''/shared/client-secret.txt'',
      env_literal ''ROUTES_CONFIG_PATH'' ''/etc/authproxy/routes.yaml'',
      env_literal ''DEFAULT_OUTBOUND_POLICY'' (rc_DefaultOutboundPolicy r)]"

definition buildEnvoyProxyEnvLegacy :: "EnvVar list" where [env_builder_defs]:
  "buildEnvoyProxyEnvLegacy =
     [cm_optional AuthBridgeConfigMapName ''KEYCLOAK_URL'',
      cm_optional AuthBridgeConfigMapName ''KEYCLOAK_REALM'',
      cm_optional ''authbridge-config'' ''TOKEN_URL'',
      env_from ''ISSUER'' (ConfigMapKeyRef ''authbridge-config'' ''ISSUER'' (Some False)),
      cm_optional ''authbridge-config'' ''EXPECTED_AUDIENCE'',
      cm_optional ''authbridge-config'' ''TARGET_AUDIENCE'',
      cm_optional ''authbridge-config'' ''TARGET_SCOPES'',
      env_literal ''CLIENT_ID_FILE'' ''/shared/client-id.txt'',
      env_literal ''CLIENT_SECRET_FILE'' ''/shared/client-secret.txt'',
      env_literal ''ROUTES_CONFIG_PATH'' ''/etc/authproxy/routes.yaml'',
      cm_optional ''authbridge-config'' ''DEFAULT_OUTBOUND_POLICY'']"

definition proxy_ports :: "ProxyConfig \<Rightarrow> ContainerPort list" where
  "proxy_ports px =
     [\<lparr>cp_Name = ''envoy-outbound'', cp_ContainerPort = px_Port px, cp_Protocol = ''TCP''\<rparr>,
      \<lparr>cp_Name = ''envoy-inbound'', cp_ContainerPort = px_InboundProxyPort px, cp_Protocol = ''TCP''\<rparr>,
      \<lparr>cp_Name = ''envoy-admin'', cp_ContainerPort = px_AdminPort px, cp_Protocol = ''TCP''\<rparr>,
      \<lparr>cp_Name = ''ext-proc'', cp_ContainerPort = 9090, cp_Protocol = ''TCP''\<rparr>]"

definition BuildEnvoyProxyContainerWithSpireOption :: "ContainerBuilder \<Rightarrow> bool \<Rightarrow> Container" where [container_builder_defs]:
  "BuildEnvoyProxyContainerWithSpireOption b spireEnabled =
     (let volumeMounts =
            [mount ''envoy-config'' ''/etc/envoy'' True, mount ''shared-data'' ''/shared'' True,
             mount ''authproxy-routes'' ''/etc/authproxy'' True]
            @ (if spireEnabled then [mount ''svid-output'' ''/opt'' True] else []);
          env = (case b_resolved b of
                   Some r \<Rightarrow> buildEnvoyProxyEnvResolved r | None \<Rightarrow> buildEnvoyProxyEnvLegacy)
      in \<lparr>ctr_Name = EnvoyProxyContainerName, ctr_Image = img_EnvoyProxy (pc_Images (b_cfg b)),
          ctr_ImagePullPolicy = img_PullPolicy (pc_Images (b_cfg b)), ctr_Command = [],
          ctr_Resources = res_EnvoyProxy (pc_Resources (b_cfg b)),
          ctr_Ports = proxy_ports (pc_Proxy (b_cfg b)), ctr_Env = env, ctr_VolumeMounts = volumeMounts,
          ctr_SecurityContext = Some (proxy_user (px_UID (pc_Proxy (b_cfg b))))\<rparr>)"

definition BuildEnvoyProxyContainer :: "ContainerBuilder \<Rightarrow> Container" where
  "BuildEnvoyProxyContainer b = BuildEnvoyProxyContainerWithSpireOption b True"

section \<open>The combined container\<close>

definition buildAuthBridgeEnvResolved :: "ResolvedConfig \<Rightarrow> string \<Rightarrow> bool \<Rightarrow> bool \<Rightarrow> EnvVar list" where [env_builder_defs]:
  "buildAuthBridgeEnvResolved r clientName spireEnabled clientRegistrationEnabled =
     [env_literal ''SPIRE_ENABLED'' (FormatBool spireEnabled),
      env_literal ''CLIENT_REGISTRATION_ENABLED'' (FormatBool clientRegistrationEnabled),
      env_literal ''KEYCLOAK_URL'' (rc_KeycloakURL r),
      env_literal ''KEYCLOAK_REALM'' (rc_KeycloakRealm r),
      env_literal ''TOKEN_URL'' (rc_TokenURL r),
      env_literal ''ISSUER'' (rc_Issuer r),
      env_literal ''EXPECTED_AUDIENCE'' (rc_ExpectedAudience r),
      env_literal ''TARGET_AUDIENCE'' (rc_TargetAudience r),
      env_literal ''TARGET_SCOPES'' (rc_TargetScopes r),
      env_literal ''CLIENT_ID_FILE'' ''/shared/client-id.txt'',
      env_literal ''CLIENT_SECRET_FILE'' ''/shared/client-secret.txt'',
      env_literal ''ROUTES_CONFIG_PATH'' ''/etc/authproxy/routes.yaml'',
      env_literal ''DEFAULT_OUTBOUND_POLICY'' (rc_DefaultOutboundPolicy r),
      secret_key (admin_secret_name r) ''KEYCLOAK_ADMIN_USERNAME'',
      secret_key (admin_secret_name r) ''KEYCLOAK_ADMIN_PASSWORD'',
      env_literal ''CLIENT_NAME'' clientName,
      env_literal ''SECRET_FILE_PATH'' ''/shared/client-secret.txt'',
      env_literal ''PLATFORM_CLIENT_IDS'' (rc_PlatformClientIDs r)]"

definition buildAuthBridgeEnvLegacy :: "string \<Rightarrow> bool \<Rightarrow> bool \<Rightarrow> EnvVar list" where [env_builder_defs]:
  "buildAuthBridgeEnvLegacy clientName spireEnabled clientRegistrationEnabled =
     [env_literal ''SPIRE_ENABLED'' (FormatBool spireEnabled),
      env_literal ''CLIENT_REGISTRATION_ENABLED'' (FormatBool clientRegistrationEnabled),
      cm_optional AuthBridgeConfigMapName ''KEYCLOAK_URL'',
      cm_optional AuthBridgeConfigMapName ''KEYCLOAK_REALM'',
      cm_optional ''authbridge-config'' ''TOKEN_URL'',
      env_from ''ISSUER'' (ConfigMapKeyRef ''authbridge-config'' ''ISSUER'' (Some False)),
      cm_optional ''authbridge-config'' ''EXPECTED_AUDIENCE'',
      cm_optional ''authbridge-config'' ''TARGET_AUDIENCE'',
      cm_optional ''authbridge-config'' ''TARGET_SCOPES'',
      env_literal ''CLIENT_ID_FILE'' ''/shared/client-id.txt'',
      env_literal ''CLIENT_SECRET_FILE'' ''/shared/client-secret.txt'',
      env_literal ''ROUTES_CONFIG_PATH'' ''/etc/authproxy/routes.yaml'',
      cm_optional ''authbridge-config'' ''DEFAULT_OUTBOUND_POLICY'',
      secret_key ''keycloak-admin-secret'' ''KEYCLOAK_ADMIN_USERNAME'',
      secret_key ''keycloak-admin-secret'' ''KEYCLOAK_ADMIN_PASSWORD'',
      env_literal ''CLIENT_NAME'' clientName,
      env_literal ''SECRET_FILE_PATH'' ''/shared/client-secret.txt'',
      cm_optional AuthBridgeConfigMapName ''PLATFORM_CLIENT_IDS'']"

definition BuildAuthBridgeContainer :: "ContainerBuilder \<Rightarrow> string \<Rightarrow> string \<Rightarrow> bool \<Rightarrow> bool \<Rightarrow> Container" where [container_builder_defs]:
  "BuildAuthBridgeContainer b name namespace spireEnabled clientRegistrationEnabled =
     (let clientName = namespace @ ''/'' @ name;
          env = (case b_resolved b of
                   Some r \<Rightarrow> buildAuthBridgeEnvResolved r clientName spireEnabled clientRegistrationEnabled
                 | None \<Rightarrow> buildAuthBridgeEnvLegacy clientName spireEnabled clientRegistrationEnabled);
          volumeMounts =
            [mount ''envoy-config'' ''/etc/envoy'' True, mount ''authproxy-routes'' ''/etc/authproxy'' True,
             mount ''shared-data'' ''/shared'' False]
            @ (if spireEnabled
               then [mount ''svid-output'' ''/opt'' False,
                     mount ''spiffe-helper-config'' ''/etc/spiffe-helper'' True,
                     mount ''spire-agent-socket'' ''/spiffe-workload-api'' True]
               else [])
      in \<lparr>ctr_Name = AuthBridgeContainerName, ctr_Image = img_AuthBridge (pc_Images (b_cfg b)),
          ctr_ImagePullPolicy = img_PullPolicy (pc_Images (b_cfg b)), ctr_Command = [],
          ctr_Resources = res_AuthBridge (pc_Resources (b_cfg b)),
          ctr_Ports = proxy_ports (pc_Proxy (b_cfg b)), ctr_Env = env, ctr_VolumeMounts = volumeMounts,
          ctr_SecurityContext = Some (proxy_user (px_UID (pc_Proxy (b_cfg b))))\<rparr>)"

section \<open>proxy-init\<close>

definition BuildProxyInitContainer :: "ContainerBuilder \<Rightarrow> string \<Rightarrow> string \<Rightarrow> Container" where [container_builder_defs]:
  "BuildProxyInitContainer b outboundPortsExclude inboundPortsExclude =
     (let outboundValue = buildOutboundExcludeValue outboundPortsExclude;
          inboundValue = buildPortExcludeValue inboundPortsExclude;
          env =
            [env_literal ''PROXY_PORT'' (Itoa (sint (px_Port (pc_Proxy (b_cfg b))))),
             env_literal ''INBOUND_PROXY_PORT'' (Itoa (sint (px_InboundProxyPort (pc_Proxy (b_cfg b))))),
             env_literal ''PROXY_UID'' (Itoa (sint (px_UID (pc_Proxy (b_cfg b))))),
             env_literal ''OUTBOUND_PORTS_EXCLUDE'' outboundValue,
             env_from ''POD_IP'' (FieldRef ''status.podIP'')]
            @ (if inboundValue \<noteq> [] then [env_literal ''INBOUND_PORTS_EXCLUDE'' inboundValue] else [])
      in \<lparr>ctr_Name = ProxyInitContainerName, ctr_Image = img_ProxyInit (pc_Images (b_cfg b)),
          ctr_ImagePullPolicy = img_PullPolicy (pc_Images (b_cfg b)), ctr_Command = [],
          ctr_Resources = res_ProxyInit (pc_Resources (b_cfg b)), ctr_Ports = [], ctr_Env = env,
          ctr_VolumeMounts = [],
          ctr_SecurityContext =
            Some \<lparr>sc_RunAsUser = Some 0, sc_RunAsGroup = None, sc_RunAsNonRoot = Some False,
                  sc_Privileged = Some False, sc_AllowPrivilegeEscalation = None,
                  sc_Capabilities = Some \<lparr>cap_Add = [''NET_ADMIN'', ''NET_RAW''], cap_Drop = [''ALL'']\<rparr>\<rparr>\<rparr>)"

section \<open>The two modes agree\<close>

text \<open>An entry of the resolved mode that takes the place of an entry of the legacy mode: a reference to a key of a
  ConfigMap becomes a literal with the value that the webhook read (empty if there is none), any other entry
  stays as it is.\<close>

definition replaces :: "(string \<Rightarrow> strmap) \<Rightarrow> EnvVar \<Rightarrow> EnvVar \<Rightarrow> bool" where
  "replaces cms e l \<longleftrightarrow>
     (case env_ValueFrom l of
        Some (ConfigMapKeyRef cm key opt) \<Rightarrow> e = env_literal (env_Name l) (map_get (cms cm) key)
      | _ \<Rightarrow> e = l)"

text \<open>The variables that refer to a ConfigMap, and those among them whose key must exist.\<close>

definition configmap_ref :: "EnvVar \<Rightarrow> (string \<times> string \<times> bool option) option" where
  "configmap_ref e = (case env_ValueFrom e of Some (ConfigMapKeyRef cm key opt) \<Rightarrow> Some (cm, key, opt) | _ \<Rightarrow> None)"

definition required_refs :: "EnvVar list \<Rightarrow> string list" where
  "required_refs es = map env_Name (filter (\<lambda>e. case configmap_ref e of Some (cm, key, opt) \<Rightarrow> opt \<noteq> Some True | None \<Rightarrow> False) es)"

lemma replaces_simps [simp]:
  "replaces cms e (env_literal n v) \<longleftrightarrow> e = env_literal n v"
  "replaces cms e (cm_optional cm key) \<longleftrightarrow> e = env_literal key (map_get (cms cm) key)"
  "replaces cms e (env_from n (ConfigMapKeyRef cm key opt)) \<longleftrightarrow> e = env_literal n (map_get (cms cm) key)"
  "replaces cms e (env_from n (FieldRef path)) \<longleftrightarrow> e = env_from n (FieldRef path)"
  "replaces cms e (secret_key s key) \<longleftrightarrow> e = secret_key s key"
  by (simp_all add: replaces_def cm_optional_def secret_key_def env_literal_def env_from_def)

lemma configmap_ref_simps [simp]:
  "configmap_ref (env_literal n v) = None" "configmap_ref (cm_optional cm key) = Some (cm, key, Some True)"
  "configmap_ref (env_from n (ConfigMapKeyRef cm key opt)) = Some (cm, key, opt)"
  "configmap_ref (env_from n (FieldRef path)) = None" "configmap_ref (secret_key s key) = None"
  by (simp_all add: configmap_ref_def cm_optional_def secret_key_def env_literal_def env_from_def)

lemma env_Name_simps [simp]: "env_Name (cm_optional cm key) = key" "env_Name (secret_key s key) = key"
  by (simp_all add: cm_optional_def secret_key_def)

text \<open>A merged configuration that has the ConfigMap's values, as \<open>resolve_workload\<close> yields when no
  AgentRuntime overrides the realm.\<close>

definition from_configmap :: "strmap \<Rightarrow> ResolvedConfig \<Rightarrow> bool" where
  "from_configmap d r \<longleftrightarrow>
     rc_KeycloakRealm r = map_get d ''KEYCLOAK_REALM'' \<and> rc_KeycloakURL r = map_get d ''KEYCLOAK_URL''
     \<and> rc_TokenURL r = map_get d ''TOKEN_URL'' \<and> rc_Issuer r = map_get d ''ISSUER''
     \<and> rc_ExpectedAudience r = map_get d ''EXPECTED_AUDIENCE''
     \<and> rc_TargetAudience r = map_get d ''TARGET_AUDIENCE'' \<and> rc_TargetScopes r = map_get d ''TARGET_SCOPES''
     \<and> rc_DefaultOutboundPolicy r = map_get d ''DEFAULT_OUTBOUND_POLICY''
     \<and> rc_PlatformClientIDs r = map_get d ''PLATFORM_CLIENT_IDS''
     \<and> rc_ClientAuthType r = map_get d ''CLIENT_AUTH_TYPE''
     \<and> rc_SpiffeIdpAlias r = map_get d ''SPIFFE_IDP_ALIAS'' \<and> rc_JWTAudience r = map_get d ''JWT_AUDIENCE''
     \<and> rc_AdminCredentialsSecretName r = ''keycloak-admin-secret''"

lemma resolve_workload_from_configmap:
  assumes "targeting c w namespace name = None"
  shows "from_configmap (config_data c w namespace ''authbridge-config'') (resolve_workload c w pc namespace name)"
  using assms
  by (simp add: from_configmap_def resolve_workload_def ReadNamespaceConfig_eq ReadAgentRuntimeOverrides_eq
      Let_def ResolveConfig_def const_defs)

lemma env_replaces:
  assumes "from_configmap (cms ''authbridge-config'') r"
  shows "list_all2 (replaces cms) (buildEnvoyProxyEnvResolved r) buildEnvoyProxyEnvLegacy"
    and "list_all2 (replaces cms) (buildClientRegistrationEnvResolved r n s) (buildClientRegistrationEnvLegacy n s)"
    and "list_all2 (replaces cms) (buildAuthBridgeEnvResolved r n s cr) (buildAuthBridgeEnvLegacy n s cr)"
  using assms
  by (simp_all add: env_builder_defs from_configmap_def const_defs admin_secret_name_def)

lemma legacy_required:
  "required_refs buildEnvoyProxyEnvLegacy = [''ISSUER'']"
  "required_refs (buildClientRegistrationEnvLegacy n s) = [''KEYCLOAK_REALM'']"
  "required_refs (buildAuthBridgeEnvLegacy n s cr) = [''ISSUER'']"
  by (simp_all add: required_refs_def env_builder_defs)

lemma replaced_refs: "list_all2 (replaces cms) es ls \<Longrightarrow> list_all (\<lambda>e. configmap_ref e = None) es"
proof (induction rule: list_all2_induct)
  case (Cons e es l ls)
  then show ?case
    by (auto simp: replaces_def configmap_ref_def env_literal_def split: option.splits EnvVarSource.splits)
qed simp

text \<open>C12 (modes_agree). When no AgentRuntime targets the workload, every container of the resolved mode is, entry by
  entry, that of the legacy mode with each reference to a key of the namespace's ConfigMap replaced by the
  value of this key, empty if there is none; nothing else differs, and no reference to a ConfigMap is left.
  The references of the legacy mode are optional, except for ISSUER of envoy-proxy and of the combined
  container and KEYCLOAK_REALM of client registration: where one of these keys is missing, the legacy pod
  has a reference that cannot be resolved and the resolved pod an empty value.\<close>

theorem modes_agree:
  assumes "targeting c w namespace name = None"
  shows "let legacy = NewContainerBuilder (Some pc);
             resolved = NewResolvedContainerBuilder (Some (resolve_workload c w pc namespace name));
             same = (\<lambda>k l. list_all2 (replaces (config_data c w namespace)) (ctr_Env k) (ctr_Env l)
                      \<and> list_all (\<lambda>e. configmap_ref e = None) (ctr_Env k)
                      \<and> k\<lparr>ctr_Env := []\<rparr> = l\<lparr>ctr_Env := []\<rparr>)
    in same (BuildEnvoyProxyContainerWithSpireOption resolved spire)
            (BuildEnvoyProxyContainerWithSpireOption legacy spire)
     \<and> same (BuildClientRegistrationContainerWithSpireOption resolved name namespace spire)
            (BuildClientRegistrationContainerWithSpireOption legacy name namespace spire)
     \<and> same (BuildAuthBridgeContainer resolved name namespace spire reg)
            (BuildAuthBridgeContainer legacy name namespace spire reg)
     \<and> same (BuildSpiffeHelperContainer resolved) (BuildSpiffeHelperContainer legacy)
     \<and> same (BuildProxyInitContainer resolved outbound inbound) (BuildProxyInitContainer legacy outbound inbound)
     \<and> required_refs (ctr_Env (BuildEnvoyProxyContainerWithSpireOption legacy spire)) = [''ISSUER'']
     \<and> required_refs (ctr_Env (BuildClientRegistrationContainerWithSpireOption legacy name namespace spire)) = [''KEYCLOAK_REALM'']
     \<and> required_refs (ctr_Env (BuildAuthBridgeContainer legacy name namespace spire reg)) = [''ISSUER'']"
proof -
  note env = env_replaces [where cms = "config_data c w namespace", OF resolve_workload_from_configmap [OF assms]]
  from env env [THEN replaced_refs] show ?thesis
    by (simp add: container_builder_defs Let_def NewContainerBuilder_def NewResolvedContainerBuilder_def legacy_required)
qed

text \<open>A namespace without AgentRuntimes and with one ConfigMap, for the demonstration.\<close>

definition demo_client :: "(unit, unit) client" where
  "demo_client =
     \<lparr>GetConfigMap = (\<lambda>w ns n. if n = ''authbridge-config'' then Inr [''ISSUER'' \<mapsto> ''http://kc''] else Inl ''none''),
      GetServiceAccount = (\<lambda>w ns n. Inr Map.empty), CreateServiceAccount = (\<lambda>w ns n l. (None, w)),
      ListAgentRuntimes = (\<lambda>w ns. Inl ''no CRD''), NestedString = (\<lambda>obj p. None),
      NestedFloat64 = (\<lambda>obj p. None)\<rparr>"

lemma demo_targeting: "targeting demo_client w ns n = None"
  by (simp add: targeting_def demo_client_def)

theorem modes_agree_witness:
  "list_all2 (replaces (config_data demo_client () ''ns''))
     (ctr_Env (BuildEnvoyProxyContainerWithSpireOption (NewResolvedContainerBuilder
        (Some (resolve_workload demo_client () CompiledDefaults ''ns'' ''app''))) True)) buildEnvoyProxyEnvLegacy
   \<and> map_get (config_data demo_client () ''ns'' ''authbridge-config'') ''ISSUER'' = ''http://kc''"
  using modes_agree [where namespace = "''ns''" and name = "''app''" and pc = CompiledDefaults and spire = True,
      OF demo_targeting, where w = "()"]
  by (simp add: Let_def BuildEnvoyProxyContainerWithSpireOption_def NewContainerBuilder_def)
    (simp add: config_data_def demo_client_def map_get_def)

section \<open>Credentials stay in Secrets\<close>

definition is_admin_credential :: "EnvVar \<Rightarrow> bool" where
  "is_admin_credential e \<longleftrightarrow> env_Name e \<in> {''KEYCLOAK_ADMIN_USERNAME'', ''KEYCLOAK_ADMIN_PASSWORD''}"

text \<open>C26 (admin_credentials_by_reference). In every mode the Keycloak administrator's user name and password
  reach the containers that register clients as references to a Secret, exactly once each, never as
  literal values in the pod; and envoy-proxy does not get them at all.\<close>

theorem admin_credentials_by_reference:
  "let s = (case b_resolved b of None \<Rightarrow> ''keycloak-admin-secret'' | Some r \<Rightarrow> admin_secret_name r);
       refs = [secret_key s ''KEYCLOAK_ADMIN_USERNAME'', secret_key s ''KEYCLOAK_ADMIN_PASSWORD'']
   in filter is_admin_credential (ctr_Env (BuildClientRegistrationContainerWithSpireOption b n ns spire)) = refs
    \<and> filter is_admin_credential (ctr_Env (BuildAuthBridgeContainer b n ns spire reg)) = refs
    \<and> filter is_admin_credential (ctr_Env (BuildEnvoyProxyContainerWithSpireOption b spire)) = []
    \<and> s \<noteq> []"
  by (simp add: container_builder_defs env_builder_defs is_admin_credential_def Let_def
      admin_secret_name_def const_defs split: option.split)

end
