(* ===== verification/Volume_Builder.thy ===== *)
theory Volume_Builder
  imports Container_Builder
begin

text \<open>
  The volumes of an injected pod (\<open>injector/volume_builder.go\<close>) and the mounting of operator-managed
  client credentials (\<open>injector/keycloak_client_credentials.go\<close>), with the two by-name lookups of
  \<open>injector/pod_mutator.go\<close> that they use.
\<close>

section \<open>Volumes\<close>

definition volume :: "string \<Rightarrow> VolumeSource \<Rightarrow> Volume" where
  "volume n src = \<lparr>vol_Name = n, vol_Source = src\<rparr>"

lemma volume_simps [simp]: "vol_Name (volume n src) = n" "vol_Source (volume n src) = src"
  by (simp_all add: volume_def)

definition BuildRequiredVolumes :: "Volume list" where
  "BuildRequiredVolumes =
     [volume ''shared-data'' EmptyDir,
      volume ''spire-agent-socket'' (CSI ''csi.spiffe.io'' (Some True)),
      volume ''spiffe-helper-config'' (ConfigMapVolume ''spiffe-helper-config'' None),
      volume ''svid-output'' EmptyDir,
      volume ''envoy-config'' (ConfigMapVolume ''envoy-config'' None),
      volume ''authproxy-routes'' (ConfigMapVolume ''authproxy-routes'' (Some True))]"

definition BuildRequiredVolumesNoSpire :: "Volume list" where
  "BuildRequiredVolumesNoSpire =
     [volume ''shared-data'' EmptyDir,
      volume ''envoy-config'' (ConfigMapVolume ''envoy-config'' None),
      volume ''authproxy-routes'' (ConfigMapVolume ''authproxy-routes'' (Some True))]"

definition BuildResolvedVolumes :: "bool \<Rightarrow> string \<Rightarrow> Volume list" where
  "BuildResolvedVolumes spireEnabled envoyConfigMapName =
     (let envoyConfigMapName = (if envoyConfigMapName = [] then EnvoyConfigMapName else envoyConfigMapName)
      in [volume ''shared-data'' EmptyDir]
         @ (if spireEnabled
            then [volume ''spire-agent-socket'' (CSI ''csi.spiffe.io'' (Some True)),
                  volume ''spiffe-helper-config'' (ConfigMapVolume SpiffeHelperConfigMapName None),
                  volume ''svid-output'' EmptyDir]
            else [])
         @ [volume ''envoy-config'' (ConfigMapVolume envoyConfigMapName None),
            volume ''authproxy-routes'' (ConfigMapVolume AuthproxyRoutesConfigMapName (Some True))])"

section \<open>Lookup by name\<close>

fun containerExists :: "Container list \<Rightarrow> string \<Rightarrow> bool" where
  "containerExists [] name = False"
| "containerExists (c # cs) name = (if ctr_Name c = name then True else containerExists cs name)"

fun volumeExists :: "Volume list \<Rightarrow> string \<Rightarrow> bool" where
  "volumeExists [] name = False"
| "volumeExists (v # vs) name = (if vol_Name v = name then True else volumeExists vs name)"

fun containerVolumeMountExists :: "VolumeMount list \<Rightarrow> string \<Rightarrow> bool" where
  "containerVolumeMountExists [] volumeName = False"
| "containerVolumeMountExists (m # ms) volumeName =
     (if vm_Name m = volumeName then True else containerVolumeMountExists ms volumeName)"

interpretation containers: named_items ctr_Name containerExists
proof
  fix xs n
  show "containerExists xs n \<longleftrightarrow> n \<in> ctr_Name ` set xs" by (induction xs) auto
qed

interpretation volumes: named_items vol_Name volumeExists
proof
  fix xs n
  show "volumeExists xs n \<longleftrightarrow> n \<in> vol_Name ` set xs" by (induction xs) auto
qed

interpretation mounts: named_items vm_Name containerVolumeMountExists
proof
  fix xs n
  show "containerVolumeMountExists xs n \<longleftrightarrow> n \<in> vm_Name ` set xs" by (induction xs) auto
qed

section \<open>Operator-managed client credentials\<close>

definition AnnotationKeycloakClientSecretName :: string where
  "AnnotationKeycloakClientSecretName = ''kagenti.io/keycloak-client-credentials-secret-name''"

definition keycloakClientCredentialsVolumeName :: "string \<Rightarrow> string" where
  "keycloakClientCredentialsVolumeName secretName = secretName"

fun has_mount :: "VolumeMount list \<Rightarrow> string \<Rightarrow> string \<Rightarrow> bool" where
  "has_mount [] volumeName mountPath = False"
| "has_mount (m # ms) volumeName mountPath =
     (if vm_Name m = volumeName \<and> vm_MountPath m = mountPath then True
      else has_mount ms volumeName mountPath)"

definition containerHasKeycloakCredentialsMount :: "Container \<Rightarrow> string \<Rightarrow> string \<Rightarrow> bool" where
  "containerHasKeycloakCredentialsMount c volumeName mountPath =
     has_mount (ctr_VolumeMounts c) volumeName mountPath"

fun needs_mounts :: "string \<Rightarrow> Container list \<Rightarrow> bool" where
  "needs_mounts volName [] = False"
| "needs_mounts volName (c # cs) =
     (if \<not> containerVolumeMountExists (ctr_VolumeMounts c) ''shared-data'' then needs_mounts volName cs
      else if \<not> containerHasKeycloakCredentialsMount c volName ''/shared/client-secret.txt''
              \<or> \<not> containerHasKeycloakCredentialsMount c volName ''/shared/client-id.txt'' then True
      else needs_mounts volName cs)"

definition NeedsKeycloakClientCredentialsVolumePatch :: "PodSpec \<Rightarrow> strmap \<Rightarrow> bool" where
  "NeedsKeycloakClientCredentialsVolumePatch podSpec annotations =
     (let secretName = TrimSpace (map_get annotations AnnotationKeycloakClientSecretName)
      in if secretName = [] then False
         else let volName = keycloakClientCredentialsVolumeName secretName
              in if \<not> volumeExists (ps_Volumes podSpec) volName then True
                 else needs_mounts volName (ps_Containers podSpec))"

definition appendSubPathMount :: "Container \<Rightarrow> string \<Rightarrow> string \<Rightarrow> string \<Rightarrow> Container" where
  "appendSubPathMount c vol subPath mountPath =
     (if has_mount (ctr_VolumeMounts c) vol mountPath then c
      else c\<lparr>ctr_VolumeMounts := ctr_VolumeMounts c
               @ [\<lparr>vm_Name = vol, vm_MountPath = mountPath, vm_SubPath = subPath, vm_ReadOnly = True\<rparr>]\<rparr>)"

definition mount_credentials :: "string \<Rightarrow> Container \<Rightarrow> Container" where
  "mount_credentials volName c =
     (if \<not> containerVolumeMountExists (ctr_VolumeMounts c) ''shared-data'' then c
      else appendSubPathMount
             (appendSubPathMount c volName ''client-secret.txt'' ''/shared/client-secret.txt'')
             volName ''client-id.txt'' ''/shared/client-id.txt'')"

definition ApplyKeycloakClientCredentialsSecretVolumes :: "PodSpec \<Rightarrow> strmap \<Rightarrow> PodSpec" where
  "ApplyKeycloakClientCredentialsSecretVolumes podSpec annotations =
     (let secretName = TrimSpace (map_get annotations AnnotationKeycloakClientSecretName)
      in if secretName = [] then podSpec
         else let volName = keycloakClientCredentialsVolumeName secretName;
                  podSpec = (if \<not> volumeExists (ps_Volumes podSpec) volName
                             then podSpec\<lparr>ps_Volumes := ps_Volumes podSpec
                                    @ [volume volName (SecretVolume secretName (Some False))]\<rparr>
                             else podSpec)
              in podSpec\<lparr>ps_Containers := map (mount_credentials volName) (ps_Containers podSpec)\<rparr>)"

section \<open>Volumes agree\<close>

text \<open>The two volume builders agree: without a per-workload envoy configuration the
  resolved mode declares exactly the volumes of the legacy mode, in the same order; in both modes volume
  names are distinct, and the SPIRE volumes are exactly what SPIRE adds.\<close>

theorem volumes_agree:
  "BuildResolvedVolumes spire [] = (if spire then BuildRequiredVolumes else BuildRequiredVolumesNoSpire)
   \<and> distinct (map vol_Name (BuildResolvedVolumes spire cm))
   \<and> set BuildRequiredVolumes - set BuildRequiredVolumesNoSpire
      = set (filter (\<lambda>v. vol_Name v \<in> {''spire-agent-socket'', ''spiffe-helper-config'', ''svid-output''})
               BuildRequiredVolumes)"
  by (auto simp: BuildResolvedVolumes_def BuildRequiredVolumes_def BuildRequiredVolumesNoSpire_def
      const_defs Let_def volume_def)

section \<open>Credential mounting\<close>

lemma has_mount_iff:
  "has_mount ms n p \<longleftrightarrow> (\<exists>m\<in>set ms. vm_Name m = n \<and> vm_MountPath m = p)"
  by (induction ms) auto

lemma append_mount_simps [simp]:
  "ctr_Name (appendSubPathMount c v s p) = ctr_Name c"
  "has_mount (ctr_VolumeMounts (appendSubPathMount c v s p)) n q \<longleftrightarrow>
     has_mount (ctr_VolumeMounts c) n q \<or> (n = v \<and> q = p)"
  by (auto simp: appendSubPathMount_def has_mount_iff)

lemma append_mount_noop: "has_mount (ctr_VolumeMounts c) v p \<Longrightarrow> appendSubPathMount c v s p = c"
  by (simp add: appendSubPathMount_def)

text \<open>A container with mounts of one volume appended.\<close>

definition mounts_added :: "string \<Rightarrow> Container \<Rightarrow> Container \<Rightarrow> bool" where
  "mounts_added v c d \<longleftrightarrow>
     (\<exists>ms. d = c\<lparr>ctr_VolumeMounts := ctr_VolumeMounts c @ ms\<rparr> \<and> list_all (\<lambda>m. vm_Name m = v) ms)"

lemma mounts_added_refl [simp]: "mounts_added v c c"
  unfolding mounts_added_def by (rule exI [of _ "[]"]) simp

lemma mounts_added_append: "mounts_added v c d \<Longrightarrow> mounts_added v c (appendSubPathMount d v s p)"
proof -
  assume "mounts_added v c d"
  then obtain ms where d: "d = c\<lparr>ctr_VolumeMounts := ctr_VolumeMounts c @ ms\<rparr>"
    and ms: "list_all (\<lambda>m. vm_Name m = v) ms" by (auto simp: mounts_added_def)
  let ?m = "\<lparr>vm_Name = v, vm_MountPath = p, vm_SubPath = s, vm_ReadOnly = True\<rparr>"
  have "mounts_added v c (c\<lparr>ctr_VolumeMounts := ctr_VolumeMounts c @ ms @ [?m]\<rparr>)"
    unfolding mounts_added_def by (rule exI [of _ "ms @ [?m]"]) (simp add: ms)
  then show ?thesis
    using \<open>mounts_added v c d\<close> by (auto simp: appendSubPathMount_def d)
qed

lemma mount_credentials_extends: "mounts_added v c (mount_credentials v c)"
  by (simp add: mount_credentials_def mounts_added_append)

lemma mount_credentials_name [simp]: "ctr_Name (mount_credentials v c) = ctr_Name c"
  by (simp add: mount_credentials_def)

lemma mount_credentials_shared:
  assumes "containerVolumeMountExists (ctr_VolumeMounts c) ''shared-data''"
  shows "has_mount (ctr_VolumeMounts (mount_credentials v c)) v ''/shared/client-secret.txt''"
    "has_mount (ctr_VolumeMounts (mount_credentials v c)) v ''/shared/client-id.txt''"
  using assms by (simp_all add: mount_credentials_def)

lemma mount_credentials_idem [simp]: "mount_credentials v (mount_credentials v c) = mount_credentials v c"
proof (cases "containerVolumeMountExists (ctr_VolumeMounts c) ''shared-data''")
  case True
  then show ?thesis
    using mount_credentials_shared [OF True, of v]
    by (subst mount_credentials_def) (simp add: append_mount_noop)
qed (simp add: mount_credentials_def)

lemma needs_mounts_iff:
  "needs_mounts v cs \<longleftrightarrow> (\<exists>c\<in>set cs. containerVolumeMountExists (ctr_VolumeMounts c) ''shared-data''
     \<and> \<not> (has_mount (ctr_VolumeMounts c) v ''/shared/client-secret.txt''
          \<and> has_mount (ctr_VolumeMounts c) v ''/shared/client-id.txt''))"
  by (induction cs) (auto simp: containerHasKeycloakCredentialsMount_def)

lemma needs_mounts_noop: "\<not> needs_mounts v cs \<Longrightarrow> map (mount_credentials v) cs = cs"
  by (induction cs)
    (auto simp: mount_credentials_def containerHasKeycloakCredentialsMount_def append_mount_noop split: if_splits)

lemma needs_after: "\<not> needs_mounts v (map (mount_credentials v) cs)"
  by (auto simp: needs_mounts_iff mount_credentials_def split: if_splits)

lemma credentials_step:
  assumes "TrimSpace (map_get ann AnnotationKeycloakClientSecretName) = v" "v \<noteq> []"
  shows "ApplyKeycloakClientCredentialsSecretVolumes ps ann =
      ps\<lparr>ps_Volumes := volumes.add (volume v (SecretVolume v (Some False))) (ps_Volumes ps),
         ps_Containers := map (mount_credentials v) (ps_Containers ps)\<rparr>"
    and "NeedsKeycloakClientCredentialsVolumePatch ps ann \<longleftrightarrow>
      \<not> volumeExists (ps_Volumes ps) v \<or> needs_mounts v (ps_Containers ps)"
  using assms
  by (cases ps; simp add: ApplyKeycloakClientCredentialsSecretVolumes_def Let_def volumes.add_def
      keycloakClientCredentialsVolumeName_def NeedsKeycloakClientCredentialsVolumePatch_def)+

lemma credentials_idem:
  "ApplyKeycloakClientCredentialsSecretVolumes (ApplyKeycloakClientCredentialsSecretVolumes ps ann) ann
     = ApplyKeycloakClientCredentialsSecretVolumes ps ann"
proof (cases "TrimSpace (map_get ann AnnotationKeycloakClientSecretName) = []")
  case True
  then show ?thesis by (simp add: ApplyKeycloakClientCredentialsSecretVolumes_def)
next
  case False
  show ?thesis
    by (cases ps) (simp add: credentials_step(1) [OF refl False] volumes.add_noop volumes.names_add comp_def)
qed

lemma credentials_needed_iff:
  "NeedsKeycloakClientCredentialsVolumePatch ps ann \<longleftrightarrow>
     ApplyKeycloakClientCredentialsSecretVolumes ps ann \<noteq> ps"
proof (cases "TrimSpace (map_get ann AnnotationKeycloakClientSecretName) = []")
  case True
  then show ?thesis
    by (simp add: ApplyKeycloakClientCredentialsSecretVolumes_def NeedsKeycloakClientCredentialsVolumePatch_def)
next
  case False
  let ?v = "TrimSpace (map_get ann AnnotationKeycloakClientSecretName)"
  have "volumes.add (volume ?v src) vs = vs \<longleftrightarrow> volumeExists vs ?v" for vs src
    by (simp add: volumes.add_def)
  moreover have "map (mount_credentials ?v) cs = cs \<longleftrightarrow> \<not> needs_mounts ?v cs" for cs
    by (metis needs_mounts_noop needs_after)
  ultimately show ?thesis
    by (cases ps) (auto simp: credentials_step [OF refl False])
qed

text \<open>C22 (credentials_fixpoint). Mounting the operator's client credentials reaches a fixpoint in one pass: a
  second pass changes nothing, after one pass the pod never needs another, and on a pod that needs none
  the pass is the identity, so that the check and the patch of the webhook agree exactly.\<close>

theorem credentials_fixpoint:
  "let once = ApplyKeycloakClientCredentialsSecretVolumes ps ann
   in ApplyKeycloakClientCredentialsSecretVolumes once ann = once
    \<and> \<not> NeedsKeycloakClientCredentialsVolumePatch once ann
    \<and> (NeedsKeycloakClientCredentialsVolumePatch ps ann \<longleftrightarrow> once \<noteq> ps)"
  by (simp add: credentials_idem credentials_needed_iff Let_def)

text \<open>Mounting the operator's client credentials only adds: the containers of
  the pod stay the same, in the same order, except that mounts of the credentials volume are appended to
  the mounts of some; the volumes gain at most the one Secret volume; and everything else is untouched.\<close>

theorem credentials_only_extend:
  "let q = ApplyKeycloakClientCredentialsSecretVolumes ps ann;
       v = TrimSpace (map_get ann AnnotationKeycloakClientSecretName)
   in list_all2 (mounts_added v) (ps_Containers ps) (ps_Containers q)
    \<and> (ps_Volumes q = ps_Volumes ps \<or> ps_Volumes q = ps_Volumes ps @ [volume v (SecretVolume v (Some False))])
    \<and> ps_InitContainers q = ps_InitContainers ps \<and> ps_ServiceAccountName q = ps_ServiceAccountName ps
    \<and> ps_SecurityContext q = ps_SecurityContext ps"
proof -
  have "list_all2 (mounts_added v) cs (map (mount_credentials v) cs)" for v cs
    by (induction cs) (simp_all add: mount_credentials_extends)
  moreover have "list_all2 (mounts_added v) cs cs" for v cs
    by (induction cs) simp_all
  ultimately show ?thesis
    by (simp add: ApplyKeycloakClientCredentialsSecretVolumes_def keycloakClientCredentialsVolumeName_def Let_def)
qed

end
