(* ===== verification/Precedence.thy ===== *)
theory Precedence
  imports Platform_Config
begin

text \<open>
  The precedence evaluator (\<open>injector/precedence.go\<close>, \<open>injection_decision.go\<close>, \<open>constants.go\<close>): which
  sidecars a workload gets, from the feature gates and the workload's labels. The layers that can
  object to an injection form a linear order, and the evaluator is shown to report the highest layer
  that objects.
\<close>

section \<open>Decisions\<close>

record SidecarDecision =
  sdec_Inject :: bool
  sdec_Reason :: string
  sdec_Layer :: string

record InjectionDecision =
  dec_EnvoyProxy :: SidecarDecision
  dec_ProxyInit :: SidecarDecision
  dec_SpiffeHelper :: SidecarDecision
  dec_ClientRegistration :: SidecarDecision

definition AnyInjected :: "InjectionDecision \<Rightarrow> bool" where
  "AnyInjected d \<longleftrightarrow> sdec_Inject (dec_EnvoyProxy d) \<or> sdec_Inject (dec_SpiffeHelper d)
     \<or> sdec_Inject (dec_ClientRegistration d)"

definition LabelEnvoyProxyInject :: string where [const_defs]:
  "LabelEnvoyProxyInject = ''kagenti.io/envoy-proxy-inject''"

definition LabelSpiffeHelperInject :: string where [const_defs]:
  "LabelSpiffeHelperInject = ''kagenti.io/spiffe-helper-inject''"

definition LabelClientRegistrationInject :: string where [const_defs]:
  "LabelClientRegistrationInject = ''kagenti.io/client-registration-inject''"

section \<open>The evaluator\<close>

record PrecedenceEvaluator =
  pe_featureGates :: FeatureGates

text \<open>The platform configuration is accepted and not used.\<close>

definition NewPrecedenceEvaluator :: "FeatureGates option \<Rightarrow> PlatformConfig option \<Rightarrow> PrecedenceEvaluator" where
  "NewPrecedenceEvaluator fg pc =
     \<lparr>pe_featureGates = (case fg of None \<Rightarrow> DefaultFeatureGates | Some g \<Rightarrow> g)\<rparr>"

definition evaluateSidecar :: "string \<Rightarrow> bool \<Rightarrow> string \<Rightarrow> SidecarDecision" where
  "evaluateSidecar sidecarName featureGateEnabled workloadLabelValue =
     (if \<not> featureGateEnabled
      then \<lparr>sdec_Inject = False, sdec_Reason = sidecarName @ '' feature gate disabled'',
            sdec_Layer = ''feature-gate''\<rparr>
      else if workloadLabelValue = ''false''
      then \<lparr>sdec_Inject = False, sdec_Reason = ''workload label disabled '' @ sidecarName,
            sdec_Layer = ''workload-label''\<rparr>
      else \<lparr>sdec_Inject = True, sdec_Reason = ''all gates passed'', sdec_Layer = ''default''\<rparr>)"

definition evaluateClientRegistration :: "PrecedenceEvaluator \<Rightarrow> string \<Rightarrow> SidecarDecision" where
  "evaluateClientRegistration e workloadLabelValue =
     (if \<not> fg_ClientRegistration (pe_featureGates e)
      then \<lparr>sdec_Inject = False, sdec_Reason = ''client-registration feature gate disabled'',
            sdec_Layer = ''feature-gate''\<rparr>
      else if workloadLabelValue = ''true''
      then \<lparr>sdec_Inject = True,
            sdec_Reason = ''workload opted in to legacy client-registration (kagenti.io/client-registration-inject=true)'',
            sdec_Layer = ''workload-label''\<rparr>
      else \<lparr>sdec_Inject = False,
            sdec_Reason = ''operator-managed client registration is default; set kagenti.io/client-registration-inject=true for legacy sidecar'',
            sdec_Layer = ''default''\<rparr>)"

definition Evaluate :: "PrecedenceEvaluator \<Rightarrow> strmap \<Rightarrow> InjectionDecision" where
  "Evaluate e workloadLabels =
     (let envoy = evaluateSidecar ''envoy-proxy'' (fg_EnvoyProxy (pe_featureGates e))
                    (map_get workloadLabels LabelEnvoyProxyInject);
          spiffe = evaluateSidecar ''spiffe-helper'' (fg_SpiffeHelper (pe_featureGates e))
                    (map_get workloadLabels LabelSpiffeHelperInject);
          clientReg = evaluateClientRegistration e (map_get workloadLabels LabelClientRegistrationInject)
      in \<lparr>dec_EnvoyProxy = envoy,
          dec_ProxyInit = \<lparr>sdec_Inject = sdec_Inject envoy,
                           sdec_Reason = ''follows envoy-proxy decision'', sdec_Layer = sdec_Layer envoy\<rparr>,
          dec_SpiffeHelper = spiffe, dec_ClientRegistration = clientReg\<rparr>)"

section \<open>The precedence chain as an order on layers\<close>

datatype layer = Default | WorkloadLabel | FeatureGate

fun layer_rank :: "layer \<Rightarrow> nat" where
  "layer_rank Default = 0"
| "layer_rank WorkloadLabel = 1"
| "layer_rank FeatureGate = 2"

lemma layer_rank_inject [simp]: "layer_rank a = layer_rank b \<longleftrightarrow> a = b"
  by (cases a; cases b) simp_all

instantiation layer :: linorder
begin

definition less_eq_layer :: "layer \<Rightarrow> layer \<Rightarrow> bool" where
  "less_eq_layer a b \<longleftrightarrow> layer_rank a \<le> layer_rank b"

definition less_layer :: "layer \<Rightarrow> layer \<Rightarrow> bool" where
  "less_layer a b \<longleftrightarrow> layer_rank a < layer_rank b"

instance
  by standard (auto simp: less_eq_layer_def less_layer_def)

end

fun layer_name :: "layer \<Rightarrow> string" where
  "layer_name Default = ''default''"
| "layer_name WorkloadLabel = ''workload-label''"
| "layer_name FeatureGate = ''feature-gate''"

text \<open>The layers that object to a sidecar the workload can opt out of.\<close>

definition objections :: "bool \<Rightarrow> string \<Rightarrow> layer set" where
  "objections gate label =
     (if gate then {} else {FeatureGate}) \<union> (if label = ''false'' then {WorkloadLabel} else {})"

lemma layer_less: "\<not> FeatureGate \<le> WorkloadLabel" "WorkloadLabel \<le> FeatureGate" "Default \<le> l"
  by (simp_all add: less_layer_def less_eq_layer_def)

lemma evaluateSidecar_spec:
  "sdec_Inject (evaluateSidecar n gate label) \<longleftrightarrow> objections gate label = {}"
  "sdec_Layer (evaluateSidecar n gate label) =
     layer_name (if objections gate label = {} then Default else Max (objections gate label))"
  by (auto simp: evaluateSidecar_def objections_def layer_less max_def)

text \<open>C23 (precedence_chain). For a sidecar the workload can opt out of, the decision refines the precedence
  order of the layers: the sidecar is injected exactly when no layer objects, and the layer reported is
  the highest one that objects (feature gate over workload label), the default layer if none does. The
  proxy-init container always goes with envoy-proxy, and client registration is injected only when its
  gate is on and the workload explicitly opts in. The code has these two layers only: neither the label
  \<open>kagenti.io/spire\<close> nor the sidecar defaults of the platform configuration, which comments and documents
  name as further layers, have any influence.\<close>

theorem precedence_chain:
  "let gates = (case fg of None \<Rightarrow> DefaultFeatureGates | Some g \<Rightarrow> g);
       d = Evaluate (NewPrecedenceEvaluator fg pc) labels;
       envoy = objections (fg_EnvoyProxy gates) (map_get labels ''kagenti.io/envoy-proxy-inject'');
       spiffe = objections (fg_SpiffeHelper gates) (map_get labels ''kagenti.io/spiffe-helper-inject'')
   in (sdec_Inject (dec_EnvoyProxy d) \<longleftrightarrow> envoy = {})
    \<and> sdec_Layer (dec_EnvoyProxy d) = layer_name (if envoy = {} then Default else Max envoy)
    \<and> (sdec_Inject (dec_SpiffeHelper d) \<longleftrightarrow> spiffe = {})
    \<and> sdec_Layer (dec_SpiffeHelper d) = layer_name (if spiffe = {} then Default else Max spiffe)
    \<and> sdec_Inject (dec_ProxyInit d) = sdec_Inject (dec_EnvoyProxy d)
    \<and> sdec_Layer (dec_ProxyInit d) = sdec_Layer (dec_EnvoyProxy d)
    \<and> (sdec_Inject (dec_ClientRegistration d) \<longleftrightarrow>
         fg_ClientRegistration gates \<and> labels ''kagenti.io/client-registration-inject'' = Some ''true'')"
proof -
  have "map_get labels k = ''true'' \<longleftrightarrow> labels k = Some ''true''" for k
    by (cases "labels k") simp_all
  then show ?thesis
    by (simp add: Evaluate_def NewPrecedenceEvaluator_def evaluateSidecar_spec Let_def
        evaluateClientRegistration_def const_defs)
qed

lemma AnyInjected_iff:
  "AnyInjected (Evaluate e labels) \<longleftrightarrow>
     (fg_EnvoyProxy (pe_featureGates e) \<and> map_get labels LabelEnvoyProxyInject \<noteq> ''false'')
     \<or> (fg_SpiffeHelper (pe_featureGates e) \<and> map_get labels LabelSpiffeHelperInject \<noteq> ''false'')
     \<or> (fg_ClientRegistration (pe_featureGates e) \<and> map_get labels LabelClientRegistrationInject = ''true'')"
  by (simp add: AnyInjected_def Evaluate_def Let_def evaluateSidecar_def evaluateClientRegistration_def)

lemma Evaluate_ProxyInit [simp]:
  "sdec_Inject (dec_ProxyInit (Evaluate e labels)) = sdec_Inject (dec_EnvoyProxy (Evaluate e labels))"
  by (simp add: Evaluate_def Let_def)

end
