(* ===== verification/Pod_Mutator.thy ===== *)
theory Pod_Mutator
  imports Volume_Builder Precedence
begin

text \<open>
  The pod mutator (\<open>injector/pod_mutator.go\<close>): the pre-filters, the service account for SPIRE, the
  injection of containers and volumes in the combined and the separate mode, the credential mounts and
  the file system group. The pod specification that the code mutates in place is passed through and
  returned; \<open>'w\<close> is the state of the cluster, which only the creation of the service account changes.
  The two hot-reloadable getters are the values they return for this request.
\<close>

section \<open>Constants and state\<close>

definition AuthBridgeInjectLabel :: string where [const_defs]:
  "AuthBridgeInjectLabel = ''kagenti.io/inject''"

definition AuthBridgeDisabledValue :: string where [const_defs]:
  "AuthBridgeDisabledValue = ''disabled''"

definition OutboundPortsExcludeAnnotation :: string where
  "OutboundPortsExcludeAnnotation = ''kagenti.io/outbound-ports-exclude''"

definition InboundPortsExcludeAnnotation :: string where
  "InboundPortsExcludeAnnotation = ''kagenti.io/inbound-ports-exclude''"

definition KagentiTypeLabel :: string where [const_defs]:
  "KagentiTypeLabel = ''kagenti.io/type''"

definition KagentiTypeAgent :: string where [const_defs]:
  "KagentiTypeAgent = ''agent''"

definition KagentiTypeTool :: string where [const_defs]:
  "KagentiTypeTool = ''tool''"

definition managedByLabel :: string where
  "managedByLabel = ''kagenti.io/managed-by''"

definition managedByValue :: string where
  "managedByValue = ''webhook''"

definition SharedVolumesFSGroup :: int64 where
  "SharedVolumesFSGroup = 0"

record ('w, 'o) PodMutator =
  pm_Client :: "('w, 'o) client"
  pm_EnableClientRegistration :: bool
  pm_GetPlatformConfig :: PlatformConfig
  pm_GetFeatureGates :: FeatureGates

definition NewPodMutator :: "('w, 'o) client \<Rightarrow> bool \<Rightarrow> PlatformConfig \<Rightarrow> FeatureGates \<Rightarrow> ('w, 'o) PodMutator" where
  "NewPodMutator client enableClientRegistration getPlatformConfig getFeatureGates =
     \<lparr>pm_Client = client, pm_EnableClientRegistration = enableClientRegistration,
      pm_GetPlatformConfig = getPlatformConfig, pm_GetFeatureGates = getFeatureGates\<rparr>"

section \<open>Operations\<close>

definition ensureServiceAccount :: "('w, 'o) client \<Rightarrow> 'w \<Rightarrow> string \<Rightarrow> string \<Rightarrow> error option \<times> 'w" where
  "ensureServiceAccount c w namespace name =
     (case CreateServiceAccount c w namespace name [managedByLabel \<mapsto> managedByValue] of
        (None, w') \<Rightarrow> (None, w')
      | (Some err, w') \<Rightarrow>
          (case err of
             AlreadyExists _ \<Rightarrow>
               (case GetServiceAccount c w' namespace name of
                  Inl getErr \<Rightarrow> (Some (''failed to fetch existing ServiceAccount '' @ namespace @ ''/''
                                     @ name @ '': '' @ getErr), w')
                | Inr existingLabels \<Rightarrow> (None, w'))
           | ApiError e \<Rightarrow> (Some (''failed to create ServiceAccount '' @ namespace @ ''/'' @ name
                                 @ '': '' @ e), w')))"

definition ensureFSGroup :: "PodSpec \<Rightarrow> PodSpec" where
  "ensureFSGroup podSpec =
     (let sc = (case ps_SecurityContext podSpec of None \<Rightarrow> \<lparr>psc_FSGroup = None\<rparr> | Some sc \<Rightarrow> sc);
          sc = (if psc_FSGroup sc = None then sc\<lparr>psc_FSGroup := Some SharedVolumesFSGroup\<rparr> else sc)
      in podSpec\<lparr>ps_SecurityContext := Some sc\<rparr>)"

text \<open>The delivery paths that \<open>logClientRegistrationPaths\<close> reports.\<close>

definition client_registration_paths :: "bool \<Rightarrow> InjectionDecision \<Rightarrow> strmap \<Rightarrow> string list" where
  "client_registration_paths combinedSidecar decision annotations =
     (let paths = (if TrimSpace (map_get annotations AnnotationKeycloakClientSecretName) \<noteq> []
                   then [''operator-secret''] else []);
          paths = (if combinedSidecar
                   then (if sdec_Inject (dec_EnvoyProxy decision) \<and> sdec_Inject (dec_ClientRegistration decision)
                         then paths @ [''combined-authbridge''] else paths)
                   else if sdec_Inject (dec_ClientRegistration decision) then paths @ [''sidecar''] else paths)
      in if paths = [] then [''skip''] else paths)"

definition append_container :: "Container \<Rightarrow> PodSpec \<Rightarrow> PodSpec" where
  "append_container c podSpec = podSpec\<lparr>ps_Containers := ps_Containers podSpec @ [c]\<rparr>"

definition append_init_container :: "Container \<Rightarrow> PodSpec \<Rightarrow> PodSpec" where
  "append_init_container c podSpec = podSpec\<lparr>ps_InitContainers := ps_InitContainers podSpec @ [c]\<rparr>"

definition inject_proxy_init :: "InjectionDecision \<Rightarrow> ContainerBuilder \<Rightarrow> strmap \<Rightarrow> PodSpec \<Rightarrow> PodSpec" where
  "inject_proxy_init decision builder annotations podSpec =
     (if sdec_Inject (dec_ProxyInit decision)
         \<and> \<not> containerExists (ps_InitContainers podSpec) ProxyInitContainerName
      then append_init_container
             (BuildProxyInitContainer builder (map_get annotations OutboundPortsExcludeAnnotation)
                (map_get annotations InboundPortsExcludeAnnotation)) podSpec
      else podSpec)"

definition inject_sidecars :: "bool \<Rightarrow> InjectionDecision \<Rightarrow> ContainerBuilder \<Rightarrow> string \<Rightarrow> string
    \<Rightarrow> strmap \<Rightarrow> PodSpec \<Rightarrow> PodSpec" where
  "inject_sidecars combinedSidecar decision builder crName namespace annotations podSpec =
     (let spireEnabled = sdec_Inject (dec_SpiffeHelper decision)
      in if combinedSidecar
         then (let podSpec =
                 (if sdec_Inject (dec_EnvoyProxy decision)
                     \<and> \<not> containerExists (ps_Containers podSpec) AuthBridgeContainerName
                  then append_container
                         (BuildAuthBridgeContainer builder crName namespace
                            (sdec_Inject (dec_SpiffeHelper decision))
                            (sdec_Inject (dec_ClientRegistration decision))) podSpec
                  else podSpec)
               in inject_proxy_init decision builder annotations podSpec)
         else (let podSpec =
                 (if sdec_Inject (dec_EnvoyProxy decision)
                     \<and> \<not> containerExists (ps_Containers podSpec) EnvoyProxyContainerName
                  then append_container (BuildEnvoyProxyContainerWithSpireOption builder spireEnabled) podSpec
                  else podSpec);
                   podSpec = inject_proxy_init decision builder annotations podSpec;
                   podSpec =
                 (if sdec_Inject (dec_SpiffeHelper decision)
                     \<and> \<not> containerExists (ps_Containers podSpec) SpiffeHelperContainerName
                  then append_container (BuildSpiffeHelperContainer builder) podSpec
                  else podSpec)
               in if sdec_Inject (dec_ClientRegistration decision)
                     \<and> \<not> containerExists (ps_Containers podSpec) ClientRegistrationContainerName
                  then append_container
                         (BuildClientRegistrationContainerWithSpireOption builder crName namespace spireEnabled)
                         podSpec
                  else podSpec))"

fun inject_volumes :: "Volume list \<Rightarrow> PodSpec \<Rightarrow> PodSpec" where
  "inject_volumes [] podSpec = podSpec"
| "inject_volumes (v # vs) podSpec =
     (if \<not> volumeExists (ps_Volumes podSpec) (vol_Name v)
      then inject_volumes vs (podSpec\<lparr>ps_Volumes := ps_Volumes podSpec @ [v]\<rparr>)
      else inject_volumes vs podSpec)"

text \<open>The builder and the volumes for the two configuration modes.\<close>

definition choose_builder :: "('w, 'o) PodMutator \<Rightarrow> 'w \<Rightarrow> string \<Rightarrow> string \<Rightarrow> bool
    \<Rightarrow> ContainerBuilder \<times> Volume list" where
  "choose_builder m w namespace crName spireEnabled =
     (if fg_PerWorkloadConfigResolution (pm_GetFeatureGates m)
      then (NewResolvedContainerBuilder
              (Some (resolve_workload (pm_Client m) w (pm_GetPlatformConfig m) namespace crName)),
            BuildResolvedVolumes spireEnabled [])
      else (NewContainerBuilder (Some (pm_GetPlatformConfig m)),
            if spireEnabled then BuildRequiredVolumes else BuildRequiredVolumesNoSpire))"

text \<open>With SPIRE, a pod that runs as the default service account gets one of its own.\<close>

definition assign_service_account :: "('w, 'o) client \<Rightarrow> 'w \<Rightarrow> string \<Rightarrow> string \<Rightarrow> bool \<Rightarrow> PodSpec
    \<Rightarrow> error option \<times> PodSpec \<times> 'w" where
  "assign_service_account c w namespace crName spireEnabled podSpec =
     (if spireEnabled \<and> (ps_ServiceAccountName podSpec = [] \<or> ps_ServiceAccountName podSpec = ''default'')
      then (case ensureServiceAccount c w namespace crName of
              (Some err, w') \<Rightarrow> (Some (''failed to ensure service account: '' @ err), podSpec, w')
            | (None, w') \<Rightarrow> (None, podSpec\<lparr>ps_ServiceAccountName := crName\<rparr>, w'))
      else (None, podSpec, w))"

text \<open>The changes to the pod once the decision is made and the configuration is read.\<close>

definition apply_injection :: "bool \<Rightarrow> InjectionDecision \<Rightarrow> ContainerBuilder \<times> Volume list \<Rightarrow> string \<Rightarrow> string
    \<Rightarrow> strmap \<Rightarrow> PodSpec \<Rightarrow> PodSpec" where
  "apply_injection combinedSidecar decision bv crName namespace annotations podSpec =
     (let podSpec = inject_sidecars combinedSidecar decision (fst bv) crName namespace annotations podSpec;
          podSpec = inject_volumes (snd bv) podSpec;
          podSpec = ApplyKeycloakClientCredentialsSecretVolumes podSpec annotations
      in if sdec_Inject (dec_SpiffeHelper decision) then ensureFSGroup podSpec else podSpec)"

definition InjectAuthBridge :: "('w, 'o) PodMutator \<Rightarrow> 'w \<Rightarrow> PodSpec \<Rightarrow> string \<Rightarrow> string \<Rightarrow> strmap \<Rightarrow> strmap
    \<Rightarrow> (error + bool) \<times> PodSpec \<times> 'w" where
  "InjectAuthBridge m w podSpec namespace crName labels annotations =
     (let skip = (Inr False, podSpec, w);
          gates = pm_GetFeatureGates m
      in case labels KagentiTypeLabel of
           None \<Rightarrow> skip
         | Some kagentiType \<Rightarrow>
             if kagentiType \<noteq> KagentiTypeAgent \<and> kagentiType \<noteq> KagentiTypeTool then skip
             else if \<not> fg_GlobalEnabled gates then skip
             else if kagentiType = KagentiTypeTool \<and> \<not> fg_InjectTools gates then skip
             else if map_get labels AuthBridgeInjectLabel = AuthBridgeDisabledValue then skip
             else
               let decision = Evaluate (NewPrecedenceEvaluator (Some gates) (Some (pm_GetPlatformConfig m))) labels
               in if \<not> AnyInjected decision then skip
                  else
                    let spireEnabled = sdec_Inject (dec_SpiffeHelper decision)
                    in case assign_service_account (pm_Client m) w namespace crName spireEnabled podSpec of
                         (Some err, podSpec', w') \<Rightarrow> (Inl err, podSpec', w')
                       | (None, podSpec', w') \<Rightarrow>
                           (Inr True,
                            apply_injection (fg_CombinedSidecar gates) decision
                              (choose_builder m w' namespace crName spireEnabled) crName namespace annotations
                              podSpec',
                            w'))"

section \<open>The pieces in terms of adding by name\<close>

definition new_sidecars :: "bool \<Rightarrow> InjectionDecision \<Rightarrow> ContainerBuilder \<Rightarrow> string \<Rightarrow> string \<Rightarrow> Container list" where
  "new_sidecars combined d b crName namespace =
     (let spire = sdec_Inject (dec_SpiffeHelper d); reg = sdec_Inject (dec_ClientRegistration d)
      in if combined
         then (if sdec_Inject (dec_EnvoyProxy d) then [BuildAuthBridgeContainer b crName namespace spire reg] else [])
         else (if sdec_Inject (dec_EnvoyProxy d) then [BuildEnvoyProxyContainerWithSpireOption b spire] else [])
              @ (if spire then [BuildSpiffeHelperContainer b] else [])
              @ (if reg then [BuildClientRegistrationContainerWithSpireOption b crName namespace spire] else []))"

definition new_inits :: "InjectionDecision \<Rightarrow> ContainerBuilder \<Rightarrow> strmap \<Rightarrow> Container list" where
  "new_inits d b annotations =
     (if sdec_Inject (dec_ProxyInit d)
      then [BuildProxyInitContainer b (map_get annotations OutboundPortsExcludeAnnotation)
              (map_get annotations InboundPortsExcludeAnnotation)]
      else [])"

lemma built_names [simp]:
  "ctr_Name (BuildAuthBridgeContainer b n ns spire reg) = AuthBridgeContainerName"
  "ctr_Name (BuildEnvoyProxyContainerWithSpireOption b spire) = EnvoyProxyContainerName"
  "ctr_Name (BuildSpiffeHelperContainer b) = SpiffeHelperContainerName"
  "ctr_Name (BuildClientRegistrationContainerWithSpireOption b n ns spire) = ClientRegistrationContainerName"
  "ctr_Name (BuildProxyInitContainer b out inb) = ProxyInitContainerName"
  by (simp_all add: container_builder_defs Let_def)

text \<open>A guarded append is an addition by name.\<close>

lemma guarded_append:
  assumes "ctr_Name c = n"
  shows "(if P \<and> \<not> containerExists (ps_Containers ps) n then append_container c ps else ps)
     = ps\<lparr>ps_Containers := fold containers.add (if P then [c] else []) (ps_Containers ps)\<rparr>"
  using assms by (simp add: append_container_def containers.add_def)

lemma guarded_append_init:
  "inject_proxy_init d b ann ps =
     ps\<lparr>ps_InitContainers := fold containers.add (new_inits d b ann) (ps_InitContainers ps)\<rparr>"
  by (simp add: inject_proxy_init_def append_init_container_def new_inits_def containers.add_def)

lemma inject_sidecars_eq:
  "inject_sidecars combined d b crName namespace ann ps =
     ps\<lparr>ps_Containers := fold containers.add (new_sidecars combined d b crName namespace) (ps_Containers ps),
        ps_InitContainers := fold containers.add (new_inits d b ann) (ps_InitContainers ps)\<rparr>"
  unfolding inject_sidecars_def new_sidecars_def Let_def guarded_append_init
    built_names [THEN guarded_append]
  by simp

lemma inject_volumes_eq: "inject_volumes vs ps = ps\<lparr>ps_Volumes := fold volumes.add vs (ps_Volumes ps)\<rparr>"
  by (induction vs ps rule: inject_volumes.induct) (simp_all add: volumes.add_def)

lemma ensureFSGroup_simps [simp]:
  "ps_Containers (ensureFSGroup ps) = ps_Containers ps"
  "ps_InitContainers (ensureFSGroup ps) = ps_InitContainers ps"
  "ps_Volumes (ensureFSGroup ps) = ps_Volumes ps"
  "ps_ServiceAccountName (ensureFSGroup ps) = ps_ServiceAccountName ps"
  by (simp_all add: ensureFSGroup_def Let_def)

lemma ensureFSGroup_idem [simp]: "ensureFSGroup (ensureFSGroup ps) = ensureFSGroup ps"
  by (cases ps) (auto simp: ensureFSGroup_def Let_def split: option.splits)

text \<open>The credential mounts as a function of the annotation.\<close>

definition cred_name :: "strmap \<Rightarrow> string" where
  "cred_name ann = TrimSpace (map_get ann AnnotationKeycloakClientSecretName)"

definition cred :: "strmap \<Rightarrow> Container \<Rightarrow> Container" where
  "cred ann c = (if cred_name ann = [] then c else mount_credentials (cred_name ann) c)"

definition cred_volumes :: "strmap \<Rightarrow> Volume list" where
  "cred_volumes ann = (if cred_name ann = [] then []
     else [volume (cred_name ann) (SecretVolume (cred_name ann) (Some False))])"

lemma apply_credentials_eq:
  "ApplyKeycloakClientCredentialsSecretVolumes ps ann =
     ps\<lparr>ps_Containers := map (cred ann) (ps_Containers ps),
        ps_Volumes := fold volumes.add (cred_volumes ann) (ps_Volumes ps)\<rparr>"
  by (cases ps)
    (simp add: ApplyKeycloakClientCredentialsSecretVolumes_def cred_def [abs_def] cred_volumes_def cred_name_def
      keycloakClientCredentialsVolumeName_def volumes.add_def Let_def)

lemma cred_simps [simp]:
  "ctr_Name (cred ann c) = ctr_Name c" "cred ann (cred ann c) = cred ann c"
  "mounts_added (cred_name ann) c (cred ann c)"
  by (simp_all add: cred_def mount_credentials_extends)

lemma mounts_added_fields:
  "mounts_added v c d \<Longrightarrow> ctr_SecurityContext d = ctr_SecurityContext c \<and> ctr_Env d = ctr_Env c
     \<and> vm_Name ` set (ctr_VolumeMounts d) \<subseteq> insert v (vm_Name ` set (ctr_VolumeMounts c))"
  by (auto simp: mounts_added_def list_all_iff)

lemma apply_injection_fields:
  assumes q: "q = apply_injection combined d bv crName namespace ann ps"
  shows "ps_Containers q = map (cred ann)
        (fold containers.add (new_sidecars combined d (fst bv) crName namespace) (ps_Containers ps))"
    and "ps_InitContainers q = fold containers.add (new_inits d (fst bv) ann) (ps_InitContainers ps)"
    and "ps_Volumes q = fold volumes.add (snd bv @ cred_volumes ann) (ps_Volumes ps)"
    and "ps_ServiceAccountName q = ps_ServiceAccountName ps"
    and "ps_SecurityContext q = ps_SecurityContext
        (if sdec_Inject (dec_SpiffeHelper d) then ensureFSGroup ps else ps)"
  unfolding q apply_injection_def
  by (simp_all add: Let_def inject_sidecars_eq inject_volumes_eq apply_credentials_eq)
    (simp add: ensureFSGroup_def Let_def)

section \<open>When a pod is injected\<close>

definition decision_for :: "('w, 'o) PodMutator \<Rightarrow> strmap \<Rightarrow> InjectionDecision" where
  "decision_for m labels =
     Evaluate (NewPrecedenceEvaluator (Some (pm_GetFeatureGates m)) (Some (pm_GetPlatformConfig m))) labels"

text \<open>The documented conditions: the workload is an agent, or a tool where tools are injected; injection is
  on globally; the workload did not opt out; and there is at least one sidecar to inject.\<close>

definition eligible :: "FeatureGates \<Rightarrow> strmap \<Rightarrow> bool" where
  "eligible gates labels \<longleftrightarrow>
     (labels ''kagenti.io/type'' = Some ''agent''
       \<or> labels ''kagenti.io/type'' = Some ''tool'' \<and> fg_InjectTools gates)
     \<and> fg_GlobalEnabled gates \<and> labels ''kagenti.io/inject'' \<noteq> Some ''disabled''
     \<and> (fg_EnvoyProxy gates \<and> labels ''kagenti.io/envoy-proxy-inject'' \<noteq> Some ''false''
       \<or> fg_SpiffeHelper gates \<and> labels ''kagenti.io/spiffe-helper-inject'' \<noteq> Some ''false''
       \<or> fg_ClientRegistration gates \<and> labels ''kagenti.io/client-registration-inject'' = Some ''true'')"

lemma map_get_eq_iff: "v \<noteq> [] \<Longrightarrow> map_get m k = v \<longleftrightarrow> m k = Some v"
  by (cases "m k") simp_all

lemma AnyInjected_decision:
  "AnyInjected (decision_for m labels) \<longleftrightarrow>
     fg_EnvoyProxy (pm_GetFeatureGates m) \<and> labels ''kagenti.io/envoy-proxy-inject'' \<noteq> Some ''false''
     \<or> fg_SpiffeHelper (pm_GetFeatureGates m) \<and> labels ''kagenti.io/spiffe-helper-inject'' \<noteq> Some ''false''
     \<or> fg_ClientRegistration (pm_GetFeatureGates m)
        \<and> labels ''kagenti.io/client-registration-inject'' = Some ''true''"
  by (simp add: decision_for_def AnyInjected_iff NewPrecedenceEvaluator_def const_defs map_get_eq_iff)

lemma InjectAuthBridge_eq:
  "InjectAuthBridge m w ps namespace crName labels ann =
     (if \<not> eligible (pm_GetFeatureGates m) labels then (Inr False, ps, w)
      else case assign_service_account (pm_Client m) w namespace crName
                  (sdec_Inject (dec_SpiffeHelper (decision_for m labels))) ps of
             (Some err, ps', w') \<Rightarrow> (Inl err, ps', w')
           | (None, ps', w') \<Rightarrow>
               (Inr True,
                apply_injection (fg_CombinedSidecar (pm_GetFeatureGates m)) (decision_for m labels)
                  (choose_builder m w' namespace crName (sdec_Inject (dec_SpiffeHelper (decision_for m labels))))
                  crName namespace ann ps', w'))"
  using AnyInjected_decision [of m labels]
  by (cases "labels ''kagenti.io/type''")
    (auto simp: InjectAuthBridge_def eligible_def Let_def decision_for_def [symmetric] const_defs
      map_get_eq_iff)

lemma assign_service_account_cases:
  "assign_service_account c w namespace crName spire ps = (r, ps', w') \<Longrightarrow>
     (case r of
        Some err \<Rightarrow> ps' = ps \<and> spire \<and> ps_ServiceAccountName ps \<in> {[], ''default''}
          \<and> (\<exists>e. ensureServiceAccount c w namespace crName = (Some e, w'))
      | None \<Rightarrow> if spire \<and> ps_ServiceAccountName ps \<in> {[], ''default''}
                then ps' = ps\<lparr>ps_ServiceAccountName := crName\<rparr>
                  \<and> ensureServiceAccount c w namespace crName = (None, w')
                else ps' = ps \<and> w' = w)"
  by (auto simp: assign_service_account_def split: if_splits prod.splits option.splits)

lemma inject_ineligible:
  "\<not> eligible (pm_GetFeatureGates m) labels \<Longrightarrow>
     InjectAuthBridge m w ps namespace crName labels ann = (Inr False, ps, w)"
  by (simp add: InjectAuthBridge_eq)

lemma inject_eligible:
  "eligible (pm_GetFeatureGates m) labels \<Longrightarrow>
     fst (InjectAuthBridge m w ps namespace crName labels ann) \<noteq> Inr False"
  by (auto simp: InjectAuthBridge_eq split: prod.splits option.splits)

text \<open>C6 (inject_iff_eligible). A pod is considered for injection exactly when the conditions that the code
  tests hold: its type is agent, or tool where tools are injected, the global gate is on, the label
  \<open>kagenti.io/inject\<close> is not \<open>disabled\<close>, and at least one sidecar is decided for. Any other value of this label
  and the label \<open>kagenti.io/spire\<close> play no role, although documents of the repository describe an opt-in by
  the former and a gate by the latter; which namespaces are served is decided by the registration of the
  webhook. If the conditions do not hold, the mutator answers that nothing was mutated, leaves the pod as it
  is and makes no change to the cluster.\<close>

theorem inject_iff_eligible:
  "if eligible (pm_GetFeatureGates m) labels
   then fst (InjectAuthBridge m w ps namespace crName labels ann) \<noteq> Inr False
   else InjectAuthBridge m w ps namespace crName labels ann = (Inr False, ps, w)"
  by (simp add: inject_ineligible inject_eligible)

text \<open>A demonstration: an agent pod with one container, under the default gates.\<close>

definition demo_mutator :: "(unit, unit) PodMutator" where
  "demo_mutator = NewPodMutator demo_client True CompiledDefaults DefaultFeatureGates"

definition demo_app :: Container where
  "demo_app = \<lparr>ctr_Name = ''app'', ctr_Image = ''img'', ctr_ImagePullPolicy = [], ctr_Command = [],
     ctr_Resources = \<lparr>rr_Requests = None, rr_Limits = None\<rparr>, ctr_Ports = [], ctr_Env = [],
     ctr_VolumeMounts = [mount ''shared-data'' ''/creds'' True], ctr_SecurityContext = None\<rparr>"

definition demo_spec :: PodSpec where
  "demo_spec = \<lparr>ps_Containers = [demo_app], ps_InitContainers = [],
     ps_Volumes = [volume ''shared-data'' EmptyDir],
     ps_ServiceAccountName = [], ps_SecurityContext = None\<rparr>"

definition demo_labels :: strmap where
  "demo_labels = [''kagenti.io/type'' \<mapsto> ''agent'']"

lemma demo_eligible: "eligible (pm_GetFeatureGates demo_mutator) demo_labels"
  by (simp add: eligible_def demo_mutator_def NewPodMutator_def DefaultFeatureGates_def demo_labels_def)

lemma demo_decision:
  "sdec_Inject (dec_EnvoyProxy (decision_for demo_mutator demo_labels))"
  "sdec_Inject (dec_SpiffeHelper (decision_for demo_mutator demo_labels))"
  "\<not> sdec_Inject (dec_ClientRegistration (decision_for demo_mutator demo_labels))"
  by (simp_all add: decision_for_def Evaluate_def NewPrecedenceEvaluator_def evaluateSidecar_def Let_def
      evaluateClientRegistration_def demo_mutator_def NewPodMutator_def DefaultFeatureGates_def demo_labels_def
      const_defs map_get_def)

lemma demo_gates: "fg_CombinedSidecar (pm_GetFeatureGates demo_mutator) = False"
  by (simp add: demo_mutator_def NewPodMutator_def DefaultFeatureGates_def)

lemma demo_inject:
  obtains q where "InjectAuthBridge demo_mutator () demo_spec ''ns'' ''agent-1'' demo_labels Map.empty = (Inr True, q, ())"
proof -
  have "pm_Client demo_mutator = demo_client" by (simp add: demo_mutator_def NewPodMutator_def)
  then have "\<exists>q. InjectAuthBridge demo_mutator () demo_spec ''ns'' ''agent-1'' demo_labels Map.empty = (Inr True, q, ())"
    by (simp add: InjectAuthBridge_eq demo_eligible demo_decision assign_service_account_def demo_spec_def
        ensureServiceAccount_def demo_client_def)
  with that show thesis by blast
qed

text \<open>The mutator fails only because the service account that SPIRE needs could not be
  ensured, and then the pod is unchanged.\<close>

theorem inject_failure:
  assumes "InjectAuthBridge m w ps namespace crName labels ann = (Inl err, q, w')"
  shows "q = ps \<and> eligible (pm_GetFeatureGates m) labels
    \<and> sdec_Inject (dec_SpiffeHelper (decision_for m labels)) \<and> ps_ServiceAccountName ps \<in> {[], ''default''}
    \<and> (\<exists>e. ensureServiceAccount (pm_Client m) w namespace crName = (Some e, w'))"
proof -
  obtain r ps' w'' where a: "assign_service_account (pm_Client m) w namespace crName
      (sdec_Inject (dec_SpiffeHelper (decision_for m labels))) ps = (r, ps', w'')"
    by (metis prod_cases3)
  from assms a have "eligible (pm_GetFeatureGates m) labels" "r \<noteq> None" "ps' = q" "w'' = w'"
    by (auto simp: InjectAuthBridge_eq split: if_splits option.splits)
  with assign_service_account_cases [OF a] show ?thesis by (auto split: option.splits)
qed

definition demo_denied :: "(unit, unit) PodMutator" where
  "demo_denied = demo_mutator\<lparr>pm_Client := demo_client\<lparr>CreateServiceAccount :=
     (\<lambda>w ns n l. (Some (ApiError ''denied''), w))\<rparr>\<rparr>"

theorem inject_failure_witness:
  "\<exists>err q w'. InjectAuthBridge demo_denied () demo_spec ''ns'' ''agent-1'' demo_labels Map.empty = (Inl err, q, w')
     \<and> q = demo_spec"
proof -
  have d: "pm_GetFeatureGates demo_denied = pm_GetFeatureGates demo_mutator"
    "decision_for demo_denied demo_labels = decision_for demo_mutator demo_labels"
    by (simp_all add: decision_for_def demo_denied_def)
  have "ensureServiceAccount (pm_Client demo_denied) () ''ns'' ''agent-1'' =
      (Some ''failed to create ServiceAccount ns/agent-1: denied'', ())"
    by (simp add: ensureServiceAccount_def demo_denied_def)
  then obtain err q w' where
    r: "InjectAuthBridge demo_denied () demo_spec ''ns'' ''agent-1'' demo_labels Map.empty = (Inl err, q, w')"
    using demo_eligible
    by (simp add: InjectAuthBridge_eq d demo_decision assign_service_account_def demo_spec_def)
  with inject_failure [OF r] show ?thesis by blast
qed

text \<open>The label kagenti.io/spire has no influence on the mutator, whatever its value:
  a workload labelled kagenti.io/spire=disabled is treated like one without the label.\<close>

theorem spire_label_ignored:
  "InjectAuthBridge m w ps namespace crName (labels(''kagenti.io/spire'' := v)) ann =
     InjectAuthBridge m w ps namespace crName labels ann"
proof -
  have "map_get (labels(''kagenti.io/spire'' := v)) k = map_get labels k" if "k \<noteq> ''kagenti.io/spire''" for k
    using that by (simp add: map_get_def)
  then have d: "decision_for m (labels(''kagenti.io/spire'' := v)) = decision_for m labels"
    by (simp add: decision_for_def Evaluate_def const_defs)
  have e: "eligible gates (labels(''kagenti.io/spire'' := v)) = eligible gates labels" for gates
    by (simp add: eligible_def)
  show ?thesis unfolding InjectAuthBridge_eq d e ..
qed

section \<open>What a successful injection does\<close>

text \<open>The service account of the injected pod, and the builder and volumes used.\<close>

definition account_name :: "('w, 'o) PodMutator \<Rightarrow> strmap \<Rightarrow> string \<Rightarrow> PodSpec \<Rightarrow> string" where
  "account_name m labels crName ps =
     (if sdec_Inject (dec_SpiffeHelper (decision_for m labels)) \<and> ps_ServiceAccountName ps \<in> {[], ''default''}
      then crName else ps_ServiceAccountName ps)"

lemma same_account [simp]: "ps\<lparr>ps_ServiceAccountName := ps_ServiceAccountName ps\<rparr> = ps"
  by simp

lemma inject_success:
  assumes "InjectAuthBridge m w ps namespace crName labels ann = (Inr True, q, w')"
  obtains bv where
    "bv = choose_builder m w' namespace crName (sdec_Inject (dec_SpiffeHelper (decision_for m labels)))"
    "q = apply_injection (fg_CombinedSidecar (pm_GetFeatureGates m)) (decision_for m labels) bv crName namespace
           ann (ps\<lparr>ps_ServiceAccountName := account_name m labels crName ps\<rparr>)"
    "eligible (pm_GetFeatureGates m) labels"
proof -
  obtain r ps' w'' where a: "assign_service_account (pm_Client m) w namespace crName
      (sdec_Inject (dec_SpiffeHelper (decision_for m labels))) ps = (r, ps', w'')"
    by (metis prod_cases3)
  from assms a have *: "eligible (pm_GetFeatureGates m) labels" "r = None" "w'' = w'"
    "q = apply_injection (fg_CombinedSidecar (pm_GetFeatureGates m)) (decision_for m labels)
       (choose_builder m w' namespace crName (sdec_Inject (dec_SpiffeHelper (decision_for m labels))))
       crName namespace ann ps'"
    by (auto simp: InjectAuthBridge_eq split: if_splits option.splits)
  have "ps' = ps\<lparr>ps_ServiceAccountName := account_name m labels crName ps\<rparr>"
    using assign_service_account_cases [OF a] *(2) by (auto simp: account_name_def split: if_splits)
  with that [OF refl _ *(1)] *(4) show thesis by simp
qed

subsection \<open>It only adds\<close>

lemma list_all2_mounts_refl [simp]: "list_all2 (mounts_added v) cs (map (cred ann) cs) \<longleftrightarrow>
    (\<forall>c\<in>set cs. mounts_added v c (cred ann c))"
  by (induction cs) auto

text \<open>The file system group a pod specification asks for.\<close>

definition fs_group :: "PodSpec \<Rightarrow> int64 option" where
  "fs_group ps = (case ps_SecurityContext ps of None \<Rightarrow> None | Some sc \<Rightarrow> psc_FSGroup sc)"

lemma fs_group_ensure: "fs_group (ensureFSGroup ps) = (case fs_group ps of None \<Rightarrow> Some 0 | Some g \<Rightarrow> Some g)"
  by (auto simp: fs_group_def ensureFSGroup_def SharedVolumesFSGroup_def Let_def split: option.splits)

text \<open>C5 (inject_only_adds). A successful injection never removes, reorders or rewrites what the workload's
  author wrote: the pod's own containers come first and in order, changed only by appended mounts of the
  operator's credentials; its init containers and volumes are prefixes of the new ones; a service account
  other than the default one and a file system group are kept.\<close>

theorem inject_only_adds:
  assumes "InjectAuthBridge m w ps namespace crName labels ann = (Inr True, q, w')"
  shows "list_all2 (mounts_added (cred_name ann)) (ps_Containers ps)
           (take (length (ps_Containers ps)) (ps_Containers q))
    \<and> take (length (ps_InitContainers ps)) (ps_InitContainers q) = ps_InitContainers ps
    \<and> take (length (ps_Volumes ps)) (ps_Volumes q) = ps_Volumes ps
    \<and> ps_ServiceAccountName q = (if sdec_Inject (dec_SpiffeHelper (decision_for m labels))
          \<and> ps_ServiceAccountName ps \<in> {[], ''default''} then crName else ps_ServiceAccountName ps)
    \<and> fs_group q = (case fs_group ps of
          Some g \<Rightarrow> Some g
        | None \<Rightarrow> if sdec_Inject (dec_SpiffeHelper (decision_for m labels)) then Some 0 else None)"
proof (rule inject_success [OF assms])
  fix bv
  let ?d = "decision_for m labels" and ?comb = "fg_CombinedSidecar (pm_GetFeatureGates m)"
  assume q: "q = apply_injection ?comb ?d bv crName namespace ann
      (ps\<lparr>ps_ServiceAccountName := account_name m labels crName ps\<rparr>)"
  note f = apply_injection_fields [OF q]
  obtain new where new: "fold containers.add (new_sidecars ?comb ?d (fst bv) crName namespace) (ps_Containers ps)
      = ps_Containers ps @ new" using containers.fold_prefix by blast
  have "list_all2 (mounts_added (cred_name ann)) (ps_Containers ps)
      (take (length (ps_Containers ps)) (ps_Containers q))"
    by (simp add: f(1) new)
  moreover have "take (length (ps_InitContainers ps)) (ps_InitContainers q) = ps_InitContainers ps"
    using containers.fold_prefix [of "new_inits ?d (fst bv) ann" "ps_InitContainers ps"]
    by (auto simp: f(2))
  moreover have "take (length (ps_Volumes ps)) (ps_Volumes q) = ps_Volumes ps"
    using volumes.fold_prefix [of "snd bv @ cred_volumes ann" "ps_Volumes ps"]
    by (auto simp: f(3) simp del: fold_append)
  moreover have "fs_group q = fs_group (if sdec_Inject (dec_SpiffeHelper ?d) then ensureFSGroup ps else ps)"
    using f(5) by (simp add: fs_group_def ensureFSGroup_def Let_def)
  ultimately show ?thesis
    using f(4) by (simp add: fs_group_ensure account_name_def split: option.split)
qed

theorem inject_only_adds_witness:
  "\<exists>q. InjectAuthBridge demo_mutator () demo_spec ''ns'' ''agent-1'' demo_labels Map.empty = (Inr True, q, ())
     \<and> ps_ServiceAccountName q = ''agent-1'' \<and> fs_group q = Some 0"
proof -
  obtain q where q: "InjectAuthBridge demo_mutator () demo_spec ''ns'' ''agent-1'' demo_labels Map.empty = (Inr True, q, ())"
    by (rule demo_inject)
  have "fs_group demo_spec = None" "ps_ServiceAccountName demo_spec = []"
    by (simp_all add: fs_group_def demo_spec_def)
  with inject_only_adds [OF q] q demo_decision show ?thesis by simp
qed

subsection \<open>Which containers a pod ends up with\<close>

definition sidecar_names :: "bool \<Rightarrow> InjectionDecision \<Rightarrow> string set" where
  "sidecar_names combined d =
     (if combined then (if sdec_Inject (dec_EnvoyProxy d) then {''authbridge''} else {})
      else (if sdec_Inject (dec_EnvoyProxy d) then {''envoy-proxy''} else {})
         \<union> (if sdec_Inject (dec_SpiffeHelper d) then {''spiffe-helper''} else {})
         \<union> (if sdec_Inject (dec_ClientRegistration d) then {''kagenti-client-registration''} else {}))"

lemma new_sidecars_names: "ctr_Name ` set (new_sidecars combined d b crName namespace) = sidecar_names combined d"
  by (auto simp: new_sidecars_def sidecar_names_def const_defs Let_def)

lemma new_inits_names:
  "ctr_Name ` set (new_inits d b ann) = (if sdec_Inject (dec_ProxyInit d) then {''proxy-init''} else {})"
  by (simp add: new_inits_def const_defs)

lemma names_cred [simp]: "ctr_Name ` cred ann ` A = ctr_Name ` A" "map ctr_Name (map (cred ann) cs) = map ctr_Name cs"
  by (auto simp: image_iff)

text \<open>C8 (inject_containers). After a successful injection the pod has exactly the containers it had and those
  the decision calls for: one combined container in the combined mode (when envoy-proxy is injected), else
  one per injected sidecar, and proxy-init exactly with envoy-proxy; and if the container names of the pod
  were unique, as the API server requires, they still are.\<close>

theorem inject_containers:
  assumes "InjectAuthBridge m w ps namespace crName labels ann = (Inr True, q, w')"
  shows "ctr_Name ` set (ps_Containers q) = ctr_Name ` set (ps_Containers ps)
      \<union> sidecar_names (fg_CombinedSidecar (pm_GetFeatureGates m)) (decision_for m labels)
    \<and> ctr_Name ` set (ps_InitContainers q) = ctr_Name ` set (ps_InitContainers ps)
      \<union> (if sdec_Inject (dec_EnvoyProxy (decision_for m labels)) then {''proxy-init''} else {})
    \<and> (distinct (map ctr_Name (ps_Containers ps)) \<longrightarrow> distinct (map ctr_Name (ps_Containers q)))
    \<and> (distinct (map ctr_Name (ps_InitContainers ps)) \<longrightarrow> distinct (map ctr_Name (ps_InitContainers q)))
    \<and> (distinct (map vol_Name (ps_Volumes ps)) \<longrightarrow> distinct (map vol_Name (ps_Volumes q)))"
proof (rule inject_success [OF assms])
  fix bv
  let ?d = "decision_for m labels"
  assume q: "q = apply_injection (fg_CombinedSidecar (pm_GetFeatureGates m)) ?d bv crName namespace ann
      (ps\<lparr>ps_ServiceAccountName := account_name m labels crName ps\<rparr>)"
  note f = apply_injection_fields [OF q, simplified]
  have init: "sdec_Inject (dec_ProxyInit ?d) = sdec_Inject (dec_EnvoyProxy ?d)"
    by (simp add: decision_for_def)
  show ?thesis
    unfolding f(1-3) names_cred set_map containers.fold_names new_sidecars_names new_inits_names init
    using containers.fold_distinct volumes.fold_distinct by blast
qed

theorem inject_containers_witness:
  "\<exists>q. InjectAuthBridge demo_mutator () demo_spec ''ns'' ''agent-1'' demo_labels Map.empty = (Inr True, q, ())
     \<and> ctr_Name ` set (ps_Containers q) = {''app'', ''envoy-proxy'', ''spiffe-helper''}
     \<and> ctr_Name ` set (ps_InitContainers q) = {''proxy-init''}"
proof -
  obtain q where q: "InjectAuthBridge demo_mutator () demo_spec ''ns'' ''agent-1'' demo_labels Map.empty = (Inr True, q, ())"
    by (rule demo_inject)
  have "sidecar_names False (decision_for demo_mutator demo_labels) = {''envoy-proxy'', ''spiffe-helper''}"
    by (auto simp: sidecar_names_def demo_decision)
  with inject_containers [OF q] q demo_decision(1) demo_gates show ?thesis
    by (auto simp: demo_spec_def demo_app_def)
qed

subsection \<open>Mounts refer to volumes\<close>

text \<open>A pod is well formed when every volume mount names a declared volume; the API server rejects others.\<close>

definition mounts_declared :: "PodSpec \<Rightarrow> bool" where
  "mounts_declared ps \<longleftrightarrow>
     (\<forall>c\<in>set (ps_Containers ps) \<union> set (ps_InitContainers ps).
        vm_Name ` set (ctr_VolumeMounts c) \<subseteq> vol_Name ` set (ps_Volumes ps))"

definition required_names :: "bool \<Rightarrow> string set" where
  "required_names spire = {''shared-data'', ''envoy-config'', ''authproxy-routes''}
     \<union> (if spire then {''spire-agent-socket'', ''spiffe-helper-config'', ''svid-output''} else {})"

lemma choose_builder_volumes:
  "vol_Name ` set (snd (choose_builder m w namespace crName spire)) = required_names spire"
  by (auto simp: choose_builder_def BuildResolvedVolumes_def BuildRequiredVolumes_def
      BuildRequiredVolumesNoSpire_def required_names_def Let_def)

lemma new_mounts:
  "c \<in> set (new_sidecars combined d b crName namespace) \<Longrightarrow>
     vm_Name ` set (ctr_VolumeMounts c) \<subseteq> required_names (sdec_Inject (dec_SpiffeHelper d))"
  "c \<in> set (new_inits d b ann) \<Longrightarrow> ctr_VolumeMounts c = []"
  by (auto simp: new_sidecars_def new_inits_def container_builder_defs required_names_def Let_def split: if_splits)

lemma cred_mounts:
  "vm_Name ` set (ctr_VolumeMounts (cred ann c)) \<subseteq> vm_Name ` set (ctr_VolumeMounts c) \<union> vol_Name ` set (cred_volumes ann)"
proof (cases "cred_name ann = []")
  case False
  then have "vol_Name ` set (cred_volumes ann) = {cred_name ann}" by (simp add: cred_volumes_def)
  then show ?thesis using mounts_added_fields [OF cred_simps(3), of ann c] by auto
qed (simp add: cred_def)

text \<open>C3 (inject_mounts_declared). Injection keeps the pod well formed: if every mount of the pod names a
  declared volume, the same holds after the injection, for the pod's own and for the injected containers,
  in every combination of feature gates, labels, annotations and configuration modes.\<close>

theorem inject_mounts_declared:
  assumes "InjectAuthBridge m w ps namespace crName labels ann = (r, q, w')" and "mounts_declared ps"
  shows "mounts_declared q"
proof (cases "r = Inr True")
  case True
  with assms(1) have "InjectAuthBridge m w ps namespace crName labels ann = (Inr True, q, w')" by simp
  then show ?thesis
  proof (rule inject_success)
    fix bv
    let ?d = "decision_for m labels" and ?comb = "fg_CombinedSidecar (pm_GetFeatureGates m)"
    let ?ps' = "ps\<lparr>ps_ServiceAccountName := account_name m labels crName ps\<rparr>"
    assume bv: "bv = choose_builder m w' namespace crName (sdec_Inject (dec_SpiffeHelper ?d))"
      and q: "q = apply_injection ?comb ?d bv crName namespace ann ?ps'"
    note f = apply_injection_fields [OF q]
    have vols: "vol_Name ` set (ps_Volumes q) = required_names (sdec_Inject (dec_SpiffeHelper ?d))
        \<union> vol_Name ` set (cred_volumes ann) \<union> vol_Name ` set (ps_Volumes ?ps')"
      unfolding f(3) volumes.fold_names set_append image_Un bv choose_builder_volumes by blast
    have decl: "mounts_declared ?ps'" using assms(2) by (simp add: mounts_declared_def)
    have "vm_Name ` set (ctr_VolumeMounts c) \<subseteq> vol_Name ` set (ps_Volumes q)"
      if "c \<in> set (fold containers.add (new_sidecars ?comb ?d (fst bv) crName namespace) (ps_Containers ?ps'))" for c
      using containers.fold_new [OF that] new_mounts(1) decl unfolding vols mounts_declared_def by blast
    then have "vm_Name ` set (ctr_VolumeMounts (cred ann c)) \<subseteq> vol_Name ` set (ps_Volumes q)"
      if "c \<in> set (fold containers.add (new_sidecars ?comb ?d (fst bv) crName namespace) (ps_Containers ?ps'))" for c
      using that cred_mounts [of ann c] unfolding vols by blast
    moreover have "vm_Name ` set (ctr_VolumeMounts c) \<subseteq> vol_Name ` set (ps_Volumes q)"
      if "c \<in> set (ps_InitContainers q)" for c
    proof -
      from that consider "c \<in> set (ps_InitContainers ?ps')" | "c \<in> set (new_inits ?d (fst bv) ann)"
        unfolding f(2) using containers.fold_new by blast
      then show ?thesis
        by cases (use decl new_mounts(2) vols in \<open>auto simp: mounts_declared_def\<close>)
    qed
    ultimately show ?thesis unfolding mounts_declared_def ball_Un f(1) by simp
  qed
next
  case False
  then have "q = ps"
    using assms(1)
    by (auto simp: InjectAuthBridge_eq split: if_splits prod.splits option.splits
        dest!: assign_service_account_cases)
  with assms(2) show ?thesis by simp
qed

theorem inject_mounts_declared_witness:
  "\<exists>q. InjectAuthBridge demo_mutator () demo_spec ''ns'' ''agent-1'' demo_labels Map.empty = (Inr True, q, ())
     \<and> mounts_declared q"
proof -
  obtain q where q: "InjectAuthBridge demo_mutator () demo_spec ''ns'' ''agent-1'' demo_labels Map.empty = (Inr True, q, ())"
    by (rule demo_inject)
  have "mounts_declared demo_spec" by (simp add: mounts_declared_def demo_spec_def demo_app_def)
  with inject_mounts_declared [OF q] q show ?thesis by blast
qed

subsection \<open>Injecting twice\<close>

lemma decision_for_cong: "pm_GetFeatureGates m = pm_GetFeatureGates m' \<Longrightarrow> decision_for m labels = decision_for m' labels"
  by (simp add: decision_for_def NewPrecedenceEvaluator_def)

lemma apply_injection_again:
  assumes q: "q = apply_injection combined d bv crName namespace ann ps"
    and vols: "vol_Name ` set (snd bv') \<subseteq> vol_Name ` set (snd bv)"
  shows "apply_injection combined d bv' crName namespace ann q = q"
proof -
  note f = apply_injection_fields [OF q]
  note g = apply_injection_fields [OF refl, of combined d bv' crName namespace ann q]
  have "fold containers.add (new_sidecars combined d (fst bv') crName namespace) (ps_Containers q) = ps_Containers q"
    by (rule containers.fold_noop) (simp only: f(1) set_map names_cred containers.fold_names new_sidecars_names Un_upper1)
  then have c: "map (cred ann) (fold containers.add (new_sidecars combined d (fst bv') crName namespace) (ps_Containers q))
      = ps_Containers q"
    by (simp add: f(1))
  have i: "fold containers.add (new_inits d (fst bv') ann) (ps_InitContainers q) = ps_InitContainers q"
    by (rule containers.fold_noop) (simp only: f(2) containers.fold_names new_inits_names Un_upper1)
  have v: "fold volumes.add (snd bv' @ cred_volumes ann) (ps_Volumes q) = ps_Volumes q"
    by (rule volumes.fold_noop) (use vols in \<open>auto simp only: f(3) volumes.fold_names set_append image_Un\<close>)
  have s: "ps_SecurityContext (if sdec_Inject (dec_SpiffeHelper d) then ensureFSGroup q else q) = ps_SecurityContext q"
    using f(5) by (auto simp: ensureFSGroup_def Let_def split: option.splits)
  show ?thesis
    by (rule PodSpec.equality) (simp_all only: g c i v s, simp_all)
qed

text \<open>C7 (inject_idempotent). Injecting an injected pod again changes nothing, whatever happened to the cluster
  and to the platform configuration in between, as long as the feature gates are the same and the workload
  has a name of its own; in particular no service account is created again.\<close>

theorem inject_idempotent:
  assumes first: "InjectAuthBridge m w ps namespace crName labels ann = (Inr True, q, w1)"
    and gates: "pm_GetFeatureGates m' = pm_GetFeatureGates m"
    and name: "crName \<notin> {[], ''default''}"
  shows "InjectAuthBridge m' w2 q namespace crName labels ann = (Inr True, q, w2)"
proof (rule inject_success [OF first])
  fix bv
  let ?d = "decision_for m labels"
  assume bv: "bv = choose_builder m w1 namespace crName (sdec_Inject (dec_SpiffeHelper ?d))"
    and q: "q = apply_injection (fg_CombinedSidecar (pm_GetFeatureGates m)) ?d bv crName namespace ann
      (ps\<lparr>ps_ServiceAccountName := account_name m labels crName ps\<rparr>)"
    and el: "eligible (pm_GetFeatureGates m) labels"
  have "assign_service_account (pm_Client m') w2 namespace crName (sdec_Inject (dec_SpiffeHelper ?d)) q = (None, q, w2)"
    using apply_injection_fields(4) [OF q] name by (auto simp: assign_service_account_def account_name_def)
  moreover have "apply_injection (fg_CombinedSidecar (pm_GetFeatureGates m)) ?d
      (choose_builder m' w2 namespace crName (sdec_Inject (dec_SpiffeHelper ?d))) crName namespace ann q = q"
    by (rule apply_injection_again [OF q]) (simp add: bv choose_builder_volumes)
  ultimately show ?thesis
    using el decision_for_cong [OF gates] by (simp add: InjectAuthBridge_eq gates)
qed

theorem inject_idempotent_witness:
  "\<exists>q. InjectAuthBridge demo_mutator () demo_spec ''ns'' ''agent-1'' demo_labels Map.empty = (Inr True, q, ())
     \<and> InjectAuthBridge demo_mutator () q ''ns'' ''agent-1'' demo_labels Map.empty = (Inr True, q, ())"
proof -
  obtain q where q: "InjectAuthBridge demo_mutator () demo_spec ''ns'' ''agent-1'' demo_labels Map.empty = (Inr True, q, ())"
    by (rule demo_inject)
  from inject_idempotent [OF q refl, of "()"] q show ?thesis by auto
qed

subsection \<open>Privileges of what is injected\<close>

definition hardened :: "Container \<Rightarrow> bool" where
  "hardened c \<longleftrightarrow>
     (case ctr_SecurityContext c of
        None \<Rightarrow> False
      | Some sc \<Rightarrow> sc_RunAsNonRoot sc = Some True \<and> sc_AllowPrivilegeEscalation sc = Some False
          \<and> sc_Privileged sc \<noteq> Some True \<and> sc_Capabilities sc = None)"

definition network_admin_only :: "Container \<Rightarrow> bool" where
  "network_admin_only c \<longleftrightarrow>
     (case ctr_SecurityContext c of
        None \<Rightarrow> False
      | Some sc \<Rightarrow> sc_Privileged sc = Some False
          \<and> sc_Capabilities sc = Some \<lparr>cap_Add = [''NET_ADMIN'', ''NET_RAW''], cap_Drop = [''ALL'']\<rparr>)"

lemma new_hardened:
  "c \<in> set (new_sidecars combined d b crName namespace) \<Longrightarrow> hardened (cred ann c)"
  "c \<in> set (new_inits d b ann) \<Longrightarrow> network_admin_only c"
  using mounts_added_fields [OF cred_simps(3), of ann c]
  by (auto simp: new_sidecars_def new_inits_def container_builder_defs hardened_def network_admin_only_def
      non_root_def proxy_user_def Let_def split: if_splits)

text \<open>C25 (inject_privileges). No injected long-running container runs as root, can escalate its privileges or
  has additional capabilities; the only elevated container is the init container that installs the network
  rules, which is not privileged and has the two network capabilities only.\<close>

theorem inject_privileges:
  assumes "InjectAuthBridge m w ps namespace crName labels ann = (Inr True, q, w')"
  shows "list_all hardened (drop (length (ps_Containers ps)) (ps_Containers q))
    \<and> list_all network_admin_only (drop (length (ps_InitContainers ps)) (ps_InitContainers q))"
proof (rule inject_success [OF assms])
  fix bv
  let ?d = "decision_for m labels" and ?comb = "fg_CombinedSidecar (pm_GetFeatureGates m)"
  assume q: "q = apply_injection ?comb ?d bv crName namespace ann
      (ps\<lparr>ps_ServiceAccountName := account_name m labels crName ps\<rparr>)"
  note f = apply_injection_fields [OF q, simplified]
  obtain new where new: "fold containers.add (new_sidecars ?comb ?d (fst bv) crName namespace) (ps_Containers ps)
      = ps_Containers ps @ new" "set new \<subseteq> set (new_sidecars ?comb ?d (fst bv) crName namespace)"
    using containers.fold_suffix by blast
  obtain inits where inits: "fold containers.add (new_inits ?d (fst bv) ann) (ps_InitContainers ps)
      = ps_InitContainers ps @ inits" "set inits \<subseteq> set (new_inits ?d (fst bv) ann)"
    using containers.fold_suffix by blast
  show ?thesis
    unfolding f(1,2) new(1) inits(1) using new(2) inits(2) new_hardened by (auto simp: list_all_iff)
qed

theorem inject_privileges_witness:
  "\<exists>q. InjectAuthBridge demo_mutator () demo_spec ''ns'' ''agent-1'' demo_labels Map.empty = (Inr True, q, ())
     \<and> list_all hardened (tl (ps_Containers q)) \<and> list_all network_admin_only (ps_InitContainers q)"
proof -
  obtain q where q: "InjectAuthBridge demo_mutator () demo_spec ''ns'' ''agent-1'' demo_labels Map.empty = (Inr True, q, ())"
    by (rule demo_inject)
  from inject_privileges [OF q] q show ?thesis
    by (simp add: demo_spec_def drop_Suc)
qed

end
