(* ===== verification/Admission_Webhook.thy ===== *)
theory Admission_Webhook
  imports Pod_Mutator
begin

text \<open>
  The admission handler (\<open>internal/webhook/v1alpha1/authbridge_webhook.go\<close>). The decoder of the request,
  the JSON encoder and the construction of the patch belong to libraries: the first two are operations of
  the record, the patch is a response that holds the original and the mutated object. The webhook server
  with which the handler is registered is the list of its paths and handlers.
\<close>

section \<open>Requests and responses\<close>

record 'raw Request =
  req_Kind :: string
  req_Group :: string
  req_Namespace :: string
  req_Raw :: 'raw

datatype 'raw Response =
    Allowed string
  | Errored int error
  | PatchResponseFromRaw 'raw 'raw

record ('w, 'o, 'raw) AuthBridgeWebhook =
  wh_Mutator :: "('w, 'o) PodMutator"
  wh_Decode :: "'raw \<Rightarrow> error + Pod"
  wh_Marshal :: "Pod \<Rightarrow> error + 'raw"

definition SetupAuthBridgeWebhookWithManager :: "('raw \<Rightarrow> error + Pod) \<Rightarrow> (Pod \<Rightarrow> error + 'raw) \<Rightarrow> ('w, 'o) PodMutator
    \<Rightarrow> (string \<times> ('w, 'o, 'raw) AuthBridgeWebhook) list
    \<Rightarrow> error option \<times> (string \<times> ('w, 'o, 'raw) AuthBridgeWebhook) list" where
  "SetupAuthBridgeWebhookWithManager decode marshal mutator server =
     (None, server @ [(''/mutate-workloads-authbridge'', \<lparr>wh_Mutator = mutator, wh_Decode = decode, wh_Marshal = marshal\<rparr>)])"

definition StatusBadRequest :: int where
  "StatusBadRequest = 400"

definition StatusInternalServerError :: int where
  "StatusInternalServerError = 500"

section \<open>Operations\<close>

definition deriveWorkloadName :: "Pod \<Rightarrow> string" where
  "deriveWorkloadName pod =
     (if pod_GenerateName pod \<noteq> [] then TrimRight (pod_GenerateName pod) (CHR ''-'')
      else if pod_Name pod \<noteq> [] then pod_Name pod
      else pod_UID pod)"

fun any_sidecar :: "Container list \<Rightarrow> bool" where
  "any_sidecar [] = False"
| "any_sidecar (c # cs) =
     (if ctr_Name c = EnvoyProxyContainerName \<or> ctr_Name c = SpiffeHelperContainerName
         \<or> ctr_Name c = ClientRegistrationContainerName \<or> ctr_Name c = AuthBridgeContainerName
      then True else any_sidecar cs)"

fun any_proxy_init :: "Container list \<Rightarrow> bool" where
  "any_proxy_init [] = False"
| "any_proxy_init (c # cs) = (if ctr_Name c = ProxyInitContainerName then True else any_proxy_init cs)"

definition isAlreadyInjected :: "PodSpec \<Rightarrow> bool" where
  "isAlreadyInjected podSpec \<longleftrightarrow> any_sidecar (ps_Containers podSpec) \<or> any_proxy_init (ps_InitContainers podSpec)"

definition Handle :: "('w, 'o, 'raw) AuthBridgeWebhook \<Rightarrow> 'w \<Rightarrow> 'raw Request \<Rightarrow> 'raw Response \<times> 'w" where
  "Handle wh w req =
     (if req_Kind req \<noteq> ''Pod'' \<or> req_Group req \<noteq> [] then (Allowed ''not a Pod'', w)
      else case wh_Decode wh (req_Raw req) of
             Inl err \<Rightarrow> (Errored StatusBadRequest err, w)
           | Inr pod \<Rightarrow>
               if isAlreadyInjected (pod_Spec pod)
               then (if NeedsKeycloakClientCredentialsVolumePatch (pod_Spec pod) (pod_Annotations pod)
                     then (case wh_Marshal wh (pod\<lparr>pod_Spec := ApplyKeycloakClientCredentialsSecretVolumes
                                                    (pod_Spec pod) (pod_Annotations pod)\<rparr>) of
                             Inl err \<Rightarrow> (Errored StatusInternalServerError err, w)
                           | Inr marshaled \<Rightarrow> (PatchResponseFromRaw (req_Raw req) marshaled, w))
                     else (Allowed ''already injected'', w))
               else (case InjectAuthBridge (wh_Mutator wh) w (pod_Spec pod) (req_Namespace req)
                            (deriveWorkloadName pod) (pod_Labels pod) (pod_Annotations pod) of
                       (Inl err, spec, w') \<Rightarrow> (Errored StatusInternalServerError err, w')
                     | (Inr mutated, spec, w') \<Rightarrow>
                         if \<not> mutated then (Allowed ''injection not enabled'', w')
                         else (case wh_Marshal wh (pod\<lparr>pod_Spec := spec\<rparr>) of
                                 Inl err \<Rightarrow> (Errored StatusInternalServerError err, w')
                               | Inr marshaled \<Rightarrow> (PatchResponseFromRaw (req_Raw req) marshaled, w'))))"

section \<open>Already injected pods\<close>

lemma any_sidecar_iff:
  "any_sidecar cs \<longleftrightarrow> ctr_Name ` set cs \<inter>
     {''envoy-proxy'', ''spiffe-helper'', ''kagenti-client-registration'', ''authbridge''} \<noteq> {}"
  by (induction cs) (auto simp: const_defs)

lemma any_proxy_init_iff: "any_proxy_init cs \<longleftrightarrow> ''proxy-init'' \<in> ctr_Name ` set cs"
  by (induction cs) (auto simp: const_defs)

lemma isAlreadyInjected_credentials [simp]:
  "isAlreadyInjected (ApplyKeycloakClientCredentialsSecretVolumes ps ann) = isAlreadyInjected ps"
  by (simp add: isAlreadyInjected_def apply_credentials_eq any_sidecar_iff any_proxy_init_iff image_image)

lemma injected_settled:
  assumes "InjectAuthBridge m w ps namespace crName labels ann = (Inr True, q, w')"
  shows "ApplyKeycloakClientCredentialsSecretVolumes q ann = q"
proof (rule inject_success [OF assms])
  fix bv
  assume q: "q = apply_injection (fg_CombinedSidecar (pm_GetFeatureGates m)) (decision_for m labels) bv crName
      namespace ann (ps\<lparr>ps_ServiceAccountName := account_name m labels crName ps\<rparr>)"
  note f = apply_injection_fields [OF q]
  have "map (cred ann) (ps_Containers q) = ps_Containers q" by (simp add: f(1))
  moreover have "fold volumes.add (cred_volumes ann) (ps_Volumes q) = ps_Volumes q"
    by (rule volumes.fold_noop) (auto simp only: f(3) volumes.fold_names set_append image_Un)
  ultimately show ?thesis by (simp add: apply_credentials_eq)
qed

lemma injected_recognised:
  assumes "InjectAuthBridge m w ps namespace crName labels ann = (Inr True, q, w')"
    and "fg_CombinedSidecar (pm_GetFeatureGates m) \<longrightarrow> sdec_Inject (dec_EnvoyProxy (decision_for m labels))"
  shows "isAlreadyInjected q"
proof (rule inject_success [OF assms(1)])
  fix bv
  let ?d = "decision_for m labels" and ?comb = "fg_CombinedSidecar (pm_GetFeatureGates m)"
  assume q: "q = apply_injection ?comb ?d bv crName
      namespace ann (ps\<lparr>ps_ServiceAccountName := account_name m labels crName ps\<rparr>)"
    and el: "eligible (pm_GetFeatureGates m) labels"
  have "AnyInjected ?d" using el by (simp add: AnyInjected_decision eligible_def)
  then have ne: "sidecar_names ?comb ?d \<inter>
      {''envoy-proxy'', ''spiffe-helper'', ''kagenti-client-registration'', ''authbridge''} \<noteq> {}"
    using assms(2) by (auto simp: sidecar_names_def AnyInjected_def)
  have "sidecar_names ?comb ?d \<subseteq> ctr_Name ` set (ps_Containers q)"
    unfolding apply_injection_fields(1) [OF q] set_map names_cred containers.fold_names new_sidecars_names
    by (rule Un_upper1)
  from Int_mono [OF this order_refl] ne show ?thesis
    unfolding isAlreadyInjected_def any_sidecar_iff by (metis subset_empty)
qed

section \<open>Properties\<close>

text \<open>C4 (handle_reinvocation). Admission is stable under reinvocation: if the webhook patched a pod, then the
  patched pod, sent to the webhook again, is let through as already injected, without another patch and
  without any effect on the cluster. The hypothesis on the gates excludes the one configuration in which
  an injection adds no container: the combined mode for a workload without envoy-proxy.\<close>

theorem handle_reinvocation:
  assumes first: "Handle wh w req = (PatchResponseFromRaw raw raw', w1)"
    and codec: "\<And>pod r. wh_Marshal wh pod = Inr r \<Longrightarrow> wh_Decode wh r = Inr pod"
    and pod: "wh_Decode wh (req_Raw req) = Inr pod"
    and gates: "fg_CombinedSidecar (pm_GetFeatureGates (wh_Mutator wh))
      \<longrightarrow> sdec_Inject (dec_EnvoyProxy (decision_for (wh_Mutator wh) (pod_Labels pod)))"
  shows "Handle wh w2 (req\<lparr>req_Raw := raw'\<rparr>) = (Allowed ''already injected'', w2)"
proof -
  have kind: "req_Kind req = ''Pod''" "req_Group req = []"
    using first by (auto simp: Handle_def split: if_splits)
  have "\<exists>spec. wh_Marshal wh (pod\<lparr>pod_Spec := spec\<rparr>) = Inr raw' \<and> isAlreadyInjected spec
      \<and> ApplyKeycloakClientCredentialsSecretVolumes spec (pod_Annotations pod) = spec"
  proof (cases "isAlreadyInjected (pod_Spec pod)")
    case True
    with first kind pod show ?thesis
      by (auto simp: Handle_def credentials_idem split: if_splits sum.splits
          intro!: exI [of _ "ApplyKeycloakClientCredentialsSecretVolumes (pod_Spec pod) (pod_Annotations pod)"])
  next
    case False
    with first kind pod obtain spec w' where i: "InjectAuthBridge (wh_Mutator wh) w (pod_Spec pod)
        (req_Namespace req) (deriveWorkloadName pod) (pod_Labels pod) (pod_Annotations pod) = (Inr True, spec, w')"
      and "wh_Marshal wh (pod\<lparr>pod_Spec := spec\<rparr>) = Inr raw'"
      by (auto simp: Handle_def split: if_splits sum.splits prod.splits)
    with injected_settled [OF i] injected_recognised [OF i gates] show ?thesis by blast
  qed
  then obtain spec where "wh_Decode wh raw' = Inr (pod\<lparr>pod_Spec := spec\<rparr>)" "isAlreadyInjected spec"
    "\<not> NeedsKeycloakClientCredentialsVolumePatch spec (pod_Annotations pod)"
    using codec by (auto simp: credentials_needed_iff)
  with kind show ?thesis by (simp add: Handle_def)
qed

text \<open>A demonstration in which objects are exchanged without encoding.\<close>

definition demo_pod :: Pod where
  "demo_pod = \<lparr>pod_Name = [], pod_GenerateName = ''agent-1-'', pod_UID = ''u'', pod_Labels = demo_labels,
     pod_Annotations = Map.empty, pod_Spec = demo_spec\<rparr>"

definition demo_request :: "Pod Request" where
  "demo_request = \<lparr>req_Kind = ''Pod'', req_Group = [], req_Namespace = ''ns'', req_Raw = demo_pod\<rparr>"

definition demo_webhook :: "(unit, unit, Pod) AuthBridgeWebhook" where
  "demo_webhook = \<lparr>wh_Mutator = demo_mutator, wh_Decode = Inr, wh_Marshal = Inr\<rparr>"

lemma demo_handle: "\<exists>pod'. Handle demo_webhook () demo_request = (PatchResponseFromRaw demo_pod pod', ())"
proof -
  obtain q where q: "InjectAuthBridge demo_mutator () demo_spec ''ns'' ''agent-1'' demo_labels Map.empty = (Inr True, q, ())"
    by (rule demo_inject)
  have "deriveWorkloadName demo_pod = ''agent-1''"
    by (simp add: deriveWorkloadName_def demo_pod_def TrimRight_def)
  moreover have "\<not> isAlreadyInjected demo_spec"
    by (simp add: isAlreadyInjected_def demo_spec_def demo_app_def const_defs)
  ultimately show ?thesis
    using q by (simp add: Handle_def demo_webhook_def demo_request_def demo_pod_def)
qed

theorem handle_reinvocation_witness:
  "\<exists>pod'. Handle demo_webhook () demo_request = (PatchResponseFromRaw demo_pod pod', ())
     \<and> Handle demo_webhook () (demo_request\<lparr>req_Raw := pod'\<rparr>) = (Allowed ''already injected'', ())"
proof -
  obtain pod' where h: "Handle demo_webhook () demo_request = (PatchResponseFromRaw demo_pod pod', ())"
    using demo_handle by blast
  have "fg_CombinedSidecar (pm_GetFeatureGates (wh_Mutator demo_webhook)) = False"
    using demo_gates by (simp add: demo_webhook_def)
  with handle_reinvocation [OF h, of demo_pod "()"] h show ?thesis
    by (simp add: demo_webhook_def demo_request_def)
qed

text \<open>C21 (handle_patches_iff). For a pod that can be decoded, the webhook answers with a patch exactly when a patch
  is due and the mutated pod can be encoded: the pod was not injected before, is eligible and its service
  account could be ensured, or it was injected before and still lacks the operator's credential mounts. The
  patch leads from the pod of the request to the injected pod, in the first case, or to the pod with the
  mounts, in the second. When no patch is due the pod is let through and nothing changes. The answer is an
  error with status 500 exactly when the service account of an eligible pod cannot be ensured or the
  mutated pod cannot be encoded; no pod is denied for its content.\<close>

theorem handle_patches_iff:
  assumes "req_Kind req = ''Pod''" "req_Group req = []" "wh_Decode wh (req_Raw req) = Inr pod"
  shows "let injected = InjectAuthBridge (wh_Mutator wh) w (pod_Spec pod) (req_Namespace req)
               (deriveWorkloadName pod) (pod_Labels pod) (pod_Annotations pod);
             again = isAlreadyInjected (pod_Spec pod);
             elig = eligible (pm_GetFeatureGates (wh_Mutator wh)) (pod_Labels pod);
             due = (if again then NeedsKeycloakClientCredentialsVolumePatch (pod_Spec pod) (pod_Annotations pod)
                    else elig \<and> is_ok (fst injected));
             mutated = pod\<lparr>pod_Spec := if again
                 then ApplyKeycloakClientCredentialsSecretVolumes (pod_Spec pod) (pod_Annotations pod)
                 else fst (snd injected)\<rparr>
    in case Handle wh w req of
      (PatchResponseFromRaw orig new, w') \<Rightarrow>
        due \<and> orig = req_Raw req \<and> wh_Marshal wh mutated = Inr new \<and> w' = (if again then w else snd (snd injected))
    | (Allowed msg, w') \<Rightarrow> \<not> due \<and> (again \<or> \<not> elig) \<and> w' = w
    | (Errored code err, w') \<Rightarrow>
        code = 500 \<and> (due \<and> wh_Marshal wh mutated = Inl err \<or> \<not> again \<and> elig \<and> fst injected = Inl err)"
proof (cases "isAlreadyInjected (pod_Spec pod)")
  case True
  with assms show ?thesis by (auto simp: Handle_def Let_def StatusInternalServerError_def split: sum.split)
next
  case False
  obtain r q w' where i: "InjectAuthBridge (wh_Mutator wh) w (pod_Spec pod) (req_Namespace req)
      (deriveWorkloadName pod) (pod_Labels pod) (pod_Annotations pod) = (r, q, w')" by (metis prod_cases3)
  show ?thesis
  proof (cases "eligible (pm_GetFeatureGates (wh_Mutator wh)) (pod_Labels pod)")
    case True
    from inject_eligible [OF this, of w "pod_Spec pod" "req_Namespace req" "deriveWorkloadName pod"
        "pod_Annotations pod"] i have "r \<noteq> Inr False" by simp
    with i False True assms show ?thesis
      by (cases r) (auto simp: Handle_def Let_def StatusInternalServerError_def split: sum.split)
  next
    case elig: False
    with inject_ineligible [OF elig] False assms show ?thesis by (simp add: Handle_def Let_def)
  qed
qed

theorem handle_patches_iff_witness:
  "\<exists>pod'. Handle demo_webhook () demo_request = (PatchResponseFromRaw demo_pod pod', ())
     \<and> pod' = demo_pod\<lparr>pod_Spec := fst (snd (InjectAuthBridge demo_mutator () demo_spec ''ns''
          (deriveWorkloadName demo_pod) demo_labels Map.empty))\<rparr>
     \<and> eligible (pm_GetFeatureGates demo_mutator) demo_labels"
proof -
  have a: "req_Kind demo_request = ''Pod''" "req_Group demo_request = []"
    "wh_Decode demo_webhook (req_Raw demo_request) = Inr demo_pod"
    by (simp_all add: demo_request_def demo_webhook_def)
  have n: "\<not> isAlreadyInjected (pod_Spec demo_pod)"
    by (simp add: demo_pod_def isAlreadyInjected_def demo_spec_def demo_app_def const_defs)
  obtain pod' where h: "Handle demo_webhook () demo_request = (PatchResponseFromRaw demo_pod pod', ())"
    using demo_handle by blast
  from handle_patches_iff [where w = "()", OF a] n show ?thesis
    unfolding h Let_def
    by (simp add: h) (simp add: demo_webhook_def demo_pod_def demo_request_def)
qed

text \<open>The workload name of a pod is its generated-name prefix without the trailing hyphens,
  the same for all pods of one controller; without a prefix it is the pod's name, and its UID as a last
  resort. The name is empty only if the prefix consists of hyphens or everything is empty.\<close>

theorem workload_name:
  "if pod_GenerateName pod = []
   then deriveWorkloadName pod = (if pod_Name pod = [] then pod_UID pod else pod_Name pod)
   else (\<exists>k. pod_GenerateName pod = deriveWorkloadName pod @ replicate k (CHR ''-''))
      \<and> (if deriveWorkloadName pod = [] then set (pod_GenerateName pod) = {CHR ''-''}
         else last (deriveWorkloadName pod) \<noteq> CHR ''-'')"
proof (cases "pod_GenerateName pod = []")
  case False
  obtain k where k: "pod_GenerateName pod = TrimRight (pod_GenerateName pod) (CHR ''-'') @ replicate k (CHR ''-'')"
    using TrimRight_prefix by blast
  have "set (pod_GenerateName pod) = {CHR ''-''}" if "TrimRight (pod_GenerateName pod) (CHR ''-'') = []"
    using k False unfolding that by (metis append_Nil set_replicate replicate_0)
  moreover have "last (TrimRight (pod_GenerateName pod) (CHR ''-'')) \<noteq> CHR ''-''"
    if "TrimRight (pod_GenerateName pod) (CHR ''-'') \<noteq> []" using TrimRight_last [OF that] .
  moreover have "deriveWorkloadName pod = TrimRight (pod_GenerateName pod) (CHR ''-'')"
    using False by (simp add: deriveWorkloadName_def)
  moreover have "\<exists>k. pod_GenerateName pod = TrimRight (pod_GenerateName pod) (CHR ''-'') @ replicate k (CHR ''-'')"
    by (rule TrimRight_prefix)
  ultimately show ?thesis using False by presburger
qed (simp add: deriveWorkloadName_def)

end
