(* ===== verification/Go_Path.thy ===== *)
theory Go_Path
  imports Go_Strings
begin

text \<open>
  The two functions of Go's \<open>path\<close> package that decide which inbound requests skip token
  validation: \<open>path.Clean\<close> (lexical normalisation) and \<open>path.Match\<close> (shell patterns), with the
  UTF-8 decoding the latter uses. Both are translated step by step from the library's algorithm:
  the byte loop of \<open>Clean\<close> with its write buffer and \<open>dotdot\<close> mark, and the chunk scanner of
  \<open>Match\<close> with its retry loop behind a star.

  Shown here: \<open>Clean\<close> computes the path-element specification \<open>resolve\<close> (empty and \<open>.\<close> elements
  dropped, \<open>..\<close> cancels its predecessor), its results are in canonical form and it is idempotent on
  rooted paths; \<open>Match\<close> on a literal pattern is equality, and on a literal followed by a star is
  "this prefix and no further slash".
\<close>

section \<open>UTF-8 decoding\<close>

definition RuneError :: nat where
  "RuneError = 0xFFFD"

text \<open>Size of the encoding a lead byte announces and the range its second byte must lie in.\<close>

definition rune_shape :: "nat \<Rightarrow> (nat \<times> nat \<times> nat) option" where
  "rune_shape b =
     (if 0xC2 \<le> b \<and> b \<le> 0xDF then Some (2, 0x80, 0xBF)
      else if b = 0xE0 then Some (3, 0xA0, 0xBF)
      else if b = 0xED then Some (3, 0x80, 0x9F)
      else if 0xE1 \<le> b \<and> b \<le> 0xEF then Some (3, 0x80, 0xBF)
      else if b = 0xF0 then Some (4, 0x90, 0xBF)
      else if 0xF1 \<le> b \<and> b \<le> 0xF3 then Some (4, 0x80, 0xBF)
      else if b = 0xF4 then Some (4, 0x80, 0x8F)
      else None)"

text \<open>\<open>utf8.DecodeRuneInString\<close>: the first code point and its width in bytes.\<close>

fun DecodeRune :: "string \<Rightarrow> nat \<times> nat" where
  "DecodeRune [] = (RuneError, 0)"
| "DecodeRune (c # cs) =
     (let b0 = of_char c
      in if b0 < 0x80 then (b0, 1)
         else (case rune_shape b0 of
                 None \<Rightarrow> (RuneError, 1)
               | Some (sz, lo, hi) \<Rightarrow>
                   let bs = map of_char (take (sz - 1) cs)
                   in if length bs < sz - 1 then (RuneError, 1)
                      else if \<not> (lo \<le> bs ! 0 \<and> bs ! 0 \<le> hi) then (RuneError, 1)
                      else if \<not> list_all (\<lambda>b. 0x80 \<le> b \<and> b \<le> 0xBF) (tl bs) then (RuneError, 1)
                      else (foldl (\<lambda>a b. a * 64 + b mod 64) (b0 mod 2 ^ (7 - sz)) bs, sz)))"

lemma rune_shape_size: "rune_shape b = Some (sz, lo, hi) \<Longrightarrow> 2 \<le> sz \<and> sz \<le> 4"
  by (auto simp: rune_shape_def split: if_splits)

lemma DecodeRune_size:
  assumes "s \<noteq> []"
  shows "1 \<le> snd (DecodeRune s)" "snd (DecodeRune s) \<le> length s"
proof -
  obtain c cs where s: "s = c # cs" using assms by (cases s) auto
  have "1 \<le> snd (DecodeRune s) \<and> snd (DecodeRune s) \<le> length s"
    by (auto simp: s Let_def dest!: rune_shape_size split: option.splits)
  then show "1 \<le> snd (DecodeRune s)" "snd (DecodeRune s) \<le> length s" by auto
qed

lemma DecodeRune_ascii: "(of_char c :: nat) < 128 \<Longrightarrow> DecodeRune (c # s) = (of_char c, 1)"
  by simp

declare DecodeRune.simps [simp del]

section \<open>Shell patterns\<close>

definition starts :: "char \<Rightarrow> string \<Rightarrow> bool" where
  "starts c s \<longleftrightarrow> (case s of [] \<Rightarrow> False | x # _ \<Rightarrow> x = c)"

lemma starts_simps [simp]: "\<not> starts c []" "starts c (x # s) \<longleftrightarrow> x = c"
  by (simp_all add: starts_def)

lemma starts_iff: "starts c s \<longleftrightarrow> (\<exists>r. s = c # r)"
  by (cases s) auto

text \<open>\<open>getEsc\<close>: a possibly escaped character of a class; \<open>None\<close> is \<open>ErrBadPattern\<close>.\<close>

definition getEsc :: "string \<Rightarrow> (nat \<times> string) option" where
  "getEsc chunk =
     (if chunk = [] \<or> starts (CHR ''-'') chunk \<or> starts (CHR '']'') chunk then None
      else let chunk' = (if starts (CHR 0x5C) chunk then tl chunk else chunk)
           in if chunk' = [] then None
              else let (r, n) = DecodeRune chunk'; rest = drop n chunk'
                   in if r = RuneError \<and> n = 1 then None
                      else if rest = [] then None else Some (r, rest))"

lemma getEsc_length: "getEsc chunk = Some (r, rest) \<Longrightarrow> length rest < length chunk"
proof -
  assume a: "getEsc chunk = Some (r, rest)"
  define chunk' where "chunk' = (if starts (CHR 0x5C) chunk then tl chunk else chunk)"
  from a have ne: "chunk' \<noteq> []" and rest: "rest = drop (snd (DecodeRune chunk')) chunk'"
    by (auto simp: getEsc_def chunk'_def Let_def split: if_splits prod.splits)
  have "length rest < length chunk'"
    using rest DecodeRune_size [OF ne] by simp
  also have "length chunk' \<le> length chunk" by (simp add: chunk'_def)
  finally show ?thesis .
qed

text \<open>The ranges of a character class, up to its closing bracket: whether the rune matched, and the
  chunk after the bracket.\<close>

function class_ranges :: "nat \<Rightarrow> bool \<Rightarrow> nat \<Rightarrow> string \<Rightarrow> (bool \<times> string) option" where
  "class_ranges r m nrange chunk =
     (if starts (CHR '']'') chunk \<and> 0 < nrange then Some (m, tl chunk)
      else (case getEsc chunk of
              None \<Rightarrow> None
            | Some (lo, c1) \<Rightarrow>
                (case (if starts (CHR ''-'') c1 then getEsc (tl c1) else Some (lo, c1)) of
                   None \<Rightarrow> None
                 | Some (hi, c2) \<Rightarrow> class_ranges r (m \<or> lo \<le> r \<and> r \<le> hi) (Suc nrange) c2)))"
  by pat_completeness auto
termination
proof (relation "measure (\<lambda>(r, m, nrange, chunk). length chunk)", goal_cases)
  case (2 r m nrange chunk lc lo c1 hc hi c2)
  then have l1: "length c1 < length chunk" using getEsc_length [of chunk lo c1] by simp
  have "length c2 \<le> length c1"
  proof (cases "starts (CHR ''-'') c1")
    case True
    with 2 have "getEsc (tl c1) = Some (hi, c2)" by simp
    from getEsc_length [OF this] show ?thesis by simp
  next
    case False
    with 2 show ?thesis by auto
  qed
  with l1 show ?case by simp
qed simp

declare class_ranges.simps [simp del]

lemma class_ranges_length:
  "class_ranges r m nrange chunk = Some (m', rest) \<Longrightarrow> length rest < length chunk"
proof (induction r m nrange chunk rule: class_ranges.induct)
  case (1 r m nrange chunk)
  show ?case
  proof (cases "starts (CHR '']'') chunk \<and> 0 < nrange")
    case True
    with "1.prems" show ?thesis by (subst (asm) class_ranges.simps) (auto simp: starts_iff)
  next
    case False
    with "1.prems" obtain lo c1 where g: "getEsc chunk = Some (lo, c1)"
      by (subst (asm) class_ranges.simps) (auto split: option.splits)
    with False "1.prems" obtain hi c2
      where h: "(if starts (CHR ''-'') c1 then getEsc (tl c1) else Some (lo, c1)) = Some (hi, c2)"
        and rec: "class_ranges r (m \<or> lo \<le> r \<and> r \<le> hi) (Suc nrange) c2 = Some (m', rest)"
      by (subst (asm) class_ranges.simps) (auto split: option.splits)
    from "1.IH" [OF False g _ h _ rec] have "length rest < length c2" by simp
    also have "length c2 \<le> length c1"
      using h getEsc_length [of "tl c1" hi c2] by (auto split: if_splits)
    also have "length c1 < length chunk" using g by (rule getEsc_length)
    finally show ?thesis .
  qed
qed

datatype match_result = BadPattern | NoMatch | Matched string

text \<open>\<open>matchChunk\<close>: match a star-free chunk against a prefix of \<open>s\<close>. After a failure the rest of the
  chunk is still checked for well-formedness, without reading \<open>s\<close> further.\<close>

function matchChunk :: "bool \<Rightarrow> string \<Rightarrow> string \<Rightarrow> match_result" where
  "matchChunk failed [] s = (if failed then NoMatch else Matched s)"
| "matchChunk failed (c # cs) s =
     (let failed' = (failed \<or> s = [])
      in if c = CHR ''['' then
           (let r = (if failed' then 0 else fst (DecodeRune s));
                s' = (if failed' then s else drop (snd (DecodeRune s)) s);
                negated = starts (CHR ''^'') cs;
                cs' = (if negated then tl cs else cs)
            in case class_ranges r False 0 cs' of
                 None \<Rightarrow> BadPattern
               | Some (m, rest) \<Rightarrow> matchChunk (failed' \<or> m = negated) rest s')
         else if c = CHR ''?'' then
           (if failed' then matchChunk True cs s
            else matchChunk (starts (CHR ''/'') s) cs (drop (snd (DecodeRune s)) s))
         else if c = CHR 0x5C then
           (case cs of
              [] \<Rightarrow> BadPattern
            | d # ds \<Rightarrow>
                if failed' then matchChunk True ds s else matchChunk (\<not> starts d s) ds (tl s))
         else if failed' then matchChunk True cs s
         else matchChunk (\<not> starts c s) cs (tl s))"
  by pat_completeness auto
termination
proof (relation "measure (\<lambda>(failed, chunk, s). length chunk)", goal_cases)
  case (2 failed c cs s failed' r s' negated cs' a m rest)
  then have "length rest < length cs'" using class_ranges_length [of r False 0 cs' m rest] by simp
  also have "length cs' \<le> length cs" using 2 by simp
  finally show ?case by simp
qed auto

text \<open>\<open>scanChunk\<close>: leading stars, then the pattern up to the next star outside a class.\<close>

fun scan_body :: "bool \<Rightarrow> string \<Rightarrow> string \<times> string" where
  "scan_body inrange [] = ([], [])"
| "scan_body inrange (c # cs) =
     (if c = CHR 0x5C then
        (case cs of
           [] \<Rightarrow> ([c], [])
         | d # ds \<Rightarrow> let (a, b) = scan_body inrange ds in (c # d # a, b))
      else if c = CHR ''*'' \<and> \<not> inrange then ([], c # cs)
      else let inrange' = (if c = CHR ''['' then True else if c = CHR '']'' then False else inrange);
               (a, b) = scan_body inrange' cs
           in (c # a, b))"

definition scanChunk :: "string \<Rightarrow> bool \<times> string \<times> string" where
  "scanChunk pattern =
     (let q = dropWhile (\<lambda>c. c = CHR ''*'') pattern; (chunk, rest) = scan_body False q
      in (starts (CHR ''*'') pattern, chunk, rest))"

lemma scan_body_append: "scan_body i p = (a, b) \<Longrightarrow> p = a @ b"
proof (induction i p arbitrary: a b rule: scan_body.induct)
  case (2 i c cs)
  define i' where "i' = (if c = CHR ''['' then True else if c = CHR '']'' then False else i)"
  consider (esc) "c = CHR 0x5C" | (star) "c \<noteq> CHR 0x5C" "c = CHR ''*''" "\<not> i"
    | (other) "c \<noteq> CHR 0x5C" "\<not> (c = CHR ''*'' \<and> \<not> i)"
    by blast
  then show ?case
  proof cases
    case esc
    with 2 show ?thesis by (cases cs) (auto split: prod.splits)
  next
    case star
    with 2 show ?thesis by simp
  next
    case other
    obtain a' b' where sb: "scan_body i' cs = (a', b')" by fastforce
    with other "2.prems" have "a = c # a'" "b = b'" by (auto simp: i'_def)
    with "2.IH"(2) [OF other i'_def sb] show ?thesis by simp
  qed
qed simp

lemma scanChunk_length:
  assumes "pattern \<noteq> []" and "scanChunk pattern = (star, chunk, rest)"
  shows "length rest < length pattern"
proof (cases "starts (CHR ''*'') pattern")
  case True
  then obtain p where p: "pattern = CHR ''*'' # p" by (auto simp: starts_iff)
  have "length (dropWhile (\<lambda>c. c = CHR ''*'') p) = length chunk + length rest"
    using assms(2) p scan_body_append [of False "dropWhile (\<lambda>c. c = CHR ''*'') p" chunk rest]
    by (auto simp: scanChunk_def Let_def split: prod.splits)
  then show ?thesis using p length_dropWhile_le [of "\<lambda>c. c = CHR ''*''" p] by simp
next
  case False
  with assms(1) obtain c p where p: "pattern = c # p" "c \<noteq> CHR ''*''" by (cases pattern) auto
  have sb: "scan_body False (c # p) = (chunk, rest)"
    using assms(2) p by (auto simp: scanChunk_def Let_def split: prod.splits)
  then have "chunk \<noteq> []" using p(2) by (auto simp: Let_def split: if_splits list.splits prod.splits)
  with scan_body_append [OF sb] p show ?thesis by (cases chunk) auto
qed

text \<open>The loop behind a star: try the chunk after skipping one, two, \<dots> bytes, none of them a slash;
  the last chunk of a pattern has to consume the whole name.\<close>

fun star_search :: "string \<Rightarrow> bool \<Rightarrow> string \<Rightarrow> match_result" where
  "star_search chunk final [] = NoMatch"
| "star_search chunk final (c # name) =
     (if c = CHR ''/'' then NoMatch
      else (case matchChunk False chunk name of
              BadPattern \<Rightarrow> BadPattern
            | NoMatch \<Rightarrow> star_search chunk final name
            | Matched t \<Rightarrow> if final \<and> t \<noteq> [] then star_search chunk final name else Matched t))"

text \<open>Before reporting "no match", the rest of the pattern is checked for syntax errors.\<close>

function pattern_tail_ok :: "string \<Rightarrow> bool" where
  "pattern_tail_ok pattern =
     (if pattern = [] then True
      else (case scanChunk pattern of
              (_, chunk, pattern') \<Rightarrow>
                matchChunk False chunk [] \<noteq> BadPattern \<and> pattern_tail_ok pattern'))"
  by pat_completeness auto
termination
  by (relation "measure length") (auto dest!: scanChunk_length [OF _ sym])

declare pattern_tail_ok.simps [simp del]

definition ErrBadPattern :: error where
  "ErrBadPattern = ''syntax error in pattern''"

function Match :: "string \<Rightarrow> string \<Rightarrow> error + bool" where
  "Match pattern name =
     (if pattern = [] then Inr (name = [])
      else (case scanChunk pattern of
              (star, chunk, pattern') \<Rightarrow>
                if star \<and> chunk = [] then Inr (CHR ''/'' \<notin> set name)
                else let first = matchChunk False chunk name;
                         found = (case first of
                                    Matched t \<Rightarrow>
                                      if t = [] \<or> pattern' \<noteq> [] then Matched t
                                      else if star then star_search chunk (pattern' = []) name
                                      else NoMatch
                                  | BadPattern \<Rightarrow> BadPattern
                                  | NoMatch \<Rightarrow>
                                      if star then star_search chunk (pattern' = []) name
                                      else NoMatch)
                     in case found of
                          Matched t \<Rightarrow> Match pattern' t
                        | BadPattern \<Rightarrow> Inl ErrBadPattern
                        | NoMatch \<Rightarrow>
                            if pattern_tail_ok pattern' then Inr False else Inl ErrBadPattern))"
  by pat_completeness auto
termination
  by (relation "measure (\<lambda>(pattern, name). length pattern)") (auto dest!: scanChunk_length [OF _ sym])

declare Match.simps [simp del]

section \<open>Literal patterns and trailing stars\<close>

definition plain :: "string \<Rightarrow> bool" where
  "plain p \<longleftrightarrow> set p \<inter> {CHR ''*'', CHR ''?'', CHR ''['', CHR 0x5C} = {}"

lemma plain_Cons [simp]:
  "plain (c # p) \<longleftrightarrow> c \<noteq> CHR ''*'' \<and> c \<noteq> CHR ''?'' \<and> c \<noteq> CHR ''['' \<and> c \<noteq> CHR 0x5C \<and> plain p"
  by (auto simp: plain_def)

lemma scan_body_plain: "plain p \<Longrightarrow> scan_body False p = (p, [])"
  by (induction p) auto

lemma scan_body_plain_star:
  "plain p \<Longrightarrow> scan_body False (p @ CHR ''*'' # q) = (p, CHR ''*'' # q)"
  by (induction p) auto

lemma matchChunk_failed_plain: "plain p \<Longrightarrow> matchChunk True p s = NoMatch"
  by (induction p) auto

lemma matchChunk_plain:
  "plain p \<Longrightarrow> matchChunk False p s = (if HasPrefix s p then Matched (drop (length p) s) else NoMatch)"
proof (induction p arbitrary: s)
  case Nil
  then show ?case by (simp add: HasPrefix_def)
next
  case IH: (Cons c p)
  show ?case
  proof (cases s)
    case (Cons a list)
    with IH show ?thesis
      by (cases "a = c") (auto simp: HasPrefix_def matchChunk_failed_plain)
  qed (use IH.prems in \<open>simp add: HasPrefix_def matchChunk_failed_plain\<close>)
qed

lemma scanChunk_plain: "plain p \<Longrightarrow> scanChunk p = (False, p, [])"
  by (cases p) (auto simp: scanChunk_def scan_body_plain simp del: scan_body.simps)

lemma scanChunk_plain_star:
  "plain p \<Longrightarrow> p \<noteq> [] \<Longrightarrow> scanChunk (p @ ''*'') = (False, p, ''*'')"
  using scan_body_plain_star [of p "[]"]
  by (cases p) (auto simp: scanChunk_def simp del: scan_body.simps)

lemma scanChunk_star: "scanChunk ''*'' = (True, [], [])"
  by (simp add: scanChunk_def)

lemma Match_star: "Match ''*'' name = Inr (CHR ''/'' \<notin> set name)"
  by (subst Match.simps) (simp add: scanChunk_star)

lemma pattern_tail_star: "pattern_tail_ok ''*''"
  by (simp add: pattern_tail_ok.simps [of "''*''"] pattern_tail_ok.simps [of "[]"] scanChunk_star)

lemma Match_plain: "plain p \<Longrightarrow> Match p name = Inr (name = p)"
  by (subst Match.simps)
     (auto simp: scanChunk_plain matchChunk_plain HasPrefix_iff pattern_tail_ok.simps [of "[]"]
        Match.simps [of "[]"])

lemma Match_plain_star:
  assumes "plain p" and "p \<noteq> []"
  shows "Match (p @ ''*'') name = Inr (\<exists>r. name = p @ r \<and> CHR ''/'' \<notin> set r)"
  by (subst Match.simps)
     (auto simp: assms scanChunk_plain_star matchChunk_plain HasPrefix_iff Match_star pattern_tail_star)

section \<open>Lexical path cleaning\<close>

text \<open>
  \<open>path.Clean\<close>. The write buffer is kept in reverse, so its length is the library's write index
  \<open>w\<close>; \<open>backtrack\<close> is the loop that removes the last element, stopping at \<open>dotdot\<close>.
\<close>

fun backtrack :: "nat \<Rightarrow> string \<Rightarrow> string" where
  "backtrack dotdot [] = []"
| "backtrack dotdot (c # out) =
     (if dotdot < length out \<and> c \<noteq> CHR ''/'' then backtrack dotdot out else out)"

function clean_loop :: "bool \<Rightarrow> string \<Rightarrow> string \<Rightarrow> nat \<Rightarrow> string" where
  "clean_loop rooted [] out dotdot = out"
| "clean_loop rooted (c # cs) out dotdot =
     (if c = CHR ''/'' then clean_loop rooted cs out dotdot
      else if c = CHR ''.'' \<and> (cs = [] \<or> starts (CHR ''/'') cs) then clean_loop rooted cs out dotdot
      else if c = CHR ''.'' \<and> starts (CHR ''.'') cs \<and> (tl cs = [] \<or> starts (CHR ''/'') (tl cs)) then
        (if dotdot < length out then clean_loop rooted (tl cs) (backtrack dotdot out) dotdot
         else if \<not> rooted then
           (let out' = CHR ''.'' # CHR ''.'' # (if 0 < length out then CHR ''/'' # out else out)
            in clean_loop rooted (tl cs) out' (length out'))
         else clean_loop rooted (tl cs) out dotdot)
      else
        (let out' = (if rooted \<and> length out \<noteq> 1 \<or> \<not> rooted \<and> length out \<noteq> 0
                     then CHR ''/'' # out else out)
         in clean_loop rooted (dropWhile (\<lambda>x. x \<noteq> CHR ''/'') (c # cs))
              (rev (takeWhile (\<lambda>x. x \<noteq> CHR ''/'') (c # cs)) @ out') dotdot))"
  by pat_completeness auto
termination
  by (relation "measure (\<lambda>(rooted, p, out, dotdot). length p)")
     (auto simp: starts_iff length_dropWhile_le le_imp_less_Suc)

definition Clean :: "string \<Rightarrow> string" where
  "Clean p =
     (if p = [] then ''.''
      else let rooted = starts (CHR ''/'') p;
               out = (if rooted then clean_loop rooted (tl p) ''/'' 1 else clean_loop rooted p [] 0)
           in if out = [] then ''.'' else rev out)"

text \<open>The specification: the elements between slashes, processed on a stack.\<close>

definition resolve_step :: "bool \<Rightarrow> string list \<Rightarrow> string \<Rightarrow> string list" where
  "resolve_step rooted st e =
     (if e = [] \<or> e = ''.'' then st
      else if e = ''..'' then
        (if st \<noteq> [] \<and> last st \<noteq> ''..'' then butlast st else if rooted then st else st @ [''..''])
      else st @ [e])"

definition resolve :: "bool \<Rightarrow> string list \<Rightarrow> string list" where
  "resolve rooted es = foldl (resolve_step rooted) [] es"

text \<open>What the buffer holds: the stack joined by slashes, with \<open>dotdot\<close> marking the end of its leading
  \<open>..\<close> elements.\<close>

definition root_prefix :: "bool \<Rightarrow> string" where
  "root_prefix rooted = (if rooted then ''/'' else [])"

definition clean_inv :: "bool \<Rightarrow> string list \<Rightarrow> string \<Rightarrow> nat \<Rightarrow> bool" where
  "clean_inv rooted st out dotdot \<longleftrightarrow>
     rev out = root_prefix rooted @ Join st ''/''
     \<and> (\<forall>e\<in>set st. e \<noteq> [] \<and> CHR ''/'' \<notin> set e)
     \<and> (\<exists>k real. st = replicate k ''..'' @ real \<and> ''..'' \<notin> set real \<and> (rooted \<longrightarrow> k = 0)
          \<and> dotdot = length (root_prefix rooted @ Join (replicate k ''..'') ''/''))"

lemma Join_snoc: "Join (xs @ [y]) sep = (if xs = [] then y else Join xs sep @ sep @ y)"
  by (induction xs sep rule: Join.induct) auto

lemma Join_append:
  "xs \<noteq> [] \<Longrightarrow> ys \<noteq> [] \<Longrightarrow> Join (xs @ ys) sep = Join xs sep @ sep @ Join ys sep"
  by (induction xs sep rule: Join.induct) (auto simp: Join_Cons)

lemma length_Join_prefix: "length (Join xs sep) \<le> length (Join (xs @ ys) sep)"
  by (cases "xs = []"; cases "ys = []") (auto simp: Join_append)

lemma backtrack_exact:
  "CHR ''/'' \<notin> set e \<Longrightarrow> e \<noteq> [] \<Longrightarrow> backtrack (length X) (e @ X) = X"
  by (induction e) auto

lemma backtrack_slash:
  "CHR ''/'' \<notin> set e \<Longrightarrow> d \<le> length Y \<Longrightarrow> backtrack d (e @ CHR ''/'' # Y) = Y"
  by (induction e) auto

lemma Split_takeWhile:
  "Split p c = takeWhile (\<lambda>x. x \<noteq> c) p #
     (case dropWhile (\<lambda>x. x \<noteq> c) p of [] \<Rightarrow> [] | _ # r \<Rightarrow> Split r c)"
  by (induction p) auto

lemma clean_inv_len:
  assumes "clean_inv rooted st out dotdot"
  shows "dotdot < length out \<longleftrightarrow> st \<noteq> [] \<and> last st \<noteq> ''..''"
proof -
  from assms obtain k real where st: "st = replicate k ''..'' @ real" and real: "''..'' \<notin> set real"
    and dd: "dotdot = length (root_prefix rooted @ Join (replicate k ''..'') ''/'')"
    and ne: "\<forall>e\<in>set st. e \<noteq> []" and out: "rev out = root_prefix rooted @ Join st ''/''"
    unfolding clean_inv_def by blast
  have len: "length out = length (root_prefix rooted @ Join st ''/'')"
    using out by (metis length_rev)
  show ?thesis
  proof (cases real rule: rev_cases)
    case Nil
    with st len dd show ?thesis by (metis append_Nil2 last_replicate less_irrefl replicate_0)
  next
    case (snoc ys y)
    then have "y \<noteq> ''..''" "y \<noteq> []" using real ne st by auto
    have "length (Join (replicate k ''..'') ''/'') < length (Join st ''/'')"
      using length_Join_prefix [of "replicate k ''..''" "''/''" ys] \<open>y \<noteq> []\<close>
      by (auto simp: st snoc Join_snoc simp flip: append_assoc)
    with len dd snoc st \<open>y \<noteq> ''..''\<close> show ?thesis by simp
  qed
qed

lemma clean_inv_backtrack:
  assumes inv: "clean_inv rooted st out dotdot" and st: "st \<noteq> []" "last st \<noteq> ''..''"
  shows "clean_inv rooted (butlast st) (backtrack dotdot out) dotdot"
proof -
  from inv obtain k real where eq: "st = replicate k ''..'' @ real" and real: "''..'' \<notin> set real"
    and k: "rooted \<longrightarrow> k = 0"
    and dd: "dotdot = length (root_prefix rooted @ Join (replicate k ''..'') ''/'')"
    and ne: "\<forall>e\<in>set st. e \<noteq> [] \<and> CHR ''/'' \<notin> set e"
    and out: "rev out = root_prefix rooted @ Join st ''/''"
    unfolding clean_inv_def by blast
  from st eq have "real \<noteq> []" by (metis append_Nil2 last_replicate replicate_0)
  then obtain ys y where real_eq: "real = ys @ [y]" by (cases real rule: rev_cases) auto
  have bl: "butlast st = replicate k ''..'' @ ys" by (simp add: eq real_eq butlast_append)
  have y: "y \<noteq> []" "CHR ''/'' \<notin> set (rev y)" using ne eq real_eq by auto
  have res: "rev (backtrack dotdot out) = root_prefix rooted @ Join (butlast st) ''/''"
  proof (cases "butlast st = []")
    case True
    then have k0: "k = 0" and "ys = []" by (auto simp: bl)
    then have st_y: "st = [y]" by (simp add: eq real_eq)
    have "out = rev y @ rev (root_prefix rooted)" using arg_cong [OF out, of rev] st_y by simp
    moreover have "dotdot = length (rev (root_prefix rooted))" using dd k0 by simp
    ultimately show ?thesis using y backtrack_exact [of "rev y" "rev (root_prefix rooted)"] True by simp
  next
    case False
    have "Join st ''/'' = Join (butlast st) ''/'' @ ''/'' @ y"
      using False by (metis Join_snoc append_butlast_last_id bl eq last_snoc append_assoc real_eq st(1))
    then have "out = rev y @ CHR ''/'' # rev (root_prefix rooted @ Join (butlast st) ''/'')"
      using arg_cong [OF out, of rev] by simp
    moreover have "dotdot \<le> length (rev (root_prefix rooted @ Join (butlast st) ''/''))"
      using dd length_Join_prefix [of "replicate k ''..''" "''/''" ys] by (simp add: bl)
    ultimately show ?thesis using backtrack_slash y(2) by simp
  qed
  moreover have "\<forall>e\<in>set (butlast st). e \<noteq> [] \<and> CHR ''/'' \<notin> set e"
    using ne by (meson in_set_butlastD)
  ultimately show ?thesis
    unfolding clean_inv_def using bl real real_eq k dd by auto
qed

lemma clean_inv_push:
  assumes inv: "clean_inv rooted st out dotdot"
    and e: "e \<noteq> []" "CHR ''/'' \<notin> set e" "e \<noteq> ''..''"
    and out': "out' = (if rooted \<and> length out \<noteq> 1 \<or> \<not> rooted \<and> length out \<noteq> 0
                       then CHR ''/'' # out else out)"
  shows "clean_inv rooted (st @ [e]) (rev e @ out') dotdot"
proof -
  have out: "rev out = root_prefix rooted @ Join st ''/''"
    and ne: "\<forall>e\<in>set st. e \<noteq> [] \<and> CHR ''/'' \<notin> set e"
    using inv by (auto simp: clean_inv_def)
  have "length out = length (root_prefix rooted @ Join st ''/'')" using out by (metis length_rev)
  moreover have "st \<noteq> [] \<Longrightarrow> Join st ''/'' \<noteq> []"
    using ne by (cases st; cases "tl st") auto
  ultimately have "(rooted \<and> length out \<noteq> 1 \<or> \<not> rooted \<and> length out \<noteq> 0) \<longleftrightarrow> st \<noteq> []"
    by (auto simp: root_prefix_def)
  then have "rev (rev e @ out') = root_prefix rooted @ Join (st @ [e]) ''/''"
    using out' out by (auto simp: Join_snoc)
  then show ?thesis
    using inv e unfolding clean_inv_def by fastforce
qed

lemma clean_inv_push_dotdot:
  assumes inv: "clean_inv False st out dotdot" and st: "\<not> (st \<noteq> [] \<and> last st \<noteq> ''..'')"
    and out': "out' = CHR ''.'' # CHR ''.'' # (if 0 < length out then CHR ''/'' # out else out)"
  shows "clean_inv False (st @ [''..'']) out' (length out')"
proof -
  from inv obtain k real where eq: "st = replicate k ''..'' @ real" and real: "''..'' \<notin> set real"
    and ne: "\<forall>e\<in>set st. e \<noteq> [] \<and> CHR ''/'' \<notin> set e"
    and out: "rev out = Join st ''/''"
    unfolding clean_inv_def root_prefix_def by auto
  have "real = []" using st eq real by (cases real rule: rev_cases) auto
  then have rep: "st = replicate k ''..''" using eq by simp
  have "Join st ''/'' = [] \<longleftrightarrow> st = []" using ne by (cases st; cases "tl st") auto
  then have "rev out' = Join (st @ [''..'']) ''/''"
    using out out' by (auto simp: Join_snoc)
  moreover have "st @ [''..''] = replicate (Suc k) ''..''" by (simp add: rep replicate_append_same)
  moreover have "length out' = length (Join (replicate (Suc k) ''..'') ''/'')"
    using calculation by (metis length_rev)
  ultimately show ?thesis
    unfolding clean_inv_def root_prefix_def using ne by (auto intro!: exI [of _ "Suc k"])
qed

lemma clean_loop_resolve:
  assumes "clean_inv rooted st out dotdot"
  shows "\<exists>d. clean_inv rooted (foldl (resolve_step rooted) st (Split p (CHR ''/'')))
               (clean_loop rooted p out dotdot) d"
  using assms
proof (induction rooted p out dotdot arbitrary: st rule: clean_loop.induct)
  case (1 rooted out dotdot)
  then show ?case by (auto simp: resolve_step_def)
next
  case (2 rooted c cs out dotdot)
  let ?fold = "\<lambda>st q. foldl (resolve_step rooted) st (Split q (CHR ''/''))"
  have skip: "?fold st (CHR ''/'' # r) = ?fold st r" for st r by (simp add: resolve_step_def)
  consider (slash) "c = CHR ''/''"
    | (dot) "c \<noteq> CHR ''/''" "c = CHR ''.'' \<and> (cs = [] \<or> starts (CHR ''/'') cs)"
    | (dotdot) "c \<noteq> CHR ''/''" "\<not> (c = CHR ''.'' \<and> (cs = [] \<or> starts (CHR ''/'') cs))"
        "c = CHR ''.'' \<and> starts (CHR ''.'') cs \<and> (tl cs = [] \<or> starts (CHR ''/'') (tl cs))"
    | (elem) "c \<noteq> CHR ''/''" "\<not> (c = CHR ''.'' \<and> (cs = [] \<or> starts (CHR ''/'') cs))"
        "\<not> (c = CHR ''.'' \<and> starts (CHR ''.'') cs \<and> (tl cs = [] \<or> starts (CHR ''/'') (tl cs)))"
    by blast
  then show ?case
  proof cases
    case slash
    with 2 show ?thesis by (simp add: resolve_step_def)
  next
    case dot
    have "?fold st (c # cs) = ?fold st cs"
      using dot by (auto simp: starts_iff resolve_step_def)
    moreover have "\<exists>d. clean_inv rooted (?fold st cs) (clean_loop rooted cs out dotdot) d"
      using "2.IH"(2) dot "2.prems" by blast
    ultimately show ?thesis using dot by simp
  next
    case dotdot
    define st' where "st' = resolve_step rooted st ''..''"
    have fold: "?fold st (c # cs) = ?fold st' (tl cs)"
      using dotdot by (auto simp: starts_iff resolve_step_def st'_def)
    consider (pop) "dotdot < length out" | (push) "\<not> dotdot < length out" "\<not> rooted"
      | (stay) "\<not> dotdot < length out" "rooted" by blast
    then show ?thesis
    proof cases
      case pop
      then have nst: "st \<noteq> [] \<and> last st \<noteq> ''..''" using clean_inv_len "2.prems" by blast
      then have "clean_inv rooted st' (backtrack dotdot out) dotdot"
        using clean_inv_backtrack "2.prems" by (simp add: st'_def resolve_step_def)
      from "2.IH"(3) [OF dotdot pop this] fold dotdot pop show ?thesis by auto
    next
      case push
      define out' where
        "out' = CHR ''.'' # CHR ''.'' # (if 0 < length out then CHR ''/'' # out else out)"
      have nst: "\<not> (st \<noteq> [] \<and> last st \<noteq> ''..'')" using push clean_inv_len "2.prems" by blast
      then have "clean_inv rooted st' out' (length out')"
        using clean_inv_push_dotdot [OF _ nst out'_def] push "2.prems"
        by (auto simp: st'_def resolve_step_def)
      from "2.IH"(4) [OF dotdot push out'_def this] fold dotdot push show ?thesis
        by (auto simp: Let_def out'_def)
    next
      case stay
      have nst: "\<not> (st \<noteq> [] \<and> last st \<noteq> ''..'')" using stay clean_inv_len "2.prems" by blast
      then have "clean_inv rooted st' out dotdot"
        using stay "2.prems" by (auto simp: st'_def resolve_step_def)
      from "2.IH"(5) [OF dotdot stay(1) _ this] fold dotdot stay show ?thesis by auto
    qed
  next
    case elem
    define e where "e = takeWhile (\<lambda>x. x \<noteq> CHR ''/'') (c # cs)"
    define r where "r = dropWhile (\<lambda>x. x \<noteq> CHR ''/'') (c # cs)"
    define out' where
      "out' = (if rooted \<and> length out \<noteq> 1 \<or> \<not> rooted \<and> length out \<noteq> 0 then CHR ''/'' # out else out)"
    have ne: "e \<noteq> []" "CHR ''/'' \<notin> set e"
      using elem(1) by (auto simp: e_def dest: set_takeWhileD)
    have "e \<noteq> ''.''"
      using elem(1,2) by (cases cs) (auto simp: e_def)
    moreover have "e \<noteq> ''..''"
      using elem(1,3) by (cases cs; cases "tl cs") (auto simp: e_def split: if_splits)
    ultimately have step: "resolve_step rooted st e = st @ [e]"
      using ne by (simp add: resolve_step_def)
    have "?fold st (c # cs) = ?fold (st @ [e]) r"
    proof -
      have sp: "Split (c # cs) (CHR ''/'') = e # (case r of [] \<Rightarrow> [] | _ # q \<Rightarrow> Split q (CHR ''/''))"
        unfolding e_def r_def by (rule Split_takeWhile)
      show ?thesis
      proof (cases r)
        case Nil
        then show ?thesis by (simp only: sp) (simp add: step resolve_step_def [of _ _ "[]"])
      next
        case (Cons x q)
        then have "x = CHR ''/''"
          using hd_dropWhile [of "\<lambda>x. x \<noteq> CHR ''/''" "c # cs", folded r_def] by simp
        then have "?fold (st @ [e]) r = ?fold (st @ [e]) q" by (simp only: Cons skip)
        moreover have "?fold st (c # cs) = ?fold (st @ [e]) q"
          by (simp only: sp Cons list.case foldl_Cons step)
        ultimately show ?thesis by simp
      qed
    qed
    moreover have "clean_inv rooted (st @ [e]) (rev e @ out') dotdot"
      using "2.prems" ne \<open>e \<noteq> ''..''\<close> out'_def by (rule clean_inv_push)
    moreover have "clean_loop rooted (c # cs) out dotdot = clean_loop rooted r (rev e @ out') dotdot"
      using elem by (auto simp: Let_def e_def r_def out'_def)
    ultimately show ?thesis
      using "2.IH"(6) [OF elem out'_def] unfolding e_def r_def by simp
  qed
qed

text \<open>\<open>Clean\<close> computes the specification.\<close>

lemma clean_inv_init: "clean_inv True [] ''/'' 1" "clean_inv False [] [] 0"
  by (simp_all add: clean_inv_def root_prefix_def)

theorem Clean_rooted:
  "Clean (CHR ''/'' # p) = CHR ''/'' # Join (resolve True (Split p (CHR ''/''))) ''/''"
proof -
  obtain d where "clean_inv True (resolve True (Split p (CHR ''/''))) (clean_loop True p ''/'' 1) d"
    using clean_loop_resolve [OF clean_inv_init(1), of p] by (auto simp: resolve_def)
  then have "rev (clean_loop True p ''/'' 1) = CHR ''/'' # Join (resolve True (Split p (CHR ''/''))) ''/''"
    by (simp add: clean_inv_def root_prefix_def)
  moreover then have "clean_loop True p ''/'' 1 \<noteq> []" by (metis list.distinct(1) rev.simps(1))
  ultimately show ?thesis by (simp add: Clean_def Let_def)
qed

theorem Clean_relative:
  assumes "\<not> starts (CHR ''/'') p"
  shows "Clean p = (let st = resolve False (Split p (CHR ''/''))
                    in if st = [] then ''.'' else Join st ''/'')"
proof (cases "p = []")
  case True
  then show ?thesis by (simp add: Clean_def resolve_def resolve_step_def)
next
  case False
  obtain d where inv:
    "clean_inv False (resolve False (Split p (CHR ''/''))) (clean_loop False p [] 0) d"
    using clean_loop_resolve [OF clean_inv_init(2), of p] by (auto simp: resolve_def)
  let ?st = "resolve False (Split p (CHR ''/''))"
  have out: "rev (clean_loop False p [] 0) = Join ?st ''/''"
    and ne: "\<forall>e\<in>set ?st. e \<noteq> []"
    using inv by (auto simp: clean_inv_def root_prefix_def)
  have "Join ?st ''/'' = [] \<longleftrightarrow> ?st = []" using ne by (cases ?st; cases "tl ?st") auto
  then have "clean_loop False p [] 0 = [] \<longleftrightarrow> ?st = []" using out by (metis rev_is_Nil_conv)
  with assms False out show ?thesis by (simp add: Clean_def Let_def)
qed

text \<open>The stacks that arise: leading \<open>..\<close> (only when not rooted), then proper elements.\<close>

definition proper_elem :: "string \<Rightarrow> bool" where
  "proper_elem e \<longleftrightarrow> e \<noteq> [] \<and> e \<noteq> ''.'' \<and> e \<noteq> ''..'' \<and> CHR ''/'' \<notin> set e"

lemma resolve_step_proper:
  assumes "\<forall>e\<in>set st. proper_elem e" and "CHR ''/'' \<notin> set x"
  shows "\<forall>e\<in>set (resolve_step True st x). proper_elem e"
  using assms by (auto simp: resolve_step_def proper_elem_def dest: in_set_butlastD)

lemma foldl_resolve_proper:
  assumes "\<forall>x\<in>set es. CHR ''/'' \<notin> set x" and "\<forall>e\<in>set st. proper_elem e"
  shows "\<forall>e\<in>set (foldl (resolve_step True) st es). proper_elem e"
  using assms
proof (induction es arbitrary: st)
  case (Cons x es)
  from Cons.prems have "\<forall>e\<in>set (resolve_step True st x). proper_elem e"
    by (intro resolve_step_proper) simp_all
  with Cons.prems have "\<forall>e\<in>set (foldl (resolve_step True) (resolve_step True st x) es). proper_elem e"
    by (intro Cons.IH) simp_all
  then show ?case by simp
qed simp

lemma resolve_proper:
  "\<forall>x\<in>set es. CHR ''/'' \<notin> set x \<Longrightarrow> \<forall>e\<in>set (resolve True es). proper_elem e"
  unfolding resolve_def by (rule foldl_resolve_proper) simp_all

lemma foldl_resolve_fixed:
  "\<forall>e\<in>set es. proper_elem e \<Longrightarrow> foldl (resolve_step True) st es = st @ es"
proof (induction es arbitrary: st)
  case (Cons x es)
  then have "resolve_step True st x = st @ [x]" by (simp add: resolve_step_def proper_elem_def)
  with Cons show ?case by simp
qed simp

lemma resolve_fixed: "\<forall>e\<in>set es. proper_elem e \<Longrightarrow> resolve True es = es"
  by (simp add: resolve_def foldl_resolve_fixed)

text \<open>A cleaned rooted path is \<open>/\<close> followed by proper elements separated by single slashes.\<close>

theorem Clean_canonical:
  "\<exists>es. Clean (CHR ''/'' # p) = CHR ''/'' # Join es ''/'' \<and> (\<forall>e\<in>set es. proper_elem e)"
  using Clean_rooted resolve_proper Split_elem_no_sep by blast

theorem Clean_fixed:
  assumes "\<forall>e\<in>set es. proper_elem e"
  shows "Clean (CHR ''/'' # Join es ''/'') = CHR ''/'' # Join es ''/''"
proof (cases "es = []")
  case True
  then show ?thesis by (simp add: Clean_rooted resolve_def resolve_step_def)
next
  case False
  have "\<forall>x\<in>set es. CHR ''/'' \<notin> set x" using assms by (simp add: proper_elem_def)
  with False have "Split (Join es ''/'') (CHR ''/'') = es" by (intro Split_Join) auto
  with assms show ?thesis by (simp add: Clean_rooted resolve_fixed)
qed

corollary Clean_idempotent_rooted: "Clean (Clean (CHR ''/'' # p)) = Clean (CHR ''/'' # p)"
  using Clean_canonical Clean_fixed by metis

text \<open>A path that does not start with a slash never cleans to one that does.\<close>

lemma Clean_relative_not_rooted:
  assumes "\<not> starts (CHR ''/'') p"
  shows "\<not> starts (CHR ''/'') (Clean p)"
proof -
  let ?st = "resolve False (Split p (CHR ''/''))"
  obtain d where "clean_inv False ?st (clean_loop False p [] 0) d"
    using clean_loop_resolve [OF clean_inv_init(2), of p] by (auto simp: resolve_def)
  then have "\<forall>e\<in>set ?st. e \<noteq> [] \<and> CHR ''/'' \<notin> set e" by (simp add: clean_inv_def)
  then have "\<not> starts (CHR ''/'') (Join ?st ''/'')"
    by (cases ?st; cases "tl ?st") (auto simp: starts_iff append_eq_Cons_conv)
  then show ?thesis using assms by (auto simp: Clean_relative Let_def)
qed

end
