(* ===== verification/Config_Loader.thy ===== *)
theory Config_Loader
  imports Platform_Config Go_Path
begin

text \<open>
  The two hot-reloading loaders of the webhook (\<open>internal/webhook/config/loader.go\<close> and
  \<open>feature_gate_loader.go\<close>): \<open>Load\<close>, \<open>Get\<close>, \<open>OnChange\<close> and the goroutine that \<open>Watch\<close> starts, as a
  step relation with the debounce timer, the queue of file system notifications, the clock and the loads
  in progress, which may overlap. What
  reading the file yields and the YAML decoder, which overlays the file on a configuration, are
  arguments. A registered callback is a value of \<open>'cb\<close>; \<open>Load\<close> returns which callbacks are invoked
  with which value. \<open>Get\<close> and the callbacks receive a \<open>DeepCopy\<close>, which is the value itself here: the resource
  claims that the copy loses are not part of \<open>PlatformConfig\<close>, see \<open>Deep_Copy\<close>. Both loaders satisfy one contract, the locale \<open>hot_reload\<close>, and the lemmas about
  reloading and watching are proved once there.
\<close>

type_synonym file_read = "fs_error + string"

section \<open>ConfigLoader\<close>

record 'cb ConfigLoader =
  cl_configPath :: string
  cl_currentConfig :: PlatformConfig
  cl_onChange :: "'cb list"

definition NewConfigLoader :: "string \<Rightarrow> 'cb ConfigLoader" where
  "NewConfigLoader path = \<lparr>cl_configPath = path, cl_currentConfig = CompiledDefaults, cl_onChange = []\<rparr>"

definition ConfigLoader_Load :: "(string \<Rightarrow> PlatformConfig \<Rightarrow> error + PlatformConfig) \<Rightarrow> file_read
    \<Rightarrow> 'cb ConfigLoader \<Rightarrow> error option \<times> 'cb ConfigLoader \<times> ('cb \<times> PlatformConfig) list" where
  "ConfigLoader_Load unmarshal rd l =
     (let config = CompiledDefaults
      in case rd of
           Inl NotExist \<Rightarrow> (None, l\<lparr>cl_currentConfig := config\<rparr>, map (\<lambda>cb. (cb, config)) (cl_onChange l))
         | Inl err \<Rightarrow> (Some (fs_text err), l, [])
         | Inr data \<Rightarrow>
             (case unmarshal data config of
                Inl err \<Rightarrow> (Some err, l, [])
              | Inr config' \<Rightarrow>
                  (case Validate config' of
                     Some err \<Rightarrow> (Some err, l, [])
                   | None \<Rightarrow> (None, l\<lparr>cl_currentConfig := config'\<rparr>,
                       map (\<lambda>cb. (cb, config')) (cl_onChange l)))))"

definition ConfigLoader_Get :: "'cb ConfigLoader \<Rightarrow> PlatformConfig" where
  "ConfigLoader_Get l = cl_currentConfig l"

definition ConfigLoader_OnChange :: "'cb \<Rightarrow> 'cb ConfigLoader \<Rightarrow> 'cb ConfigLoader" where
  "ConfigLoader_OnChange cb l = l\<lparr>cl_onChange := cl_onChange l @ [cb]\<rparr>"

section \<open>FeatureGateLoader\<close>

record 'cb FeatureGateLoader =
  fl_configPath :: string
  fl_current :: FeatureGates
  fl_onChange :: "'cb list"

definition NewFeatureGateLoader :: "string \<Rightarrow> 'cb FeatureGateLoader" where
  "NewFeatureGateLoader path = \<lparr>fl_configPath = path, fl_current = DefaultFeatureGates, fl_onChange = []\<rparr>"

definition FeatureGateLoader_Load :: "(string \<Rightarrow> FeatureGates \<Rightarrow> error + FeatureGates) \<Rightarrow> file_read
    \<Rightarrow> 'cb FeatureGateLoader \<Rightarrow> error option \<times> 'cb FeatureGateLoader \<times> ('cb \<times> FeatureGates) list" where
  "FeatureGateLoader_Load unmarshal rd l =
     (let gates = DefaultFeatureGates
      in case rd of
           Inl NotExist \<Rightarrow> (None, l\<lparr>fl_current := gates\<rparr>, map (\<lambda>cb. (cb, gates)) (fl_onChange l))
         | Inl err \<Rightarrow>
             (Some (''reading feature gates file '' @ fl_configPath l @ '': '' @ fs_text err), l, [])
         | Inr data \<Rightarrow>
             (case unmarshal data gates of
                Inl err \<Rightarrow> (Some (''parsing feature gates file '' @ fl_configPath l @ '': '' @ err), l, [])
              | Inr gates' \<Rightarrow>
                  (let gates'' = (if gates' = zero_FeatureGates then DefaultFeatureGates else gates')
                   in (None, l\<lparr>fl_current := gates''\<rparr>, map (\<lambda>cb. (cb, gates'')) (fl_onChange l)))))"

definition FeatureGateLoader_Get :: "'cb FeatureGateLoader \<Rightarrow> FeatureGates" where
  "FeatureGateLoader_Get l = fl_current l"

definition FeatureGateLoader_OnChange :: "'cb \<Rightarrow> 'cb FeatureGateLoader \<Rightarrow> 'cb FeatureGateLoader" where
  "FeatureGateLoader_OnChange cb l = l\<lparr>fl_onChange := fl_onChange l @ [cb]\<rparr>"

section \<open>Watch\<close>

text \<open>\<open>filepath.Dir\<close> on Unix.\<close>

definition Dir :: "string \<Rightarrow> string" where
  "Dir path = Clean (rev (dropWhile (\<lambda>c. c \<noteq> CHR ''/'') (rev path)))"

text \<open>Starting the watcher: nothing is watched when the directory is missing. The operations of the file
  system and of the notification library are arguments; the result is the error and whether the goroutine
  runs.\<close>

definition ConfigLoader_Watch :: "(string \<Rightarrow> fs_error option) \<Rightarrow> error option \<Rightarrow> (string \<Rightarrow> error option)
    \<Rightarrow> 'cb ConfigLoader \<Rightarrow> error option \<times> bool" where
  "ConfigLoader_Watch stat newWatcher add l =
     (let dir = Dir (cl_configPath l)
      in if stat dir = Some NotExist then (None, False)
         else case newWatcher of
                Some err \<Rightarrow> (Some err, False)
              | None \<Rightarrow> (case add dir of Some err \<Rightarrow> (Some err, False) | None \<Rightarrow> (None, True)))"

definition FeatureGateLoader_Watch :: "(string \<Rightarrow> fs_error option) \<Rightarrow> error option \<Rightarrow> (string \<Rightarrow> error option)
    \<Rightarrow> 'cb FeatureGateLoader \<Rightarrow> error option \<times> bool" where
  "FeatureGateLoader_Watch stat newWatcher add l =
     (let dir = Dir (fl_configPath l)
      in if stat dir = Some NotExist then (None, False)
         else case newWatcher of
                Some err \<Rightarrow> (Some (''creating feature gates file watcher: '' @ err), False)
              | None \<Rightarrow>
                  (case add dir of
                     Some err \<Rightarrow> (Some (''watching feature gates directory '' @ dir @ '': '' @ err), False)
                   | None \<Rightarrow> (None, True)))"

datatype fs_op = Create | Write | Remove | Rename | Chmod

type_synonym fs_event = "fs_op list"   \<comment> \<open>the operations set in the event's bit mask\<close>

definition reload_event :: "fs_event \<Rightarrow> bool" where
  "reload_event ev \<longleftrightarrow> list_ex (\<lambda>op. op = Create \<or> op = Write \<or> op = Remove) ev"

definition debounce :: int where
  "debounce = 1000000000"

text \<open>The phases of the watcher: \<open>Load\<close> has returned and the directory is not yet watched, the goroutine runs,
  the goroutine has ended.\<close>

datatype phase = Starting | Running | Stopped

text \<open>The watcher goroutine with its surroundings: the file, the notifications not yet received, the pending
  debounce timer with its due time, the clock, and the loads in progress, each with what it read once it has
  read. The last two fields are not variables of the code: what the most recent \<open>Load\<close> put in force had
  read, and whether the file changed unnoticed before the directory was watched.\<close>

record 'l watch =
  w_loader :: 'l
  w_file :: file_read
  w_phase :: phase
  w_events :: "fs_event list"
  w_timer :: "int option"
  w_now :: int
  w_loads :: "file_read option list"
  w_seen :: file_read
  w_missed :: bool

text \<open>The steps: the file changes and a notification is queued (a change of content is one of the notified
  kinds), or, while the directory is not yet watched, it changes unnoticed; the goroutine starts; time passes;
  the goroutine receives a notification and restarts the timer; a watcher error is logged; the timer fires
  and its function begins a \<open>Load\<close>; a \<open>Load\<close> in progress reads the file; a \<open>Load\<close> that has read ends
  (stores the value if it is valid); and the goroutine ends (cancelled context or closed channels) and stops
  the timer. A timer that has fired cannot be stopped, so several loads may be in progress at once.\<close>

inductive watch_step :: "(file_read \<Rightarrow> 'l \<Rightarrow> 'l) \<Rightarrow> 'l watch \<Rightarrow> 'l watch \<Rightarrow> bool" for load where
  ws_change: "w_phase s \<noteq> Starting \<Longrightarrow> (f \<noteq> w_file s \<Longrightarrow> reload_event ev) \<Longrightarrow>
     watch_step load s (s\<lparr>w_file := f, w_events := w_events s @ [ev]\<rparr>)"
| ws_early: "w_phase s = Starting \<Longrightarrow>
     watch_step load s (s\<lparr>w_file := f, w_missed := (w_missed s \<or> f \<noteq> w_file s)\<rparr>)"
| ws_start: "w_phase s = Starting \<Longrightarrow> watch_step load s (s\<lparr>w_phase := Running\<rparr>)"
| ws_tick: "0 \<le> d \<Longrightarrow> watch_step load s (s\<lparr>w_now := w_now s + d\<rparr>)"
| ws_event: "w_phase s = Running \<Longrightarrow> w_events s = ev # evs \<Longrightarrow>
     watch_step load s (s\<lparr>w_events := evs,
       w_timer := (if reload_event ev then Some (w_now s + debounce) else w_timer s)\<rparr>)"
| ws_error: "w_phase s = Running \<Longrightarrow> watch_step load s s"
| ws_fire: "w_timer s = Some due \<Longrightarrow> due \<le> w_now s \<Longrightarrow>
     watch_step load s (s\<lparr>w_timer := None, w_loads := w_loads s @ [None]\<rparr>)"
| ws_read: "i < length (w_loads s) \<Longrightarrow> w_loads s ! i = None \<Longrightarrow>
     watch_step load s (s\<lparr>w_loads := (w_loads s)[i := Some (w_file s)], w_missed := False\<rparr>)"
| ws_store: "i < length (w_loads s) \<Longrightarrow> w_loads s ! i = Some rd \<Longrightarrow>
     watch_step load s (s\<lparr>w_loads := take i (w_loads s) @ drop (Suc i) (w_loads s),
       w_loader := load rd (w_loader s), w_seen := rd\<rparr>)"
| ws_done: "w_phase s = Running \<Longrightarrow> watch_step load s (s\<lparr>w_phase := Stopped, w_timer := None\<rparr>)"

inductive_cases watch_stepE: "watch_step load s t"

text \<open>The steps after which at most one load is in progress, as when no load takes longer than the debounce
  interval.\<close>

definition sequential_step :: "(file_read \<Rightarrow> 'l \<Rightarrow> 'l) \<Rightarrow> 'l watch \<Rightarrow> 'l watch \<Rightarrow> bool" where
  "sequential_step load s t \<longleftrightarrow> watch_step load s t \<and> length (w_loads t) \<le> 1"

definition watch_init :: "(file_read \<Rightarrow> 'l \<Rightarrow> 'l) \<Rightarrow> 'l \<Rightarrow> file_read \<Rightarrow> int \<Rightarrow> 'l watch" where
  "watch_init load l f t = \<lparr>w_loader = load f l, w_file = f, w_phase = Starting, w_events = [], w_timer = None,
     w_now = t, w_loads = [], w_seen = f, w_missed = False\<rparr>"

definition quiet :: "'l watch \<Rightarrow> bool" where
  "quiet s \<longleftrightarrow> w_phase s = Running \<and> w_events s = [] \<and> w_timer s = None \<and> w_loads s = []"

text \<open>The loader after a \<open>Load\<close>, whose error the goroutine only logs.\<close>

definition reload :: "(file_read \<Rightarrow> 'l \<Rightarrow> error option \<times> 'l \<times> 'n) \<Rightarrow> file_read \<Rightarrow> 'l \<Rightarrow> 'l" where
  "reload load rd l = fst (snd (load rd l))"

section \<open>The contract of a hot-reloading loader\<close>

text \<open>The value that survives a sequence of reads: the last one that could be loaded.\<close>

definition last_good :: "('r \<Rightarrow> error + 'c) \<Rightarrow> 'c \<Rightarrow> 'r list \<Rightarrow> 'c" where
  "last_good outcome c0 rds =
     foldl (\<lambda>c rd. case outcome rd of Inl _ \<Rightarrow> c | Inr c' \<Rightarrow> c') c0 rds"

lemma last_good_in:
  "last_good outcome c0 rds = c0 \<or> (\<exists>rd\<in>set rds. outcome rd = Inr (last_good outcome c0 rds))"
  by (induction rds rule: rev_induct) (auto simp: last_good_def split: sum.splits)

locale hot_reload =
  fixes load :: "file_read \<Rightarrow> 'l \<Rightarrow> error option \<times> 'l \<times> ('cb \<times> 'c) list"
    and current :: "'l \<Rightarrow> 'c"
    and callbacks :: "'l \<Rightarrow> 'cb list"
    and outcome :: "file_read \<Rightarrow> error + 'c"
    and good :: "'c \<Rightarrow> bool"
  assumes load_ok: "outcome rd = Inr c \<Longrightarrow> \<exists>l'. load rd l = (None, l', map (\<lambda>cb. (cb, c)) (callbacks l))
      \<and> current l' = c \<and> callbacks l' = callbacks l"
    and load_err: "outcome rd = Inl e \<Longrightarrow> \<exists>e'. load rd l = (Some e', l, [])"
    and outcome_good: "outcome rd = Inr c \<Longrightarrow> good c"
begin

lemma current_reload:
  "current (reload load rd l) = (case outcome rd of Inl _ \<Rightarrow> current l | Inr c \<Rightarrow> c)"
  using load_ok [of rd _ l] load_err [of rd _ l] by (cases "outcome rd") (auto simp: reload_def)

lemma callbacks_reload: "callbacks (reload load rd l) = callbacks l"
  using load_ok [of rd _ l] load_err [of rd _ l] by (cases "outcome rd") (auto simp: reload_def)

lemma current_fold: "current (fold (reload load) rds l) = last_good outcome (current l) rds"
  by (induction rds rule: rev_induct) (simp_all add: last_good_def current_reload split: sum.split)

lemma fold_good: "good (current l) \<Longrightarrow> good (current (fold (reload load) rds l))"
  using last_good_in [of outcome "current l" rds] outcome_good by (auto simp: current_fold)

lemma notified:
  "snd (snd (load rd l)) =
     (case outcome rd of Inl _ \<Rightarrow> [] | Inr c \<Rightarrow> map (\<lambda>cb. (cb, c)) (callbacks l))"
  using load_ok [of rd _ l] load_err [of rd _ l] by (cases "outcome rd") auto

text \<open>The watcher's invariant: the value in force is good, and it is the one of the read that was put in force
  last, if that could be loaded.\<close>

definition watch_ok :: "'l watch \<Rightarrow> bool" where
  "watch_ok s \<longleftrightarrow> (\<forall>c. outcome (w_seen s) = Inr c \<longrightarrow> current (w_loader s) = c) \<and> good (current (w_loader s))"

lemma watch_ok_init: "good (current l) \<Longrightarrow> watch_ok (watch_init (reload load) l f t)"
  using outcome_good by (auto simp: watch_ok_def watch_init_def current_reload split: sum.splits)

lemma watch_ok_step: "watch_ok s \<Longrightarrow> watch_step (reload load) s t \<Longrightarrow> watch_ok t"
  by (erule watch_stepE)
    (auto simp: watch_ok_def current_reload split: sum.splits dest: outcome_good)

lemma watch_ok_reachable:
  assumes "good (current l)" and "steps (watch_step (reload load)) (watch_init (reload load) l f t) s"
  shows "watch_ok s"
  using steps_invariant [OF assms(2), of watch_ok] watch_ok_init [OF assms(1)] watch_ok_step by blast

lemma good_reachable:
  assumes "good (current l)" and "steps (watch_step (reload load)) (watch_init (reload load) l f t) s"
  shows "good (current (w_loader s))"
  using watch_ok_reachable [OF assms] by (simp add: watch_ok_def)

end

lemma sequential_steps: "steps (sequential_step load) s t \<Longrightarrow> steps (watch_step load) s t"
  by (induction rule: steps.induct) (auto simp: sequential_step_def intro: steps.intros)

text \<open>While loads do not overlap, a file that differs from what was put in force last is going to be read,
  unless it changed unnoticed before the directory was watched.\<close>

definition caught_up :: "'l watch \<Rightarrow> bool" where
  "caught_up s \<longleftrightarrow>
     (case w_loads s of [] \<Rightarrow> w_file s = w_seen s | None # _ \<Rightarrow> True | Some rd # _ \<Rightarrow> rd = w_file s)"

definition watch_pending :: "'l watch \<Rightarrow> bool" where
  "watch_pending s \<longleftrightarrow> length (w_loads s) \<le> 1 \<and> (w_phase s \<noteq> Stopped \<longrightarrow>
     caught_up s \<or> list_ex reload_event (w_events s) \<or> w_timer s \<noteq> None \<or> w_missed s)"

lemma watch_pending_init: "watch_pending (watch_init load l f t)"
  by (simp add: watch_pending_def watch_init_def caught_up_def)

lemma singleton_loads:
  assumes "length xs \<le> Suc 0" and "i < length xs"
  shows "xs = [xs ! i] \<and> i = 0"
  using assms by (cases xs) auto

lemma watch_pending_step: "watch_pending s \<Longrightarrow> sequential_step load s t \<Longrightarrow> watch_pending t"
  unfolding sequential_step_def
proof (elim conjE)
  assume s: "watch_pending s" and t: "length (w_loads t) \<le> 1" and st: "watch_step load s t"
  from st show "watch_pending t"
  proof cases
    case (ws_read i)
    then have "w_loads s = [None]" using s singleton_loads [of "w_loads s" i] by (simp add: watch_pending_def)
    with ws_read show ?thesis by (simp add: watch_pending_def caught_up_def)
  next
    case (ws_store i rd)
    then have "w_loads s = [Some rd]" using s singleton_loads [of "w_loads s" i] by (simp add: watch_pending_def)
    with ws_store s show ?thesis by (auto simp: watch_pending_def caught_up_def)
  next
    case (ws_fire due)
    then have "w_loads t = [None]" using t by simp
    then show ?thesis by (simp add: watch_pending_def caught_up_def)
  qed (use s in \<open>auto simp: watch_pending_def caught_up_def split: list.splits option.splits\<close>)
qed

lemma watch_pending_reachable:
  "steps (sequential_step load) (watch_init load l f t) s \<Longrightarrow> watch_pending s"
  by (erule steps_invariant [where I = watch_pending]) (rule watch_pending_init, rule watch_pending_step)

lemma quiet_seen:
  assumes "steps (sequential_step load) (watch_init load l f t) s" and "quiet s" and "\<not> w_missed s"
  shows "w_seen s = w_file s"
  using watch_pending_reachable [OF assms(1)] assms(2,3) by (auto simp: watch_pending_def quiet_def caught_up_def)

context hot_reload
begin

lemma quiet_current:
  assumes "good (current l)" and "steps (sequential_step (reload load)) (watch_init (reload load) l f t) s"
    and "quiet s" and "\<not> w_missed s" and "outcome (w_file s) = Inr c"
  shows "current (w_loader s) = c"
  using watch_ok_reachable [OF assms(1) sequential_steps [OF assms(2)]] quiet_seen [OF assms(2-4)] assms(5)
  by (simp add: watch_ok_def)

end




section \<open>The platform configuration loader keeps the contract\<close>

text \<open>What a read of the file amounts to: the compiled defaults if there is no file, else the file
  overlaid on the defaults if it decodes and validates.\<close>

definition config_outcome :: "(string \<Rightarrow> PlatformConfig \<Rightarrow> error + PlatformConfig) \<Rightarrow> file_read
    \<Rightarrow> error + PlatformConfig" where
  "config_outcome unmarshal rd =
     (case rd of
        Inl NotExist \<Rightarrow> Inr CompiledDefaults
      | Inl err \<Rightarrow> Inl (fs_text err)
      | Inr data \<Rightarrow>
          (case unmarshal data CompiledDefaults of
             Inl err \<Rightarrow> Inl err
           | Inr c \<Rightarrow> (case Validate c of Some err \<Rightarrow> Inl err | None \<Rightarrow> Inr c)))"

interpretation config_loader: hot_reload "ConfigLoader_Load unmarshal" ConfigLoader_Get cl_onChange
  "config_outcome unmarshal" "\<lambda>c. Validate c = None"
  by unfold_locales
    (auto simp: config_outcome_def ConfigLoader_Load_def ConfigLoader_Get_def CompiledDefaults_valid
      split: sum.splits fs_error.splits option.splits)

text \<open>C18 (config_reloads). However often the platform configuration is (re)loaded and whatever the
  file holds each time, the configuration in force is the last one that could be loaded, the compiled
  defaults if there was none, and it always passes validation: a broken file never replaces a working
  configuration.\<close>

theorem config_reloads:
  "let config = ConfigLoader_Get
       (fold (reload (ConfigLoader_Load unmarshal)) rds (NewConfigLoader path :: 'cb ConfigLoader))
   in config = last_good (config_outcome unmarshal) CompiledDefaults rds \<and> Validate config = None"
proof -
  have "ConfigLoader_Get (NewConfigLoader path :: 'cb ConfigLoader) = CompiledDefaults"
    by (simp add: ConfigLoader_Get_def NewConfigLoader_def)
  then show ?thesis
    using config_loader.current_fold [of unmarshal rds "NewConfigLoader path :: 'cb ConfigLoader"]
      config_loader.fold_good [of "NewConfigLoader path :: 'cb ConfigLoader" unmarshal rds] CompiledDefaults_valid
    by (simp add: Let_def)
qed

text \<open>A load that succeeds hands the new configuration to every callback, in
  the order of registration, and a load that fails calls none of them and leaves the loader as it is.\<close>

theorem config_notifications:
  "snd (snd (ConfigLoader_Load unmarshal rd (ConfigLoader_OnChange cb l))) =
     (case config_outcome unmarshal rd of
        Inl _ \<Rightarrow> []
      | Inr c \<Rightarrow> map (\<lambda>cb'. (cb', c)) (cl_onChange l @ [cb]))
   \<and> (case config_outcome unmarshal rd of
        Inl _ \<Rightarrow> reload (ConfigLoader_Load unmarshal) rd l = l
      | Inr c \<Rightarrow> ConfigLoader_Get (reload (ConfigLoader_Load unmarshal) rd l) = c)"
proof (cases "config_outcome unmarshal rd")
  case (Inl e)
  then show ?thesis
    using config_loader.notified [of unmarshal rd "ConfigLoader_OnChange cb l"]
      config_loader.load_err [OF Inl, of l]
    by (auto simp: reload_def)
next
  case (Inr c)
  then show ?thesis
    using config_loader.notified [of unmarshal rd "ConfigLoader_OnChange cb l"]
      config_loader.current_reload [of unmarshal rd l]
    by (simp add: ConfigLoader_OnChange_def)
qed

text \<open>The goroutines that the two \<open>Watch\<close> methods start.\<close>

definition ConfigLoader_watching :: "(string \<Rightarrow> PlatformConfig \<Rightarrow> error + PlatformConfig)
    \<Rightarrow> 'cb ConfigLoader watch \<Rightarrow> 'cb ConfigLoader watch \<Rightarrow> bool" where
  "ConfigLoader_watching unmarshal = watch_step (reload (ConfigLoader_Load unmarshal))"

definition FeatureGateLoader_watching :: "(string \<Rightarrow> FeatureGates \<Rightarrow> error + FeatureGates)
    \<Rightarrow> 'cb FeatureGateLoader watch \<Rightarrow> 'cb FeatureGateLoader watch \<Rightarrow> bool" where
  "FeatureGateLoader_watching unmarshal = watch_step (reload (FeatureGateLoader_Load unmarshal))"

text \<open>The state in which \<open>Watch\<close> is called: the file has been loaded once.\<close>

definition config_watch_init :: "(string \<Rightarrow> PlatformConfig \<Rightarrow> error + PlatformConfig) \<Rightarrow> string \<Rightarrow> file_read
    \<Rightarrow> 'cb ConfigLoader watch" where
  "config_watch_init unmarshal path f = watch_init (reload (ConfigLoader_Load unmarshal)) (NewConfigLoader path) f 0"

lemma NewConfigLoader_valid: "Validate (ConfigLoader_Get (NewConfigLoader path)) = None"
  by (simp add: ConfigLoader_Get_def NewConfigLoader_def CompiledDefaults_valid)

text \<open>At every moment, loads overlapping or not, the configuration in force is a valid one.\<close>

theorem config_watch_valid:
  assumes "steps (ConfigLoader_watching unmarshal) (config_watch_init unmarshal path f :: 'cb ConfigLoader watch) s"
  shows "Validate (ConfigLoader_Get (w_loader s)) = None"
  using config_loader.good_reachable [OF NewConfigLoader_valid] assms
  by (simp add: ConfigLoader_watching_def config_watch_init_def)


text \<open>A decoder for the demonstrations: the file's text is the image of the combined sidecar.\<close>

definition demo_unmarshal :: "string \<Rightarrow> PlatformConfig \<Rightarrow> error + PlatformConfig" where
  "demo_unmarshal data c = Inr (c\<lparr>pc_Images := (pc_Images c)\<lparr>img_AuthBridge := data\<rparr>\<rparr>)"

lemma demo_outcome: "\<exists>c. config_outcome demo_unmarshal (Inr d) = Inr c \<and> img_AuthBridge (pc_Images c) = d"
  using CompiledDefaults_valid
  by (simp add: config_outcome_def demo_unmarshal_def Validate_def split: option.splits if_splits)



section \<open>When the watcher does not converge\<close>

text \<open>Schedules: the steps of the watcher as commands that can be executed one after the other.\<close>

datatype watch_cmd = Change file_read fs_event | Early file_read | Start | Tick int | Receive | Fire | ReadNow nat | Store nat

fun watch_exec :: "(file_read \<Rightarrow> 'l \<Rightarrow> 'l) \<Rightarrow> watch_cmd \<Rightarrow> 'l watch \<Rightarrow> 'l watch option" where
  "watch_exec load (Change f ev) s =
     (if w_phase s \<noteq> Starting \<and> (f = w_file s \<or> reload_event ev)
      then Some (s\<lparr>w_file := f, w_events := w_events s @ [ev]\<rparr>) else None)"
| "watch_exec load (Early f) s =
     (if w_phase s = Starting then Some (s\<lparr>w_file := f, w_missed := (w_missed s \<or> f \<noteq> w_file s)\<rparr>) else None)"
| "watch_exec load Start s = (if w_phase s = Starting then Some (s\<lparr>w_phase := Running\<rparr>) else None)"
| "watch_exec load (Tick d) s = (if 0 \<le> d then Some (s\<lparr>w_now := w_now s + d\<rparr>) else None)"
| "watch_exec load Receive s =
     (case w_events s of
        ev # evs \<Rightarrow>
          if w_phase s = Running
          then Some (s\<lparr>w_events := evs, w_timer := (if reload_event ev then Some (w_now s + debounce) else w_timer s)\<rparr>)
          else None
      | [] \<Rightarrow> None)"
| "watch_exec load Fire s =
     (case w_timer s of
        Some due \<Rightarrow> if due \<le> w_now s then Some (s\<lparr>w_timer := None, w_loads := w_loads s @ [None]\<rparr>) else None
      | None \<Rightarrow> None)"
| "watch_exec load (ReadNow i) s =
     (if i < length (w_loads s) \<and> w_loads s ! i = None
      then Some (s\<lparr>w_loads := (w_loads s)[i := Some (w_file s)], w_missed := False\<rparr>) else None)"
| "watch_exec load (Store i) s =
     (if i < length (w_loads s)
      then (case w_loads s ! i of
              Some rd \<Rightarrow> Some (s\<lparr>w_loads := take i (w_loads s) @ drop (Suc i) (w_loads s),
                                w_loader := load rd (w_loader s), w_seen := rd\<rparr>)
            | None \<Rightarrow> None)
      else None)"

fun watch_run :: "(file_read \<Rightarrow> 'l \<Rightarrow> 'l) \<Rightarrow> watch_cmd list \<Rightarrow> 'l watch \<Rightarrow> 'l watch option" where
  "watch_run load [] s = Some s"
| "watch_run load (c # cs) s = (case watch_exec load c s of None \<Rightarrow> None | Some t \<Rightarrow> watch_run load cs t)"

lemma watch_exec_sound: "watch_exec load c s = Some t \<Longrightarrow> watch_step load s t"
proof (cases c)
  case Receive
  then show "watch_exec load c s = Some t \<Longrightarrow> watch_step load s t"
    using ws_event [of s _ _ load] by (auto split: list.splits if_split_asm)
qed (auto split: if_split_asm list.splits option.splits intro: watch_step.intros)

lemma watch_run_sound: "watch_run load cs s = Some t \<Longrightarrow> steps (watch_step load) s t"
proof (induction cs arbitrary: s)
  case (Cons c cs)
  then obtain u where "watch_exec load c s = Some u" "watch_run load cs u = Some t" by (auto split: option.splits)
  then have "steps (watch_step load) s u" "steps (watch_step load) u t"
    using Cons.IH by (auto intro: steps_single watch_exec_sound)
  then show ?case by (rule steps_trans)
qed (simp add: steps_refl)

lemma demo_reload:
  "img_AuthBridge (pc_Images (ConfigLoader_Get (reload (ConfigLoader_Load demo_unmarshal) (Inr d) l))) = d"
  using demo_outcome [of d] config_loader.current_reload [of demo_unmarshal "Inr d" l] by (auto split: sum.splits)

text \<open>C17 (overlapping_loads_stale). A load that was started before a later one can put its value in force after it:
  the debounce timer does not wait for a load that is still running. Then the watcher comes to rest with the
  configuration of an outdated file in force, although every change was noticed.\<close>

theorem overlapping_loads_stale:
  "\<exists>s. steps (ConfigLoader_watching demo_unmarshal)
      (config_watch_init demo_unmarshal path (Inr ''first'') :: 'cb ConfigLoader watch) s
    \<and> quiet s \<and> \<not> w_missed s \<and> w_file s = Inr ''third''
    \<and> img_AuthBridge (pc_Images (ConfigLoader_Get (w_loader s))) = ''second''"
proof -
  let ?schedule = "[Start, Change (Inr ''second'') [Write], Receive, Tick debounce, Fire, ReadNow 0,
     Change (Inr ''third'') [Write], Receive, Tick debounce, Fire, ReadNow 1, Store 1, Store 0]"
  obtain s where "watch_run (reload (ConfigLoader_Load demo_unmarshal)) ?schedule
      (config_watch_init demo_unmarshal path (Inr ''first'') :: 'cb ConfigLoader watch) = Some s"
    "quiet s" "\<not> w_missed s" "w_file s = Inr ''third''"
    "img_AuthBridge (pc_Images (ConfigLoader_Get (w_loader s))) = ''second''"
    by (simp add: config_watch_init_def watch_init_def reload_event_def debounce_def quiet_def demo_reload)
  then show ?thesis unfolding ConfigLoader_watching_def using watch_run_sound by blast
qed

text \<open>A change of the file between the first load and the start of the watcher goes
  unnoticed: the watcher runs and is at rest, and the configuration of the old file stays in force until some
  later change.\<close>

theorem startup_gap_stale:
  "\<exists>s. steps (ConfigLoader_watching demo_unmarshal)
      (config_watch_init demo_unmarshal path (Inr ''old'') :: 'cb ConfigLoader watch) s
    \<and> quiet s \<and> w_file s = Inr ''new'' \<and> img_AuthBridge (pc_Images (ConfigLoader_Get (w_loader s))) = ''old''"
proof -
  obtain s where "watch_run (reload (ConfigLoader_Load demo_unmarshal)) [Early (Inr ''new''), Start]
      (config_watch_init demo_unmarshal path (Inr ''old'') :: 'cb ConfigLoader watch) = Some s"
    "quiet s" "w_file s = Inr ''new''" "img_AuthBridge (pc_Images (ConfigLoader_Get (w_loader s))) = ''old''"
    by (simp add: config_watch_init_def watch_init_def quiet_def demo_reload)
  then show ?thesis unfolding ConfigLoader_watching_def using watch_run_sound by blast
qed

section \<open>The feature gate loader keeps the contract\<close>

definition gates_outcome :: "(string \<Rightarrow> FeatureGates \<Rightarrow> error + FeatureGates) \<Rightarrow> file_read
    \<Rightarrow> error + FeatureGates" where
  "gates_outcome unmarshal rd =
     (case rd of
        Inl NotExist \<Rightarrow> Inr DefaultFeatureGates
      | Inl err \<Rightarrow> Inl (fs_text err)
      | Inr data \<Rightarrow>
          (case unmarshal data DefaultFeatureGates of
             Inl err \<Rightarrow> Inl err
           | Inr g \<Rightarrow> Inr (if g = zero_FeatureGates then DefaultFeatureGates else g)))"

lemma DefaultFeatureGates_nonzero [simp]: "DefaultFeatureGates \<noteq> zero_FeatureGates"
  by (simp add: DefaultFeatureGates_def zero_FeatureGates_def)

interpretation gate_loader: hot_reload "FeatureGateLoader_Load unmarshal" FeatureGateLoader_Get fl_onChange
  "gates_outcome unmarshal" "\<lambda>g. g \<noteq> zero_FeatureGates"
  by unfold_locales
    (auto simp: gates_outcome_def FeatureGateLoader_Load_def FeatureGateLoader_Get_def Let_def
      split: sum.splits fs_error.splits if_splits)

text \<open>However often the feature gates are loaded, the gates in force are those of
  the last file that could be loaded; and they are never all off: a file that switches every gate off
  explicitly is replaced by the defaults, under which injection is on.\<close>

theorem gates_never_all_off:
  "let gates = FeatureGateLoader_Get
       (fold (reload (FeatureGateLoader_Load unmarshal)) rds (NewFeatureGateLoader path :: 'cb FeatureGateLoader))
   in gates = last_good (gates_outcome unmarshal) DefaultFeatureGates rds \<and> gates \<noteq> zero_FeatureGates"
proof -
  have "FeatureGateLoader_Get (NewFeatureGateLoader path :: 'cb FeatureGateLoader) = DefaultFeatureGates"
    by (simp add: FeatureGateLoader_Get_def NewFeatureGateLoader_def)
  then show ?thesis
    using gate_loader.current_fold [of unmarshal rds "NewFeatureGateLoader path :: 'cb FeatureGateLoader"]
      gate_loader.fold_good [of "NewFeatureGateLoader path :: 'cb FeatureGateLoader" unmarshal rds]
    by (simp add: Let_def)
qed

text \<open>The same convergence for the feature gate watcher: in a quiet state the
  gates in force are those of the current file if it can be loaded.\<close>

theorem gates_watch_converges:
  assumes "steps (sequential_step (reload (FeatureGateLoader_Load unmarshal)))
             (watch_init (reload (FeatureGateLoader_Load unmarshal)) (NewFeatureGateLoader path :: 'cb FeatureGateLoader) f t) s"
    and "quiet s" and "\<not> w_missed s" and "gates_outcome unmarshal (w_file s) = Inr g"
  shows "FeatureGateLoader_Get (w_loader s) = g"
proof -
  have "FeatureGateLoader_Get (NewFeatureGateLoader path :: 'cb FeatureGateLoader) \<noteq> zero_FeatureGates"
    by (simp add: FeatureGateLoader_Get_def NewFeatureGateLoader_def)
  from gate_loader.quiet_current [OF this assms] show ?thesis .
qed

end
