(* ===== verification/Proc_World.thy ===== *)
theory Proc_World
  imports Go_Strings
begin

text \<open>
  The surroundings of the external processor (\<open>AuthBridge/AuthProxy/go-processor\<close>). Everything the
  processor asks of the operating system, the network and the third-party JWT library is an operation
  of the record \<open>ext\<close>, over an abstract world state \<open>'w\<close> that the operations with effects thread
  through: \<open>os.ReadFile\<close>, the clock, sleeping, \<open>http.PostForm\<close>, the JSON decoder of the token
  response, the JWKS cache (\<open>'c\<close>, with key sets \<open>'k\<close>) and \<open>jwt.Parse\<close>. The theorems of the
  processor's theories hold for every value of this record; the few that need a law of one operation
  (sleeping lets time pass) state it as a hypothesis.
\<close>

text \<open>\<open>url.Values\<close> built with \<open>Set\<close> only: one value per key.\<close>

type_synonym url_values = strmap

record http_response =
  StatusCode :: int
  Body :: "error + string"   \<comment> \<open>the result of \<open>io.ReadAll\<close> on the body\<close>

record tokenExchangeResponse =
  AccessToken :: string
  TokenType :: string
  ExpiresIn :: int64

text \<open>The claims of a parsed token that the processor reads.\<close>

record jwt_token =
  Issuer :: string
  Audience :: "string list"

record ('w, 'c, 'k) ext =
  ReadFile :: "'w \<Rightarrow> string \<Rightarrow> fs_error + string"
  Now :: "'w \<Rightarrow> int"                        \<comment> \<open>nanoseconds\<close>
  Sleep :: "'w \<Rightarrow> int \<Rightarrow> 'w"
  PostForm :: "'w \<Rightarrow> string \<Rightarrow> url_values \<Rightarrow> (error + http_response) \<times> 'w"
  UnmarshalToken :: "string \<Rightarrow> error + tokenExchangeResponse"
  JwksGet :: "'c \<Rightarrow> 'w \<Rightarrow> string \<Rightarrow> (error + 'k) \<times> 'w"
  JwtParse :: "'w \<Rightarrow> 'k \<Rightarrow> string \<Rightarrow> error + jwt_token"

definition http_StatusOK :: int where
  "http_StatusOK = 200"

definition second :: int where
  "second = 1000000000"

text \<open>\<open>readFileContent\<close>: the file's content with surrounding white space removed.\<close>

definition readFileContent :: "('w, 'c, 'k) ext \<Rightarrow> 'w \<Rightarrow> string \<Rightarrow> fs_error + string" where
  "readFileContent x w path = (case ReadFile x w path of Inl e \<Rightarrow> Inl e | Inr content \<Rightarrow> Inr (TrimSpace content))"

end
