(* ===== verification/Token_Client.thy ===== *)
theory Token_Client
  imports Proc_World
begin

text \<open>
  The OAuth client of the external processor (\<open>go-processor/main.go\<close>): the configuration record, the
  token-exchange and client-credentials requests, and the cache of the service's own actor token.

  Both requests follow one protocol (build a form, post it, accept only a 200 answer that decodes);
  the locale \<open>token_request\<close> states it and is interpreted on each of them. Shown here: when exactly an
  exchange succeeds, that the form authenticates the client in exactly one way, that the actor cache
  serves a token without network traffic exactly while it has more than 30 seconds to live, and how
  the 64-bit arithmetic of its expiry behaves.
\<close>

section \<open>Configuration\<close>

record Config =
  ClientID :: string
  ClientSecret :: string
  TokenURL :: string
  TargetAudience :: string
  TargetScopes :: string
  SpireEnabled :: bool
  JWTSvidPath :: string

section \<open>Requests to the token endpoint\<close>

text \<open>The common tail of both requests: transport errors, unreadable bodies, other status codes and
  undecodable bodies are errors. (The gRPC status code \<open>Internal\<close> that wraps the third text is not
  represented.)\<close>

definition token_reply :: "('w, 'c, 'k) ext \<Rightarrow> string \<Rightarrow> error + http_response
    \<Rightarrow> error + tokenExchangeResponse" where
  "token_reply x what reply =
     (case reply of
        Inl err \<Rightarrow> Inl err
      | Inr resp \<Rightarrow>
          (case Body resp of
             Inl err \<Rightarrow> Inl err
           | Inr body \<Rightarrow>
               if StatusCode resp \<noteq> http_StatusOK then Inl (what @ '' failed: '' @ body)
               else UnmarshalToken x body))"

definition token_type_access :: string where
  "token_type_access = ''urn:ietf:params:oauth:token-type:access_token''"

definition exchange_data :: "string \<Rightarrow> string \<Rightarrow> string \<Rightarrow> string \<Rightarrow> string \<Rightarrow> url_values" where
  "exchange_data clientID subjectToken audience scopes actorToken =
     (let data = [''client_id'' \<mapsto> clientID,
                  ''grant_type'' \<mapsto> ''urn:ietf:params:oauth:grant-type:token-exchange'',
                  ''requested_token_type'' \<mapsto> token_type_access,
                  ''subject_token'' \<mapsto> subjectToken,
                  ''subject_token_type'' \<mapsto> token_type_access,
                  ''audience'' \<mapsto> audience,
                  ''scope'' \<mapsto> scopes]
      in if actorToken \<noteq> []
         then data(''actor_token'' \<mapsto> actorToken, ''actor_token_type'' \<mapsto> token_type_access)
         else data)"

text \<open>The form of a token exchange, or the error when SPIRE is enabled and no JWT-SVID is readable.\<close>

definition exchange_form :: "('w, 'c, 'k) ext \<Rightarrow> 'w \<Rightarrow> string \<Rightarrow> string \<Rightarrow> string \<Rightarrow> string \<Rightarrow> string
    \<Rightarrow> bool \<Rightarrow> string \<Rightarrow> string \<Rightarrow> error + url_values" where
  "exchange_form x w clientID clientSecret subjectToken audience scopes spireEnabled jwtSvidPath actorToken =
     (let data = exchange_data clientID subjectToken audience scopes actorToken
      in if spireEnabled then
           (let unavailable = ''JWT-SVID unavailable at '' @ jwtSvidPath
                                @ '' (SPIRE enabled but file not readable)''
            in case readFileContent x w jwtSvidPath of
                 Inl err \<Rightarrow> Inl unavailable
               | Inr jwtSvid \<Rightarrow>
                   if jwtSvid = [] then Inl unavailable
                   else Inr (data(''client_assertion_type'' \<mapsto>
                                    ''urn:ietf:params:oauth:client-assertion-type:jwt-spiffe'',
                                  ''client_assertion'' \<mapsto> jwtSvid)))
         else Inr (data(''client_secret'' \<mapsto> clientSecret)))"

definition exchangeToken :: "('w, 'c, 'k) ext \<Rightarrow> 'w \<Rightarrow> string \<Rightarrow> string \<Rightarrow> string \<Rightarrow> string \<Rightarrow> string
    \<Rightarrow> string \<Rightarrow> bool \<Rightarrow> string \<Rightarrow> string \<Rightarrow> (error + string) \<times> 'w" where
  "exchangeToken x w clientID clientSecret tokenURL subjectToken audience scopes spireEnabled
       jwtSvidPath actorToken =
     (case exchange_form x w clientID clientSecret subjectToken audience scopes spireEnabled
             jwtSvidPath actorToken of
        Inl err \<Rightarrow> (Inl err, w)
      | Inr data \<Rightarrow>
          (case PostForm x w tokenURL data of
             (reply, w') \<Rightarrow>
               (case token_reply x ''token exchange'' reply of
                  Inl err \<Rightarrow> (Inl err, w')
                | Inr tokenResp \<Rightarrow> (Inr (AccessToken tokenResp), w'))))"

definition grant_form :: "string \<Rightarrow> string \<Rightarrow> string \<Rightarrow> string \<Rightarrow> url_values" where
  "grant_form clientID clientSecret audience scopes =
     (let data = [''client_id'' \<mapsto> clientID, ''client_secret'' \<mapsto> clientSecret,
                  ''grant_type'' \<mapsto> ''client_credentials''];
          data' = (if audience \<noteq> [] then data(''audience'' \<mapsto> audience) else data)
      in data'(''scope'' \<mapsto> scopes))"

definition clientCredentialsGrant :: "('w, 'c, 'k) ext \<Rightarrow> 'w \<Rightarrow> string \<Rightarrow> string \<Rightarrow> string \<Rightarrow> string
    \<Rightarrow> string \<Rightarrow> (error + string \<times> int64) \<times> 'w" where
  "clientCredentialsGrant x w clientID clientSecret tokenURL audience scopes =
     (case PostForm x w tokenURL (grant_form clientID clientSecret audience scopes) of
        (reply, w') \<Rightarrow>
          (case token_reply x ''client credentials grant'' reply of
             Inl err \<Rightarrow> (Inl err, w')
           | Inr tokenResp \<Rightarrow> (Inr (AccessToken tokenResp, ExpiresIn tokenResp), w')))"

lemma token_reply_ok_iff:
  "token_reply x what reply = Inr t \<longleftrightarrow>
     (\<exists>resp body. reply = Inr resp \<and> Body resp = Inr body \<and> StatusCode resp = http_StatusOK
        \<and> UnmarshalToken x body = Inr t)"
  by (auto simp: token_reply_def split: sum.splits)

text \<open>The shared protocol.\<close>

locale token_request =
  fixes x :: "('w, 'c, 'k) ext" and url what :: string
    and form :: "'w \<Rightarrow> error + url_values"
    and pick :: "tokenExchangeResponse \<Rightarrow> 'a"
    and run :: "'w \<Rightarrow> (error + 'a) \<times> 'w"
  assumes run_eq: "run w =
    (case form w of
       Inl err \<Rightarrow> (Inl err, w)
     | Inr data \<Rightarrow> (map_sum id pick (token_reply x what (fst (PostForm x w url data))),
                  snd (PostForm x w url data)))"
begin

lemma succeeds_iff:
  "fst (run w) = Inr a \<longleftrightarrow>
     (\<exists>data resp body t. form w = Inr data \<and> fst (PostForm x w url data) = Inr resp
        \<and> StatusCode resp = http_StatusOK \<and> Body resp = Inr body
        \<and> UnmarshalToken x body = Inr t \<and> a = pick t)"
  by (auto simp: run_eq token_reply_def split: sum.splits)

lemma no_form_no_traffic: "form w = Inl err \<Longrightarrow> run w = (Inl err, w)"
  by (simp add: run_eq)

lemma one_post: "form w = Inr data \<Longrightarrow> snd (run w) = snd (PostForm x w url data)"
  by (simp add: run_eq)

end

interpretation exchange: token_request x url "''token exchange''"
    "\<lambda>w. exchange_form x w cid sec subj aud sc spire svid actor" AccessToken
    "\<lambda>w. exchangeToken x w cid sec url subj aud sc spire svid actor"
  for x :: "('w, 'c, 'k) ext" and url cid sec subj aud sc spire svid actor
  by unfold_locales (auto simp: exchangeToken_def split: sum.splits prod.splits)

interpretation grant: token_request x url "''client credentials grant''"
    "\<lambda>w. Inr (grant_form cid sec aud sc)" "\<lambda>t. (AccessToken t, ExpiresIn t)"
    "\<lambda>w. clientCredentialsGrant x w cid sec url aud sc"
  for x :: "('w, 'c, 'k) ext" and url cid sec aud sc
  by unfold_locales (auto simp: clientCredentialsGrant_def split: sum.splits prod.splits)

section \<open>The actor-token cache\<close>

record actorTokenCache =
  atc_token :: string
  atc_expiresAt :: int

definition empty_actor_cache :: actorTokenCache where
  "empty_actor_cache = \<lparr>atc_token = [], atc_expiresAt = 0\<rparr>"

text \<open>\<open>c.token != "" && time.Now().Add(30*time.Second).Before(c.expiresAt)\<close>\<close>

definition actor_fresh :: "('w, 'c, 'k) ext \<Rightarrow> 'w \<Rightarrow> actorTokenCache \<Rightarrow> bool" where
  "actor_fresh x w c \<longleftrightarrow> atc_token c \<noteq> [] \<and> Now x w + 30 * second < atc_expiresAt c"

text \<open>\<open>time.Duration(expiresIn) * time.Second\<close> in 64-bit arithmetic, after the lower bound of 60.\<close>

definition clamp_expiry :: "int64 \<Rightarrow> int64" where
  "clamp_expiry expiresIn = (if sint expiresIn < 60 then 60 else expiresIn)"

definition duration_seconds :: "int64 \<Rightarrow> int" where
  "duration_seconds expiresIn = sint (expiresIn * 1000000000)"

definition getActorToken :: "('w, 'c, 'k) ext \<Rightarrow> 'w \<Rightarrow> actorTokenCache \<Rightarrow> string \<Rightarrow> string \<Rightarrow> string
    \<Rightarrow> (error + string) \<times> actorTokenCache \<times> 'w" where
  "getActorToken x w c clientID clientSecret tokenURL =
     (if actor_fresh x w c then (Inr (atc_token c), c, w)
      else (case clientCredentialsGrant x w clientID clientSecret tokenURL [] ''openid'' of
              (Inl err, w') \<Rightarrow> (Inl (''failed to obtain actor token: '' @ err), c, w')
            | (Inr (token, expiresIn), w') \<Rightarrow>
                (Inr token,
                 \<lparr>atc_token = token,
                  atc_expiresAt = Now x w' + duration_seconds (clamp_expiry expiresIn)\<rparr>,
                 w')))"

section \<open>Properties\<close>

text \<open>C30 (exchange_succeeds_iff). A token exchange yields a token exactly when the client could be
  authenticated (a form was built), the endpoint was reached at the configured URL with that form, it
  answered 200 and its body decoded; the token is the decoded access token.\<close>

theorem exchange_succeeds_iff:
  "fst (exchangeToken x w cid sec url subj aud sc spire svid actor) = Inr t \<longleftrightarrow>
     (\<exists>data resp body r.
        exchange_form x w cid sec subj aud sc spire svid actor = Inr data
        \<and> fst (PostForm x w url data) = Inr resp \<and> StatusCode resp = http_StatusOK
        \<and> Body resp = Inr body \<and> UnmarshalToken x body = Inr r \<and> t = AccessToken r)"
  by (rule exchange.succeeds_iff)

text \<open>The form of a token exchange carries the subject token,
  audience and scopes it was asked for, names the actor token exactly when there is one, and
  authenticates the client in exactly one way: with the JWT-SVID just read from its file when SPIRE is
  enabled, with the client secret otherwise, never both.\<close>

theorem exchange_form_authenticates_once:
  assumes "exchange_form x w cid sec subj aud sc spire svid actor = Inr data"
  shows "data ''client_id'' = Some cid \<and> data ''subject_token'' = Some subj
     \<and> data ''audience'' = Some aud \<and> data ''scope'' = Some sc
     \<and> data ''actor_token'' = (if actor = [] then None else Some actor)
     \<and> (if spire
        then data ''client_secret'' = None
             \<and> (\<exists>s. readFileContent x w svid = Inr s \<and> s \<noteq> [] \<and> data ''client_assertion'' = Some s)
        else data ''client_secret'' = Some sec \<and> data ''client_assertion'' = None)"
  using assms
  by (auto simp: exchange_form_def exchange_data_def Let_def split: if_splits sum.splits)

text \<open>A world with a fixed clock, one SVID file and a token endpoint that always answers.\<close>

definition demo_ext :: "(int, unit, unit) ext" where
  "demo_ext =
     \<lparr>ReadFile = (\<lambda>w p. if p = ''/opt/jwt_svid.token'' then Inr ''svid'' else Inl NotExist),
      Now = (\<lambda>w. w), Sleep = (\<lambda>w d. w + d),
      PostForm = (\<lambda>w u f. (Inr \<lparr>StatusCode = 200, Body = Inr ''tok''\<rparr>, w + 1)),
      UnmarshalToken = (\<lambda>b. Inr \<lparr>AccessToken = b, TokenType = ''Bearer'', ExpiresIn = 300\<rparr>),
      JwksGet = (\<lambda>c w u. (Inr (), w)),
      JwtParse = (\<lambda>w k t. Inr \<lparr>Issuer = ''iss'', Audience = [''aud'']\<rparr>)\<rparr>"

lemma demo_svid: "readFileContent demo_ext w ''/opt/jwt_svid.token'' = Inr ''svid''"
proof -
  have "TrimSpace ''svid'' = ''svid''" by (rule TrimSpace_printable) (simp add: printable_def)
  then show ?thesis by (simp add: readFileContent_def demo_ext_def)
qed

theorem exchange_form_authenticates_once_witness:
  "\<exists>data. exchange_form demo_ext 0 ''id'' ''sec'' ''sub'' ''aud'' ''openid'' True
            ''/opt/jwt_svid.token'' [] = Inr data
        \<and> data ''client_secret'' = None \<and> data ''client_assertion'' = Some ''svid''"
proof -
  obtain data where data: "exchange_form demo_ext 0 ''id'' ''sec'' ''sub'' ''aud'' ''openid'' True
            ''/opt/jwt_svid.token'' [] = Inr data"
    by (auto simp: exchange_form_def demo_svid Let_def)
  from exchange_form_authenticates_once [OF this] data demo_svid show ?thesis by auto
qed

subsection \<open>Expiry arithmetic\<close>

lemma sint_mult_seconds:
  "duration_seconds e = signed_take_bit 63 (sint e * 1000000000)"
  by (simp add: duration_seconds_def sint_word_ariths)

lemma duration_exact:
  assumes "0 \<le> sint e" "sint e \<le> 9223372036"
  shows "duration_seconds e = sint e * second"
proof -
  have "signed_take_bit 63 (sint e * 1000000000) = sint e * 1000000000"
    using assms by (intro signed_take_bit_int_eq_self) auto
  then show ?thesis by (simp add: sint_mult_seconds second_def)
qed

lemma clamp_expiry_ge: "60 \<le> sint (clamp_expiry e)"
  by (simp add: clamp_expiry_def)

lemma clamp_expiry_le: "sint e \<le> 9223372036 \<Longrightarrow> sint (clamp_expiry e) \<le> 9223372036"
  by (simp add: clamp_expiry_def)

text \<open>For lifetimes up to 9223372036 seconds (292 years) the stored
  expiry is computed without overflow: at least 60 seconds and otherwise exactly the announced
  lifetime; the next larger lifetime already wraps around to a negative duration.\<close>

theorem actor_expiry_bounds:
  "(\<forall>e. sint e \<le> 9223372036 \<longrightarrow>
       duration_seconds (clamp_expiry e) = max 60 (sint e) * second)
   \<and> duration_seconds (clamp_expiry 9223372037) < 0"
proof (intro conjI allI impI)
  fix e :: int64
  assume "sint e \<le> 9223372036"
  then have "duration_seconds (clamp_expiry e) = sint (clamp_expiry e) * second"
    using clamp_expiry_ge [of e] clamp_expiry_le by (intro duration_exact) auto
  then show "duration_seconds (clamp_expiry e) = max 60 (sint e) * second"
    by (auto simp: clamp_expiry_def)
next
  show "duration_seconds (clamp_expiry 9223372037) < 0"
    by (simp add: duration_seconds_def clamp_expiry_def)
qed

theorem actor_expiry_bounds_witness: "duration_seconds (clamp_expiry 300) = 300 * second"
  using actor_expiry_bounds by (auto dest!: spec [of _ 300] simp: second_def)

subsection \<open>Serving from the cache\<close>

lemma getActorToken_refresh:
  assumes "\<not> actor_fresh x w c" and "getActorToken x w c cid sec url = (Inr t, c', w')"
  obtains e where "clientCredentialsGrant x w cid sec url [] ''openid'' = (Inr (t, e), w')"
    and "c' = \<lparr>atc_token = t, atc_expiresAt = Now x w' + duration_seconds (clamp_expiry e)\<rparr>"
  using assms by (auto simp: getActorToken_def split: prod.splits sum.splits)

text \<open>C37 (actor_cache_window). After a refresh that obtained a non-empty token of lifetime \<open>e\<close>,
  every later call, whatever its arguments, is answered from the cache without touching the network
  exactly while the clock is more than 30 seconds before the end of the lifetime (of at least 60
  seconds) counted from the refresh.\<close>

theorem actor_cache_window:
  assumes "\<not> actor_fresh x w c"
    and "clientCredentialsGrant x w cid sec url [] ''openid'' = (Inr (t, e), w')"
    and "t \<noteq> []" and "sint e \<le> 9223372036"
  shows "getActorToken x w c cid sec url =
           (Inr t, \<lparr>atc_token = t, atc_expiresAt = Now x w' + max 60 (sint e) * second\<rparr>, w')
    \<and> (actor_fresh x v \<lparr>atc_token = t, atc_expiresAt = Now x w' + max 60 (sint e) * second\<rparr>
         \<longleftrightarrow> Now x v < Now x w' + (max 60 (sint e) - 30) * second)
    \<and> (Now x v < Now x w' + (max 60 (sint e) - 30) * second \<longrightarrow>
         getActorToken x v \<lparr>atc_token = t, atc_expiresAt = Now x w' + max 60 (sint e) * second\<rparr>
             cid' sec' url' =
         (Inr t, \<lparr>atc_token = t, atc_expiresAt = Now x w' + max 60 (sint e) * second\<rparr>, v))"
proof -
  have d: "duration_seconds (clamp_expiry e) = max 60 (sint e) * second"
    using duration_exact [of "clamp_expiry e"] clamp_expiry_ge [of e] clamp_expiry_le [OF assms(4)]
    by (auto simp: clamp_expiry_def)
  show ?thesis using assms by (auto simp: getActorToken_def actor_fresh_def d second_def)
qed

theorem actor_cache_window_witness:
  "getActorToken demo_ext 100 \<lparr>atc_token = ''tok'', atc_expiresAt = 1 + 300 * second\<rparr>
     ''other'' ''s'' ''http://elsewhere''
   = (Inr ''tok'', \<lparr>atc_token = ''tok'', atc_expiresAt = 1 + 300 * second\<rparr>, 100)"
proof -
  have g: "clientCredentialsGrant demo_ext 0 ''id'' ''sec'' ''http://kc'' [] ''openid'' =
      (Inr (''tok'', 300), 1)"
    by (simp add: clientCredentialsGrant_def demo_ext_def token_reply_def http_StatusOK_def)
  have nf: "\<not> actor_fresh demo_ext 0 empty_actor_cache"
    by (simp add: actor_fresh_def empty_actor_cache_def)
  from actor_cache_window [OF nf g, of 100 "''other''" "''s''" "''http://elsewhere''"]
  show ?thesis by (simp add: demo_ext_def second_def)
qed

end
