(* ===== verification/Resolver.thy ===== *)
theory Resolver
  imports Proc_World
begin

text \<open>
  The target resolver of the external processor (\<open>internal/resolver\<close>): mapping a destination host to
  its token-exchange configuration. \<open>NewStaticResolver\<close> compiles a YAML route table, \<open>Resolve\<close>
  looks a host up. The YAML decoder and the glob compiler are third-party code and arguments.

  The interface \<open>TargetResolver\<close> is the locale \<open>target_resolver\<close>: the contract of \<open>Resolve\<close> is
  "the first route whose pattern matches the host with its port removed, nil if there is none, never
  an error". Its clients' lemmas (port independence, first match wins, shadowing, appending routes)
  are proved once there, and the locale is interpreted on \<open>StaticResolver\<close>.
\<close>

section \<open>Data\<close>

record TargetConfig =
  tc_Audience :: string
  tc_Scopes :: string
  tc_TokenEndpoint :: string
  tc_Passthrough :: bool

record yamlRoute =
  yr_Host :: string
  yr_TargetAudience :: string
  yr_TokenScopes :: string
  yr_TokenURL :: string
  yr_Passthrough :: bool

record routeEntry =
  re_pattern :: string
  re_glob :: "string \<Rightarrow> bool"
  re_config :: TargetConfig

record StaticResolver =
  routes :: "routeEntry list"

section \<open>Loading\<close>

definition route_config :: "yamlRoute \<Rightarrow> TargetConfig" where
  "route_config yr =
     \<lparr>tc_Audience = yr_TargetAudience yr, tc_Scopes = yr_TokenScopes yr,
      tc_TokenEndpoint = yr_TokenURL yr, tc_Passthrough = yr_Passthrough yr\<rparr>"

text \<open>The loop over the decoded routes: entries whose pattern does not compile are skipped.\<close>

fun add_routes :: "(string \<Rightarrow> error + (string \<Rightarrow> bool)) \<Rightarrow> routeEntry list \<Rightarrow> yamlRoute list
    \<Rightarrow> routeEntry list" where
  "add_routes compile acc [] = acc"
| "add_routes compile acc (yr # yrs) =
     (case compile (yr_Host yr) of
        Inl err \<Rightarrow> add_routes compile acc yrs
      | Inr g \<Rightarrow>
          add_routes compile
            (acc @ [\<lparr>re_pattern = yr_Host yr, re_glob = g, re_config = route_config yr\<rparr>]) yrs)"

text \<open>\<open>NewStaticResolver\<close>: a missing file is a resolver with no routes; an unreadable or undecodable
  file is an error. \<open>stat\<close> and \<open>read\<close> are \<open>os.Stat\<close> and \<open>os.ReadFile\<close>.\<close>

definition NewStaticResolver ::
  "(string \<Rightarrow> fs_error option) \<Rightarrow> (string \<Rightarrow> fs_error + string)
    \<Rightarrow> (string \<Rightarrow> error + yamlRoute list) \<Rightarrow> (string \<Rightarrow> error + (string \<Rightarrow> bool))
    \<Rightarrow> string \<Rightarrow> fs_error + StaticResolver" where
  "NewStaticResolver stat read unmarshal compile configPath =
     (if stat configPath = Some NotExist then Inr \<lparr>routes = []\<rparr>
      else (case read configPath of
              Inl err \<Rightarrow> Inl err
            | Inr content \<Rightarrow>
                (case unmarshal content of
                   Inl err \<Rightarrow> Inl (FsError err)
                 | Inr yrs \<Rightarrow> Inr \<lparr>routes = add_routes compile [] yrs\<rparr>)))"

section \<open>Lookup\<close>

text \<open>The host with its port removed, when it has one.\<close>

definition strip_port :: "string \<Rightarrow> string" where
  "strip_port host = (case SplitHostPort host of Inl err \<Rightarrow> host | Inr (h, port) \<Rightarrow> h)"

fun first_match :: "string \<Rightarrow> routeEntry list \<Rightarrow> TargetConfig option" where
  "first_match host [] = None"
| "first_match host (e # es) = (if re_glob e host then Some (re_config e) else first_match host es)"

text \<open>\<open>Resolve\<close>: the configuration (nil when no route matches) and the error (always nil).\<close>

definition Resolve :: "StaticResolver \<Rightarrow> string \<Rightarrow> TargetConfig option \<times> error option" where
  "Resolve r host = (first_match (strip_port host) (routes r), None)"

lemma strip_port_plain:
  assumes "set h \<inter> {CHR '':'', CHR ''['', CHR '']''} = {}"
    and "set p \<inter> {CHR '':'', CHR ''['', CHR '']''} = {}"
  shows "strip_port (h @ CHR '':'' # p) = h" "strip_port h = h"
  using assms SplitHostPort_plain [OF assms] SplitHostPort_no_colon [of h]
  by (auto simp: strip_port_def)

lemma add_routes_spec:
  "add_routes compile acc yrs =
     acc @ concat (map (\<lambda>yr. case compile (yr_Host yr) of
                          Inl _ \<Rightarrow> []
                        | Inr g \<Rightarrow> [\<lparr>re_pattern = yr_Host yr, re_glob = g, re_config = route_config yr\<rparr>]) yrs)"
  by (induction compile acc yrs rule: add_routes.induct) (auto split: sum.splits)

section \<open>The interface\<close>

text \<open>A resolver is a table of routes (matcher and configuration) and a lookup.\<close>

locale target_resolver =
  fixes resolve_host :: "'r \<Rightarrow> string \<Rightarrow> TargetConfig option \<times> error option"
    and table :: "'r \<Rightarrow> ((string \<Rightarrow> bool) \<times> TargetConfig) list"
  assumes resolves: "resolve_host r host =
    (map_option snd (find (\<lambda>(m, c). m (strip_port host)) (table r)), None)"
begin

lemma never_errors: "snd (resolve_host r host) = None"
  by (simp add: resolves)

lemma port_independent: "strip_port h1 = strip_port h2 \<Longrightarrow> resolve_host r h1 = resolve_host r h2"
  by (simp add: resolves)

lemma no_match_iff:
  "fst (resolve_host r host) = None \<longleftrightarrow> (\<forall>(m, c)\<in>set (table r). \<not> m (strip_port host))"
  by (auto simp: resolves find_eq_None_iff)

lemma first_wins:
  assumes "table r = pre @ (m, c) # post" and "m (strip_port host)"
    and "\<forall>(m', c')\<in>set pre. \<not> m' (strip_port host)"
  shows "fst (resolve_host r host) = Some c"
proof -
  have "find (\<lambda>(m, c). m (strip_port host)) pre = None"
    using assms(3) by (auto simp: find_eq_None_iff)
  with assms(1,2) show ?thesis by (simp add: resolves find_append)
qed

text \<open>Routes appended to the table change nothing for hosts that already resolve.\<close>

lemma append_stable:
  assumes "table r' = table r @ extra" and "fst (resolve_host r host) = Some c"
  shows "fst (resolve_host r' host) = Some c"
  using assms by (auto simp: resolves find_append split: option.splits)

end

definition route_table :: "StaticResolver \<Rightarrow> ((string \<Rightarrow> bool) \<times> TargetConfig) list" where
  "route_table r = map (\<lambda>e. (re_glob e, re_config e)) (routes r)"

lemma first_match_find:
  "first_match host es =
     map_option snd (find (\<lambda>(m, c). m host) (map (\<lambda>e. (re_glob e, re_config e)) es))"
  by (induction es) auto

interpretation static: target_resolver Resolve route_table
  by unfold_locales (simp add: Resolve_def route_table_def first_match_find)

section \<open>Properties\<close>

text \<open>What a lookup returns on a loaded table, in terms of the decoded routes.\<close>

lemma first_match_add_routes:
  "first_match host (add_routes compile [] yrs) =
     map_option route_config
       (find (\<lambda>yr. case compile (yr_Host yr) of Inl _ \<Rightarrow> False | Inr g \<Rightarrow> g host) yrs)"
  unfolding add_routes_spec by (induction yrs) (auto split: sum.splits)

text \<open>C20 (resolver_end_to_end). Loading a route file and looking a host up selects the first route
  of the file whose pattern compiles and matches the host without its port, and yields exactly that
  route's audience, scopes, token endpoint and passthrough flag; routes with invalid patterns never
  match, and a lookup never fails.\<close>

theorem resolver_end_to_end:
  assumes "NewStaticResolver stat read unmarshal compile configPath = Inr r"
    and "stat configPath \<noteq> Some NotExist"
    and "read configPath = Inr content" and "unmarshal content = Inr yrs"
  shows "Resolve r host =
     (map_option route_config
        (find (\<lambda>yr. case compile (yr_Host yr) of Inl _ \<Rightarrow> False | Inr g \<Rightarrow> g (strip_port host)) yrs),
      None)"
  using assms by (auto simp: NewStaticResolver_def Resolve_def first_match_add_routes)

definition demo_route :: "string \<Rightarrow> string \<Rightarrow> yamlRoute" where
  "demo_route h aud = \<lparr>yr_Host = h, yr_TargetAudience = aud, yr_TokenScopes = ''openid'',
     yr_TokenURL = [], yr_Passthrough = False\<rparr>"

definition demo_compile :: "string \<Rightarrow> error + (string \<Rightarrow> bool)" where
  "demo_compile p = (if p = [] then Inl ''empty'' else Inr (\<lambda>h. h = p))"

theorem resolver_end_to_end_witness:
  "Resolve (projr (NewStaticResolver (\<lambda>_. None) (\<lambda>_. Inr ''x'')
       (\<lambda>_. Inr [demo_route [] ''bad'', demo_route ''b'' ''first'', demo_route ''b'' ''second''])
       demo_compile ''routes.yaml'')) ''b:8080''
   = (Some (route_config (demo_route ''b'' ''first'')), None)"
proof -
  let ?yrs = "[demo_route [] ''bad'', demo_route ''b'' ''first'', demo_route ''b'' ''second'']"
  let ?new = "NewStaticResolver (\<lambda>_. None) (\<lambda>_. Inr ''x'') (\<lambda>_. Inr ?yrs) demo_compile ''routes.yaml''"
  have ok: "?new = Inr (projr ?new)" by (simp add: NewStaticResolver_def)
  have strip: "strip_port ''b:8080'' = ''b''"
    using strip_port_plain(1) [of "''b''" "''8080''"] by simp
  show ?thesis
    using resolver_end_to_end [OF ok, of "''x''" ?yrs "''b:8080''"]
    by (simp add: strip demo_compile_def demo_route_def)
qed

text \<open>The port of the request's authority does not influence routing:
  \<open>host:port\<close> and \<open>host\<close> resolve to the same configuration.\<close>

theorem resolver_port_independent:
  assumes "set h \<inter> {CHR '':'', CHR ''['', CHR '']''} = {}"
    and "set p \<inter> {CHR '':'', CHR ''['', CHR '']''} = {}"
  shows "Resolve r (h @ CHR '':'' # p) = Resolve r h"
  by (rule static.port_independent) (simp add: strip_port_plain [OF assms])

definition demo_resolver :: StaticResolver where
  "demo_resolver = \<lparr>routes = [\<lparr>re_pattern = ''a'', re_glob = (\<lambda>h. h = ''a''),
      re_config = route_config (demo_route ''a'' ''aud'')\<rparr>]\<rparr>"

theorem resolver_port_independent_witness:
  "Resolve demo_resolver ''a:443'' = (Some (route_config (demo_route ''a'' ''aud'')), None)"
proof -
  have "Resolve demo_resolver ''a:443'' = Resolve demo_resolver ''a''"
    using resolver_port_independent [of "''a''" "''443''" demo_resolver] by simp
  also have "\<dots> = (Some (route_config (demo_route ''a'' ''aud'')), None)"
    using strip_port_plain(2) [of "''a''" "''1''"] by (simp add: Resolve_def demo_resolver_def)
  finally show ?thesis .
qed

end
