(* ===== verification/Ext_Proc.thy ===== *)
theory Ext_Proc
  imports Token_Client Resolver Go_Path
begin

text \<open>
  The request handlers of the external processor (\<open>go-processor/main.go\<close>): inbound JWT validation
  with its bypass paths, outbound token injection, and the gRPC stream loop \<open>Process\<close> that
  dispatches between them.

  The processor's package variables are the record \<open>globals\<close>; the only one a handler changes is the
  actor-token cache, which \<open>handleOutbound\<close> returns. A response is the datatype
  \<open>ProcessingResponse\<close>, with the constructors of the Envoy API that the code builds.
\<close>

section \<open>Messages\<close>

record HeaderValue =
  Key :: string
  RawValue :: string

record HeaderMutation =
  SetHeaders :: "HeaderValue list"
  RemoveHeaders :: "string list"

text \<open>\<open>ImmediateResponse status body details\<close> answers the client directly; \<open>RequestHeaders\<close> lets the
  request continue, with an optional header mutation.\<close>

datatype ProcessingResponse =
    ImmediateResponse (status: int) (body: string) (details: string)
  | RequestHeaders (mutation: "HeaderMutation option")
  | ResponseHeaders
  | NoResponse

definition StatusCode_Unauthorized :: int where
  "StatusCode_Unauthorized = 401"

definition StatusCode_ServiceUnavailable :: int where
  "StatusCode_ServiceUnavailable = 503"

record ('w, 'c, 'k) globals =
  globalConfig :: Config
  actorTokenEnabled :: bool
  defaultOutboundPolicy :: string
  bypassInboundPaths :: "string list"
  jwksCache :: "'c option"
  inboundJWKSURL :: string
  inboundIssuer :: string
  expectedAudience :: string
  globalResolver :: "string \<Rightarrow> TargetConfig option \<times> error option"
  externals :: "('w, 'c, 'k) ext"

definition defaultBypassInboundPaths :: "string list" where
  "defaultBypassInboundPaths = [''/.well-known/*'', ''/healthz'', ''/readyz'', ''/livez'']"

fun getHeaderValue :: "HeaderValue list \<Rightarrow> string \<Rightarrow> string" where
  "getHeaderValue [] key = []"
| "getHeaderValue (h # hs) key = (if EqualFold (Key h) key then RawValue h else getHeaderValue hs key)"

definition getHostFromHeaders :: "HeaderValue list \<Rightarrow> string" where
  "getHostFromHeaders headers =
     (let host = getHeaderValue headers '':authority''
      in if host \<noteq> [] then host else getHeaderValue headers ''host'')"

definition denyRequest :: "string \<Rightarrow> ProcessingResponse" where
  "denyRequest message =
     ImmediateResponse StatusCode_Unauthorized
       (''{'' @ quote @ ''error'' @ quote @ '':'' @ quote @ ''unauthorized'' @ quote @ '','' @ quote
          @ ''message'' @ quote @ '':'' @ quote @ message @ quote @ ''}'')
       ''jwt_validation_failed''"

definition denyOutboundRequest :: "string \<Rightarrow> ProcessingResponse" where
  "denyOutboundRequest message =
     ImmediateResponse StatusCode_ServiceUnavailable
       (''{'' @ quote @ ''error'' @ quote @ '':'' @ quote @ ''token_acquisition_failed'' @ quote @ '','' @ quote
          @ ''message'' @ quote @ '':'' @ quote @ message @ quote @ ''}'')
       []"

section \<open>Inbound\<close>

text \<open>The loop over the bypass patterns: an invalid pattern is skipped.\<close>

fun match_any :: "string list \<Rightarrow> string \<Rightarrow> bool" where
  "match_any [] path = False"
| "match_any (pattern # ps) path =
     (case Match pattern path of
        Inl err \<Rightarrow> match_any ps path
      | Inr matched \<Rightarrow> if matched then True else match_any ps path)"

definition matchBypassPath :: "string list \<Rightarrow> string \<Rightarrow> bool" where
  "matchBypassPath patterns requestPath =
     (let p = (case IndexByte requestPath (CHR ''?'') of
                 Some idx \<Rightarrow> take idx requestPath | None \<Rightarrow> requestPath)
      in match_any patterns (Clean p))"

text \<open>\<open>fmt.Sprintf("%v", audiences)\<close>.\<close>

definition show_strings :: "string list \<Rightarrow> string" where
  "show_strings xs = ''['' @ Join xs '' '' @ '']''"

text \<open>\<open>validateInboundJWT\<close>: \<open>None\<close> when the token is accepted, else the error text.\<close>

definition validateInboundJWT :: "('w, 'c, 'k) globals \<Rightarrow> 'w \<Rightarrow> string \<Rightarrow> string \<Rightarrow> string
    \<Rightarrow> error option \<times> 'w" where
  "validateInboundJWT g w tokenString jwksURL expectedIssuer =
     (case jwksCache g of
        None \<Rightarrow> (Some ''JWKS cache not initialized'', w)
      | Some cache \<Rightarrow>
          (case JwksGet (externals g) cache w jwksURL of
             (Inl err, w') \<Rightarrow> (Some (''failed to fetch JWKS: '' @ err), w')
           | (Inr keySet, w') \<Rightarrow>
               (case JwtParse (externals g) w' keySet tokenString of
                  Inl err \<Rightarrow> (Some (''failed to parse/validate token: '' @ err), w')
                | Inr token \<Rightarrow>
                    if Issuer token \<noteq> expectedIssuer then
                      (Some (''invalid issuer: expected '' @ expectedIssuer @ '', got '' @ Issuer token), w')
                    else if expectedAudience g \<noteq> [] \<and> expectedAudience g \<notin> set (Audience token) then
                      (Some (''invalid audience: expected '' @ expectedAudience g @ '', got ''
                               @ show_strings (Audience token)), w')
                    else (None, w'))))"

definition forward_unchanged :: ProcessingResponse where
  "forward_unchanged = RequestHeaders None"

definition forward_without_direction :: ProcessingResponse where
  "forward_without_direction =
     RequestHeaders (Some \<lparr>SetHeaders = [], RemoveHeaders = [''x-authbridge-direction'']\<rparr>)"

text \<open>\<open>strings.TrimPrefix\<close> twice, as both handlers do.\<close>

definition bearer_token :: "string \<Rightarrow> string" where
  "bearer_token authHeader = TrimPrefix (TrimPrefix authHeader ''Bearer '') ''bearer ''"

definition handleInbound :: "('w, 'c, 'k) globals \<Rightarrow> 'w \<Rightarrow> HeaderValue list
    \<Rightarrow> ProcessingResponse \<times> 'w" where
  "handleInbound g w headers =
     (if jwksCache g = None \<or> inboundIssuer g = [] then (forward_unchanged, w)
      else
        (let requestPath = getHeaderValue headers '':path''
         in if requestPath \<noteq> [] \<and> matchBypassPath (bypassInboundPaths g) requestPath
            then (forward_without_direction, w)
            else
              (let authHeader = getHeaderValue headers ''authorization''
               in if authHeader = [] then (denyRequest ''missing Authorization header'', w)
                  else
                    (let tokenString = bearer_token authHeader
                     in if tokenString = authHeader
                        then (denyRequest ''invalid Authorization header format'', w)
                        else (case validateInboundJWT g w tokenString (inboundJWKSURL g) (inboundIssuer g) of
                                (Some err, w') \<Rightarrow> (denyRequest (''token validation failed: '' @ err), w')
                              | (None, w') \<Rightarrow> (forward_without_direction, w'))))))"

section \<open>Outbound\<close>

definition set_authorization :: "string \<Rightarrow> ProcessingResponse" where
  "set_authorization newToken =
     RequestHeaders (Some \<lparr>SetHeaders = [\<lparr>Key = ''authorization'', RawValue = ''Bearer '' @ newToken\<rparr>],
                           RemoveHeaders = []\<rparr>)"

text \<open>The audience, scopes and token endpoint of a request: the route's non-empty values override the
  global ones.\<close>

definition override :: "string \<Rightarrow> string \<Rightarrow> string" where
  "override dflt v = (if v \<noteq> [] then v else dflt)"

definition target_params :: "Config \<Rightarrow> TargetConfig option \<Rightarrow> string \<times> string \<times> string" where
  "target_params config target =
     (case target of
        None \<Rightarrow> (TargetAudience config, TargetScopes config, TokenURL config)
      | Some tc \<Rightarrow> (override (TargetAudience config) (tc_Audience tc),
                    override (TargetScopes config) (tc_Scopes tc),
                    override (TokenURL config) (tc_TokenEndpoint tc)))"

definition has_credentials :: "Config \<Rightarrow> bool" where
  "has_credentials config \<longleftrightarrow> SpireEnabled config \<and> JWTSvidPath config \<noteq> [] \<or> ClientSecret config \<noteq> []"

text \<open>The part of \<open>handleOutbound\<close> that runs when the configuration is complete.\<close>

definition acquire_token :: "('w, 'c, 'k) globals \<Rightarrow> actorTokenCache \<Rightarrow> 'w \<Rightarrow> HeaderValue list
    \<Rightarrow> Config \<Rightarrow> string \<Rightarrow> string \<Rightarrow> string \<Rightarrow> ProcessingResponse \<times> actorTokenCache \<times> 'w" where
  "acquire_token g cache w headers config targetAudience targetScopes tokenURL =
     (let x = externals g;
          (actorToken, cache', w1) =
            (if actorTokenEnabled g then
               (case getActorToken x w cache (ClientID config) (ClientSecret config) tokenURL of
                  (Inl err, c, w') \<Rightarrow> ([], c, w')
                | (Inr t, c, w') \<Rightarrow> (t, c, w'))
             else ([], cache, w));
          authHeader = getHeaderValue headers ''authorization''
      in if authHeader \<noteq> [] then
           (let subjectToken = bearer_token authHeader
            in if subjectToken \<noteq> authHeader then
                 (case exchangeToken x w1 (ClientID config) (ClientSecret config) tokenURL subjectToken
                         targetAudience targetScopes (SpireEnabled config) (JWTSvidPath config) actorToken of
                    (Inr newToken, w2) \<Rightarrow> (set_authorization newToken, cache', w2)
                  | (Inl err, w2) \<Rightarrow> (denyOutboundRequest ''token exchange failed'', cache', w2))
               else (denyOutboundRequest ''invalid Authorization header format'', cache', w1))
         else
           (case clientCredentialsGrant x w1 (ClientID config) (ClientSecret config) tokenURL
                   targetAudience targetScopes of
              (Inr (newToken, _), w2) \<Rightarrow> (set_authorization newToken, cache', w2)
            | (Inl err, w2) \<Rightarrow> (denyOutboundRequest ''client credentials token acquisition failed'', cache', w2)))"

definition handleOutbound :: "('w, 'c, 'k) globals \<Rightarrow> actorTokenCache \<Rightarrow> 'w \<Rightarrow> HeaderValue list
    \<Rightarrow> ProcessingResponse \<times> actorTokenCache \<times> 'w" where
  "handleOutbound g cache w headers =
     (let requestHost = getHostFromHeaders headers;
          targetConfig = fst (globalResolver g requestHost)
      in if (case targetConfig of None \<Rightarrow> False | Some tc \<Rightarrow> tc_Passthrough tc)
         then (forward_unchanged, cache, w)
         else if targetConfig = None \<and> defaultOutboundPolicy g = ''passthrough''
         then (forward_unchanged, cache, w)
         else
           (let config = globalConfig g;
                (targetAudience, targetScopes, tokenURL) = target_params config targetConfig
            in if ClientID config \<noteq> [] \<and> has_credentials config \<and> tokenURL \<noteq> []
                  \<and> targetAudience \<noteq> [] \<and> targetScopes \<noteq> []
               then acquire_token g cache w headers config targetAudience targetScopes tokenURL
               else (forward_unchanged, cache, w)))"

section \<open>The stream\<close>

text \<open>What the stream delivers in one iteration of \<open>Process\<close>: the context is done, receiving fails,
  or a request arrives (its header map may be nil) and the send succeeds or fails.\<close>

datatype stream_request =
    ReqHeaders "HeaderValue list option"
  | RespHeaders
  | OtherRequest

datatype stream_event =
    CtxDone error
  | RecvError error
  | Received stream_request "error option"

text \<open>How \<open>Process\<close> ends: with an error, or with the nil dereference of \<open>headers.Headers\<close>.\<close>

datatype process_end = Returned error | Panicked

definition handle_request :: "('w, 'c, 'k) globals \<Rightarrow> actorTokenCache \<Rightarrow> 'w \<Rightarrow> stream_request
    \<Rightarrow> (ProcessingResponse \<times> actorTokenCache \<times> 'w) option" where
  "handle_request g cache w req =
     (case req of
        ReqHeaders None \<Rightarrow> None
      | ReqHeaders (Some headers) \<Rightarrow>
          (if getHeaderValue headers ''x-authbridge-direction'' = ''inbound''
           then (case handleInbound g w headers of (resp, w') \<Rightarrow> Some (resp, cache, w'))
           else Some (handleOutbound g cache w headers))
      | RespHeaders \<Rightarrow> Some (ResponseHeaders, cache, w)
      | OtherRequest \<Rightarrow> Some (NoResponse, cache, w))"

text \<open>The loop over a script of events: the responses sent, the final cache and world, and how the
  loop ended (\<open>None\<close>: it is still waiting for the next event).\<close>

fun Process :: "('w, 'c, 'k) globals \<Rightarrow> actorTokenCache \<Rightarrow> 'w \<Rightarrow> stream_event list
    \<Rightarrow> ProcessingResponse list \<times> actorTokenCache \<times> 'w \<times> process_end option" where
  "Process g cache w [] = ([], cache, w, None)"
| "Process g cache w (CtxDone err # evs) = ([], cache, w, Some (Returned err))"
| "Process g cache w (RecvError err # evs) =
     ([], cache, w, Some (Returned (''cannot receive stream request: '' @ err)))"
| "Process g cache w (Received req send # evs) =
     (case handle_request g cache w req of
        None \<Rightarrow> ([], cache, w, Some Panicked)
      | Some (resp, cache', w') \<Rightarrow>
          (case send of
             Some err \<Rightarrow> ([], cache', w', Some (Returned (''cannot send stream response: '' @ err)))
           | None \<Rightarrow>
               (case Process g cache' w' evs of
                  (resps, cache'', w'', e) \<Rightarrow> (resp # resps, cache'', w'', e))))"

section \<open>Inbound properties\<close>

lemma match_any_iff: "match_any ps path \<longleftrightarrow> (\<exists>p\<in>set ps. Match p path = Inr True)"
  by (induction ps) (auto split: sum.splits)

lemma matchBypassPath_eq:
  "matchBypassPath ps p = match_any ps (Clean (takeWhile (\<lambda>c. c \<noteq> CHR ''?'') p))"
  by (simp add: matchBypassPath_def take_IndexByte)

lemma default_patterns:
  "Match ''/.well-known/*'' q = Inr (\<exists>r. q = ''/.well-known/'' @ r \<and> CHR ''/'' \<notin> set r)"
  "Match ''/healthz'' q = Inr (q = ''/healthz'')"
  "Match ''/readyz'' q = Inr (q = ''/readyz'')"
  "Match ''/livez'' q = Inr (q = ''/livez'')"
  using Match_plain_star [of "''/.well-known/''" q]
  by (simp_all add: Match_plain plain_def)

text \<open>A cleaned path below \<open>/.well-known/\<close> without a further slash has exactly one proper element
  there: not empty, not \<open>.\<close>, not \<open>..\<close>.\<close>

lemma Clean_well_known:
  assumes "Clean p = ''/.well-known/'' @ r" and "CHR ''/'' \<notin> set r"
  shows "proper_elem r"
proof -
  have "starts (CHR ''/'') (Clean p)" using assms(1) by simp
  then have "starts (CHR ''/'') p" using Clean_relative_not_rooted by blast
  then obtain q where "p = CHR ''/'' # q" by (auto simp: starts_iff)
  then obtain es where es: "Clean p = CHR ''/'' # Join es ''/''" "\<forall>e\<in>set es. proper_elem e"
    using Clean_canonical by blast
  then have join: "Join es ''/'' = ''.well-known'' @ CHR ''/'' # r" using assms(1) by simp
  then have "es \<noteq> []" by auto
  then have "Split (Join es ''/'') (CHR ''/'') = es"
    using es(2) by (intro Split_Join) (auto simp: proper_elem_def)
  moreover have "Split (Join es ''/'') (CHR ''/'') = [''.well-known'', r]"
    using assms(2) by (simp add: join)
  ultimately show ?thesis using es(2) by auto
qed

text \<open>C29 (default_bypass_iff). With the default patterns, a request path skips token validation
  exactly when, after its query string is cut off and the rest is normalised, it is one of the three
  probe paths or a single proper path element directly below \<open>/.well-known/\<close>. In particular no path
  that normalises to anything else (by \<open>..\<close>, \<open>.\<close>, or doubled slashes) is let through.\<close>

theorem default_bypass_iff:
  "matchBypassPath defaultBypassInboundPaths p \<longleftrightarrow>
     (let q = Clean (takeWhile (\<lambda>c. c \<noteq> CHR ''?'') p)
      in q \<in> {''/healthz'', ''/readyz'', ''/livez''} \<or> (\<exists>e. proper_elem e \<and> q = ''/.well-known/'' @ e))"
proof -
  have "(\<exists>r. Clean p = ''/.well-known/'' @ r \<and> CHR ''/'' \<notin> set r)
      \<longleftrightarrow> (\<exists>e. proper_elem e \<and> Clean p = ''/.well-known/'' @ e)" for p
    using Clean_well_known by (auto simp: proper_elem_def)
  then show ?thesis
    by (auto simp: matchBypassPath_eq match_any_iff defaultBypassInboundPaths_def default_patterns Let_def)
qed

lemma TrimPrefix_shorter: "TrimPrefix s p = s \<or> length (TrimPrefix s p) < length s"
  by (cases "p = []") (auto simp: TrimPrefix_def HasPrefix_iff)

lemma bearer_token_changed_iff:
  "bearer_token a \<noteq> a \<longleftrightarrow> HasPrefix a ''Bearer '' \<or> HasPrefix a ''bearer ''"
proof -
  have "TrimPrefix (TrimPrefix a ''Bearer '') ''bearer '' = a
      \<longleftrightarrow> TrimPrefix a ''Bearer '' = a \<and> TrimPrefix a ''bearer '' = a"
    using TrimPrefix_shorter [of a "''Bearer ''"]
      TrimPrefix_shorter [of "TrimPrefix a ''Bearer ''" "''bearer ''"] by auto
  then show ?thesis by (simp add: bearer_token_def TrimPrefix_eq_iff)
qed

text \<open>The token policy of the inbound side: keys for the configured URL, a parse with signature and
  time checks under these keys, the configured issuer, and the expected audience when one is set.\<close>

definition token_accepted :: "('w, 'c, 'k) globals \<Rightarrow> 'w \<Rightarrow> string \<Rightarrow> bool" where
  "token_accepted g w t =
     (case jwksCache g of
        None \<Rightarrow> False
      | Some cache \<Rightarrow>
          (case JwksGet (externals g) cache w (inboundJWKSURL g) of
             (Inl _, _) \<Rightarrow> False
           | (Inr keys, w') \<Rightarrow>
               (case JwtParse (externals g) w' keys t of
                  Inl _ \<Rightarrow> False
                | Inr tok \<Rightarrow> Issuer tok = inboundIssuer g
                            \<and> (expectedAudience g = [] \<or> expectedAudience g \<in> set (Audience tok)))))"

definition inbound_allowed :: "('w, 'c, 'k) globals \<Rightarrow> 'w \<Rightarrow> HeaderValue list \<Rightarrow> bool" where
  "inbound_allowed g w headers \<longleftrightarrow>
     (let path = getHeaderValue headers '':path''; auth = getHeaderValue headers ''authorization''
      in path \<noteq> [] \<and> matchBypassPath (bypassInboundPaths g) path
         \<or> (HasPrefix auth ''Bearer '' \<or> HasPrefix auth ''bearer '') \<and> token_accepted g w (bearer_token auth))"

lemma validate_accepts_iff:
  "fst (validateInboundJWT g w t (inboundJWKSURL g) (inboundIssuer g)) = None \<longleftrightarrow> token_accepted g w t"
  by (auto simp: validateInboundJWT_def token_accepted_def split: option.splits prod.splits sum.splits)

lemma denyRequest_not_forward [simp]:
  "denyRequest m \<noteq> forward_without_direction" "forward_without_direction \<noteq> denyRequest m"
  by (simp_all add: denyRequest_def forward_without_direction_def)

text \<open>C1 (inbound_decision). Once inbound validation is configured, every inbound request is either
  forwarded (with the internal direction header removed) or answered with 401, and it is forwarded
  exactly when its path is a bypass path or it carries a bearer token that the policy accepts:
  verified against the keys of the configured JWKS URL, issued by the configured issuer and, if an
  audience is expected, addressed to it. A request without a token, outside the bypass paths, is thus
  answered with 401: the processor does enforce that there is one, although the README of the quickstart
  says that it does not.\<close>

theorem inbound_decision:
  assumes "jwksCache g = Some cache" and "inboundIssuer g \<noteq> []"
  shows "if inbound_allowed g w headers
         then fst (handleInbound g w headers) = forward_without_direction
         else \<exists>msg. fst (handleInbound g w headers) = denyRequest msg"
proof -
  let ?auth = "getHeaderValue headers ''authorization''"
  have prefix: "\<not> HasPrefix [] ''Bearer ''" "\<not> HasPrefix [] ''bearer ''"
    by (simp_all add: HasPrefix_def)
  show ?thesis
    using assms validate_accepts_iff [of g w "bearer_token ?auth"] bearer_token_changed_iff [of ?auth] prefix
    by (auto simp: handleInbound_def inbound_allowed_def Let_def split: prod.splits option.splits)
qed

definition demo_config :: Config where
  "demo_config = \<lparr>ClientID = ''agent'', ClientSecret = ''s3cret'', TokenURL = ''http://kc/token'',
     TargetAudience = ''tool'', TargetScopes = ''openid'', SpireEnabled = False, JWTSvidPath = []\<rparr>"

definition demo_globals :: "(int, unit, unit) globals" where
  "demo_globals = \<lparr>globalConfig = demo_config, actorTokenEnabled = False,
     defaultOutboundPolicy = ''exchange'', bypassInboundPaths = defaultBypassInboundPaths,
     jwksCache = Some (), inboundJWKSURL = ''http://kc/certs'', inboundIssuer = ''iss'',
     expectedAudience = ''aud'', globalResolver = (\<lambda>h. (None, None)), externals = demo_ext\<rparr>"

theorem inbound_decision_witness:
  "fst (handleInbound demo_globals 0 [\<lparr>Key = ''Authorization'', RawValue = ''Bearer abc''\<rparr>])
     = forward_without_direction
   \<and> (\<exists>msg. fst (handleInbound (demo_globals\<lparr>expectedAudience := ''other''\<rparr>) 0
        [\<lparr>Key = ''Authorization'', RawValue = ''Bearer abc''\<rparr>]) = denyRequest msg)"
proof -
  let ?h = "[\<lparr>Key = ''Authorization'', RawValue = ''Bearer abc''\<rparr>]"
  have auth: "getHeaderValue ?h ''authorization'' = ''Bearer abc''" "getHeaderValue ?h '':path'' = []"
    by code_simp+
  have "inbound_allowed demo_globals 0 ?h"
    by (simp add: inbound_allowed_def auth demo_globals_def token_accepted_def demo_ext_def HasPrefix_def
          del: getHeaderValue.simps)
  moreover have "\<not> inbound_allowed (demo_globals\<lparr>expectedAudience := ''other''\<rparr>) 0 ?h"
    by (simp add: inbound_allowed_def auth demo_globals_def token_accepted_def demo_ext_def HasPrefix_def
          del: getHeaderValue.simps)
  ultimately show ?thesis
    using inbound_decision [of demo_globals "()" 0 ?h]
      inbound_decision [of "demo_globals\<lparr>expectedAudience := ''other''\<rparr>" "()" 0 ?h]
    by (simp add: demo_globals_def)
qed

section \<open>Outbound properties\<close>

text \<open>The three reasons for which an outbound request is passed on unchanged, in terms of the route,
  the default policy and the configuration.\<close>

definition outbound_params :: "('w, 'c, 'k) globals \<Rightarrow> HeaderValue list \<Rightarrow> string \<times> string \<times> string" where
  "outbound_params g headers =
     target_params (globalConfig g) (fst (globalResolver g (getHostFromHeaders headers)))"

definition outbound_exempt :: "('w, 'c, 'k) globals \<Rightarrow> HeaderValue list \<Rightarrow> bool" where
  "outbound_exempt g headers \<longleftrightarrow>
     (case fst (globalResolver g (getHostFromHeaders headers)) of
        None \<Rightarrow> defaultOutboundPolicy g = ''passthrough''
      | Some tc \<Rightarrow> tc_Passthrough tc)"

definition exchange_configured :: "('w, 'c, 'k) globals \<Rightarrow> HeaderValue list \<Rightarrow> bool" where
  "exchange_configured g headers \<longleftrightarrow>
     ClientID (globalConfig g) \<noteq> [] \<and> has_credentials (globalConfig g)
     \<and> (case outbound_params g headers of (aud, sc, url) \<Rightarrow> url \<noteq> [] \<and> aud \<noteq> [] \<and> sc \<noteq> [])"

lemmas outbound_defs = outbound_params_def outbound_exempt_def exchange_configured_def

lemma handleOutbound_cases:
  "handleOutbound g cache w headers =
     (if outbound_exempt g headers \<or> \<not> exchange_configured g headers then (forward_unchanged, cache, w)
      else (case outbound_params g headers of
              (aud, sc, url) \<Rightarrow> acquire_token g cache w headers (globalConfig g) aud sc url))"
  by (auto simp: handleOutbound_def outbound_defs Let_def split: option.splits prod.splits)

lemma response_distinct [simp]:
  "denyOutboundRequest m \<noteq> forward_unchanged" "set_authorization t \<noteq> forward_unchanged"
  "set_authorization t \<noteq> denyOutboundRequest m" "denyOutboundRequest m \<noteq> set_authorization t"
  "set_authorization t = set_authorization t' \<longleftrightarrow> t = t'"
  by (auto simp: denyOutboundRequest_def forward_unchanged_def set_authorization_def)

lemma acquire_token_answers:
  "(\<exists>t. fst (acquire_token g cache w headers config aud sc url) = set_authorization t)
   \<or> (\<exists>m. fst (acquire_token g cache w headers config aud sc url) = denyOutboundRequest m)"
  by (auto simp: acquire_token_def Let_def split: prod.splits sum.splits)

text \<open>C11 (outbound_pass_iff). An outbound request continues with its headers untouched exactly when
  its route is a passthrough route, no route matches and the default policy is passthrough, or the
  exchange configuration is incomplete; and then neither the network nor the actor cache is touched.\<close>

theorem outbound_pass_iff:
  "if exchange_configured g headers \<and> \<not> outbound_exempt g headers
   then fst (handleOutbound g cache w headers) \<noteq> forward_unchanged
   else handleOutbound g cache w headers = (forward_unchanged, cache, w)"
proof (cases "outbound_exempt g headers \<or> \<not> exchange_configured g headers")
  case False
  obtain aud sc url where p: "outbound_params g headers = (aud, sc, url)" by (cases "outbound_params g headers")
  have "fst (acquire_token g cache w headers (globalConfig g) aud sc url) \<noteq> forward_unchanged"
    using acquire_token_answers [of g cache w headers "globalConfig g" aud sc url] by fastforce
  with False p show ?thesis by (simp add: handleOutbound_cases)
qed (auto simp: handleOutbound_cases)

text \<open>Where an injected token comes from: a 200 answer of the route's endpoint to a form with the
  route's audience and scopes and, if the request carried a token, that token as the subject.\<close>

definition issued_for :: "('w, 'c, 'k) ext \<Rightarrow> string \<Rightarrow> string \<Rightarrow> string \<Rightarrow> string option \<Rightarrow> string \<Rightarrow> bool" where
  "issued_for x url aud sc subject t \<longleftrightarrow>
     (\<exists>w data resp body r. data ''audience'' = Some aud \<and> data ''scope'' = Some sc
        \<and> data ''subject_token'' = subject
        \<and> fst (PostForm x w url data) = Inr resp \<and> StatusCode resp = http_StatusOK
        \<and> Body resp = Inr body \<and> UnmarshalToken x body = Inr r \<and> t = AccessToken r)"

lemma exchange_issued:
  assumes "exchangeToken x w cid sec url subj aud sc spire svid actor = (Inr t, w')"
  shows "issued_for x url aud sc (Some subj) t"
proof -
  obtain data resp body r where f: "exchange_form x w cid sec subj aud sc spire svid actor = Inr data"
    and p: "fst (PostForm x w url data) = Inr resp" "StatusCode resp = http_StatusOK"
      "Body resp = Inr body" "UnmarshalToken x body = Inr r" "t = AccessToken r"
    using arg_cong [OF assms, of fst, simplified, unfolded exchange.succeeds_iff] by blast
  have "data ''audience'' = Some aud" "data ''scope'' = Some sc" "data ''subject_token'' = Some subj"
    using f by (auto simp: exchange_form_def exchange_data_def Let_def split: if_splits sum.splits)
  with p show ?thesis unfolding issued_for_def by blast
qed

lemma grant_issued:
  assumes "clientCredentialsGrant x w cid sec url aud sc = (Inr (t, e), w')" and "aud \<noteq> []"
  shows "issued_for x url aud sc None t"
proof -
  obtain resp body r where p: "fst (PostForm x w url (grant_form cid sec aud sc)) = Inr resp"
      "StatusCode resp = http_StatusOK" "Body resp = Inr body" "UnmarshalToken x body = Inr r"
      "t = AccessToken r"
    using arg_cong [OF assms(1), of fst, simplified, unfolded grant.succeeds_iff] by auto
  moreover have "grant_form cid sec aud sc ''audience'' = Some aud"
      "grant_form cid sec aud sc ''scope'' = Some sc" "grant_form cid sec aud sc ''subject_token'' = None"
    using assms(2) by (auto simp: grant_form_def Let_def)
  ultimately show ?thesis unfolding issued_for_def by blast
qed

lemma acquire_token_issued:
  assumes "fst (acquire_token g cache w headers config aud sc url) = set_authorization t" and "aud \<noteq> []"
  shows "issued_for (externals g) url aud sc
           (let auth = getHeaderValue headers ''authorization''
            in if auth = [] then None else Some (bearer_token auth)) t"
  using assms(1)
  by (auto simp: acquire_token_def Let_def split: prod.splits sum.splits if_splits
      dest: exchange_issued grant_issued [OF _ assms(2)])

text \<open>C2 (outbound_fail_closed). When neither the route nor the default policy exempts a request and
  the exchange configuration is complete, the caller's own credentials never reach the destination:
  the request either continues with its authorization header replaced by a token that the route's
  token endpoint issued for the route's audience and scopes (on behalf of the caller's token, if it
  sent one), or it is answered with 503.\<close>

theorem outbound_fail_closed:
  assumes "\<not> outbound_exempt g headers" and "exchange_configured g headers"
    and "outbound_params g headers = (aud, sc, url)"
  shows "(\<exists>t. fst (handleOutbound g cache w headers) = set_authorization t
            \<and> issued_for (externals g) url aud sc
                (let auth = getHeaderValue headers ''authorization''
                 in if auth = [] then None else Some (bearer_token auth)) t)
       \<or> (\<exists>m. fst (handleOutbound g cache w headers) = denyOutboundRequest m)"
proof -
  have eq: "handleOutbound g cache w headers = acquire_token g cache w headers (globalConfig g) aud sc url"
    using assms by (simp add: handleOutbound_cases)
  have aud: "aud \<noteq> []" using assms(2,3) by (simp add: exchange_configured_def)
  show ?thesis
    unfolding eq
    using acquire_token_answers [of g cache w headers "globalConfig g" aud sc url]
      acquire_token_issued [OF _ aud, of g cache w headers "globalConfig g" sc url] by blast
qed

theorem outbound_fail_closed_witness:
  "\<exists>t. fst (handleOutbound demo_globals empty_actor_cache 0 []) = set_authorization t
     \<or> (\<exists>m. fst (handleOutbound demo_globals empty_actor_cache 0 []) = denyOutboundRequest m)"
proof -
  have p: "outbound_params demo_globals [] = (''tool'', ''openid'', ''http://kc/token'')"
    by (simp add: outbound_params_def demo_globals_def target_params_def demo_config_def)
  have e: "\<not> outbound_exempt demo_globals []"
    by (simp add: outbound_exempt_def demo_globals_def)
  have c: "exchange_configured demo_globals []"
    by (simp add: exchange_configured_def p) (simp add: demo_globals_def demo_config_def has_credentials_def)
  show ?thesis using outbound_fail_closed [OF e c p, of empty_actor_cache 0] by blast
qed

section \<open>Stream properties\<close>

text \<open>The events on which the loop goes on: a request whose headers are not nil, answered
  successfully.\<close>

fun continues :: "stream_event \<Rightarrow> bool" where
  "continues (Received req None) \<longleftrightarrow> req \<noteq> ReqHeaders None"
| "continues _ \<longleftrightarrow> False"

lemma handle_request_None_iff: "handle_request g cache w req = None \<longleftrightarrow> req = ReqHeaders None"
  by (auto simp: handle_request_def case_prod_beta split: stream_request.splits option.splits)
     (metis prod_cases3)

lemma handle_request_nil [simp]: "handle_request g cache w (ReqHeaders None) = None"
  by (simp add: handle_request_None_iff)

lemma continuesE:
  assumes "continues ev"
  obtains req resp cache' w' where "ev = Received req None" and "handle_request g cache w req = Some (resp, cache', w')"
proof -
  from assms obtain req where ev: "ev = Received req None" and "req \<noteq> ReqHeaders None"
    by (cases ev rule: continues.cases) auto
  then have "handle_request g cache w req \<noteq> None" by (simp add: handle_request_None_iff)
  with ev that show ?thesis by (cases "handle_request g cache w req") auto
qed

text \<open>The state (actor cache and world) after a list of requests, and the answer of the handlers to a request in
  a state.\<close>

definition after_request :: "('w, 'c, 'k) globals \<Rightarrow> actorTokenCache \<times> 'w \<Rightarrow> stream_request \<Rightarrow> actorTokenCache \<times> 'w" where
  "after_request g s req =
     (case handle_request g (fst s) (snd s) req of None \<Rightarrow> s | Some (resp, cache', w') \<Rightarrow> (cache', w'))"

definition answer :: "('w, 'c, 'k) globals \<Rightarrow> actorTokenCache \<times> 'w \<Rightarrow> stream_request \<Rightarrow> ProcessingResponse option" where
  "answer g s req = map_option fst (handle_request g (fst s) (snd s) req)"

fun request_of :: "stream_event \<Rightarrow> stream_request option" where
  "request_of (Received req send) = Some req"
| "request_of _ = None"

text \<open>Why the loop ends at an event on which it does not go on.\<close>

fun stop_reason :: "stream_event \<Rightarrow> process_end" where
  "stop_reason (CtxDone err) = Returned err"
| "stop_reason (RecvError err) = Returned (''cannot receive stream request: '' @ err)"
| "stop_reason (Received req send) =
     (case (req, send) of
        (ReqHeaders None, _) \<Rightarrow> Panicked
      | (_, Some err) \<Rightarrow> Returned (''cannot send stream response: '' @ err)
      | (_, None) \<Rightarrow> Panicked)"

definition served :: "stream_event list \<Rightarrow> stream_request list" where
  "served evs = List.map_filter request_of (takeWhile continues evs)"

lemma served_simps [simp]:
  "served [] = []" "served (CtxDone err # evs) = []" "served (RecvError err # evs) = []"
  "served (Received req send # evs) = (if continues (Received req send) then req # served evs else [])"
  by (simp_all add: served_def)

lemma map_upt_Cons: "map f [0..<Suc n] = f 0 # map (\<lambda>i. f (Suc i)) [0..<n]"
  by (simp add: upt_conv_Cons map_Suc_upt [symmetric] del: upt_Suc)

lemma stop_handled: "req \<noteq> ReqHeaders None \<Longrightarrow> stop_reason (Received req (Some err)) = Returned (''cannot send stream response: '' @ err)"
  by (auto split: stream_request.split option.split)

text \<open>C9 (process_answers_every_request). The stream loop answers requests one by one, in order: the \<open>i\<close>-th response
  it sends is the answer of the handlers to the \<open>i\<close>-th request, in the state that the requests before it
  left. It goes on as long as requests arrive intact and sends succeed; at the first other event it ends, with
  the reason that belongs to this event (a nil header map is a panic), and nothing further is sent.\<close>

theorem process_answers_every_request:
  "case Process g cache w evs of
     (resps, cache', w', fin) \<Rightarrow>
       map Some resps = map (\<lambda>i. answer g (foldl (after_request g) (cache, w) (take i (served evs))) (served evs ! i))
                          [0..<length (served evs)]
       \<and> (case dropWhile continues evs of
            [] \<Rightarrow> fin = None \<and> (cache', w') = foldl (after_request g) (cache, w) (served evs)
          | ev # _ \<Rightarrow> fin = Some (stop_reason ev)
              \<and> (cache', w') = foldl (after_request g) (cache, w)
                  (served evs @ (case request_of ev of None \<Rightarrow> [] | Some req \<Rightarrow> [req])))"
proof (induction g cache w evs rule: Process.induct)
  case (4 g cache w req send evs)
  show ?case
  proof (cases "continues (Received req send)")
    case True
    then obtain resp cache' w' where h: "handle_request g cache w req = Some (resp, cache', w')"
      and s: "send = None" by (rule continuesE [of _ g cache w]) auto
    have st: "after_request g (cache, w) req = (cache', w')" "answer g (cache, w) req = Some resp"
      by (simp_all add: after_request_def answer_def h)
    from "4.IH" [OF h refl refl s] True h s st show ?thesis
      by (cases "dropWhile continues evs")
        (auto simp: map_upt_Cons simp del: upt_Suc dropWhile_eq_Nil_conv split: prod.splits)
  next
    case False
    show ?thesis
    proof (cases "req = ReqHeaders None")
      case True
      then show ?thesis using False by (simp add: after_request_def)
    next
      case req: False
      with False obtain err where send: "send = Some err" by (cases send) auto
      obtain resp cache' w' where h: "handle_request g cache w req = Some (resp, cache', w')"
        using req handle_request_None_iff [of g cache w req] by (cases "handle_request g cache w req") auto
      then show ?thesis using stop_handled [OF req, of err] by (simp add: send after_request_def)
    qed
  qed
qed simp_all

text \<open>The stream loop processes its events one after the other with the
  state (actor cache and world) carried along: running it on a stream that keeps it alive and then on
  more events is running it once on the concatenation.\<close>

theorem process_sequential:
  assumes "Process g cache w evs = (resps, cache', w', None)"
  shows "Process g cache w (evs @ evs') =
    (case Process g cache' w' evs' of (resps', cache'', w'', fin) \<Rightarrow> (resps @ resps', cache'', w'', fin))"
  using assms
proof (induction g cache w evs arbitrary: resps rule: Process.induct)
  case (4 g cache w req send evs)
  from "4.prems" obtain resp c1 w1 resps1
    where h: "handle_request g cache w req = Some (resp, c1, w1)" and s: "send = None"
      and p: "Process g c1 w1 evs = (resps1, cache', w', None)" and r: "resps = resp # resps1"
    by (auto split: option.splits prod.splits)
  from "4.IH" [OF h _ _ s p] show ?case by (auto simp: h s r split: prod.splits)
qed auto

theorem process_sequential_witness:
  "Process demo_globals empty_actor_cache 0 ([Received OtherRequest None] @ [Received RespHeaders None])
   = ([NoResponse, ResponseHeaders], empty_actor_cache, 0, None)"
proof -
  have "Process demo_globals empty_actor_cache 0 [Received OtherRequest None]
      = ([NoResponse], empty_actor_cache, 0, None)"
    by (simp add: handle_request_def)
  from process_sequential [OF this, of "[Received RespHeaders None]"] show ?thesis
    by (simp add: handle_request_def)
qed

end
