(* ===== verification/Proc_Startup.thy ===== *)
theory Proc_Startup
  imports Ext_Proc
begin

text \<open>
  Start-up of the external processor (\<open>go-processor/main.go\<close>: \<open>loadConfig\<close>,
  \<open>waitForCredentials\<close>, \<open>initJWKSCache\<close> and the initialisation part of \<open>main\<close>). The process
  environment is a map; waiting for the credential files is a loop that may not end, so it is an
  option-valued partial function, and its termination is proved from the law that sleeping lets at
  least that much time pass. The listener and the gRPC server are
  parameters of \<open>processor_main\<close>.
\<close>

section \<open>Configuration from environment and files\<close>

definition env_or :: "strmap \<Rightarrow> string \<Rightarrow> string \<Rightarrow> string" where
  "env_or env k dflt = (let v = map_get env k in if v = [] then dflt else v)"

definition clientIDFile :: "strmap \<Rightarrow> string" where
  "clientIDFile env = env_or env ''CLIENT_ID_FILE'' ''/shared/client-id.txt''"

definition clientSecretFile :: "strmap \<Rightarrow> string" where
  "clientSecretFile env = env_or env ''CLIENT_SECRET_FILE'' ''/shared/client-secret.txt''"

text \<open>A credential: the file if it is readable and not blank, else the environment variable if set,
  else the value already there.\<close>

definition load_credential :: "('w, 'c, 'k) ext \<Rightarrow> 'w \<Rightarrow> string \<Rightarrow> string \<Rightarrow> string \<Rightarrow> string" where
  "load_credential x w file envValue old =
     (case readFileContent x w file of
        Inr content \<Rightarrow> if content \<noteq> [] then content else if envValue \<noteq> [] then envValue else old
      | Inl err \<Rightarrow> if envValue \<noteq> [] then envValue else old)"

definition loadConfig :: "('w, 'c, 'k) ext \<Rightarrow> 'w \<Rightarrow> strmap \<Rightarrow> Config \<Rightarrow> Config" where
  "loadConfig x w env config =
     \<lparr>ClientID = load_credential x w (clientIDFile env) (map_get env ''CLIENT_ID'') (ClientID config),
      ClientSecret = load_credential x w (clientSecretFile env) (map_get env ''CLIENT_SECRET'')
                       (ClientSecret config),
      TokenURL = map_get env ''TOKEN_URL'',
      TargetAudience = map_get env ''TARGET_AUDIENCE'',
      TargetScopes = map_get env ''TARGET_SCOPES'',
      SpireEnabled = (map_get env ''SPIRE_ENABLED'' = ''true''),
      JWTSvidPath = env_or env ''JWT_SVID_PATH'' ''/opt/jwt_svid.token''\<rparr>"

section \<open>Waiting for the credential files\<close>

definition credential_files_ready :: "('w, 'c, 'k) ext \<Rightarrow> strmap \<Rightarrow> 'w \<Rightarrow> bool" where
  "credential_files_ready x env w =
     (case (readFileContent x w (clientIDFile env), readFileContent x w (clientSecretFile env)) of
        (Inr clientID, Inr clientSecret) \<Rightarrow> clientID \<noteq> [] \<and> clientSecret \<noteq> []
      | _ \<Rightarrow> False)"

partial_function (option) wait_loop ::
  "('w, 'c, 'k) ext \<Rightarrow> strmap \<Rightarrow> int \<Rightarrow> 'w \<Rightarrow> (bool \<times> 'w) option" where
  "wait_loop x env deadline w =
     (if Now x w < deadline then
        (if credential_files_ready x env w then Some (True, w)
         else wait_loop x env deadline (Sleep x w (2 * second)))
      else Some (False, w))"

definition waitForCredentials :: "('w, 'c, 'k) ext \<Rightarrow> strmap \<Rightarrow> int \<Rightarrow> 'w \<Rightarrow> (bool \<times> 'w) option" where
  "waitForCredentials x env maxWait w = wait_loop x env (Now x w + maxWait) w"

section \<open>Initialisation\<close>

text \<open>What start-up additionally needs from libraries: the JWKS cache constructor and registration, and
  the arguments of \<open>NewStaticResolver\<close>.\<close>

record ('c) startup_ext =
  NewCache :: 'c
  Register :: "'c \<Rightarrow> string \<Rightarrow> error + 'c"
  os_Stat :: "string \<Rightarrow> fs_error option"
  os_ReadFile :: "string \<Rightarrow> fs_error + string"
  yaml_Unmarshal :: "string \<Rightarrow> error + yamlRoute list"
  glob_Compile :: "string \<Rightarrow> error + (string \<Rightarrow> bool)"

definition deriveJWKSURL :: "string \<Rightarrow> string" where
  "deriveJWKSURL tokenURL = TrimSuffix tokenURL ''/token'' @ ''/certs''"

text \<open>The cache exists even when the registration of its URL fails.\<close>

definition initJWKSCache :: "'c startup_ext \<Rightarrow> string \<Rightarrow> 'c" where
  "initJWKSCache sx jwksURL =
     (case Register sx (NewCache sx) jwksURL of Inl err \<Rightarrow> NewCache sx | Inr cache \<Rightarrow> cache)"

definition keycloakURL :: "strmap \<Rightarrow> string" where
  "keycloakURL env = TrimRight (map_get env ''KEYCLOAK_URL'') (CHR ''/'')"

definition keycloakRealm :: "strmap \<Rightarrow> string" where
  "keycloakRealm env = map_get env ''KEYCLOAK_REALM''"

definition derive_token_url :: "strmap \<Rightarrow> Config \<Rightarrow> Config" where
  "derive_token_url env config =
     (if TokenURL config = [] \<and> keycloakURL env \<noteq> [] \<and> keycloakRealm env \<noteq> []
      then config\<lparr>TokenURL := keycloakURL env @ ''/realms/'' @ keycloakRealm env
                                @ ''/protocol/openid-connect/token''\<rparr>
      else config)"

definition derive_issuer :: "strmap \<Rightarrow> string" where
  "derive_issuer env =
     (let issuer = map_get env ''ISSUER''
      in if issuer = [] \<and> keycloakURL env \<noteq> [] \<and> keycloakRealm env \<noteq> []
         then keycloakURL env @ ''/realms/'' @ keycloakRealm env else issuer)"

fun parse_bypass :: "string list \<Rightarrow> string list" where
  "parse_bypass [] = []"
| "parse_bypass (p # ps) =
     (let p' = TrimSpace p
      in if p' = [] then parse_bypass ps
         else (case Match p' ''/'' of
                 Inl err \<Rightarrow> parse_bypass ps
               | Inr _ \<Rightarrow> p' # parse_bypass ps))"

definition init_bypass :: "strmap \<Rightarrow> string list" where
  "init_bypass env =
     (case env ''BYPASS_INBOUND_PATHS'' of
        None \<Rightarrow> defaultBypassInboundPaths
      | Some bypassEnv \<Rightarrow> parse_bypass (Split bypassEnv (CHR '','')))"

definition init_policy :: "strmap \<Rightarrow> string" where
  "init_policy env =
     (let policy = map_get env ''DEFAULT_OUTBOUND_POLICY''
      in if policy \<noteq> []
         then (if policy \<noteq> ''exchange'' \<and> policy \<noteq> ''passthrough'' then ''passthrough'' else policy)
         else ''passthrough'')"

definition zero_config :: Config where
  "zero_config = \<lparr>ClientID = [], ClientSecret = [], TokenURL = [], TargetAudience = [],
     TargetScopes = [], SpireEnabled = False, JWTSvidPath = []\<rparr>"

text \<open>The globals after initialisation; \<open>Inl\<close> is \<open>log.Fatalf\<close> on a broken routes file.\<close>

definition init_globals :: "('w, 'c, 'k) ext \<Rightarrow> 'c startup_ext \<Rightarrow> strmap \<Rightarrow> 'w
    \<Rightarrow> fs_error + ('w, 'c, 'k) globals" where
  "init_globals x sx env w =
     (let config = derive_token_url env (loadConfig x w env zero_config);
          issuer = derive_issuer env;
          enabled = (TokenURL config \<noteq> [] \<and> issuer \<noteq> []);
          jwksURL = (if enabled then deriveJWKSURL (TokenURL config) else []);
          cache = (if enabled then Some (initJWKSCache sx jwksURL) else None);
          configPath = env_or env ''ROUTES_CONFIG_PATH'' ''/etc/authproxy/routes.yaml''
      in case NewStaticResolver (os_Stat sx) (os_ReadFile sx) (yaml_Unmarshal sx) (glob_Compile sx)
                configPath of
           Inl err \<Rightarrow> Inl err
         | Inr r \<Rightarrow>
             Inr \<lparr>globalConfig = config,
                  actorTokenEnabled = (map_get env ''ACTOR_TOKEN_ENABLED'' = ''true''),
                  defaultOutboundPolicy = init_policy env,
                  bypassInboundPaths = init_bypass env,
                  jwksCache = cache, inboundJWKSURL = jwksURL, inboundIssuer = issuer,
                  expectedAudience = map_get env ''EXPECTED_AUDIENCE'',
                  globalResolver = Resolve r, externals = x\<rparr>)"

definition startup :: "('w, 'c, 'k) ext \<Rightarrow> 'c startup_ext \<Rightarrow> strmap \<Rightarrow> 'w
    \<Rightarrow> (fs_error + ('w, 'c, 'k) globals) option" where
  "startup x sx env w =
     (case waitForCredentials x env (60 * second) w of
        None \<Rightarrow> None
      | Some (ready, w') \<Rightarrow> Some (init_globals x sx env w'))"

text \<open>All of \<open>main\<close>: the server gets the initialised globals, with the handlers of \<open>Ext_Proc\<close>; \<open>Inl\<close> is the text
  of \<open>log.Fatalf\<close>.\<close>

definition processor_port :: string where
  "processor_port = '':9090''"

definition processor_main :: "(string \<Rightarrow> error + 'l) \<Rightarrow> (('w, 'c, 'k) globals \<Rightarrow> 'l \<Rightarrow> error option)
    \<Rightarrow> ('w, 'c, 'k) ext \<Rightarrow> 'c startup_ext \<Rightarrow> strmap \<Rightarrow> 'w \<Rightarrow> (string + unit) option" where
  "processor_main Listen Serve x sx env w =
     (case startup x sx env w of
        None \<Rightarrow> None
      | Some (Inl err) \<Rightarrow> Some (Inl (''failed to load routes config: '' @ fs_text err))
      | Some (Inr g) \<Rightarrow>
          (case Listen processor_port of
             Inl err \<Rightarrow> Some (Inl (''failed to listen: '' @ err))
           | Inr lis \<Rightarrow>
               (case Serve g lis of
                  Some err \<Rightarrow> Some (Inl (''failed to serve: '' @ err))
                | None \<Rightarrow> Some (Inr ()))))"

section \<open>Waiting ends, and says why\<close>

lemma wait_loop_terminates:
  assumes law: "\<And>w d. Now x w + d \<le> Now x (Sleep x w d)"
    and "deadline \<le> Now x w + int n * (2 * second)"
  shows "\<exists>r. wait_loop x env deadline w = Some r"
  using assms(2)
proof (induction n arbitrary: w)
  case 0
  then have "\<not> Now x w < deadline" by simp
  then have "wait_loop x env deadline w = Some (False, w)" by (subst wait_loop.simps) simp
  then show ?case by blast
next
  case (Suc n)
  have "deadline \<le> Now x (Sleep x w (2 * second)) + int n * (2 * second)"
    using Suc.prems law [of w "2 * second"] by (simp add: algebra_simps)
  from Suc.IH [OF this] show ?case by (subst wait_loop.simps) auto
qed

definition wait_result_ok :: "('w, 'c, 'k) ext \<Rightarrow> strmap \<Rightarrow> int \<Rightarrow> bool \<times> 'w \<Rightarrow> bool" where
  "wait_result_ok x env deadline r =
     (if fst r then credential_files_ready x env (snd r) \<and> Now x (snd r) < deadline
      else deadline \<le> Now x (snd r))"

lemma wait_loop_result:
  assumes "wait_loop x env deadline w = Some r"
  shows "wait_result_ok x env deadline r"
proof (rule wait_loop.raw_induct [where xa = "(((x, env), deadline), w)" and y = r
      and P = "\<lambda>x env deadline w. wait_result_ok x env deadline", unfolded prod.case, OF _ assms])
  fix f :: "('a, 'b, 'c) ext \<Rightarrow> strmap \<Rightarrow> int \<Rightarrow> 'a \<Rightarrow> (bool \<times> 'a) option"
    and x env deadline w r
  assume "\<And>x env deadline w r. f x env deadline w = Some r \<Longrightarrow> wait_result_ok x env deadline r"
    and "(if Now x w < deadline then
        if credential_files_ready x env w then Some (True, w)
        else f x env deadline (Sleep x w (2 * second)) else Some (False, w)) = Some r"
  then show "wait_result_ok x env deadline r"
    by (auto simp: wait_result_ok_def split: if_splits)
qed

lemma wait_enough:
  assumes law: "\<And>w d. Now x w + d \<le> Now x (Sleep x w d)"
  shows "\<exists>r. waitForCredentials x env maxWait w = Some r"
proof -
  have "Now x w + maxWait \<le> Now x w + int (nat maxWait) * (2 * second)"
    by (simp add: second_def)
  from wait_loop_terminates [OF law this] show ?thesis
    by (simp add: waitForCredentials_def)
qed

text \<open>C27 (startup_terminates). Start-up never hangs: if sleeping for \<open>d\<close> moves the clock by at least
  \<open>d\<close>, then the wait for the credential files returns whatever the files do, it returns true only when
  both files are readable and not blank before the deadline, it returns false only once the deadline
  is reached, and start-up itself then produces a result. The process ends, or serves on port 9090
  with exactly the globals that start-up initialised.\<close>

theorem startup_terminates:
  assumes "\<And>w d. Now x w + d \<le> Now x (Sleep x w d)"
  shows "\<exists>ready w'. waitForCredentials x env (60 * second) w = Some (ready, w')
    \<and> (if ready then credential_files_ready x env w' \<and> Now x w' < Now x w + 60 * second
       else Now x w + 60 * second \<le> Now x w')
    \<and> startup x sx env w = Some (init_globals x sx env w')
    \<and> (case init_globals x sx env w' of
         Inl err \<Rightarrow> processor_main Listen Serve x sx env w = Some (Inl (''failed to load routes config: '' @ fs_text err))
       | Inr g \<Rightarrow> (case Listen '':9090'' of
           Inl err \<Rightarrow> processor_main Listen Serve x sx env w = Some (Inl (''failed to listen: '' @ err))
         | Inr lis \<Rightarrow> processor_main Listen Serve x sx env w = Some (case Serve g lis of
             None \<Rightarrow> Inr () | Some err \<Rightarrow> Inl (''failed to serve: '' @ err))))"
proof -
  obtain r where r: "waitForCredentials x env (60 * second) w = Some r"
    using wait_enough [OF assms] by blast
  then have "wait_result_ok x env (Now x w + 60 * second) r"
    by (auto simp: waitForCredentials_def dest: wait_loop_result)
  with r show ?thesis
    by (cases r) (auto simp: startup_def wait_result_ok_def processor_main_def processor_port_def
        split: if_splits sum.splits option.splits)
qed

text \<open>A demonstration world in which the credential files exist: the state is the clock.\<close>

definition demo_files :: "(int, unit, unit) ext" where
  "demo_files = demo_ext\<lparr>ReadFile := (\<lambda>w p. if p = ''/shared/client-id.txt'' then Inr ''agent''
      else if p = ''/shared/client-secret.txt'' then Inr ''s3'' else Inl NotExist)\<rparr>"

definition demo_startup :: "unit startup_ext" where
  "demo_startup = \<lparr>NewCache = (), Register = (\<lambda>c u. Inr c), os_Stat = (\<lambda>p. Some NotExist),
     os_ReadFile = (\<lambda>p. Inl NotExist), yaml_Unmarshal = (\<lambda>s. Inr []), glob_Compile = (\<lambda>p. Inl ''bad'')\<rparr>"

definition demo_env :: strmap where
  "demo_env = [''KEYCLOAK_URL'' \<mapsto> ''http://kc/'', ''KEYCLOAK_REALM'' \<mapsto> ''r'']"

theorem startup_terminates_witness:
  "\<exists>ready w'. startup demo_ext demo_startup demo_env 0 = Some (init_globals demo_ext demo_startup demo_env w')
     \<and> waitForCredentials demo_ext demo_env (60 * second) 0 = Some (ready, w')"
proof -
  have "Now demo_ext w + d \<le> Now demo_ext (Sleep demo_ext w d)" for w d by (simp add: demo_ext_def)
  from startup_terminates [of demo_ext demo_env 0 demo_startup "\<lambda>p. Inr ()" "\<lambda>g l. None", OF this] show ?thesis
    by blast
qed

section \<open>Loaded credentials\<close>

lemma load_credential_file:
  "readFileContent x w f = Inr c \<Longrightarrow> c \<noteq> [] \<Longrightarrow> load_credential x w f e old = c"
  by (simp add: load_credential_def)

text \<open>When the wait succeeded, the configuration loaded next has exactly the
  trimmed contents of the two credential files as client id and secret, both non-empty, whatever the
  environment variables CLIENT_ID and CLIENT_SECRET say.\<close>

theorem credentials_after_wait:
  assumes "waitForCredentials x env maxWait w = Some (True, w')"
  shows "readFileContent x w' (clientIDFile env) = Inr (ClientID (loadConfig x w' env c))
    \<and> readFileContent x w' (clientSecretFile env) = Inr (ClientSecret (loadConfig x w' env c))
    \<and> ClientID (loadConfig x w' env c) \<noteq> [] \<and> ClientSecret (loadConfig x w' env c) \<noteq> []"
proof -
  have "credential_files_ready x env w'"
    using wait_loop_result [of x env _ w "(True, w')"] assms
    by (auto simp: waitForCredentials_def wait_result_ok_def)
  then show ?thesis
    by (auto simp: credential_files_ready_def loadConfig_def load_credential_file split: sum.splits)
qed

lemma demo_trim: "TrimSpace ''agent'' = ''agent''" "TrimSpace ''s3'' = ''s3''"
  by (rule TrimSpace_printable; simp add: printable_def)+

theorem credentials_after_wait_witness:
  "ClientID (loadConfig demo_files 0 demo_env zero_config) = ''agent''
   \<and> ClientSecret (loadConfig demo_files 0 demo_env zero_config) = ''s3''"
proof -
  have f: "clientIDFile demo_env = ''/shared/client-id.txt''"
    "clientSecretFile demo_env = ''/shared/client-secret.txt''"
    by (simp_all add: clientIDFile_def clientSecretFile_def env_or_def demo_env_def map_get_def)
  then have r: "readFileContent demo_files 0 (clientIDFile demo_env) = Inr ''agent''"
    "readFileContent demo_files 0 (clientSecretFile demo_env) = Inr ''s3''"
    by (simp_all add: readFileContent_def demo_files_def demo_trim)
  then have "waitForCredentials demo_files demo_env (60 * second) 0 = Some (True, 0)"
    by (simp add: waitForCredentials_def wait_loop.simps credential_files_ready_def second_def
        demo_files_def demo_ext_def)
  from credentials_after_wait [OF this, of zero_config] r show ?thesis by simp
qed

section \<open>Initialised globals\<close>

lemma parse_bypass_ok:
  "p \<in> set (parse_bypass ps) \<Longrightarrow> p \<noteq> [] \<and> is_ok (Match p ''/'') \<and> (\<exists>q\<in>set ps. p = TrimSpace q)"
  by (induction ps rule: parse_bypass.induct) (auto simp: Let_def split: if_splits sum.splits)

lemma default_bypass_ok: "p \<in> set defaultBypassInboundPaths \<Longrightarrow> p \<noteq> [] \<and> is_ok (Match p ''/'')"
proof -
  have "list_all (\<lambda>p. p \<noteq> [] \<and> is_ok (Match p ''/'')) defaultBypassInboundPaths" by code_simp
  then show "p \<in> set defaultBypassInboundPaths \<Longrightarrow> ?thesis" by (auto simp: list_all_iff)
qed

text \<open>Inbound validation can be configured explicitly or derived from the Keycloak settings.\<close>

definition keycloak_configured :: "strmap \<Rightarrow> bool" where
  "keycloak_configured env = (keycloakURL env \<noteq> [] \<and> keycloakRealm env \<noteq> [])"

lemma token_url_set:
  "TokenURL (derive_token_url env (loadConfig x w env c)) \<noteq> []
   \<longleftrightarrow> map_get env ''TOKEN_URL'' \<noteq> [] \<or> keycloak_configured env"
  by (auto simp: derive_token_url_def loadConfig_def keycloak_configured_def)

lemma issuer_set: "derive_issuer env \<noteq> [] \<longleftrightarrow> map_get env ''ISSUER'' \<noteq> [] \<or> keycloak_configured env"
  by (auto simp: derive_issuer_def keycloak_configured_def Let_def)

lemma init_globals_cases:
  assumes "init_globals x sx env w = Inr g"
  obtains r where "NewStaticResolver (os_Stat sx) (os_ReadFile sx) (yaml_Unmarshal sx) (glob_Compile sx)
      (env_or env ''ROUTES_CONFIG_PATH'' ''/etc/authproxy/routes.yaml'') = Inr r"
    "globalConfig g = derive_token_url env (loadConfig x w env zero_config)"
    "inboundIssuer g = derive_issuer env" "bypassInboundPaths g = init_bypass env"
    "defaultOutboundPolicy g = init_policy env" "globalResolver g = Resolve r"
    "inboundJWKSURL g = (if TokenURL (globalConfig g) \<noteq> [] \<and> derive_issuer env \<noteq> []
        then deriveJWKSURL (TokenURL (globalConfig g)) else [])"
    "jwksCache g \<noteq> None \<longleftrightarrow> TokenURL (globalConfig g) \<noteq> [] \<and> derive_issuer env \<noteq> []"
  using assms by (auto simp: init_globals_def Let_def split: sum.splits)

text \<open>After a successful start-up, inbound JWT validation is switched on exactly
  when a token endpoint and an issuer are both given, each either explicitly or derived from the
  Keycloak URL and realm; and when it is on, the key-set address and the issuer are both set.\<close>

theorem inbound_enabled_iff:
  assumes "init_globals x sx env w = Inr g"
  shows "(jwksCache g \<noteq> None \<longleftrightarrow>
        (map_get env ''TOKEN_URL'' \<noteq> [] \<or> keycloak_configured env)
        \<and> (map_get env ''ISSUER'' \<noteq> [] \<or> keycloak_configured env))
    \<and> (jwksCache g \<noteq> None \<longleftrightarrow> inboundJWKSURL g \<noteq> [] \<and> inboundIssuer g \<noteq> [])"
  using assms
  by (rule init_globals_cases)
    (simp add: token_url_set issuer_set, simp add: deriveJWKSURL_def)

lemma demo_init: "\<exists>g. init_globals demo_ext demo_startup demo_env 0 = Inr g"
  by (simp add: init_globals_def NewStaticResolver_def demo_startup_def Let_def)

lemma demo_keycloak: "keycloakURL demo_env = ''http://kc''" "keycloak_configured demo_env"
  by (simp_all add: keycloakURL_def keycloakRealm_def keycloak_configured_def demo_env_def map_get_def
      TrimRight_def)

theorem inbound_enabled_iff_witness:
  "\<exists>g. init_globals demo_ext demo_startup demo_env 0 = Inr g \<and> jwksCache g \<noteq> None"
  using demo_init inbound_enabled_iff [of demo_ext demo_startup demo_env 0] demo_keycloak by blast

text \<open>With only the Keycloak URL and realm configured (no explicit token
  endpoint or issuer), the token endpoint, the key-set address and the issuer that start-up derives all
  belong to the same realm, and trailing slashes of the Keycloak URL do not matter.\<close>

theorem keycloak_addresses_agree:
  assumes "init_globals x sx env w = Inr g" and "keycloak_configured env"
    and "map_get env ''TOKEN_URL'' = []" and "map_get env ''ISSUER'' = []"
  shows "TokenURL (globalConfig g) = inboundIssuer g @ ''/protocol/openid-connect/token''
    \<and> inboundJWKSURL g = inboundIssuer g @ ''/protocol/openid-connect/certs''
    \<and> inboundIssuer g = TrimRight (map_get env ''KEYCLOAK_URL'') (CHR ''/'') @ ''/realms/''
        @ map_get env ''KEYCLOAK_REALM''"
proof -
  have url: "TokenURL (derive_token_url env (loadConfig x w env zero_config)) =
      derive_issuer env @ ''/protocol/openid-connect/token''"
    and iss: "derive_issuer env = TrimRight (map_get env ''KEYCLOAK_URL'') (CHR ''/'') @ ''/realms/''
        @ map_get env ''KEYCLOAK_REALM''"
    using assms(2-4)
    by (simp_all add: derive_token_url_def loadConfig_def keycloak_configured_def derive_issuer_def
        Let_def keycloakURL_def keycloakRealm_def)
  have "TrimSuffix (derive_issuer env @ ''/protocol/openid-connect/token'') ''/token''
      = derive_issuer env @ ''/protocol/openid-connect''"
    using TrimSuffix_append [of "derive_issuer env @ ''/protocol/openid-connect''" "''/token''"] by simp
  with url iss show ?thesis
    by (rule_tac init_globals_cases [OF assms(1)]) (simp add: deriveJWKSURL_def)
qed

theorem keycloak_addresses_agree_witness:
  "\<exists>g. init_globals demo_ext demo_startup demo_env 0 = Inr g
     \<and> inboundJWKSURL g = ''http://kc/realms/r/protocol/openid-connect/certs''"
proof -
  obtain g where g: "init_globals demo_ext demo_startup demo_env 0 = Inr g"
    using demo_init by blast
  have e: "map_get demo_env ''TOKEN_URL'' = []" "map_get demo_env ''ISSUER'' = []"
    "map_get demo_env ''KEYCLOAK_REALM'' = ''r''"
    by (simp_all add: demo_env_def map_get_def)
  from keycloak_addresses_agree [OF g demo_keycloak(2) e(1,2)] g e(3) demo_keycloak(1) show ?thesis
    by (simp add: keycloakURL_def)
qed

text \<open>C28 (startup_globals_wellformed). Whatever the environment holds, the globals of a started processor
  are well formed: the outbound policy is one of the two the handler knows, every bypass pattern is
  non-empty and a valid path pattern (so matching a request path against it can be evaluated), and the
  routes are those of a successfully loaded routes file.\<close>

theorem startup_globals_wellformed:
  assumes "init_globals x sx env w = Inr g"
  shows "defaultOutboundPolicy g \<in> {''exchange'', ''passthrough''}
    \<and> list_all (\<lambda>p. p \<noteq> [] \<and> is_ok (Match p ''/'')) (bypassInboundPaths g)
    \<and> (\<exists>r. NewStaticResolver (os_Stat sx) (os_ReadFile sx) (yaml_Unmarshal sx) (glob_Compile sx)
         (env_or env ''ROUTES_CONFIG_PATH'' ''/etc/authproxy/routes.yaml'') = Inr r
         \<and> globalResolver g = Resolve r)"
proof -
  have "list_all (\<lambda>p. p \<noteq> [] \<and> is_ok (Match p ''/'')) (init_bypass env)"
    using parse_bypass_ok default_bypass_ok
    by (auto simp: init_bypass_def list_all_iff split: option.splits)
  moreover have "init_policy env \<in> {''exchange'', ''passthrough''}"
    by (simp add: init_policy_def Let_def)
  ultimately show ?thesis
    by (rule_tac init_globals_cases [OF assms]) simp
qed

theorem startup_globals_wellformed_witness:
  "\<exists>g. init_globals demo_ext demo_startup demo_env 0 = Inr g
     \<and> defaultOutboundPolicy g \<in> {''exchange'', ''passthrough''}"
  using demo_init startup_globals_wellformed [of demo_ext demo_startup demo_env 0] by blast

end
