(* ===== verification/Go_Url.thy ===== *)
theory Go_Url
  imports Go_Path
begin

text \<open>
  The part of Go's \<open>net/url\<close> that the forwarder of the quickstart (\<open>AuthBridge/AuthProxy/main.go\<close>) and the
  request multiplexer use: percent encoding and decoding in the modes of the library, \<open>url.Parse\<close>,
  \<open>URL.EscapedPath\<close> and \<open>URL.String\<close>. No caller looks at the text of a parse error, so parsing is
  option-valued. Shown: encoding and decoding are inverse, and parsing what \<open>String\<close> prints for an
  absolute URL gives its parts back.
\<close>

section \<open>Percent encoding\<close>

datatype encoding = encodePath | encodeHost | encodeZone | encodeUserPassword | encodeFragment

definition between :: "char \<Rightarrow> char \<Rightarrow> char \<Rightarrow> bool" where
  "between lo c hi \<longleftrightarrow> (of_char lo :: nat) \<le> of_char c \<and> (of_char c :: nat) \<le> of_char hi"

definition is_alpha :: "char \<Rightarrow> bool" where
  "is_alpha c \<longleftrightarrow> between CHR ''a'' c CHR ''z'' \<or> between CHR ''A'' c CHR ''Z''"

definition ishex :: "char \<Rightarrow> bool" where
  "ishex c \<longleftrightarrow> is_digit c \<or> between CHR ''a'' c CHR ''f'' \<or> between CHR ''A'' c CHR ''F''"

definition unhex :: "char \<Rightarrow> nat" where
  "unhex c =
     (if is_digit c then digit_val c
      else if between CHR ''a'' c CHR ''f'' then of_char c - of_char CHR ''a'' + 10
      else if between CHR ''A'' c CHR ''F'' then of_char c - of_char CHR ''A'' + 10 else 0)"

definition upperhex :: "nat \<Rightarrow> char" where
  "upperhex d = (if d < 10 then digit_char d else char_of (55 + d))"

text \<open>The characters a host may hold unescaped besides the unreserved ones, and the reserved ones.\<close>

definition host_extra :: string where
  "host_extra = ''!$&'()*+,;=:[]<>'' @ [CHR 0x22]"

definition reserved :: string where
  "reserved = ''$&+,/:;=?@''"

definition shouldEscape :: "encoding \<Rightarrow> char \<Rightarrow> bool" where
  "shouldEscape mode c =
     (if is_alpha c \<or> is_digit c then False
      else if (mode = encodeHost \<or> mode = encodeZone) \<and> c \<in> set host_extra then False
      else if c \<in> set ''-_.~'' then False
      else if c \<in> set reserved \<and> mode = encodePath then c = CHR ''?''
      else if c \<in> set reserved \<and> mode = encodeUserPassword then c \<in> set ''@/?:''
      else if c \<in> set reserved \<and> mode = encodeFragment then False
      else if mode = encodeFragment \<and> c \<in> set ''!()*'' then False
      else True)"

definition pct :: "char \<Rightarrow> string" where
  "pct c = [CHR ''%'', upperhex (of_char c div 16), upperhex (of_char c mod 16)]"

definition escape :: "encoding \<Rightarrow> string \<Rightarrow> string" where
  "escape mode s = concat (map (\<lambda>c. if shouldEscape mode c then pct c else [c]) s)"

text \<open>Which escape sequences a host and a zone admit: in a host only non-ASCII bytes and the percent sign,
  in a zone also what may not be written otherwise.\<close>

definition escape_allowed :: "encoding \<Rightarrow> char \<Rightarrow> char \<Rightarrow> bool" where
  "escape_allowed mode a b \<longleftrightarrow>
     (case mode of
        encodeHost \<Rightarrow> 8 \<le> unhex a \<or> (a = CHR ''2'' \<and> b = CHR ''5'')
      | encodeZone \<Rightarrow>
          (a = CHR ''2'' \<and> b = CHR ''5'') \<or> unhex a * 16 + unhex b = 32
          \<or> \<not> shouldEscape encodeHost (char_of (unhex a * 16 + unhex b))
      | _ \<Rightarrow> True)"

definition literal_allowed :: "encoding \<Rightarrow> char \<Rightarrow> bool" where
  "literal_allowed mode c \<longleftrightarrow>
     \<not> ((mode = encodeHost \<or> mode = encodeZone) \<and> (of_char c :: nat) < 128 \<and> shouldEscape mode c)"

fun unescape :: "encoding \<Rightarrow> string \<Rightarrow> string option" where
  "unescape mode [] = Some []"
| "unescape mode (c # s) =
     (if c = CHR ''%'' then
        (case s of
           a # b # s' \<Rightarrow>
             if ishex a \<and> ishex b \<and> escape_allowed mode a b
             then map_option (\<lambda>t. char_of (unhex a * 16 + unhex b) # t) (unescape mode s')
             else None
         | _ \<Rightarrow> None)
      else if literal_allowed mode c then map_option (\<lambda>t. c # t) (unescape mode s) else None)"

section \<open>URLs\<close>

record Userinfo =
  ui_username :: string
  ui_password :: "string option"

record URL =
  u_Scheme :: string
  u_Opaque :: string
  u_User :: "Userinfo option"
  u_Host :: string
  u_Path :: string
  u_RawPath :: string
  u_OmitHost :: bool
  u_ForceQuery :: bool
  u_RawQuery :: string
  u_Fragment :: string
  u_RawFragment :: string

definition zero_URL :: URL where
  "zero_URL = \<lparr>u_Scheme = [], u_Opaque = [], u_User = None, u_Host = [], u_Path = [], u_RawPath = [],
     u_OmitHost = False, u_ForceQuery = False, u_RawQuery = [], u_Fragment = [], u_RawFragment = []\<rparr>"

definition ctl_byte :: "char \<Rightarrow> bool" where
  "ctl_byte c \<longleftrightarrow> (of_char c :: nat) < 32 \<or> (of_char c :: nat) = 127"

text \<open>\<open>strings.Cut\<close> at a byte: the parts before and after its first occurrence.\<close>

definition Cut :: "string \<Rightarrow> char \<Rightarrow> string \<times> string" where
  "Cut s c = (case IndexByte s c of None \<Rightarrow> (s, []) | Some i \<Rightarrow> (take i s, drop (i + 1) s))"

text \<open>\<open>getScheme\<close>: the bytes before the first colon, if they form a scheme; \<open>None\<close> is the error
  \<open>missing protocol scheme\<close>.\<close>

fun scheme_loop :: "string \<Rightarrow> string \<Rightarrow> string \<Rightarrow> (string \<times> string) option" where
  "scheme_loop raw acc [] = Some ([], raw)"
| "scheme_loop raw acc (c # s) =
     (if is_alpha c then scheme_loop raw (acc @ [c]) s
      else if is_digit c \<or> c \<in> set ''+-.'' then
        (if acc = [] then Some ([], raw) else scheme_loop raw (acc @ [c]) s)
      else if c = CHR '':'' then (if acc = [] then None else Some (acc, s))
      else Some ([], raw))"

definition getScheme :: "string \<Rightarrow> (string \<times> string) option" where
  "getScheme raw = scheme_loop raw [] raw"

text \<open>\<open>validOptionalPort\<close>: empty, or a colon and digits.\<close>

fun validOptionalPort :: "string \<Rightarrow> bool" where
  "validOptionalPort [] = True"
| "validOptionalPort (c # ds) = (c = CHR '':'' \<and> list_all is_digit ds)"

text \<open>\<open>strings.Index(s, sub)\<close>.\<close>

fun Index :: "string \<Rightarrow> string \<Rightarrow> nat option" where
  "Index [] sub = (if sub = [] then Some 0 else None)"
| "Index (c # s) sub = (if HasPrefix (c # s) sub then Some 0 else map_option Suc (Index s sub))"

definition parseHost :: "string \<Rightarrow> string option" where
  "parseHost host =
     (if HasPrefix host ''['' then
        (case LastIndexByte host (CHR '']'') of
           None \<Rightarrow> None
         | Some i \<Rightarrow>
             if \<not> validOptionalPort (drop (i + 1) host) then None
             else (case Index (take i host) ''%25'' of
                     Some zone \<Rightarrow>
                       (case (unescape encodeHost (take zone host),
                              unescape encodeZone (drop zone (take i host)),
                              unescape encodeHost (drop i host)) of
                          (Some h1, Some h2, Some h3) \<Rightarrow> Some (h1 @ h2 @ h3)
                        | _ \<Rightarrow> None)
                   | None \<Rightarrow> unescape encodeHost host))
      else (case LastIndexByte host (CHR '':'') of
              Some i \<Rightarrow> if validOptionalPort (drop i host) then unescape encodeHost host else None
            | None \<Rightarrow> unescape encodeHost host))"

definition validUserinfo :: "string \<Rightarrow> bool" where
  "validUserinfo s \<longleftrightarrow> list_all (\<lambda>c. is_alpha c \<or> is_digit c \<or> c \<in> set ''-._:~!$&'()*+,;=%@'') s"

definition parseUserinfo :: "string \<Rightarrow> Userinfo option" where
  "parseUserinfo s =
     (if \<not> validUserinfo s then None
      else if CHR '':'' \<notin> set s then
        map_option (\<lambda>n. \<lparr>ui_username = n, ui_password = None\<rparr>) (unescape encodeUserPassword s)
      else (case Cut s (CHR '':'') of
              (username, password) \<Rightarrow>
                (case (unescape encodeUserPassword username, unescape encodeUserPassword password) of
                   (Some n, Some p) \<Rightarrow> Some \<lparr>ui_username = n, ui_password = Some p\<rparr>
                 | _ \<Rightarrow> None)))"

definition parseAuthority :: "string \<Rightarrow> (Userinfo option \<times> string) option" where
  "parseAuthority authority =
     (case LastIndexByte authority (CHR ''@'') of
        None \<Rightarrow> map_option (\<lambda>h. (None, h)) (parseHost authority)
      | Some i \<Rightarrow>
          (case parseHost (drop (i + 1) authority) of
             None \<Rightarrow> None
           | Some h \<Rightarrow> map_option (\<lambda>ui. (Some ui, h)) (parseUserinfo (take i authority))))"

definition setPath :: "URL \<Rightarrow> string \<Rightarrow> URL option" where
  "setPath u p =
     map_option (\<lambda>path. u\<lparr>u_Path := path, u_RawPath := (if p = escape encodePath path then [] else p)\<rparr>)
       (unescape encodePath p)"

definition setFragment :: "URL \<Rightarrow> string \<Rightarrow> URL option" where
  "setFragment u f =
     map_option (\<lambda>frag. u\<lparr>u_Fragment := frag, u_RawFragment := (if f = escape encodeFragment frag then [] else f)\<rparr>)
       (unescape encodeFragment f)"

text \<open>The query is cut off at the first question mark; a single trailing one is only remembered.\<close>

definition cut_query :: "string \<Rightarrow> string \<times> bool \<times> string" where
  "cut_query rest =
     (if HasSuffix rest ''?'' \<and> count_list rest (CHR ''?'') = 1 then (butlast rest, True, [])
      else (case Cut rest (CHR ''?'') of (a, b) \<Rightarrow> (a, False, b)))"

definition split_authority :: "string \<Rightarrow> string \<times> string" where
  "split_authority s = (case IndexByte s (CHR ''/'') of None \<Rightarrow> (s, []) | Some i \<Rightarrow> (take i s, drop i s))"

definition parse_rest :: "URL \<Rightarrow> string \<Rightarrow> URL option" where
  "parse_rest u rest =
     (if \<not> HasPrefix rest ''/'' \<and> u_Scheme u \<noteq> [] then Some (u\<lparr>u_Opaque := rest\<rparr>)
      else if \<not> HasPrefix rest ''/'' \<and> CHR '':'' \<in> set (fst (Cut rest (CHR ''/''))) then None
      else if (u_Scheme u \<noteq> [] \<or> \<not> HasPrefix rest ''///'') \<and> HasPrefix rest ''//'' then
        (case split_authority (drop 2 rest) of
           (authority, path) \<Rightarrow>
             (case parseAuthority authority of
                None \<Rightarrow> None
              | Some (user, host) \<Rightarrow> setPath (u\<lparr>u_User := user, u_Host := host\<rparr>) path))
      else if u_Scheme u \<noteq> [] \<and> HasPrefix rest ''/'' then setPath (u\<lparr>u_OmitHost := True\<rparr>) rest
      else setPath u rest)"

definition parse :: "string \<Rightarrow> URL option" where
  "parse raw =
     (if list_ex ctl_byte raw then None
      else if raw = ''*'' then Some (zero_URL\<lparr>u_Path := ''*''\<rparr>)
      else (case getScheme raw of
              None \<Rightarrow> None
            | Some (scheme, rest) \<Rightarrow>
                (case cut_query rest of
                   (rest', force, query) \<Rightarrow>
                     parse_rest (zero_URL\<lparr>u_Scheme := map ascii_lower scheme, u_ForceQuery := force,
                                          u_RawQuery := query\<rparr>) rest')))"

definition Parse :: "string \<Rightarrow> URL option" where
  "Parse rawURL =
     (case Cut rawURL (CHR ''#'') of
        (u, frag) \<Rightarrow>
          (case parse u of
             None \<Rightarrow> None
           | Some url \<Rightarrow> if frag = [] then Some url else setFragment url frag))"

section \<open>Printing\<close>

text \<open>The bytes that \<open>validEncoded\<close> accepts besides those that need no escaping.\<close>

definition encoded_extra :: string where
  "encoded_extra = ''!$&'()*+,;=:@'' @ ''[]'' @ ''%''"

definition validEncoded :: "encoding \<Rightarrow> string \<Rightarrow> bool" where
  "validEncoded mode s \<longleftrightarrow> list_all (\<lambda>c. c \<in> set encoded_extra \<or> \<not> shouldEscape mode c) s"

definition EscapedPath :: "URL \<Rightarrow> string" where
  "EscapedPath u =
     (if u_RawPath u \<noteq> [] \<and> validEncoded encodePath (u_RawPath u) \<and> unescape encodePath (u_RawPath u) = Some (u_Path u)
      then u_RawPath u
      else if u_Path u = ''*'' then ''*'' else escape encodePath (u_Path u))"

definition EscapedFragment :: "URL \<Rightarrow> string" where
  "EscapedFragment u =
     (if u_RawFragment u \<noteq> [] \<and> validEncoded encodeFragment (u_RawFragment u)
         \<and> unescape encodeFragment (u_RawFragment u) = Some (u_Fragment u)
      then u_RawFragment u else escape encodeFragment (u_Fragment u))"

definition Userinfo_String :: "Userinfo \<Rightarrow> string" where
  "Userinfo_String ui =
     escape encodeUserPassword (ui_username ui)
     @ (case ui_password ui of None \<Rightarrow> [] | Some p \<Rightarrow> '':'' @ escape encodeUserPassword p)"

text \<open>What precedes the path: the scheme, and the authority unless it is empty and left out.\<close>

definition url_front :: "URL \<Rightarrow> string" where
  "url_front u =
     (if u_Scheme u \<noteq> [] then u_Scheme u @ '':'' else [])
     @ (if (u_Scheme u \<noteq> [] \<or> u_Host u \<noteq> [] \<or> u_User u \<noteq> None)
           \<and> \<not> (u_OmitHost u \<and> u_Host u = [] \<and> u_User u = None)
        then (if u_Host u \<noteq> [] \<or> u_Path u \<noteq> [] \<or> u_User u \<noteq> None then ''//'' else [])
          @ (case u_User u of None \<Rightarrow> [] | Some ui \<Rightarrow> Userinfo_String ui @ ''@'')
          @ escape encodeHost (u_Host u)
        else [])"

definition URL_String :: "URL \<Rightarrow> string" where
  "URL_String u =
     (if u_Opaque u \<noteq> [] then (if u_Scheme u \<noteq> [] then u_Scheme u @ '':'' else []) @ u_Opaque u
      else
        (let path = EscapedPath u;
             front = url_front u
                       @ (if path \<noteq> [] \<and> \<not> HasPrefix path ''/'' \<and> u_Host u \<noteq> [] then ''/'' else [])
         in front
            @ (if front = [] \<and> CHR '':'' \<in> set (fst (Cut path (CHR ''/''))) then ''./'' else [])
            @ path))
     @ (if u_ForceQuery u \<or> u_RawQuery u \<noteq> [] then ''?'' @ u_RawQuery u else [])
     @ (if u_Fragment u \<noteq> [] then ''#'' @ EscapedFragment u else [])"

section \<open>Encoding and decoding are inverse\<close>

lemma of_char_bound: "(of_char c :: nat) < 256"
  by (metis mod_less_divisor of_char_mod_256 zero_less_numeral)

lemma hex_facts: "d < 16 \<Longrightarrow> ishex (upperhex d)" "d < 16 \<Longrightarrow> unhex (upperhex d) = d"
  by (auto simp: upperhex_def ishex_def unhex_def between_def is_digit_def digit_val_def of_char_digit_char)

lemma percent_special: "\<not> is_alpha (CHR ''%'')" "\<not> is_digit (CHR ''%'')"
  by (simp_all add: is_alpha_def is_digit_def between_def)

definition free_mode :: "encoding \<Rightarrow> bool" where
  "free_mode m \<longleftrightarrow> m \<noteq> encodeHost \<and> m \<noteq> encodeZone"

lemma shouldEscape_percent [simp]: "free_mode m \<Longrightarrow> shouldEscape m (CHR ''%'')"
  by (cases m) (simp_all add: shouldEscape_def percent_special reserved_def free_mode_def)

lemma free_mode_allowed [simp]:
  "free_mode m \<Longrightarrow> escape_allowed m a b" "free_mode m \<Longrightarrow> literal_allowed m c"
  by (cases m; simp add: escape_allowed_def literal_allowed_def free_mode_def)+

lemma unescape_pct:
  assumes "free_mode m"
  shows "unescape m (pct c @ s) = map_option (Cons c) (unescape m s)"
proof -
  have "(of_char c :: nat) div 16 < 16" 
    using of_char_bound [of c] by (intro less_mult_imp_div_less) simp
  then show ?thesis using assms by (simp add: pct_def hex_facts)
qed

theorem unescape_escape: "free_mode m \<Longrightarrow> unescape m (escape m s @ t) = map_option (append s) (unescape m t)"
proof (induction s)
  case Nil
  then show ?case by (cases "unescape m t") (simp_all add: escape_def)
next
  case (Cons c s)
  have split: "escape m (c # s) @ t = (if shouldEscape m c then pct c else [c]) @ escape m s @ t"
    by (simp add: escape_def)
  have "c \<noteq> CHR ''%''" if "\<not> shouldEscape m c" using that Cons.prems by auto
  then show ?case
    using Cons unescape_pct [OF Cons.prems, of c "escape m s @ t"]
    by (auto simp: split option.map_comp o_def simp del: append_assoc)
qed

corollary unescape_escape_id [simp]: "free_mode m \<Longrightarrow> unescape m (escape m s) = Some s"
  using unescape_escape [of m s "[]"] by simp

lemma free_mode_path [simp]: "free_mode encodePath" "free_mode encodeFragment" "free_mode encodeUserPassword"
  by (simp_all add: free_mode_def)

text \<open>Decoding changes nothing where there is no percent sign.\<close>

lemma unescape_literal: "free_mode m \<Longrightarrow> CHR ''%'' \<notin> set s \<Longrightarrow> unescape m s = Some s"
  by (induction s) auto

section \<open>Absolute URLs\<close>

text \<open>A scheme of lower-case letters and an authority made of a host name and, possibly, a port: the shape
  of the service addresses in use.\<close>

definition host_char :: "char \<Rightarrow> bool" where
  "host_char c \<longleftrightarrow> is_alpha c \<or> is_digit c \<or> c \<in> set ''-._''"

definition plain_authority :: "string \<Rightarrow> bool" where
  "plain_authority a \<longleftrightarrow>
     (\<exists>h p. a = h @ p \<and> h \<noteq> [] \<and> list_all host_char h \<and> (p = [] \<or> (\<exists>ds. p = '':'' @ ds \<and> list_all is_digit ds)))"

definition plain_scheme :: "string \<Rightarrow> bool" where
  "plain_scheme s \<longleftrightarrow> s \<noteq> [] \<and> list_all (\<lambda>c. between CHR ''a'' c CHR ''z'') s"

text \<open>A byte that a path may hold literally in the text of a URL.\<close>

definition path_byte :: "char \<Rightarrow> bool" where
  "path_byte c \<longleftrightarrow> \<not> ctl_byte c \<and> c \<noteq> CHR ''#'' \<and> c \<noteq> CHR ''?''"

lemmas char_class_defs = is_alpha_def is_digit_def between_def ctl_byte_def

lemma host_char_facts:
  assumes "host_char c"
  shows "path_byte c" "c \<noteq> CHR ''/''" "c \<noteq> CHR '':''" "c \<noteq> CHR ''@''" "c \<noteq> CHR ''[''" "c \<noteq> CHR ''%''"
    "\<not> shouldEscape encodeHost c"
  using assms by (auto simp: host_char_def path_byte_def char_class_defs shouldEscape_def)

lemma digit_facts:
  assumes "is_digit c"
  shows "path_byte c" "c \<noteq> CHR ''/''" "c \<noteq> CHR '':''" "c \<noteq> CHR ''@''" "c \<noteq> CHR ''%''" "\<not> shouldEscape encodeHost c"
  using assms by (auto simp: path_byte_def char_class_defs shouldEscape_def)

lemma unescape_host_literal:
  "list_all (\<lambda>c. c \<noteq> CHR ''%'' \<and> \<not> shouldEscape encodeHost c) s \<Longrightarrow> unescape encodeHost s = Some s"
  by (induction s) (auto simp: literal_allowed_def)

lemma plain_authority_bytes:
  assumes "plain_authority a" and "c \<in> set a"
  shows "path_byte c \<and> c \<noteq> CHR ''/'' \<and> c \<noteq> CHR ''@'' \<and> c \<noteq> CHR ''%'' \<and> \<not> shouldEscape encodeHost c"
proof -
  have "host_char c \<or> is_digit c \<or> c = CHR '':''"
    using assms by (auto simp: plain_authority_def list_all_iff)
  moreover have "path_byte (CHR '':'')" "\<not> shouldEscape encodeHost (CHR '':'')"
    by (simp_all add: path_byte_def ctl_byte_def shouldEscape_def host_extra_def)
  ultimately show ?thesis by (elim disjE) (simp_all add: host_char_facts digit_facts)
qed

lemma parseHost_plain: "plain_authority a \<Longrightarrow> parseHost a = Some a"
proof -
  assume a: "plain_authority a"
  then obtain h p where hp: "a = h @ p" "h \<noteq> []" "list_all host_char h"
    "p = [] \<or> (\<exists>ds. p = '':'' @ ds \<and> list_all is_digit ds)"
    by (auto simp: plain_authority_def)
  have dec: "unescape encodeHost a = Some a"
    using plain_authority_bytes [OF a] by (intro unescape_host_literal) (simp add: list_all_iff)
  have br: "\<not> HasPrefix a ''[''"
    using hp(1-3) host_char_facts(5) by (cases h) (auto simp: HasPrefix_def)
  have nc: "CHR '':'' \<notin> set h" using hp(3) host_char_facts(3) by (auto simp: list_all_iff)
  show ?thesis
  proof (cases "p = []")
    case True
    then show ?thesis using hp nc dec br by (simp add: parseHost_def LastIndexByte_None_iff [THEN iffD2])
  next
    case False
    then obtain ds where ds: "p = '':'' @ ds" "list_all is_digit ds" using hp(4) by auto
    then have "CHR '':'' \<notin> set ds" using digit_facts(3) by (auto simp: list_all_iff)
    then have "LastIndexByte a (CHR '':'') = Some (length h)"
      using hp(1) ds(1) LastIndexByte_split by simp
    then show ?thesis using hp(1) ds dec br by (simp add: parseHost_def)
  qed
qed

lemma Cut_none [simp]: "c \<notin> set s \<Longrightarrow> Cut s c = (s, [])"
  by (simp add: Cut_def IndexByte_None_iff [THEN iffD2])

lemma Cut_split [simp]: "c \<notin> set a \<Longrightarrow> Cut (a @ c # b) c = (a, b)"
  by (simp add: Cut_def IndexByte_split)

lemma scheme_loop_plain:
  assumes "list_all (\<lambda>c. between CHR ''a'' c CHR ''z'') s" and "acc @ s \<noteq> []"
  shows "scheme_loop raw acc (s @ CHR '':'' # rest) = Some (acc @ s, rest)"
  using assms
proof (induction s arbitrary: acc)
  case Nil
  then show ?case by (simp add: char_class_defs)
next
  case (Cons c s)
  then have "is_alpha c" by (simp add: is_alpha_def)
  with Cons show ?case by simp
qed

lemma lower_plain: "list_all (\<lambda>c. between CHR ''a'' c CHR ''z'') s \<Longrightarrow> map ascii_lower s = s"
  by (induction s) (auto simp: ascii_lower_def between_def)

lemma plain_scheme_bytes: "plain_scheme s \<Longrightarrow> c \<in> set s \<Longrightarrow> path_byte c"
  by (auto simp: plain_scheme_def list_all_iff path_byte_def char_class_defs)

lemma cut_query_none: "CHR ''?'' \<notin> set s \<Longrightarrow> cut_query s = (s, False, [])"
  by (simp add: cut_query_def count_notin)

lemma split_authority_plain:
  assumes "CHR ''/'' \<notin> set a" and "p = [] \<or> HasPrefix p ''/''"
  shows "split_authority (a @ p) = (a, p)"
  using assms
  by (auto simp: split_authority_def HasPrefix_iff IndexByte_split IndexByte_None_iff [THEN iffD2])

text \<open>A text with a scheme and an authority is parsed into its parts; the rest of the text is the path.\<close>

lemma Parse_authority:
  assumes "plain_scheme scheme" and "parseAuthority auth = Some (user, host)"
    and auth: "\<forall>c\<in>set auth. path_byte c \<and> c \<noteq> CHR ''/''"
    and p: "p = [] \<or> HasPrefix p ''/''" "\<forall>c\<in>set p. path_byte c"
  shows "Parse (scheme @ ''://'' @ auth @ p) = setPath (zero_URL\<lparr>u_Scheme := scheme, u_User := user, u_Host := host\<rparr>) p"
proof -
  let ?raw = "scheme @ ''://'' @ auth @ p"
  have slash: "path_byte (CHR '':'')" "path_byte (CHR ''/'')" by (simp_all add: path_byte_def ctl_byte_def)
  have bytes: "\<forall>c\<in>set ?raw. path_byte c"
    using auth p(2) plain_scheme_bytes [OF assms(1)] slash by auto
  then have hash: "Cut ?raw (CHR ''#'') = (?raw, [])" by (intro Cut_none) (auto simp: path_byte_def)
  have ctl: "\<not> list_ex ctl_byte ?raw" using bytes by (auto simp: list_ex_iff path_byte_def)
  have sch: "getScheme ?raw = Some (scheme, ''//'' @ auth @ p)"
    using assms(1) scheme_loop_plain [of scheme "[]" ?raw "''//'' @ auth @ p"]
    by (simp add: getScheme_def plain_scheme_def)
  have star: "?raw \<noteq> ''*''" by (cases scheme) auto
  have q: "cut_query (''//'' @ auth @ p) = (''//'' @ auth @ p, False, [])"
    using bytes by (intro cut_query_none) (auto simp: path_byte_def)
  have sp: "split_authority (auth @ p) = (auth, p)" using auth p(1) by (intro split_authority_plain) auto
  have "parse ?raw = setPath (zero_URL\<lparr>u_Scheme := scheme, u_User := user, u_Host := host\<rparr>) p"
    using assms(1,2) ctl star sch q sp lower_plain [of scheme]
    by (simp add: parse_def parse_rest_def HasPrefix_def zero_URL_def plain_scheme_def)
  then show ?thesis unfolding Parse_def hash by (simp split: option.split)
qed

lemma parseAuthority_plain: "plain_authority a \<Longrightarrow> parseAuthority a = Some (None, a)"
proof -
  assume a: "plain_authority a"
  then have "LastIndexByte a (CHR ''@'') = None"
    using plain_authority_bytes by (auto simp: LastIndexByte_None_iff)
  then show ?thesis using parseHost_plain [OF a] by (simp add: parseAuthority_def)
qed

text \<open>What precedes the last at-sign is the user, not the host.\<close>

lemma parseAuthority_user:
  assumes "plain_authority a" and "parseUserinfo ui = Some user"
  shows "parseAuthority (ui @ CHR ''@'' # a) = Some (Some user, a)"
proof -
  have "CHR ''@'' \<notin> set a" using plain_authority_bytes [OF assms(1)] by auto
  then show ?thesis
    using assms(2) parseHost_plain [OF assms(1)] by (simp add: parseAuthority_def LastIndexByte_split)
qed

text \<open>Printing: the escaped path decodes to the path and holds only path bytes, so that parsing the text
  again yields the same scheme, host and path.\<close>

lemma ctl_class: "ctl_byte c \<Longrightarrow> \<not> is_alpha c" "ctl_byte c \<Longrightarrow> \<not> is_digit c"
  by (auto simp: char_class_defs)

lemma ctl_not_punct: "ctl_byte c \<Longrightarrow> c \<notin> set ''-_.~'' \<and> c \<notin> set reserved" "ctl_byte c \<Longrightarrow> c \<notin> set encoded_extra"
  by (auto simp: ctl_byte_def reserved_def encoded_extra_def)

lemma shouldEscape_ctl: "ctl_byte c \<Longrightarrow> shouldEscape encodePath c"
  using ctl_class [of c] ctl_not_punct(1) [of c] unfolding shouldEscape_def by (simp del: set_simps)

lemma delimiter_facts:
  "shouldEscape encodePath (CHR ''#'')" "shouldEscape encodePath (CHR ''?'')"
  "CHR ''#'' \<notin> set encoded_extra" "CHR ''?'' \<notin> set encoded_extra"
  by (simp_all add: char_class_defs shouldEscape_def reserved_def encoded_extra_def)

lemma validEncoded_bytes:
  assumes "validEncoded encodePath s" and "c \<in> set s"
  shows "path_byte c"
proof -
  have "c \<in> set encoded_extra \<or> \<not> shouldEscape encodePath c"
    using assms by (auto simp: validEncoded_def list_all_iff)
  then show ?thesis
    unfolding path_byte_def using shouldEscape_ctl [of c] ctl_not_punct(2) [of c] delimiter_facts by blast
qed

lemma upperhex_plain: "d < 16 \<Longrightarrow> is_digit (upperhex d) \<or> is_alpha (upperhex d)"
  using hex_facts(1) [of d] by (auto simp: ishex_def is_alpha_def between_def)

lemma upperhex_kept: "d < 16 \<Longrightarrow> \<not> shouldEscape encodePath (upperhex d)"
  using upperhex_plain [of d] by (auto simp: shouldEscape_def)

lemma escape_valid: "validEncoded encodePath (escape encodePath s)"
proof -
  have "list_all (\<lambda>c. c \<in> set encoded_extra \<or> \<not> shouldEscape encodePath c) (pct c)" for c
  proof -
    have "(of_char c :: nat) div 16 < 16" "(of_char c :: nat) mod 16 < 16"
      using of_char_bound [of c] by (auto intro: less_mult_imp_div_less)
    then show ?thesis using upperhex_kept by (simp add: pct_def encoded_extra_def)
  qed
  then show ?thesis by (auto simp: validEncoded_def escape_def list_all_iff)
qed

lemma escape_slash: "HasPrefix s ''/'' \<Longrightarrow> HasPrefix (escape encodePath s) ''/''"
  by (auto simp: HasPrefix_iff escape_def shouldEscape_def char_class_defs reserved_def)

lemma EscapedPath_facts:
  assumes "setPath u p = Some v" and "HasPrefix p ''/''"
  shows "unescape encodePath p = Some (u_Path v)" "unescape encodePath (EscapedPath v) = Some (u_Path v)"
    "HasPrefix (EscapedPath v) ''/''" "\<forall>c\<in>set (EscapedPath v). path_byte c" "HasPrefix (u_Path v) ''/''"
proof -
  show path: "unescape encodePath p = Some (u_Path v)" using assms by (auto simp: setPath_def)
  obtain r where r: "p = CHR ''/'' # r" using assms(2) by (auto simp: HasPrefix_iff)
  then obtain z where "u_Path v = CHR ''/'' # z" using path by (cases "unescape encodePath r") (auto dest: sym)
  then show pre: "HasPrefix (u_Path v) ''/''" by (simp add: HasPrefix_def)
  have raw: "u_RawPath v = [] \<or> u_RawPath v = p" using assms by (auto simp: setPath_def)
  have star: "u_Path v \<noteq> ''*''" using pre by (auto simp: HasPrefix_iff)
  show "unescape encodePath (EscapedPath v) = Some (u_Path v)"
    using star by (simp add: EscapedPath_def)
  show "HasPrefix (EscapedPath v) ''/''"
    using assms(2) raw star pre escape_slash by (auto simp: EscapedPath_def)
  show "\<forall>c\<in>set (EscapedPath v). path_byte c"
    using star escape_valid validEncoded_bytes by (auto simp: EscapedPath_def split: if_splits)
qed

lemma escape_host_plain: "plain_authority a \<Longrightarrow> escape encodeHost a = a"
proof -
  assume "plain_authority a"
  then have "list_all (\<lambda>c. \<not> shouldEscape encodeHost c) a" using plain_authority_bytes by (auto simp: list_all_iff)
  then show ?thesis by (induction a) (auto simp: escape_def)
qed

lemma plain_authority_nonempty: "plain_authority a \<Longrightarrow> a \<noteq> []"
  by (auto simp: plain_authority_def)

text \<open>The text of the authority of a URL.\<close>

definition authority_text :: "Userinfo option \<Rightarrow> string \<Rightarrow> string" where
  "authority_text user host =
     (case user of None \<Rightarrow> [] | Some ui \<Rightarrow> Userinfo_String ui @ ''@'') @ escape encodeHost host"

lemma String_authority:
  assumes "plain_scheme scheme" and "host \<noteq> []" and "HasPrefix p ''/''"
    and "setPath (zero_URL\<lparr>u_Scheme := scheme, u_User := user, u_Host := host\<rparr>) p = Some v"
  shows "URL_String v = scheme @ ''://'' @ authority_text user host @ EscapedPath v"
proof -
  have f: "u_Scheme v = scheme" "u_Host v = host" "u_Opaque v = []" "u_User v = user" "\<not> u_OmitHost v"
    "\<not> u_ForceQuery v" "u_RawQuery v = []" "u_Fragment v = []"
    using assms(4) by (auto simp: setPath_def zero_URL_def)
  have "HasPrefix (EscapedPath v) ''/''" using EscapedPath_facts [OF assms(4,3)] by simp
  then show ?thesis
    using assms(1,2) f
    by (simp add: URL_String_def url_front_def plain_scheme_def Let_def authority_text_def split: option.split)
qed

theorem Parse_String:
  assumes "plain_scheme scheme" and "host \<noteq> []" and "HasPrefix p ''/''"
    and "parseAuthority (authority_text user host) = Some (user, host)"
    and "\<forall>c\<in>set (authority_text user host). path_byte c \<and> c \<noteq> CHR ''/''"
    and "setPath (zero_URL\<lparr>u_Scheme := scheme, u_User := user, u_Host := host\<rparr>) p = Some v"
  shows "\<exists>raw. Parse (URL_String v) = Some (v\<lparr>u_RawPath := raw\<rparr>)"
proof -
  let ?b = "zero_URL\<lparr>u_Scheme := scheme, u_User := user, u_Host := host\<rparr>"
  note E = EscapedPath_facts [OF assms(6,3)]
  have "Parse (URL_String v) = setPath ?b (EscapedPath v)"
    using Parse_authority [OF assms(1,4,5), of "EscapedPath v"] String_authority [OF assms(1-3,6)] E(3,4) by simp
  also have "\<dots> = Some (?b\<lparr>u_Path := u_Path v,
      u_RawPath := (if EscapedPath v = escape encodePath (u_Path v) then [] else EscapedPath v)\<rparr>)"
    using E(2) by (simp add: setPath_def)
  finally show ?thesis using assms(6) by (auto simp: setPath_def)
qed

end
