(* ===== verification/Envoy_Template.thy ===== *)
theory Envoy_Template
  imports Go_Url Workload_Config
begin

text \<open>
  The Envoy configuration that the webhook can render (\<open>injector/envoy_template.go\<close> with the embedded
  \<open>envoy.yaml.tmpl\<close>): the template, the part of Go's \<open>text/template\<close> it uses (text and field actions),
  and \<open>RenderEnvoyConfig\<close>. Shown: rendering always succeeds and the ports read back from the rendered
  text are those of the platform configuration.
\<close>

section \<open>Templates\<close>

datatype node = TextNode string | FieldNode string

text \<open>The blanks that the lexer skips inside an action, and the characters of an identifier.\<close>

definition blank :: "char \<Rightarrow> bool" where
  "blank c \<longleftrightarrow> c \<in> {CHR '' '', CHR 0x09, CHR 0x0A, CHR 0x0D}"

definition ident_char :: "char \<Rightarrow> bool" where
  "ident_char c \<longleftrightarrow> is_alpha c \<or> is_digit c \<or> c = CHR ''_''"

text \<open>A field action: a dot and an identifier between blanks. Other actions do not occur and are rejected.\<close>

definition parse_action :: "string \<Rightarrow> string option" where
  "parse_action a =
     (case rev (dropWhile blank (rev (dropWhile blank a))) of
        c # name \<Rightarrow> if c = CHR ''.'' \<and> name \<noteq> [] \<and> list_all ident_char name \<and> \<not> is_digit (hd name) then Some name else None
      | [] \<Rightarrow> None)"

definition text_node :: "string \<Rightarrow> node list" where
  "text_node s = (if s = [] then [] else [TextNode s])"

lemma Index_Some_nonempty: "Index s sub = Some i \<Longrightarrow> sub \<noteq> [] \<Longrightarrow> s \<noteq> []"
  by (cases s) auto

function parse_template :: "string \<Rightarrow> node list option" where
  "parse_template s =
     (case Index s ''{{'' of
        None \<Rightarrow> Some (text_node s)
      | Some i \<Rightarrow>
          (case Index (drop (i + 2) s) ''}}'' of
             None \<Rightarrow> None
           | Some j \<Rightarrow>
               (case parse_action (take j (drop (i + 2) s)) of
                  None \<Rightarrow> None
                | Some name \<Rightarrow>
                    map_option (\<lambda>ns. text_node (take i s) @ FieldNode name # ns)
                      (parse_template (drop (j + 2) (drop (i + 2) s))))))"
  by pat_completeness auto
termination
  by (relation "measure length") (auto dest: Index_Some_nonempty)

declare parse_template.simps [simp del]

text \<open>Executing the nodes on the fields of a value; a field that does not exist is an error.\<close>

fun execute :: "(string \<Rightarrow> string option) \<Rightarrow> node list \<Rightarrow> error + string" where
  "execute fv [] = Inr []"
| "execute fv (TextNode t # ns) = (case execute fv ns of Inl err \<Rightarrow> Inl err | Inr out \<Rightarrow> Inr (t @ out))"
| "execute fv (FieldNode f # ns) =
     (case fv f of
        None \<Rightarrow> Inl (''can't evaluate field '' @ f)
      | Some v \<Rightarrow> (case execute fv ns of Inl err \<Rightarrow> Inl err | Inr out \<Rightarrow> Inr (v @ out)))"

section \<open>The template\<close>

definition envoy_admin :: "string list" where
  "envoy_admin =
     [''admin:'',
      ''  address:'',
      ''    socket_address:'',
      ''      protocol: TCP'',
      ''      address: 127.0.0.1'']"

definition envoy_outbound_address :: "string list" where
  "envoy_outbound_address =
     [[],
      ''static_resources:'',
      ''  listeners:'',
      ''  - name: outbound_listener'',
      ''    address:'',
      ''      socket_address:'',
      ''        protocol: TCP'',
      ''        address: 0.0.0.0'']"

definition envoy_inbound_address :: "string list" where
  "envoy_inbound_address =
     [''    listener_filters:'',
      ''    - name: envoy.filters.listener.original_dst'',
      ''      typed_config:'',
      ''        '' @ quote @ ''@type'' @ quote @ '': type.googleapis.com/envoy.extensions.filters.listener.original_dst.v3.OriginalDst'',
      ''    filter_chains:'',
      ''    - filters:'',
      ''      - name: envoy.filters.network.http_connection_manager'',
      ''        typed_config:'',
      ''          '' @ quote @ ''@type'' @ quote @ '': type.googleapis.com/envoy.extensions.filters.network.http_connection_manager.v3.HttpConnectionManager'',
      ''          stat_prefix: outbound_http'',
      ''          codec_type: AUTO'',
      ''          route_config:'',
      ''            name: outbound_routes'',
      ''            virtual_hosts:'',
      ''            - name: catch_all'',
      ''              domains: ['' @ quote @ ''*'' @ quote @ '']'',
      ''              routes:'',
      ''              - match:'',
      ''                  prefix: '' @ quote @ ''/'' @ quote,
      ''                route:'',
      ''                  cluster: original_destination'',
      ''          http_filters:'',
      ''          - name: envoy.filters.http.ext_proc'',
      ''            typed_config:'',
      ''              '' @ quote @ ''@type'' @ quote @ '': type.googleapis.com/envoy.extensions.filters.http.ext_proc.v3.ExternalProcessor'',
      ''              grpc_service:'',
      ''                envoy_grpc:'',
      ''                  cluster_name: ext_proc_cluster'',
      ''                timeout: 30s'',
      ''              processing_mode:'',
      ''                request_header_mode: SEND'',
      ''                response_header_mode: SKIP'',
      ''                request_body_mode: NONE'',
      ''                response_body_mode: NONE'',
      ''          - name: envoy.filters.http.router'',
      ''            typed_config:'',
      ''              '' @ quote @ ''@type'' @ quote @ '': type.googleapis.com/envoy.extensions.filters.http.router.v3.Router'',
      [],
      ''  - name: inbound_listener'',
      ''    address:'',
      ''      socket_address:'',
      ''        protocol: TCP'',
      ''        address: 0.0.0.0'']"

definition envoy_inbound_filters :: "string list" where
  "envoy_inbound_filters =
     [''    listener_filters:'',
      ''    - name: envoy.filters.listener.original_dst'',
      ''      typed_config:'',
      ''        '' @ quote @ ''@type'' @ quote @ '': type.googleapis.com/envoy.extensions.filters.listener.original_dst.v3.OriginalDst'',
      ''    filter_chains:'',
      ''    - filters:'',
      ''      - name: envoy.filters.network.http_connection_manager'',
      ''        typed_config:'',
      ''          '' @ quote @ ''@type'' @ quote @ '': type.googleapis.com/envoy.extensions.filters.network.http_connection_manager.v3.HttpConnectionManager'',
      ''          stat_prefix: inbound_http'',
      ''          codec_type: AUTO'',
      ''          route_config:'',
      ''            name: inbound_routes'',
      ''            virtual_hosts:'',
      ''            - name: local_app'',
      ''              domains: ['' @ quote @ ''*'' @ quote @ '']'',
      ''              request_headers_to_add:'',
      ''              - header:'',
      ''                  key: '' @ quote @ ''x-authbridge-direction'' @ quote,
      ''                  value: '' @ quote @ ''inbound'' @ quote,
      ''                append: false'',
      ''              routes:'',
      ''              - match:'',
      ''                  prefix: '' @ quote @ ''/'' @ quote,
      ''                route:'',
      ''                  cluster: original_destination'',
      ''          http_filters:'',
      ''          - name: envoy.filters.http.ext_proc'',
      ''            typed_config:'',
      ''              '' @ quote @ ''@type'' @ quote @ '': type.googleapis.com/envoy.extensions.filters.http.ext_proc.v3.ExternalProcessor'',
      ''              grpc_service:'',
      ''                envoy_grpc:'',
      ''                  cluster_name: ext_proc_cluster'',
      ''                timeout: 30s'',
      ''              processing_mode:'',
      ''                request_header_mode: SEND'',
      ''                response_header_mode: SKIP'',
      ''                request_body_mode: NONE'',
      ''                response_body_mode: NONE'',
      ''          - name: envoy.filters.http.router'',
      ''            typed_config:'',
      ''              '' @ quote @ ''@type'' @ quote @ '': type.googleapis.com/envoy.extensions.filters.http.router.v3.Router'',
      [],
      ''  clusters:'',
      ''  - name: original_destination'',
      ''    connect_timeout: 30s'',
      ''    type: ORIGINAL_DST'',
      ''    lb_policy: CLUSTER_PROVIDED'',
      ''    original_dst_lb_config:'',
      ''      use_http_header: false'',
      [],
      ''  - name: ext_proc_cluster'',
      ''    connect_timeout: 5s'',
      ''    type: STATIC'',
      ''    lb_policy: ROUND_ROBIN'',
      ''    http2_protocol_options: {}'',
      ''    load_assignment:'',
      ''      cluster_name: ext_proc_cluster'',
      ''      endpoints:'',
      ''      - lb_endpoints:'',
      ''        - endpoint:'',
      ''            address:'',
      ''              socket_address:'',
      ''                address: 127.0.0.1'']"

definition envoyTemplateSrc :: string where
  "envoyTemplateSrc =
     unlines (envoy_admin @ [''      port_value: {{ .AdminPort }}'']
       @ envoy_outbound_address @ [''        port_value: {{ .OutboundPort }}'']
       @ envoy_inbound_address @ [''        port_value: {{ .InboundPort }}'']
       @ envoy_inbound_filters @ [''                port_value: {{ .ExtProcPort }}''])"

record envoyTemplateData =
  etd_AdminPort :: int32
  etd_OutboundPort :: int32
  etd_InboundPort :: int32
  etd_ExtProcPort :: int32

definition defaultExtProcPort :: int32 where
  "defaultExtProcPort = 9090"

definition template_fields :: "envoyTemplateData \<Rightarrow> string \<Rightarrow> string option" where
  "template_fields d =
     [''AdminPort'' \<mapsto> Itoa (sint (etd_AdminPort d)), ''OutboundPort'' \<mapsto> Itoa (sint (etd_OutboundPort d)),
      ''InboundPort'' \<mapsto> Itoa (sint (etd_InboundPort d)), ''ExtProcPort'' \<mapsto> Itoa (sint (etd_ExtProcPort d))]"

text \<open>The platform configuration of a resolved configuration is always present in the model, so only a missing
  configuration remains of the first check. \<open>template.Must\<close> has parsed the template when the program starts;
  the theorem below shows that it does not panic.\<close>

definition RenderEnvoyConfig :: "ResolvedConfig option \<Rightarrow> error + string" where
  "RenderEnvoyConfig cfg =
     (case cfg of
        None \<Rightarrow> Inl ''resolved config or platform config is nil''
      | Some c \<Rightarrow>
          if rc_EnvoyYAML c \<noteq> [] then Inr (rc_EnvoyYAML c)
          else
            (let proxy = pc_Proxy (rc_Platform c);
                 data = \<lparr>etd_AdminPort = px_AdminPort proxy, etd_OutboundPort = px_Port proxy,
                         etd_InboundPort = px_InboundProxyPort proxy, etd_ExtProcPort = defaultExtProcPort\<rparr>
             in case parse_template envoyTemplateSrc of
                  None \<Rightarrow> Inl ''template: envoy.yaml''
                | Some nodes \<Rightarrow>
                    (case execute (template_fields data) nodes of
                       Inl err \<Rightarrow> Inl (''executing envoy template: '' @ err)
                     | Inr out \<Rightarrow> Inr out)))"

section \<open>Parsing the template\<close>

text \<open>A text in which no action begins.\<close>

fun no_open :: "string \<Rightarrow> bool" where
  "no_open [] = True"
| "no_open (c # s) = (\<not> (c = CHR ''{'' \<and> (s = [] \<or> hd s = CHR ''{'')) \<and> no_open s)"

lemma no_open_append: "no_open a \<Longrightarrow> no_open b \<Longrightarrow> no_open (a @ b)"
  by (induction a) (auto simp: hd_append)

lemma no_open_unlines: "list_all no_open ls \<Longrightarrow> no_open (unlines ls)"
  by (induction ls) (auto simp: unlines_def intro!: no_open_append)

lemma Index_no_open: "no_open t \<Longrightarrow> Index (t @ ''{{'' @ r) ''{{'' = Some (length t)"
proof (induction t)
  case Nil
  show ?case by (simp add: HasPrefix_def)
next
  case (Cons c t)
  then have "\<not> HasPrefix ((c # t) @ ''{{'' @ r) ''{{''" by (cases t) (auto simp: HasPrefix_def)
  with Cons show ?case by simp
qed

lemma Index_no_open_None: "no_open t \<Longrightarrow> Index t ''{{'' = None"
proof (induction t)
  case (Cons c t)
  then have "\<not> HasPrefix (c # t) ''{{''" by (cases t) (auto simp: HasPrefix_def)
  with Cons show ?case by simp
qed simp

lemma Index_close: "CHR ''}'' \<notin> set a \<Longrightarrow> Index (a @ ''}}'' @ r) ''}}'' = Some (length a)"
  by (induction a) (auto simp: HasPrefix_def)

lemma parse_template_field:
  assumes "no_open t" and "CHR ''}'' \<notin> set a" and "parse_action a = Some name"
  shows "parse_template (t @ ''{{'' @ a @ ''}}'' @ rest) =
     map_option (\<lambda>ns. text_node t @ FieldNode name # ns) (parse_template rest)"
  using Index_no_open [OF assms(1), of "a @ ''}}'' @ rest"] Index_close [OF assms(2), of rest] assms(3)
  by (subst parse_template.simps) simp

lemma parse_template_text: "no_open t \<Longrightarrow> parse_template t = Some (text_node t)"
  by (subst parse_template.simps) (simp add: Index_no_open_None)

lemma envoy_lines_no_open:
  "list_all no_open envoy_admin" "list_all no_open envoy_outbound_address"
  "list_all no_open envoy_inbound_address" "list_all no_open envoy_inbound_filters"
  by (simp_all add: envoy_admin_def envoy_outbound_address_def envoy_inbound_address_def envoy_inbound_filters_def
      quote_def)

text \<open>The rendered lines, with the four port numbers filled in.\<close>

definition envoy_lines :: "string \<Rightarrow> string \<Rightarrow> string \<Rightarrow> string \<Rightarrow> string list" where
  "envoy_lines a p i x =
     envoy_admin @ [''      port_value: '' @ a] @ envoy_outbound_address @ [''        port_value: '' @ p]
     @ envoy_inbound_address @ [''        port_value: '' @ i] @ envoy_inbound_filters @ [''                port_value: '' @ x]"

lemma envoyTemplateSrc_actions:
  "envoyTemplateSrc =
     (unlines envoy_admin @ ''      port_value: '') @ ''{{'' @ '' .AdminPort '' @ ''}}''
     @ ([CHR 0x0A] @ unlines envoy_outbound_address @ ''        port_value: '') @ ''{{'' @ '' .OutboundPort '' @ ''}}''
     @ ([CHR 0x0A] @ unlines envoy_inbound_address @ ''        port_value: '') @ ''{{'' @ '' .InboundPort '' @ ''}}''
     @ ([CHR 0x0A] @ unlines envoy_inbound_filters @ ''                port_value: '') @ ''{{'' @ '' .ExtProcPort '' @ ''}}''
     @ [CHR 0x0A]"
  by (simp add: envoyTemplateSrc_def unlines_def)

lemma action_names:
  "parse_action '' .AdminPort '' = Some ''AdminPort''" "parse_action '' .OutboundPort '' = Some ''OutboundPort''"
  "parse_action '' .InboundPort '' = Some ''InboundPort''" "parse_action '' .ExtProcPort '' = Some ''ExtProcPort''"
  by (simp_all add: parse_action_def blank_def ident_char_def char_class_defs)

lemma envoy_nodes:
  "parse_template envoyTemplateSrc = Some
     [TextNode (unlines envoy_admin @ ''      port_value: ''), FieldNode ''AdminPort'',
      TextNode ([CHR 0x0A] @ unlines envoy_outbound_address @ ''        port_value: ''), FieldNode ''OutboundPort'',
      TextNode ([CHR 0x0A] @ unlines envoy_inbound_address @ ''        port_value: ''), FieldNode ''InboundPort'',
      TextNode ([CHR 0x0A] @ unlines envoy_inbound_filters @ ''                port_value: ''), FieldNode ''ExtProcPort'',
      TextNode [CHR 0x0A]]"
proof -
  have no: "no_open (pre @ unlines ls @ post)"
    if "no_open pre" "list_all no_open ls" "no_open post" for pre ls post
    using that no_open_unlines by (simp add: no_open_append)
  have ends: "no_open ''      port_value: ''" "no_open ''        port_value: ''" "no_open ''                port_value: ''"
    "no_open [CHR 0x0A]" "no_open []" by simp_all
  note texts = no [of "[]", OF ends(5) envoy_lines_no_open(1) ends(1), simplified append_Nil]
    no [OF ends(4) envoy_lines_no_open(2) ends(2)] no [OF ends(4) envoy_lines_no_open(3) ends(2)]
    no [OF ends(4) envoy_lines_no_open(4) ends(3)]
  have cl: "CHR ''}'' \<notin> set '' .AdminPort ''" "CHR ''}'' \<notin> set '' .OutboundPort ''"
    "CHR ''}'' \<notin> set '' .InboundPort ''" "CHR ''}'' \<notin> set '' .ExtProcPort ''" by simp_all
  show ?thesis
    unfolding envoyTemplateSrc_actions parse_template_field [OF texts(1) cl(1) action_names(1)]
      parse_template_field [OF texts(2) cl(2) action_names(2)] parse_template_field [OF texts(3) cl(3) action_names(3)]
      parse_template_field [OF texts(4) cl(4) action_names(4)] parse_template_text [OF ends(4)]
    by (simp add: text_node_def)
qed

lemma render_lines:
  assumes "rc_EnvoyYAML c = []"
  shows "RenderEnvoyConfig (Some c) = Inr (unlines (envoy_lines (Itoa (sint (px_AdminPort (pc_Proxy (rc_Platform c)))))
     (Itoa (sint (px_Port (pc_Proxy (rc_Platform c))))) (Itoa (sint (px_InboundProxyPort (pc_Proxy (rc_Platform c)))))
     (Itoa (sint defaultExtProcPort))))"
  using assms by (simp add: RenderEnvoyConfig_def envoy_nodes template_fields_def envoy_lines_def unlines_def Let_def)

section \<open>Reading the ports back\<close>

text \<open>The values of the \<open>port_value\<close> keys of a YAML text, line by line.\<close>

definition port_line :: "string \<Rightarrow> bool" where
  "port_line l \<longleftrightarrow> HasPrefix (dropWhile blank l) ''port_value: ''"

definition yaml_ports :: "string \<Rightarrow> string list" where
  "yaml_ports out = map (\<lambda>l. drop 12 (dropWhile blank l)) (filter port_line (Split out (CHR 0x0A)))"

lemma Split_unlines: "\<forall>l\<in>set ls. CHR 0x0A \<notin> set l \<Longrightarrow> Split (unlines ls) (CHR 0x0A) = ls @ [[]]"
proof (induction ls)
  case (Cons l ls)
  then have "Split (l @ CHR 0x0A # unlines ls) (CHR 0x0A) = l # Split (unlines ls) (CHR 0x0A)"
    by (intro Split_append_sep) simp
  with Cons show ?case by (simp add: unlines_def)
qed (simp add: unlines_def)

lemmas envoy_text_defs = envoy_admin_def envoy_outbound_address_def envoy_inbound_address_def envoy_inbound_filters_def

lemma envoy_text_lines:
  "list_all (list_all (\<lambda>c. c \<noteq> CHR 0x0A)) envoy_admin"
  "list_all (list_all (\<lambda>c. c \<noteq> CHR 0x0A)) envoy_outbound_address"
  "list_all (list_all (\<lambda>c. c \<noteq> CHR 0x0A)) envoy_inbound_address"
  "list_all (list_all (\<lambda>c. c \<noteq> CHR 0x0A)) envoy_inbound_filters"
  by (simp_all add: envoy_text_defs quote_def)

lemma list_all_no_newline: "list_all (list_all (\<lambda>c. c \<noteq> CHR 0x0A)) ls \<Longrightarrow> \<forall>l\<in>set ls. CHR 0x0A \<notin> set l"
  by (induction ls) (auto simp: list_all_iff)

lemma envoy_text_ports:
  "filter port_line envoy_admin = []" "filter port_line envoy_outbound_address = []"
  "filter port_line envoy_inbound_address = []" "filter port_line envoy_inbound_filters = []"
  by code_simp+

lemma Itoa_no_newline: "CHR 0x0A \<notin> set (Itoa v)"
  using dec_digits_digits [of "CHR 0x0A" "nat (- v)"] dec_digits_digits [of "CHR 0x0A" "nat v"]
  by (auto simp: Itoa_def is_digit_def)

lemma yaml_ports_lines:
  assumes "\<forall>v\<in>{a, p, i, x}. CHR 0x0A \<notin> set v"
  shows "yaml_ports (unlines (envoy_lines a p i x)) = [a, p, i, x]"
proof -
  have "\<forall>l\<in>set (envoy_lines a p i x). CHR 0x0A \<notin> set l"
    using assms envoy_text_lines [THEN list_all_no_newline] by (simp add: envoy_lines_def ball_Un)
  then show ?thesis
    by (simp add: yaml_ports_def Split_unlines)
      (simp add: envoy_lines_def envoy_text_ports port_line_def HasPrefix_def blank_def)
qed

text \<open>\<open>RenderEnvoyConfig\<close> never fails on a resolved configuration: an Envoy configuration
  of the namespace is returned as it is, and otherwise the template is rendered, in which the ports of the
  admin interface, the outbound and the inbound listener and the external processor are, in this order and
  as numbers, those of the platform configuration and 9090.\<close>

theorem rendered_ports:
  "\<exists>out. RenderEnvoyConfig (Some c) = Inr out \<and>
     (if rc_EnvoyYAML c \<noteq> [] then out = rc_EnvoyYAML c
      else map Atoi (yaml_ports out) =
        [Some (sint (px_AdminPort (pc_Proxy (rc_Platform c)))), Some (sint (px_Port (pc_Proxy (rc_Platform c)))),
         Some (sint (px_InboundProxyPort (pc_Proxy (rc_Platform c)))), Some 9090])"
proof (cases "rc_EnvoyYAML c = []")
  case True
  have atoi: "Atoi (Itoa (sint v)) = Some (sint v)" for v :: int32
    using sint_ge [of v] sint_lt [of v] by (intro Atoi_Itoa) simp_all
  show ?thesis
    using render_lines [OF True] True
    by (simp add: yaml_ports_lines Itoa_no_newline atoi) (simp add: defaultExtProcPort_def)
qed (simp add: RenderEnvoyConfig_def)

end
