(* ===== verification/Deployment.thy ===== *)
theory Deployment
  imports Admission_Webhook Config_Loader Proc_Startup Envoy_Template
begin

text \<open>
  Properties that span the components: the pod that the webhook builds is the environment in which the
  external processor starts, and the loaders supply the gates and the configuration that the mutator and
  the container builder work with.
\<close>

section \<open>From the pod to the processor\<close>

text \<open>Starting a container is the kubelet's work and a parameter: \<open>start\<close> gives the environment of the started
  process, or \<open>None\<close> if the container cannot start. Of what Kubernetes documents, the following is used, for
  entries with distinct names: a literal without the expansion character \<open>$\<close> is the value of the variable; a
  reference to a key of a ConfigMap yields the value of the key, and leaves the variable as in the image if the
  key is missing (with a missing key that is not optional the container does not start); and a variable that
  is not listed is that of the image.\<close>

definition unless_missing :: "string option \<Rightarrow> string option \<Rightarrow> string option" where
  "unless_missing v d = (if v = None then d else v)"

lemma unless_missing_None [simp]: "unless_missing v None = v"
  by (simp add: unless_missing_def)

definition container_start :: "(string \<Rightarrow> strmap) \<Rightarrow> strmap \<Rightarrow> (EnvVar list \<Rightarrow> strmap option) \<Rightarrow> bool" where
  "container_start cms img start \<longleftrightarrow>
     (\<forall>es env. start es = Some env \<and> distinct (map env_Name es) \<longrightarrow>
        (\<forall>n v. env_literal n v \<in> set es \<and> CHR ''$'' \<notin> set v \<longrightarrow> env n = Some v)
        \<and> (\<forall>n cm key opt. env_from n (ConfigMapKeyRef cm key opt) \<in> set es \<longrightarrow>
             env n = unless_missing (cms cm key) (img n) \<and> (opt = Some True \<or> cms cm key \<noteq> None))
        \<and> (\<forall>n. n \<notin> set (map env_Name es) \<longrightarrow> env n = img n))"

text \<open>The variables of the processor that the containers do not list or whose key may be missing; the images of the
  repository do not set them.\<close>

definition image_silent :: "strmap \<Rightarrow> bool" where
  "image_silent img \<longleftrightarrow> list_all (\<lambda>n. img n = None)
     [''TOKEN_URL'', ''ISSUER'', ''EXPECTED_AUDIENCE'', ''TARGET_AUDIENCE'', ''TARGET_SCOPES'', ''KEYCLOAK_URL'',
      ''KEYCLOAK_REALM'', ''DEFAULT_OUTBOUND_POLICY'', ''JWT_SVID_PATH'', ''BYPASS_INBOUND_PATHS'', ''SPIRE_ENABLED'']"

text \<open>The entry for a variable, and the value of an entry that is a plain literal or a ConfigMap reference.\<close>

definition entry :: "EnvVar list \<Rightarrow> string \<Rightarrow> EnvVar option" where
  "entry es n = map_of (map (\<lambda>e. (env_Name e, e)) es) n"

fun plain_entry :: "EnvVar \<Rightarrow> bool" where
  "plain_entry e = (case env_ValueFrom e of
     None \<Rightarrow> CHR ''$'' \<notin> set (env_Value e) | Some (ConfigMapKeyRef cm key opt) \<Rightarrow> env_Value e = [] | _ \<Rightarrow> False)"

fun entry_value :: "(string \<Rightarrow> strmap) \<Rightarrow> strmap \<Rightarrow> EnvVar \<Rightarrow> string option" where
  "entry_value cms img e = (case env_ValueFrom e of
     None \<Rightarrow> Some (env_Value e) | Some (ConfigMapKeyRef cm key opt) \<Rightarrow>
       unless_missing (cms cm key) (img (env_Name e)) | _ \<Rightarrow> None)"

lemma started_env:
  assumes "container_start cms img start" and "start es = Some env" and "distinct (map env_Name es)"
    and "entry es n \<noteq> None" and "plain_entry (the (entry es n))"
  shows "env n = entry_value cms img (the (entry es n))"
proof -
  obtain e where e: "entry es n = Some e" using assms(4) by blast
  then have mem: "e \<in> set es" and n: "n = env_Name e" by (auto simp: entry_def dest!: map_of_SomeD)
  show ?thesis
  proof (cases "env_ValueFrom e")
    case None
    then have "e = env_literal n (env_Value e)" using n by (simp add: env_literal_def)
    with mem have "env_literal n (env_Value e) \<in> set es" by simp
    then show ?thesis using assms e None unfolding container_start_def by simp
  next
    case (Some src)
    with assms(5) e obtain cm key opt where src: "src = ConfigMapKeyRef cm key opt" and "env_Value e = []"
      by (auto split: EnvVarSource.splits)
    then have "e = env_from n (ConfigMapKeyRef cm key opt)" using n Some by (simp add: env_from_def)
    with mem have "env_from n (ConfigMapKeyRef cm key opt) \<in> set es" by simp
    then have "env n = unless_missing (cms cm key) (img n)"
      using assms(1-3) unfolding container_start_def by blast
    then show ?thesis using e n Some src by simp
  qed
qed

lemma started_image:
  assumes "container_start cms img start" and "start es = Some env" and "distinct (map env_Name es)"
    and "entry es n = None"
  shows "env n = img n"
proof -
  have "n \<notin> set (map env_Name es)" using assms(4) by (auto simp: entry_def map_of_eq_None_iff image_image)
  then show ?thesis using assms(1-3) unfolding container_start_def by blast
qed

definition proc_settings :: "strmap \<Rightarrow> strmap \<Rightarrow> bool" where
  "proc_settings d env \<longleftrightarrow>
     map_get env ''TOKEN_URL'' = map_get d ''TOKEN_URL'' \<and> map_get env ''ISSUER'' = map_get d ''ISSUER''
     \<and> map_get env ''EXPECTED_AUDIENCE'' = map_get d ''EXPECTED_AUDIENCE''
     \<and> map_get env ''TARGET_AUDIENCE'' = map_get d ''TARGET_AUDIENCE''
     \<and> map_get env ''TARGET_SCOPES'' = map_get d ''TARGET_SCOPES''
     \<and> map_get env ''KEYCLOAK_URL'' = map_get d ''KEYCLOAK_URL''
     \<and> map_get env ''KEYCLOAK_REALM'' = map_get d ''KEYCLOAK_REALM''
     \<and> map_get env ''DEFAULT_OUTBOUND_POLICY'' = map_get d ''DEFAULT_OUTBOUND_POLICY''
     \<and> map_get env ''JWT_SVID_PATH'' = [] \<and> env ''BYPASS_INBOUND_PATHS'' = None
     \<and> clientIDFile env = ''/shared/client-id.txt'' \<and> clientSecretFile env = ''/shared/client-secret.txt''
     \<and> map_get env ''ROUTES_CONFIG_PATH'' = ''/etc/authproxy/routes.yaml''"

text \<open>The settings that a builder works with: in the legacy mode the namespace's ConfigMap, in the resolved mode the
  merged configuration, with the realm of an AgentRuntime if one sets it.\<close>

definition builder_settings :: "strmap \<Rightarrow> ContainerBuilder \<Rightarrow> strmap" where
  "builder_settings d b =
     (case b_resolved b of
        None \<Rightarrow> d
      | Some r \<Rightarrow>
          [''TOKEN_URL'' \<mapsto> rc_TokenURL r, ''ISSUER'' \<mapsto> rc_Issuer r, ''EXPECTED_AUDIENCE'' \<mapsto> rc_ExpectedAudience r,
           ''TARGET_AUDIENCE'' \<mapsto> rc_TargetAudience r, ''TARGET_SCOPES'' \<mapsto> rc_TargetScopes r,
           ''KEYCLOAK_URL'' \<mapsto> rc_KeycloakURL r, ''KEYCLOAK_REALM'' \<mapsto> rc_KeycloakRealm r,
           ''DEFAULT_OUTBOUND_POLICY'' \<mapsto> rc_DefaultOutboundPolicy r])"

text \<open>No value of the resolved mode contains the character that starts an expansion in a literal.\<close>

definition no_expansion :: "ContainerBuilder \<Rightarrow> bool" where
  "no_expansion b \<longleftrightarrow>
     (case b_resolved b of
        None \<Rightarrow> True
      | Some r \<Rightarrow> list_all (\<lambda>v. CHR ''$'' \<notin> set v)
          [rc_TokenURL r, rc_Issuer r, rc_ExpectedAudience r, rc_TargetAudience r, rc_TargetScopes r,
           rc_KeycloakURL r, rc_KeycloakRealm r, rc_DefaultOutboundPolicy r])"

lemma FormatBool_true [simp]: "FormatBool b = ''true'' \<longleftrightarrow> b"
  by (simp add: FormatBool_def)

lemma FormatBool_plain [simp]: "CHR ''$'' \<notin> set (FormatBool b)"
  by (simp add: FormatBool_def)

lemma entry_simps [simp]: "entry [] n = None" "entry (e # es) n = (if env_Name e = n then Some e else entry es n)"
  by (simp_all add: entry_def)

lemma plain_entry_simps [simp]:
  "plain_entry (env_literal n v) \<longleftrightarrow> CHR ''$'' \<notin> set v" "plain_entry (cm_optional cm key)"
  "plain_entry (env_from n (ConfigMapKeyRef cm key opt))"
  by (simp_all add: env_literal_def env_from_def cm_optional_def)

lemma entry_value_simps [simp]:
  "entry_value cms img (env_literal n v) = Some v"
  "entry_value cms img (cm_optional cm key) = unless_missing (cms cm key) (img key)"
  "entry_value cms img (env_from n (ConfigMapKeyRef cm key opt)) = unless_missing (cms cm key) (img n)"
  by (simp_all add: env_literal_def env_from_def cm_optional_def)

declare plain_entry.simps [simp del] entry_value.simps [simp del]

lemma env_names_distinct:
  "distinct (map env_Name (ctr_Env (BuildEnvoyProxyContainerWithSpireOption b spire)))"
  "distinct (map env_Name (ctr_Env (BuildAuthBridgeContainer b n ns spire reg)))"
  by (simp_all add: container_builder_defs env_builder_defs Let_def split: option.split)

lemma env_of_container:
  "ctr_Env (BuildEnvoyProxyContainerWithSpireOption b spire) =
     (case b_resolved b of Some r \<Rightarrow> buildEnvoyProxyEnvResolved r | None \<Rightarrow> buildEnvoyProxyEnvLegacy)"
  "ctr_Env (BuildAuthBridgeContainer b n ns spire reg) =
     (case b_resolved b of
        Some r \<Rightarrow> buildAuthBridgeEnvResolved r (ns @ ''/'' @ n) spire reg
      | None \<Rightarrow> buildAuthBridgeEnvLegacy (ns @ ''/'' @ n) spire reg)"
  by (simp_all add: container_builder_defs Let_def split: option.split)

lemmas settings_defs = proc_settings_def builder_settings_def map_get_def clientIDFile_def clientSecretFile_def env_or_def
  image_silent_def no_expansion_def const_defs

lemma envoy_settings:
  assumes "container_start cms img start" and "image_silent img" and "no_expansion b"
    and "start (ctr_Env (BuildEnvoyProxyContainerWithSpireOption b spire)) = Some env"
  shows "proc_settings (builder_settings (cms ''authbridge-config'') b) env \<and> map_get env ''SPIRE_ENABLED'' = []"
proof -
  note E = started_env [OF assms(1,4) env_names_distinct(1)] started_image [OF assms(1,4) env_names_distinct(1)]
  show ?thesis using assms(2,3)
    by (cases "b_resolved b") (simp_all add: E env_of_container settings_defs env_builder_defs)
qed

lemma combined_settings:
  assumes "container_start cms img start" and "image_silent img" and "no_expansion b"
    and "start (ctr_Env (BuildAuthBridgeContainer b n ns spire reg)) = Some env"
  shows "proc_settings (builder_settings (cms ''authbridge-config'') b) env \<and> map_get env ''SPIRE_ENABLED'' = FormatBool spire"
proof -
  note E = started_env [OF assms(1,4) env_names_distinct(2)] started_image [OF assms(1,4) env_names_distinct(2)]
  show ?thesis using assms(2,3)
    by (cases "b_resolved b") (simp_all add: E env_of_container settings_defs env_builder_defs)
qed

lemma settings_config:
  assumes "proc_settings d env"
  shows "TokenURL (loadConfig x w env c) = map_get d ''TOKEN_URL''"
    and "TargetAudience (loadConfig x w env c) = map_get d ''TARGET_AUDIENCE''"
    and "TargetScopes (loadConfig x w env c) = map_get d ''TARGET_SCOPES''"
    and "SpireEnabled (loadConfig x w env c) \<longleftrightarrow> map_get env ''SPIRE_ENABLED'' = ''true''"
    and "JWTSvidPath (loadConfig x w env c) = ''/opt/jwt_svid.token''" and "init_bypass env = defaultBypassInboundPaths"
  using assms by (simp_all add: proc_settings_def loadConfig_def env_or_def init_bypass_def)

text \<open>C13 (processor_in_pod). The external processor that is started in an injected container works with the settings
  of the container builder: in the legacy mode those of the namespace's ConfigMap, in the resolved mode
  those of the merged configuration (in which an AgentRuntime may have set the realm). These are the token
  endpoint, issuer, audiences and scopes, the Keycloak address and realm and the outbound policy; it looks for
  its credentials in the files that client registration writes to the shared volume. In the combined container
  it uses SPIFFE authentication exactly when spiffe-helper is injected; in the separate envoy-proxy container
  it never does, although the identity document is mounted there. The hypotheses are the laws of starting a
  container, that the image does not set the variables that the pod may leave open, and that no value of the resolved mode
  contains a dollar sign, which a literal would expand and a reference would not.\<close>

theorem processor_in_pod:
  assumes "container_start cms img start" and "image_silent img" and "no_expansion b"
  shows "let d = builder_settings (cms ''authbridge-config'') b
    in (case start (ctr_Env (BuildEnvoyProxyContainerWithSpireOption b spire)) of
          None \<Rightarrow> True
        | Some env \<Rightarrow> proc_settings d env \<and> \<not> SpireEnabled (loadConfig x w env c)
            \<and> TokenURL (loadConfig x w env c) = map_get d ''TOKEN_URL''
            \<and> TargetAudience (loadConfig x w env c) = map_get d ''TARGET_AUDIENCE''
            \<and> TargetScopes (loadConfig x w env c) = map_get d ''TARGET_SCOPES''
            \<and> init_bypass env = defaultBypassInboundPaths)
     \<and> (case start (ctr_Env (BuildAuthBridgeContainer b n ns spire reg)) of
          None \<Rightarrow> True
        | Some env \<Rightarrow> proc_settings d env \<and> (SpireEnabled (loadConfig x w env c) \<longleftrightarrow> spire)
            \<and> TokenURL (loadConfig x w env c) = map_get d ''TOKEN_URL''
            \<and> TargetAudience (loadConfig x w env c) = map_get d ''TARGET_AUDIENCE''
            \<and> TargetScopes (loadConfig x w env c) = map_get d ''TARGET_SCOPES''
            \<and> JWTSvidPath (loadConfig x w env c) = ''/opt/jwt_svid.token''
            \<and> init_bypass env = defaultBypassInboundPaths)"
proof -
  note S = envoy_settings [OF assms] combined_settings [OF assms]
  show ?thesis
    unfolding Let_def
    by (intro conjI; split option.split) (auto simp: settings_config dest!: S)
qed

text \<open>A kubelet for the demonstration: it starts every container whose required keys exist, and expands nothing.\<close>

definition demo_start :: "(string \<Rightarrow> strmap) \<Rightarrow> EnvVar list \<Rightarrow> strmap option" where
  "demo_start cms es =
     (if list_all (\<lambda>e. case configmap_ref e of Some (cm, key, opt) \<Rightarrow> opt = Some True \<or> cms cm key \<noteq> None | None \<Rightarrow> True) es
      then Some (\<lambda>n. case entry es n of None \<Rightarrow> None | Some e \<Rightarrow> entry_value cms Map.empty e) else None)"

lemma entry_mem: "distinct (map env_Name es) \<Longrightarrow> e \<in> set es \<Longrightarrow> entry es (env_Name e) = Some e"
  unfolding entry_def by (intro map_of_is_SomeI) (auto simp: comp_def)

lemma demo_container_start: "container_start cms Map.empty (demo_start cms)"
  unfolding container_start_def
proof (intro allI impI conjI)
  fix es env n
  assume a: "demo_start cms es = Some env \<and> distinct (map env_Name es)"
  then have env: "env n = (case entry es n of None \<Rightarrow> None | Some e \<Rightarrow> entry_value cms Map.empty e)" for n
    by (auto simp: demo_start_def split: if_splits)
  {
    fix v assume "env_literal n v \<in> set es \<and> CHR ''$'' \<notin> set v"
    then show "env n = Some v" using entry_mem [of es "env_literal n v"] a by (simp add: env)
  next
    fix cm key opt assume m: "env_from n (ConfigMapKeyRef cm key opt) \<in> set es"
    then show "env n = unless_missing (cms cm key) (Map.empty n)" using entry_mem [of es "env_from n (ConfigMapKeyRef cm key opt)"] a
      by (simp add: env)
    show "opt = Some True \<or> cms cm key \<noteq> None"
      using a m by (force simp: demo_start_def list_all_iff split: if_splits)
  next
    assume "n \<notin> set (map env_Name es)"
    then show "env n = None" by (auto simp: env entry_def map_of_eq_None_iff split: option.split dest!: map_of_SomeD)
  }
qed

definition demo_cms :: "string \<Rightarrow> strmap" where
  "demo_cms = (\<lambda>_. [''ISSUER'' \<mapsto> ''http://kc'', ''TOKEN_URL'' \<mapsto> ''http://kc/token''])"

theorem processor_in_pod_witness:
  "list_all (\<lambda>b. \<exists>env. demo_start demo_cms (ctr_Env (BuildEnvoyProxyContainerWithSpireOption b True)) = Some env
       \<and> \<not> SpireEnabled (loadConfig demo_ext 0 env zero_config)
       \<and> TokenURL (loadConfig demo_ext 0 env zero_config) = ''http://kc/token'')
     [NewContainerBuilder None,
      NewResolvedContainerBuilder (Some ((ResolveConfig None None None)\<lparr>rc_TokenURL := ''http://kc/token''\<rparr>))]"
proof -
  have run: "\<exists>env. demo_start demo_cms (ctr_Env (BuildEnvoyProxyContainerWithSpireOption b True)) = Some env
       \<and> \<not> SpireEnabled (loadConfig demo_ext 0 env zero_config)
       \<and> TokenURL (loadConfig demo_ext 0 env zero_config) = ''http://kc/token''"
    if "no_expansion b" "demo_start demo_cms (ctr_Env (BuildEnvoyProxyContainerWithSpireOption b True)) \<noteq> None"
      "map_get (builder_settings (demo_cms ''authbridge-config'') b) ''TOKEN_URL'' = ''http://kc/token''" for b
    using processor_in_pod [OF demo_container_start [of demo_cms], where b = b and spire = True and x = demo_ext
        and w = 0 and c = zero_config and n = "[]" and ns = "[]" and reg = True] that
    by (auto simp: image_silent_def Let_def)
  have "demo_start demo_cms buildEnvoyProxyEnvLegacy \<noteq> None"
    "demo_start demo_cms (buildEnvoyProxyEnvResolved r) \<noteq> None" for r
    by (simp_all add: demo_start_def demo_cms_def env_builder_defs)
  then have "demo_start demo_cms (ctr_Env (BuildEnvoyProxyContainerWithSpireOption b True)) \<noteq> None" for b
    by (simp add: env_of_container split: option.split)
  then show ?thesis
    unfolding list.pred_inject
    by (intro conjI run TrueI) (simp_all add: no_expansion_def NewContainerBuilder_def NewResolvedContainerBuilder_def
        builder_settings_def ResolveConfig_def empty_NamespaceConfig_def map_get_def demo_cms_def)
qed

section \<open>From the loaders to the mutator\<close>

text \<open>C40 (all_off_file_injects). A feature gate file that switches everything off, the global gate included,
  does not stop the injection: after it is loaded an agent without further labels is still eligible.\<close>

theorem all_off_file_injects:
  assumes "unmarshal data DefaultFeatureGates = Inr zero_FeatureGates"
  shows "eligible (FeatureGateLoader_Get (reload (FeatureGateLoader_Load unmarshal) (Inr data) l))
           [''kagenti.io/type'' \<mapsto> ''agent'']"
proof -
  have "gates_outcome unmarshal (Inr data) = Inr DefaultFeatureGates"
    using assms by (simp add: gates_outcome_def)
  then have "FeatureGateLoader_Get (reload (FeatureGateLoader_Load unmarshal) (Inr data) l) = DefaultFeatureGates"
    using gate_loader.current_reload [of unmarshal "Inr data" l] by simp
  then show ?thesis by (simp add: eligible_def DefaultFeatureGates_def)
qed

theorem all_off_file_injects_witness:
  "eligible (FeatureGateLoader_Get (reload (FeatureGateLoader_Load (\<lambda>d g. Inr zero_FeatureGates)) (Inr ''{}'')
      (NewFeatureGateLoader ''p'' :: nat FeatureGateLoader))) [''kagenti.io/type'' \<mapsto> ''agent'']"
  by (rule all_off_file_injects) simp

lemma sint_small: "unprivileged_port p \<Longrightarrow> sint p = int (unat p)"
proof -
  assume p: "unprivileged_port p"
  then have "uint p < 2 ^ 31" by (simp add: unprivileged_port_uint)
  then have "sint p = uint p"
    using signed_take_bit_int_eq_self [of 31 "uint p"] uint_ge_0 [of p] by (simp add: sint_uint)
  then show ?thesis by simp
qed

lemma valid_ports:
  assumes "Validate pc = None"
  shows "list_all (\<lambda>p. unprivileged_port (cp_ContainerPort p)) (proxy_ports (pc_Proxy pc))"
  using assms by (simp add: Validate_None_iff proxy_ports_def) (simp add: unprivileged_port_def)

lemma port_roundtrip: "unprivileged_port p \<Longrightarrow> Atoi (Itoa (sint p)) = Some (int (unat p))"
proof -
  assume p: "unprivileged_port p"
  then have "sint p = int (unat p)" by (rule sint_small)
  moreover have "Atoi (Itoa (int (unat p))) = Some (int (unat p))"
    using p by (intro Atoi_Itoa) (simp_all add: unprivileged_port_uint)
  ultimately show ?thesis by simp
qed

text \<open>C39 (injected_ports_valid). Whatever configuration files the webhook was given and however often it
  reloaded, every port that an injected container declares is an unprivileged port, and the redirection
  targets that proxy-init receives as text are exactly the outbound and the inbound port of envoy; in the
  legacy mode and in the mode that resolves the configuration of the workload.\<close>

theorem injected_ports_valid:
  "let pc = ConfigLoader_Get
         (fold (reload (ConfigLoader_Load unmarshal)) rds (NewConfigLoader path :: 'cb ConfigLoader))
   in list_all (\<lambda>b.
        list_all (\<lambda>p. unprivileged_port (cp_ContainerPort p))
          (ctr_Ports (BuildEnvoyProxyContainerWithSpireOption b spire) @ ctr_Ports (BuildAuthBridgeContainer b n ns spire reg))
        \<and> map_of (map (\<lambda>e. (env_Name e, Atoi (env_Value e))) (ctr_Env (BuildProxyInitContainer b out inb))) ''PROXY_PORT''
            = Some (Some (int (unat (px_Port (pc_Proxy pc)))))
        \<and> map_of (map (\<lambda>e. (env_Name e, Atoi (env_Value e))) (ctr_Env (BuildProxyInitContainer b out inb))) ''INBOUND_PROXY_PORT''
            = Some (Some (int (unat (px_InboundProxyPort (pc_Proxy pc))))))
      [NewContainerBuilder (Some pc), NewResolvedContainerBuilder (Some (resolve_workload c w pc namespace crName))]"
proof -
  let ?pc = "ConfigLoader_Get
         (fold (reload (ConfigLoader_Load unmarshal)) rds (NewConfigLoader path :: 'cb ConfigLoader))"
  have "Validate ?pc = None"
    by (rule config_loader.fold_good) (simp add: ConfigLoader_Get_def NewConfigLoader_def CompiledDefaults_valid)
  from valid_ports [OF this] this show ?thesis
    by (simp add: BuildEnvoyProxyContainerWithSpireOption_def BuildAuthBridgeContainer_def BuildProxyInitContainer_def
        NewContainerBuilder_def NewResolvedContainerBuilder_def Let_def Validate_None_iff port_roundtrip)
qed

section \<open>From the pod to the Envoy configuration\<close>

text \<open>The ports that a container declares under a name.\<close>

definition declared_port :: "Container \<Rightarrow> string \<Rightarrow> int option" where
  "declared_port c name = map_option sint (map_of (map (\<lambda>p. (cp_Name p, cp_ContainerPort p)) (ctr_Ports c)) name)"

definition env_number :: "Container \<Rightarrow> string \<Rightarrow> int option" where
  "env_number c name = Option.bind (map_of (map (\<lambda>e. (env_Name e, env_Value e)) (ctr_Env c)) name) Atoi"

lemma Atoi_int32 [simp]: "Atoi (Itoa (sint v)) = Some (sint (v :: int32))"
  using sint_ge [of v] sint_lt [of v] by (intro Atoi_Itoa) simp_all

lemma declared_proxy_ports:
  "ctr_Ports c = proxy_ports px \<Longrightarrow>
     map (declared_port c) [''envoy-admin'', ''envoy-outbound'', ''envoy-inbound'', ''ext-proc'']
     = [Some (sint (px_AdminPort px)), Some (sint (px_Port px)), Some (sint (px_InboundProxyPort px)), Some 9090]"
  by (simp add: declared_port_def proxy_ports_def)

lemma sidecar_ports:
  "ctr_Ports (BuildEnvoyProxyContainerWithSpireOption b spire) = proxy_ports (pc_Proxy (b_cfg b))"
  "ctr_Ports (BuildAuthBridgeContainer b n ns spire reg) = proxy_ports (pc_Proxy (b_cfg b))"
  by (simp_all add: BuildEnvoyProxyContainerWithSpireOption_def BuildAuthBridgeContainer_def Let_def)

lemma redirect_ports:
  "env_number (BuildProxyInitContainer b outbound inbound) ''PROXY_PORT'' = Some (sint (px_Port (pc_Proxy (b_cfg b))))"
  "env_number (BuildProxyInitContainer b outbound inbound) ''INBOUND_PROXY_PORT''
     = Some (sint (px_InboundProxyPort (pc_Proxy (b_cfg b))))"
  by (simp_all add: env_number_def BuildProxyInitContainer_def Let_def)

lemma rendered_port_texts:
  assumes "rc_EnvoyYAML rc = []" and "RenderEnvoyConfig (Some rc) = Inr yaml"
  shows "yaml_ports yaml = [Itoa (sint (px_AdminPort (pc_Proxy (rc_Platform rc)))),
      Itoa (sint (px_Port (pc_Proxy (rc_Platform rc)))), Itoa (sint (px_InboundProxyPort (pc_Proxy (rc_Platform rc)))), ''9090'']"
proof -
  have "Itoa (sint defaultExtProcPort) = ''9090''"
    by (simp add: defaultExtProcPort_def Itoa_def dec_digits.simps digit_char_def) code_simp
  with render_lines [OF assms(1)] assms(2) show ?thesis by (auto simp: yaml_ports_lines Itoa_no_newline)
qed

lemma Atoi_9090: "Atoi ''9090'' = Some 9090"
  by code_simp

text \<open>C14 (envoy_config_matches_pod). The generated Envoy configuration fits the pod that is built from the same
  resolved configuration: the admin, outbound, inbound and external-processor ports in the YAML are those
  that both sidecar variants declare, proxy-init redirects outbound traffic to the outbound listener and
  inbound traffic to the inbound one, and Envoy calls the external processor on the port on which it listens.\<close>

theorem envoy_config_matches_pod:
  assumes "rc_EnvoyYAML rc = []"
  shows "\<exists>yaml. RenderEnvoyConfig (Some rc) = Inr yaml \<and>
    (let b = NewResolvedContainerBuilder (Some rc); init = BuildProxyInitContainer b outbound inbound
     in list_all (\<lambda>c. map Atoi (yaml_ports yaml) =
            map (declared_port c) [''envoy-admin'', ''envoy-outbound'', ''envoy-inbound'', ''ext-proc''])
          [BuildEnvoyProxyContainerWithSpireOption b spire, BuildAuthBridgeContainer b n ns spire reg]
      \<and> map Atoi (take 2 (drop 1 (yaml_ports yaml))) = [env_number init ''PROXY_PORT'', env_number init ''INBOUND_PROXY_PORT'']
      \<and> processor_port = '':'' @ yaml_ports yaml ! 3)"
proof -
  obtain yaml where y: "RenderEnvoyConfig (Some rc) = Inr yaml" using render_lines [OF assms] by blast
  have "b_cfg (NewResolvedContainerBuilder (Some rc)) = rc_Platform rc"
    by (simp add: NewResolvedContainerBuilder_def)
  with y show ?thesis
    unfolding Let_def list.pred_inject declared_proxy_ports [OF sidecar_ports(1)] declared_proxy_ports [OF sidecar_ports(2)]
      redirect_ports
    by (intro exI [of _ yaml]) (simp add: rendered_port_texts [OF assms y] Atoi_9090 processor_port_def)
qed

theorem envoy_config_matches_pod_witness:
  "\<exists>rc yaml. RenderEnvoyConfig (Some rc) = Inr yaml \<and> processor_port = '':'' @ yaml_ports yaml ! 3"
proof -
  have "rc_EnvoyYAML (ResolveConfig None None None) = []" by (simp add: ResolveConfig_def empty_NamespaceConfig_def)
  from envoy_config_matches_pod [OF this, of "[]" "[]" True "[]" "[]" True] show ?thesis
    unfolding Let_def by blast
qed

end
