(* ===== verification/Actor_Concurrency.thy ===== *)
theory Actor_Concurrency
  imports Token_Client
begin

text \<open>
  Concurrent calls of \<open>getActorToken\<close> (\<open>go-processor/main.go\<close>). Each gRPC stream runs in a goroutine of its own,
  and they share the actor-token cache: the cache is read under the read lock, the token request runs without a
  lock, and the new token is written under the write lock. The three sections of the function are the atomic
  steps of a thread here, with any interleaving of the threads and with time passing in between. Shown: run
  without interference the steps are \<open>getActorToken\<close>; whatever the interleaving, the cache holds a token and the
  expiry that belongs to it, and only tokens that the endpoint granted are returned; and what the missing re-check after the request
  allows.
\<close>

section \<open>Threads\<close>

record actor_call =
  ac_clientID :: string
  ac_clientSecret :: string
  ac_tokenURL :: string

datatype actor_phase =
    Called actor_call
  | Requesting actor_call
  | Granted string int64
  | Returned "error + string"

text \<open>The history of granted tokens (token, lifetime, time of the answer) is kept for the statements only.\<close>

record 'w actor_state =
  as_world :: 'w
  as_cache :: actorTokenCache
  as_threads :: "nat \<Rightarrow> actor_phase"
  as_granted :: "(string \<times> int64 \<times> int) list"

definition set_phase :: "nat \<Rightarrow> actor_phase \<Rightarrow> 'w actor_state \<Rightarrow> 'w actor_state" where
  "set_phase t p s = s\<lparr>as_threads := (as_threads s)(t := p)\<rparr>"

text \<open>The section under the read lock.\<close>

definition read_cache :: "('w, 'c, 'k) ext \<Rightarrow> nat \<Rightarrow> actor_call \<Rightarrow> 'w actor_state \<Rightarrow> 'w actor_state" where
  "read_cache x t a s =
     set_phase t (if actor_fresh x (as_world s) (as_cache s) then Returned (Inr (atc_token (as_cache s)))
                  else Requesting a) s"

text \<open>The token request, without a lock.\<close>

definition request_token :: "('w, 'c, 'k) ext \<Rightarrow> nat \<Rightarrow> actor_call \<Rightarrow> 'w actor_state \<Rightarrow> 'w actor_state" where
  "request_token x t a s =
     (case clientCredentialsGrant x (as_world s) (ac_clientID a) (ac_clientSecret a) (ac_tokenURL a) [] ''openid'' of
        (Inl err, w') \<Rightarrow> set_phase t (Returned (Inl (''failed to obtain actor token: '' @ err))) (s\<lparr>as_world := w'\<rparr>)
      | (Inr (token, expiresIn), w') \<Rightarrow>
          set_phase t (Granted token expiresIn)
            (s\<lparr>as_world := w', as_granted := (token, expiresIn, Now x w') # as_granted s\<rparr>))"

text \<open>The section under the write lock.\<close>

definition write_cache :: "('w, 'c, 'k) ext \<Rightarrow> nat \<Rightarrow> string \<Rightarrow> int64 \<Rightarrow> 'w actor_state \<Rightarrow> 'w actor_state" where
  "write_cache x t token expiresIn s =
     set_phase t (Returned (Inr token))
       (s\<lparr>as_cache := \<lparr>atc_token = token,
                      atc_expiresAt = Now x (as_world s) + duration_seconds (clamp_expiry expiresIn)\<rparr>\<rparr>)"

definition thread_step :: "('w, 'c, 'k) ext \<Rightarrow> nat \<Rightarrow> 'w actor_state \<Rightarrow> 'w actor_state" where
  "thread_step x t s =
     (case as_threads s t of
        Called a \<Rightarrow> read_cache x t a s
      | Requesting a \<Rightarrow> request_token x t a s
      | Granted token expiresIn \<Rightarrow> write_cache x t token expiresIn s
      | Returned r \<Rightarrow> s)"

text \<open>A thread moves, a thread that has returned handles its next request, or the world changes and time
  passes.\<close>

inductive actor_step :: "('w, 'c, 'k) ext \<Rightarrow> 'w actor_state \<Rightarrow> 'w actor_state \<Rightarrow> bool"
  for x :: "('w, 'c, 'k) ext" where
  move: "actor_step x s (thread_step x t s)"
| next_call: "as_threads s t = Returned r \<Longrightarrow> actor_step x s (set_phase t (Called a) s)"
| pass: "Now x (as_world s) \<le> Now x w' \<Longrightarrow> actor_step x s (s\<lparr>as_world := w'\<rparr>)"

definition actor_init :: "'w \<Rightarrow> (nat \<Rightarrow> actor_call) \<Rightarrow> 'w actor_state" where
  "actor_init w calls = \<lparr>as_world = w, as_cache = empty_actor_cache, as_threads = Called \<circ> calls, as_granted = []\<rparr>"

definition actor_reachable :: "('w, 'c, 'k) ext \<Rightarrow> 'w actor_state \<Rightarrow> bool" where
  "actor_reachable x s \<longleftrightarrow> (\<exists>w calls. (actor_step x)\<^sup>*\<^sup>* (actor_init w calls) s)"

section \<open>One thread alone\<close>

definition run_alone :: "('w, 'c, 'k) ext \<Rightarrow> nat \<Rightarrow> 'w actor_state \<Rightarrow> 'w actor_state" where
  "run_alone x t s = thread_step x t (thread_step x t (thread_step x t s))"

lemmas thread_defs = thread_step_def read_cache_def request_token_def write_cache_def set_phase_def

text \<open>A call whose steps no other thread interrupts is \<open>getActorToken\<close>: the same
  result, the same cache and the same traffic.\<close>

theorem actor_steps_sequential:
  assumes "as_threads s t = Called a"
  shows "(case as_threads (run_alone x t s) t of Returned r \<Rightarrow> Some (r, as_cache (run_alone x t s), as_world (run_alone x t s))
            | _ \<Rightarrow> None)
       = Some (getActorToken x (as_world s) (as_cache s) (ac_clientID a) (ac_clientSecret a) (ac_tokenURL a))"
  using assms by (auto simp: run_alone_def thread_defs getActorToken_def split: prod.splits sum.splits)

section \<open>Every interleaving\<close>

definition granted_by :: "('w, 'c, 'k) ext \<Rightarrow> 'w actor_state \<Rightarrow> int64 \<Rightarrow> string \<Rightarrow> bool" where
  "granted_by x s e token \<longleftrightarrow> (\<exists>ti. (token, e, ti) \<in> set (as_granted s) \<and> ti \<le> Now x (as_world s))"

lemma granted_by_threads [simp]: "granted_by x (s\<lparr>as_threads := f\<rparr>) = granted_by x s"
  by (simp add: granted_by_def fun_eq_iff)

text \<open>The cached pair was written in one piece: its expiry belongs to a grant of this very token.\<close>

definition cache_ok :: "('w, 'c, 'k) ext \<Rightarrow> 'w actor_state \<Rightarrow> bool" where
  "cache_ok x s \<longleftrightarrow> as_cache s = empty_actor_cache \<or>
     (\<exists>e ti ts. (atc_token (as_cache s), e, ti) \<in> set (as_granted s) \<and> ti \<le> ts \<and> ts \<le> Now x (as_world s)
        \<and> atc_expiresAt (as_cache s) = ts + duration_seconds (clamp_expiry e))"

fun phase_ok :: "('w, 'c, 'k) ext \<Rightarrow> 'w actor_state \<Rightarrow> actor_phase \<Rightarrow> bool" where
  "phase_ok x s (Granted token e) = granted_by x s e token"
| "phase_ok x s (Returned (Inr token)) = (\<exists>e. granted_by x s e token)"
| "phase_ok x s _ = True"

definition actor_inv :: "('w, 'c, 'k) ext \<Rightarrow> 'w actor_state \<Rightarrow> bool" where
  "actor_inv x s \<longleftrightarrow> cache_ok x s \<and> (\<forall>t. phase_ok x s (as_threads s t))"

text \<open>Time and the history only grow.\<close>

definition later :: "('w, 'c, 'k) ext \<Rightarrow> 'w actor_state \<Rightarrow> 'w actor_state \<Rightarrow> bool" where
  "later x s s' \<longleftrightarrow> Now x (as_world s) \<le> Now x (as_world s') \<and> set (as_granted s) \<subseteq> set (as_granted s')"

lemma phase_ok_later: "later x s s' \<Longrightarrow> phase_ok x s p \<Longrightarrow> phase_ok x s' p"
  by (induction x s p rule: phase_ok.induct) (fastforce simp: later_def granted_by_def)+

lemma cache_ok_later: "later x s s' \<Longrightarrow> as_cache s' = as_cache s \<Longrightarrow> cache_ok x s \<Longrightarrow> cache_ok x s'"
  by (fastforce simp: later_def cache_ok_def)

lemma inv_later:
  assumes "actor_inv x s" and "later x s s'" and "cache_ok x s'"
    and "\<And>u. as_threads s' u \<noteq> as_threads s u \<Longrightarrow> phase_ok x s' (as_threads s' u)"
  shows "actor_inv x s'"
  using assms phase_ok_later [OF assms(2)] unfolding actor_inv_def by metis

lemma fresh_granted:
  assumes "cache_ok x s" and "actor_fresh x (as_world s) (as_cache s)"
  shows "\<exists>e. granted_by x s e (atc_token (as_cache s))"
  using assms by (fastforce simp: cache_ok_def actor_fresh_def empty_actor_cache_def granted_by_def)

lemma grant_world: "clientCredentialsGrant x w cid sec url aud sc = (r, w') \<Longrightarrow> w' = snd (PostForm x w url (grant_form cid sec aud sc))"
  by (auto simp: clientCredentialsGrant_def split: prod.splits sum.splits)

lemma thread_step_others: "u \<noteq> t \<Longrightarrow> as_threads (thread_step x t s) u = as_threads s u"
  by (simp add: thread_defs split: actor_phase.split prod.split sum.split)

lemma thread_step_inv:
  assumes mono: "\<And>w u d. Now x w \<le> Now x (snd (PostForm x w u d))" and inv: "actor_inv x s"
  shows "actor_inv x (thread_step x t s)"
proof (rule inv_later [OF inv])
  have c: "cache_ok x s" and p: "phase_ok x s (as_threads s t)" using inv by (simp_all add: actor_inv_def)
  have grant: "Now x (as_world s) \<le> Now x w'"
    if "clientCredentialsGrant x (as_world s) cid sec url aud sc = (r, w')" for cid sec url aud sc r w'
    using grant_world [OF that] mono by simp
  show l: "later x s (thread_step x t s)"
    using grant by (auto simp: later_def thread_defs split: actor_phase.split prod.split sum.split)
  show "cache_ok x (thread_step x t s)"
  proof (cases "\<exists>token e. as_threads s t = Granted token e")
    case True
    then show ?thesis using p by (fastforce simp: cache_ok_def granted_by_def thread_defs)
  next
    case False
    then have "as_cache (thread_step x t s) = as_cache s"
      by (simp add: thread_defs split: actor_phase.split prod.split sum.split)
    from cache_ok_later [OF l this c] show ?thesis .
  qed
  have "phase_ok x (thread_step x t s) (as_threads (thread_step x t s) t)"
    using p fresh_granted [OF c] grant
    by (auto simp: granted_by_def thread_defs split: actor_phase.split prod.split sum.split)
  then show "phase_ok x (thread_step x t s) (as_threads (thread_step x t s) u)"
    if "as_threads (thread_step x t s) u \<noteq> as_threads s u" for u
    using that thread_step_others by metis
qed

lemma actor_step_inv:
  assumes "\<And>w u d. Now x w \<le> Now x (snd (PostForm x w u d))" and "actor_step x s s'" and "actor_inv x s"
  shows "actor_inv x s'"
  using assms(2)
proof cases
  case (move t)
  with thread_step_inv [OF assms(1,3)] show ?thesis by simp
next
  case (next_call t r a)
  then show ?thesis
    by (intro inv_later [OF assms(3)]) (use assms(3) in \<open>auto simp: set_phase_def later_def actor_inv_def cache_ok_def\<close>)
next
  case (pass w')
  then have l: "later x s s'" by (simp add: later_def)
  with pass cache_ok_later [OF l] assms(3) show ?thesis
    by (intro inv_later [OF assms(3)]) (auto simp: actor_inv_def)
qed

lemma actor_reachable_inv:
  assumes "\<And>w u d. Now x w \<le> Now x (snd (PostForm x w u d))" and "actor_reachable x s"
  shows "actor_inv x s"
proof -
  obtain w calls where "(actor_step x)\<^sup>*\<^sup>* (actor_init w calls) s" using assms(2) by (auto simp: actor_reachable_def)
  then show ?thesis
  proof induction
    case base
    show ?case by (simp add: actor_init_def actor_inv_def cache_ok_def)
  next
    case (step y z)
    then show ?case using actor_step_inv [OF assms(1)] by blast
  qed
qed

text \<open>C10 (actor_tokens_granted). However the threads interleave, if the clock never goes back during a request:
  every token that a call returns was granted by the token endpoint, and a call is answered from the cache
  only while the clock is more than 30 seconds before the end of the lifetime (at least 60 seconds) of a
  grant of this token, counted from a moment not before the grant. No call sees the token of one request with
  the expiry of another.\<close>

theorem actor_tokens_granted:
  assumes "\<And>w u d. Now x w \<le> Now x (snd (PostForm x w u d))" and "actor_reachable x s"
  shows "(as_threads s t = Returned (Inr token) \<longrightarrow> (\<exists>e. granted_by x s e token))
    \<and> (as_threads s t = Called a \<and> as_threads (thread_step x t s) t = Returned (Inr token) \<longrightarrow>
        (\<exists>e ti ts. (token, e, ti) \<in> set (as_granted s) \<and> ti \<le> ts \<and> ts \<le> Now x (as_world s)
           \<and> Now x (as_world s) + 30 * second < ts + duration_seconds (clamp_expiry e)))"
proof -
  have inv: "actor_inv x s" by (rule actor_reachable_inv [OF assms])
  then have "phase_ok x s (as_threads s t)" and c: "cache_ok x s" by (simp_all add: actor_inv_def)
  then have "as_threads s t = Returned (Inr token) \<longrightarrow> (\<exists>e. granted_by x s e token)" by auto
  moreover have "\<exists>e ti ts. (token, e, ti) \<in> set (as_granted s) \<and> ti \<le> ts \<and> ts \<le> Now x (as_world s)
           \<and> Now x (as_world s) + 30 * second < ts + duration_seconds (clamp_expiry e)"
    if "as_threads s t = Called a" "as_threads (thread_step x t s) t = Returned (Inr token)"
  proof -
    have "actor_fresh x (as_world s) (as_cache s)" "token = atc_token (as_cache s)"
      using that by (auto simp: thread_defs split: if_splits)
    then show ?thesis using c by (fastforce simp: cache_ok_def actor_fresh_def empty_actor_cache_def)
  qed
  ultimately show ?thesis by blast
qed

definition demo_call :: actor_call where
  "demo_call = \<lparr>ac_clientID = ''id'', ac_clientSecret = ''s'', ac_tokenURL = ''http://kc''\<rparr>"

lemma demo_grant: "getActorToken demo_ext 0 empty_actor_cache ''id'' ''s'' ''http://kc'' =
     (Inr ''tok'', \<lparr>atc_token = ''tok'', atc_expiresAt = 1 + 300 * second\<rparr>, 1)"
  by (simp add: getActorToken_def actor_fresh_def empty_actor_cache_def clientCredentialsGrant_def demo_ext_def
      token_reply_def http_StatusOK_def duration_exact clamp_expiry_def)

theorem actor_steps_sequential_witness:
  "as_cache (run_alone demo_ext 0 (actor_init 0 (\<lambda>t. demo_call))) = \<lparr>atc_token = ''tok'', atc_expiresAt = 1 + 300 * second\<rparr>"
proof -
  have "as_threads (actor_init 0 (\<lambda>t. demo_call) :: int actor_state) 0 = Called demo_call" by (simp add: actor_init_def)
  from actor_steps_sequential [OF this, of demo_ext] show ?thesis
    by (simp add: actor_init_def demo_call_def demo_grant split: actor_phase.splits)
qed

theorem actor_tokens_granted_witness:
  "\<exists>e. granted_by demo_ext (run_alone demo_ext 0 (actor_init 0 (\<lambda>t. demo_call))) e ''tok''"
proof -
  let ?i = "actor_init 0 (\<lambda>t. demo_call) :: int actor_state"
  have "(actor_step demo_ext)\<^sup>*\<^sup>* ?i (run_alone demo_ext 0 ?i)"
    unfolding run_alone_def
    by (rule rtranclp.rtrancl_into_rtrancl, rule rtranclp.rtrancl_into_rtrancl, rule r_into_rtranclp)
      (rule actor_step.move)+
  then have r: "actor_reachable demo_ext (run_alone demo_ext 0 ?i)" unfolding actor_reachable_def by blast
  have mono: "Now demo_ext w \<le> Now demo_ext (snd (PostForm demo_ext w u d))" for w u d by (simp add: demo_ext_def)
  have "as_threads (run_alone demo_ext 0 ?i) 0 = Returned (Inr ''tok'')"
    by (simp add: run_alone_def thread_defs actor_init_def actor_fresh_def empty_actor_cache_def demo_call_def
        clientCredentialsGrant_def demo_ext_def token_reply_def http_StatusOK_def)
  then show ?thesis using actor_tokens_granted [OF mono r, of 0 "''tok''"] by blast
qed

section \<open>What the missing re-check allows\<close>

text \<open>An endpoint that grants a token that names the time of the request.\<close>

definition stamp_ext :: "(int, unit, unit) ext" where
  "stamp_ext = demo_ext\<lparr>PostForm := (\<lambda>w u f. (Inr \<lparr>StatusCode = 200, Body = Inr (if w = 0 then ''first'' else ''second'')\<rparr>, w + 1))\<rparr>"

text \<open>Two threads that find the cache empty both ask the endpoint, and the older token can replace the newer one
  in the cache, with an expiry counted from the time at which it is written.\<close>

theorem older_grant_overwrites:
  "let s = fold (thread_step stamp_ext) [0, 1, 0, 1, 1, 0]
             (actor_init 0 (\<lambda>t. demo_call))
   in as_granted s = [(''second'', 300, 2), (''first'', 300, 1)]
    \<and> as_cache s = \<lparr>atc_token = ''first'', atc_expiresAt = 2 + 300 * second\<rparr>"
  by (simp add: thread_defs actor_init_def actor_fresh_def empty_actor_cache_def clientCredentialsGrant_def
      stamp_ext_def demo_ext_def demo_call_def token_reply_def http_StatusOK_def duration_exact clamp_expiry_def)

end
