(* ===== verification/Deep_Copy.thy ===== *)
theory Deep_Copy
  imports Platform_Config
begin

text \<open>
  \<open>PlatformConfig.DeepCopy\<close> (\<open>internal/webhook/config/types.go\<close>) over an explicit store. In Go the resource
  lists of a configuration are maps and its scopes are a slice, so copying the struct alone would share them
  with the original. Here those fields are addresses of cells: a map is the list of its entries in the order
  in which \<open>range\<close> visits them, a nil map or slice is \<open>None\<close>. The abstraction \<open>view_config\<close> reads the cells
  and yields the plain value of \<open>Platform_Config\<close>, which has every field but one: the struct
  \<open>ResourceRequirements\<close> of Kubernetes also has a list of claims, which \<open>DeepCopy\<close> loses. It is represented
  here, and read by \<open>config_claims\<close>, so that the loss is visible.
\<close>

section \<open>The store\<close>

datatype cell = MapCell "(string \<times> Quantity) list" | SliceCell "string list"

type_synonym addr = nat

record store =
  cells :: "addr \<Rightarrow> cell option"
  next_addr :: addr

definition wf_store :: "store \<Rightarrow> bool" where
  "wf_store s \<longleftrightarrow> (\<forall>a. next_addr s \<le> a \<longrightarrow> cells s a = None)"

definition alloc :: "cell \<Rightarrow> store \<Rightarrow> addr \<times> store" where
  "alloc c s = (next_addr s, s\<lparr>cells := (cells s)(next_addr s \<mapsto> c), next_addr := Suc (next_addr s)\<rparr>)"

definition set_cell :: "addr \<Rightarrow> cell \<Rightarrow> store \<Rightarrow> store" where
  "set_cell a c s = s\<lparr>cells := (cells s)(a \<mapsto> c)\<rparr>"

text \<open>Assigning a key of a map.\<close>

fun put_entry :: "string \<Rightarrow> Quantity \<Rightarrow> (string \<times> Quantity) list \<Rightarrow> (string \<times> Quantity) list" where
  "put_entry k v [] = [(k, v)]"
| "put_entry k v ((k', v') # m) = (if k' = k then (k, v) # m else (k', v') # put_entry k v m)"

definition map_put :: "addr \<Rightarrow> string \<Rightarrow> Quantity \<Rightarrow> store \<Rightarrow> store" where
  "map_put a k v s =
     (case cells s a of Some (MapCell m) \<Rightarrow> set_cell a (MapCell (put_entry k v m)) s | _ \<Rightarrow> s)"

section \<open>Configurations in the store\<close>

record RefRequirements =
  ref_Requests :: "addr option"
  ref_Limits :: "addr option"
  ref_Claims :: "addr option"

record RefConfig =
  ref_Images :: ImageConfig
  ref_Proxy :: ProxyConfig
  ref_EnvoyProxy :: RefRequirements
  ref_ProxyInit :: RefRequirements
  ref_SpiffeHelper :: RefRequirements
  ref_ClientRegistration :: RefRequirements
  ref_AuthBridge :: RefRequirements
  ref_TokenURL :: string
  ref_DefaultAudience :: string
  ref_DefaultScopes :: "addr option"
  ref_Spiffe :: SpiffeConfig
  ref_Observability :: ObservabilityConfig
  ref_Sidecars :: SidecarDefaults

text \<open>One of the two loops of \<open>deepCopyResourceRequirements\<close>: a new map, then every entry. The copy of a
  quantity is the argument \<open>qcopy\<close>, a method of the Kubernetes library.\<close>

definition copy_list :: "(Quantity \<Rightarrow> Quantity) \<Rightarrow> addr option \<Rightarrow> store \<Rightarrow> addr option \<times> store" where
  "copy_list qcopy p s =
     (case p of
        None \<Rightarrow> (None, s)
      | Some a \<Rightarrow>
          (case cells s a of
             Some (MapCell m) \<Rightarrow>
               (case alloc (MapCell []) s of
                  (a', s1) \<Rightarrow> (Some a', foldl (\<lambda>s (k, v). map_put a' k (qcopy v) s) s1 m))
           | _ \<Rightarrow> (None, s)))"

definition deepCopyResourceRequirements :: "(Quantity \<Rightarrow> Quantity) \<Rightarrow> RefRequirements \<Rightarrow> store
    \<Rightarrow> RefRequirements \<times> store" where
  "deepCopyResourceRequirements qcopy rr s =
     (case copy_list qcopy (ref_Requests rr) s of
        (req, s1) \<Rightarrow>
          (case copy_list qcopy (ref_Limits rr) s1 of
             (lim, s2) \<Rightarrow> (\<lparr>ref_Requests = req, ref_Limits = lim, ref_Claims = None\<rparr>, s2)))"

definition copy_scopes :: "addr option \<Rightarrow> store \<Rightarrow> addr option \<times> store" where
  "copy_scopes p s =
     (case p of
        None \<Rightarrow> (None, s)
      | Some a \<Rightarrow>
          (case cells s a of
             Some (SliceCell xs) \<Rightarrow> (case alloc (SliceCell xs) s of (a', s1) \<Rightarrow> (Some a', s1))
           | _ \<Rightarrow> (None, s)))"

definition DeepCopy :: "(Quantity \<Rightarrow> Quantity) \<Rightarrow> RefConfig option \<Rightarrow> store \<Rightarrow> RefConfig option \<times> store" where
  "DeepCopy qcopy c s =
     (case c of
        None \<Rightarrow> (None, s)
      | Some c \<Rightarrow>
          (let (scopes, s0) = copy_scopes (ref_DefaultScopes c) s;
               (envoy, s1) = deepCopyResourceRequirements qcopy (ref_EnvoyProxy c) s0;
               (init, s2) = deepCopyResourceRequirements qcopy (ref_ProxyInit c) s1;
               (spiffe, s3) = deepCopyResourceRequirements qcopy (ref_SpiffeHelper c) s2;
               (reg, s4) = deepCopyResourceRequirements qcopy (ref_ClientRegistration c) s3;
               (bridge, s5) = deepCopyResourceRequirements qcopy (ref_AuthBridge c) s4
           in (Some (c\<lparr>ref_DefaultScopes := scopes, ref_EnvoyProxy := envoy, ref_ProxyInit := init,
                       ref_SpiffeHelper := spiffe, ref_ClientRegistration := reg, ref_AuthBridge := bridge\<rparr>), s5)))"

section \<open>The value of a configuration\<close>

definition view_list :: "store \<Rightarrow> addr option \<Rightarrow> ResourceList" where
  "view_list s p = (case p of None \<Rightarrow> None
     | Some a \<Rightarrow> (case cells s a of Some (MapCell m) \<Rightarrow> Some (map_of m) | _ \<Rightarrow> None))"

definition view_scopes :: "store \<Rightarrow> addr option \<Rightarrow> string list" where
  "view_scopes s p = (case p of None \<Rightarrow> []
     | Some a \<Rightarrow> (case cells s a of Some (SliceCell xs) \<Rightarrow> xs | _ \<Rightarrow> []))"

definition view_requirements :: "store \<Rightarrow> RefRequirements \<Rightarrow> ResourceRequirements" where
  "view_requirements s rr = \<lparr>rr_Requests = view_list s (ref_Requests rr), rr_Limits = view_list s (ref_Limits rr)\<rparr>"

text \<open>Every field of the configuration except the resource claims.\<close>

definition view_config :: "store \<Rightarrow> RefConfig \<Rightarrow> PlatformConfig" where
  "view_config s c =
     \<lparr>pc_Images = ref_Images c, pc_Proxy = ref_Proxy c,
      pc_Resources =
        \<lparr>res_EnvoyProxy = view_requirements s (ref_EnvoyProxy c), res_ProxyInit = view_requirements s (ref_ProxyInit c),
         res_SpiffeHelper = view_requirements s (ref_SpiffeHelper c),
         res_ClientRegistration = view_requirements s (ref_ClientRegistration c),
         res_AuthBridge = view_requirements s (ref_AuthBridge c)\<rparr>,
      pc_TokenExchange = \<lparr>te_TokenURL = ref_TokenURL c, te_DefaultAudience = ref_DefaultAudience c,
                          te_DefaultScopes = view_scopes s (ref_DefaultScopes c)\<rparr>,
      pc_Spiffe = ref_Spiffe c, pc_Observability = ref_Observability c, pc_Sidecars = ref_Sidecars c\<rparr>"

text \<open>The addresses a configuration reads, and well-formedness: they are allocated, hold a cell of the right
  kind, and the keys of a map are distinct.\<close>

definition requirement_addrs :: "RefRequirements \<Rightarrow> addr set" where
  "requirement_addrs rr = set_option (ref_Requests rr) \<union> set_option (ref_Limits rr) \<union> set_option (ref_Claims rr)"

definition config_addrs :: "RefConfig \<Rightarrow> addr set" where
  "config_addrs c =
     set_option (ref_DefaultScopes c) \<union> requirement_addrs (ref_EnvoyProxy c) \<union> requirement_addrs (ref_ProxyInit c)
     \<union> requirement_addrs (ref_SpiffeHelper c) \<union> requirement_addrs (ref_ClientRegistration c)
     \<union> requirement_addrs (ref_AuthBridge c)"

definition wf_list :: "store \<Rightarrow> addr option \<Rightarrow> bool" where
  "wf_list s p \<longleftrightarrow> (case p of None \<Rightarrow> True
     | Some a \<Rightarrow> a < next_addr s \<and> (case cells s a of Some (MapCell m) \<Rightarrow> distinct (map fst m) | _ \<Rightarrow> False))"

definition wf_scopes :: "store \<Rightarrow> addr option \<Rightarrow> bool" where
  "wf_scopes s p \<longleftrightarrow> (case p of None \<Rightarrow> True
     | Some a \<Rightarrow> a < next_addr s \<and> (case cells s a of Some (SliceCell xs) \<Rightarrow> True | _ \<Rightarrow> False))"

definition wf_requirements :: "store \<Rightarrow> RefRequirements \<Rightarrow> bool" where
  "wf_requirements s rr \<longleftrightarrow>
     wf_list s (ref_Requests rr) \<and> wf_list s (ref_Limits rr) \<and> wf_scopes s (ref_Claims rr)"

definition wf_config :: "store \<Rightarrow> RefConfig \<Rightarrow> bool" where
  "wf_config s c \<longleftrightarrow> wf_scopes s (ref_DefaultScopes c) \<and> wf_requirements s (ref_EnvoyProxy c)
     \<and> wf_requirements s (ref_ProxyInit c) \<and> wf_requirements s (ref_SpiffeHelper c)
     \<and> wf_requirements s (ref_ClientRegistration c) \<and> wf_requirements s (ref_AuthBridge c)"

section \<open>Copying extends the store\<close>

text \<open>A later store keeps all cells that were allocated.\<close>

definition extends :: "store \<Rightarrow> store \<Rightarrow> bool" where
  "extends s t \<longleftrightarrow> next_addr s \<le> next_addr t \<and> (\<forall>a<next_addr s. cells t a = cells s a)"

lemma extends_refl [simp]: "extends s s"
  by (simp add: extends_def)

lemma extends_trans: "extends s t \<Longrightarrow> extends t u \<Longrightarrow> extends s u"
  by (simp add: extends_def)

lemma wf_extends:
  assumes "extends s t"
  shows "wf_list s p \<Longrightarrow> wf_list t p \<and> view_list t p = view_list s p"
    and "wf_scopes s q \<Longrightarrow> wf_scopes t q \<and> view_scopes t q = view_scopes s q"
    and "wf_requirements s rr \<Longrightarrow> wf_requirements t rr \<and> view_requirements t rr = view_requirements s rr"
  using assms
  by (auto simp: extends_def wf_list_def view_list_def wf_scopes_def view_scopes_def wf_requirements_def
      view_requirements_def split: option.splits cell.splits)

lemma put_entry_new: "k \<notin> fst ` set m \<Longrightarrow> put_entry k v m = m @ [(k, v)]"
  by (induction k v m rule: put_entry.induct) auto

lemma fill_map:
  assumes "\<And>q. qcopy q = q" and "cells s a = Some (MapCell m0)" and "distinct (map fst (m0 @ m))"
  shows "foldl (\<lambda>s (k, v). map_put a k (qcopy v) s) s m = s\<lparr>cells := (cells s)(a \<mapsto> MapCell (m0 @ m))\<rparr>"
  using assms(2,3)
proof (induction m arbitrary: s "m0")
  case Nil
  then show ?case by (simp add: fun_upd_idem)
next
  case (Cons e m)
  obtain k v where e: "e = (k, v)" by (cases e)
  then have "map_put a k (qcopy v) s = s\<lparr>cells := (cells s)(a \<mapsto> MapCell (m0 @ [e]))\<rparr>"
    using Cons.prems assms(1) put_entry_new [of k "m0" v] by (auto simp: map_put_def set_cell_def)
  then show ?case using Cons.IH [of _ "m0 @ [e]"] Cons.prems e by (simp cong: if_cong)
qed

text \<open>What each copying step achieves: the store is extended, the copy has the value of the original, and its
  addresses are new.\<close>

definition fresh :: "store \<Rightarrow> store \<Rightarrow> addr set \<Rightarrow> bool" where
  "fresh s t A \<longleftrightarrow> A \<subseteq> {next_addr s..<next_addr t}"

lemma fresh_mono: "extends s t \<Longrightarrow> fresh t u A \<Longrightarrow> fresh s u A"
  "fresh s t A \<Longrightarrow> extends t u \<Longrightarrow> fresh s u A"
  by (auto simp: fresh_def extends_def)

lemma copy_list_spec:
  assumes "\<And>q. qcopy q = q" and "wf_list s p" and "copy_list qcopy p s = (p', t)"
  shows "extends s t \<and> view_list t p' = view_list s p \<and> fresh s t (set_option p')"
  using assms(2,3) fill_map [OF assms(1), of "snd (alloc (MapCell []) s)" "next_addr s" "[]"]
  by (auto simp: copy_list_def wf_list_def alloc_def view_list_def extends_def fresh_def
      split: option.splits cell.splits)

lemma copy_scopes_spec:
  assumes "wf_scopes s p" and "copy_scopes p s = (p', t)"
  shows "extends s t \<and> view_scopes t p' = view_scopes s p \<and> fresh s t (set_option p')"
  using assms
  by (auto simp: copy_scopes_def wf_scopes_def alloc_def view_scopes_def extends_def fresh_def
      split: option.splits cell.splits)

lemma view_list_fresh: "fresh s t (set_option p) \<Longrightarrow> extends t u \<Longrightarrow> view_list u p = view_list t p"
  by (auto simp: fresh_def extends_def view_list_def split: option.splits)

lemma copy_requirements_spec:
  assumes "\<And>q. qcopy q = q" and "wf_requirements s rr"
    and "deepCopyResourceRequirements qcopy rr s = (rr', t)"
  shows "extends s t \<and> view_requirements t rr' = view_requirements s rr \<and> fresh s t (requirement_addrs rr')"
proof -
  obtain req s1 where c1: "copy_list qcopy (ref_Requests rr) s = (req, s1)" by fastforce
  obtain lim s2 where c2: "copy_list qcopy (ref_Limits rr) s1 = (lim, s2)" by fastforce
  have e1: "extends s s1" "view_list s1 req = view_list s (ref_Requests rr)" "fresh s s1 (set_option req)"
    using copy_list_spec [OF assms(1) _ c1] assms(2) by (auto simp: wf_requirements_def)
  have "wf_list s1 (ref_Limits rr)" "view_list s1 (ref_Limits rr) = view_list s (ref_Limits rr)"
    using wf_extends(1) [OF e1(1)] assms(2) by (auto simp: wf_requirements_def)
  then have e2: "extends s1 s2" "view_list s2 lim = view_list s (ref_Limits rr)" "fresh s1 s2 (set_option lim)"
    using copy_list_spec [OF assms(1) _ c2] by auto
  have "rr' = \<lparr>ref_Requests = req, ref_Limits = lim, ref_Claims = None\<rparr>" "t = s2"
    using assms(3) c1 c2 by (simp_all add: deepCopyResourceRequirements_def)
  then show ?thesis
    using e1 e2 extends_trans view_list_fresh [OF e1(3) e2(1)] fresh_mono(1) [OF e1(1) e2(3)] fresh_mono(2) [OF e1(3) e2(1)]
    by (auto simp: view_requirements_def requirement_addrs_def fresh_def)
qed

lemma view_fresh:
  "fresh s t (requirement_addrs rr) \<Longrightarrow> extends t u \<Longrightarrow> view_requirements u rr = view_requirements t rr"
  "fresh s t (set_option p) \<Longrightarrow> extends t u \<Longrightarrow> view_scopes u p = view_scopes t p"
  by (auto simp: fresh_def extends_def view_list_def view_scopes_def view_requirements_def requirement_addrs_def
      split: option.splits)

text \<open>One step of \<open>DeepCopy\<close>, seen from the stores before the first and after the last step.\<close>

lemma copy_step:
  assumes "\<And>q. qcopy q = q" and "wf_requirements s0 rr" and "extends s0 s"
    and "deepCopyResourceRequirements qcopy rr s = (rr', t)"
  shows "extends s0 t"
    and "extends t u \<Longrightarrow> view_requirements u rr' = view_requirements s0 rr \<and> fresh s0 u (requirement_addrs rr')"
proof -
  have wf: "wf_requirements s rr" "view_requirements s rr = view_requirements s0 rr"
    using wf_extends(3) [OF assms(3)] assms(2) by auto
  have sp: "extends s t" "view_requirements t rr' = view_requirements s rr" "fresh s t (requirement_addrs rr')"
    using copy_requirements_spec [OF assms(1) wf(1) assms(4)] by auto
  then show "extends s0 t" using extends_trans [OF assms(3)] by blast
  show "view_requirements u rr' = view_requirements s0 rr \<and> fresh s0 u (requirement_addrs rr')" if "extends t u"
    using view_fresh(1) [OF sp(3) that] sp(2) wf(2) fresh_mono(2) [OF sp(3) that] fresh_mono(1) [OF assms(3)] by auto
qed

lemma DeepCopy_spec:
  assumes "\<And>q. qcopy q = q" and "wf_config s c" and "DeepCopy qcopy (Some c) s = (r, t)"
  shows "\<exists>c'. r = Some c' \<and> extends s t \<and> view_config t c' = view_config s c \<and> fresh s t (config_addrs c')"
proof -
  note wf = assms(2) [unfolded wf_config_def]
  obtain sc s0 where c0: "copy_scopes (ref_DefaultScopes c) s = (sc, s0)" by fastforce
  obtain r1 s1 where c1: "deepCopyResourceRequirements qcopy (ref_EnvoyProxy c) s0 = (r1, s1)" by fastforce
  obtain r2 s2 where c2: "deepCopyResourceRequirements qcopy (ref_ProxyInit c) s1 = (r2, s2)" by fastforce
  obtain r3 s3 where c3: "deepCopyResourceRequirements qcopy (ref_SpiffeHelper c) s2 = (r3, s3)" by fastforce
  obtain r4 s4 where c4: "deepCopyResourceRequirements qcopy (ref_ClientRegistration c) s3 = (r4, s4)" by fastforce
  obtain r5 s5 where c5: "deepCopyResourceRequirements qcopy (ref_AuthBridge c) s4 = (r5, s5)" by fastforce
  have res: "r = Some (c\<lparr>ref_DefaultScopes := sc, ref_EnvoyProxy := r1, ref_ProxyInit := r2,
      ref_SpiffeHelper := r3, ref_ClientRegistration := r4, ref_AuthBridge := r5\<rparr>)" "t = s5"
    using assms(3) c0 c1 c2 c3 c4 c5 by (simp_all add: DeepCopy_def)
  have e0: "extends s s0" "view_scopes s0 sc = view_scopes s (ref_DefaultScopes c)" "fresh s s0 (set_option sc)"
    using copy_scopes_spec [OF _ c0] wf by auto
  have e1: "extends s s1" using copy_step(1) [OF assms(1) _ e0(1) c1] wf by auto
  have e2: "extends s s2" using copy_step(1) [OF assms(1) _ e1 c2] wf by auto
  have e3: "extends s s3" using copy_step(1) [OF assms(1) _ e2 c3] wf by auto
  have e4: "extends s s4" using copy_step(1) [OF assms(1) _ e3 c4] wf by auto
  have e5: "extends s s5" using copy_step(1) [OF assms(1) _ e4 c5] wf by auto
  have w: "wf_requirements s1 (ref_ProxyInit c)" "wf_requirements s2 (ref_SpiffeHelper c)"
    "wf_requirements s3 (ref_ClientRegistration c)" "wf_requirements s4 (ref_AuthBridge c)"
    "wf_requirements s0 (ref_EnvoyProxy c)"
    using wf wf_extends(3) [OF e1] wf_extends(3) [OF e2] wf_extends(3) [OF e3] wf_extends(3) [OF e4]
      wf_extends(3) [OF e0(1)] by auto
  have x: "extends s4 s5" "extends s3 s4" "extends s2 s3" "extends s1 s2" "extends s0 s1"
    using copy_requirements_spec [OF assms(1)] w c1 c2 c3 c4 c5 by blast+
  have y: "extends s3 s5" "extends s2 s5" "extends s1 s5" "extends s0 s5"
    using x extends_trans by blast+
  show ?thesis
    using res e5 e0(2,3) view_fresh(2) [OF e0(3) y(4)] fresh_mono(2) [OF e0(3) y(4)]
      copy_step(2) [OF assms(1) _ e0(1) c1 y(3)] copy_step(2) [OF assms(1) _ e1 c2 y(2)]
      copy_step(2) [OF assms(1) _ e2 c3 y(1)] copy_step(2) [OF assms(1) _ e3 c4 x(1)]
      copy_step(2) [OF assms(1) _ e4 c5 extends_refl] wf
    by (simp add: view_config_def config_addrs_def fresh_def)
qed

section \<open>Copies are isolated\<close>

text \<open>Any sequence of writes to a set of addresses.\<close>

definition writes :: "(addr \<times> cell) list \<Rightarrow> store \<Rightarrow> store" where
  "writes ws s = foldl (\<lambda>s (a, c). set_cell a c s) s ws"

lemma writes_other: "a \<notin> fst ` set ws \<Longrightarrow> cells (writes ws s) a = cells s a"
proof (induction ws arbitrary: s)
  case (Cons w ws)
  obtain b c where "w = (b, c)" by (cases w)
  with Cons show ?case by (simp add: writes_def set_cell_def)
qed (simp add: writes_def)

lemma view_cong:
  assumes "\<forall>a\<in>config_addrs c. cells t a = cells s a"
  shows "view_config t c = view_config s c"
  using assms
  by (auto simp: view_config_def view_requirements_def view_list_def view_scopes_def config_addrs_def
      requirement_addrs_def split: option.split)

lemma wf_addrs:
  "wf_list s p \<Longrightarrow> set_option p \<subseteq> {..<next_addr s}" "wf_scopes s q \<Longrightarrow> set_option q \<subseteq> {..<next_addr s}"
  by (auto simp: wf_list_def wf_scopes_def split: option.splits)

lemma wf_requirements_addrs: "wf_requirements s rr \<Longrightarrow> requirement_addrs rr \<subseteq> {..<next_addr s}"
  using wf_addrs unfolding wf_requirements_def requirement_addrs_def by (meson Un_least)

lemma wf_config_addrs: "wf_config s c \<Longrightarrow> config_addrs c \<subseteq> {..<next_addr s}"
  using wf_addrs wf_requirements_addrs unfolding wf_config_def config_addrs_def by (meson Un_least)

definition config_claims :: "RefConfig \<Rightarrow> addr option list" where
  "config_claims c = map ref_Claims [ref_EnvoyProxy c, ref_ProxyInit c, ref_SpiffeHelper c, ref_ClientRegistration c, ref_AuthBridge c]"

text \<open>C19 (deep_copy_isolated). \<open>DeepCopy\<close> copies a configuration except for its resource claims: every field
  that \<open>view_config\<close> reads, which are all but the claims, has the value of the original, and afterwards no
  sequence of writes through the maps and slices of the copy changes these fields of the original, nor the
  other way round. The resource claims, which the configuration file may set, are lost: the copy has none.\<close>

theorem deep_copy_isolated:
  assumes "\<And>q. qcopy q = q" and "wf_config s c" and "DeepCopy qcopy (Some c) s = (Some c', t)"
  shows "view_config t c' = view_config s c \<and> view_config t c = view_config s c
     \<and> (fst ` set ws \<subseteq> config_addrs c' \<longrightarrow> view_config (writes ws t) c = view_config s c)
     \<and> (fst ` set ws \<subseteq> config_addrs c \<longrightarrow> view_config (writes ws t) c' = view_config s c)
     \<and> config_claims c' = [None, None, None, None, None]"
proof -
  have sp: "extends s t" "view_config t c' = view_config s c" "fresh s t (config_addrs c')"
    using DeepCopy_spec [OF assms] by auto
  have old: "config_addrs c \<subseteq> {..<next_addr s}" by (rule wf_config_addrs [OF assms(2)])
  have orig: "view_config t c = view_config s c"
    using sp(1) old by (intro view_cong) (auto simp: extends_def)
  have "config_addrs c \<inter> config_addrs c' = {}" using old sp(3) by (fastforce simp: fresh_def)
  then have "view_config (writes ws t) c = view_config t c" if "fst ` set ws \<subseteq> config_addrs c'"
    using that by (intro view_cong ballI writes_other) auto
  moreover have "view_config (writes ws t) c' = view_config t c'" if "fst ` set ws \<subseteq> config_addrs c"
    using that \<open>config_addrs c \<inter> config_addrs c' = {}\<close> by (intro view_cong ballI writes_other) auto
  moreover have "config_claims c' = [None, None, None, None, None]"
    using assms(3) by (auto simp: config_claims_def DeepCopy_def deepCopyResourceRequirements_def split: prod.splits)
  ultimately show ?thesis using sp(2) orig by simp
qed

text \<open>A configuration whose sidecars share one map of requests, as a caller may build it.\<close>

definition demo_store :: store where
  "demo_store = \<lparr>cells = [0 \<mapsto> MapCell [(''cpu'', MustParse ''50m'')], 1 \<mapsto> SliceCell [''openid'']], next_addr = 2\<rparr>"

definition demo_ref :: RefConfig where
  "demo_ref =
     (let rr = \<lparr>ref_Requests = Some 0, ref_Limits = None, ref_Claims = None\<rparr>
      in \<lparr>ref_Images = pc_Images CompiledDefaults, ref_Proxy = pc_Proxy CompiledDefaults,
          ref_EnvoyProxy = rr, ref_ProxyInit = rr, ref_SpiffeHelper = rr, ref_ClientRegistration = rr,
          ref_AuthBridge = rr, ref_TokenURL = [], ref_DefaultAudience = [], ref_DefaultScopes = Some 1,
          ref_Spiffe = pc_Spiffe CompiledDefaults, ref_Observability = pc_Observability CompiledDefaults,
          ref_Sidecars = pc_Sidecars CompiledDefaults\<rparr>)"

theorem deep_copy_isolated_witness:
  "\<exists>c' t. DeepCopy (\<lambda>q. q) (Some demo_ref) demo_store = (Some c', t)
     \<and> view_config (writes [(0, MapCell [])] t) c' = view_config demo_store demo_ref
     \<and> view_config (writes [(0, MapCell [])] t) demo_ref \<noteq> view_config demo_store demo_ref"
proof -
  have wf: "wf_config demo_store demo_ref"
    by (simp add: wf_config_def wf_requirements_def wf_list_def wf_scopes_def demo_ref_def demo_store_def Let_def)
  obtain r t where rt: "DeepCopy (\<lambda>q. q) (Some demo_ref) demo_store = (r, t)" by fastforce
  then obtain c' where c': "DeepCopy (\<lambda>q. q) (Some demo_ref) demo_store = (Some c', t)"
    using DeepCopy_spec [OF _ wf rt] by auto
  have "0 \<in> config_addrs demo_ref" by (simp add: config_addrs_def requirement_addrs_def demo_ref_def Let_def)
  then have "view_config (writes [(0, MapCell [])] t) c' = view_config demo_store demo_ref"
    using deep_copy_isolated [OF refl wf c', of "[(0, MapCell [])]"] by simp
  moreover have "view_list (writes [(0, MapCell [])] t) (Some 0) \<noteq> view_list demo_store (Some 0)"
    by (simp add: view_list_def writes_def set_cell_def demo_store_def fun_eq_iff)
  then have "view_config (writes [(0, MapCell [])] t) demo_ref \<noteq> view_config demo_store demo_ref"
    by (auto simp: view_config_def view_requirements_def demo_ref_def Let_def)
  ultimately show ?thesis using c' by blast
qed

end
