(* ===== verification/Webhook_Main.thy ===== *)
theory Webhook_Main
  imports Config_Loader Admission_Webhook
begin

text \<open>
  The webhook command (\<open>kagenti-webhook/cmd/main.go\<close>): its flags with the part of Go's \<open>flag\<close> package that
  parses them, and the start-up sequence from the loaders to the controller manager. Everything that
  controller-runtime, the certificate watcher and the Kubernetes client do is an operation of the record
  \<open>main_ext\<close>; the calls that \<open>main\<close> makes are recorded in order. The TLS options of the two servers are
  Go slices that start from a common one, so slices are modelled with their backing arrays.
\<close>

section \<open>Flags\<close>

record flags =
  metricsAddr :: string
  metricsCertPath :: string
  metricsCertName :: string
  metricsCertKey :: string
  webhookCertPath :: string
  webhookCertName :: string
  webhookCertKey :: string
  enableLeaderElection :: bool
  probeAddr :: string
  secureMetrics :: bool
  enableHTTP2 :: bool
  enableClientRegistration :: bool
  configPath :: string
  featureGatesPath :: string

definition default_flags :: flags where
  "default_flags =
     \<lparr>metricsAddr = ''0'', metricsCertPath = [], metricsCertName = ''tls.crt'', metricsCertKey = ''tls.key'',
      webhookCertPath = [], webhookCertName = ''tls.crt'', webhookCertKey = ''tls.key'',
      enableLeaderElection = False, probeAddr = '':8081'', secureMetrics = True, enableHTTP2 = False,
      enableClientRegistration = True, configPath = ''/etc/kagenti/config.yaml'',
      featureGatesPath = ''/etc/kagenti/feature-gates/feature-gates.yaml''\<rparr>"

text \<open>The registered flags: the setters of the string and of the boolean ones.\<close>

definition string_flags :: "(string \<times> (string \<Rightarrow> flags \<Rightarrow> flags)) list" where
  "string_flags =
     [(''metrics-bind-address'', \<lambda>v. metricsAddr_update (\<lambda>_. v)),
      (''health-probe-bind-address'', \<lambda>v. probeAddr_update (\<lambda>_. v)),
      (''webhook-cert-path'', \<lambda>v. webhookCertPath_update (\<lambda>_. v)),
      (''webhook-cert-name'', \<lambda>v. webhookCertName_update (\<lambda>_. v)),
      (''webhook-cert-key'', \<lambda>v. webhookCertKey_update (\<lambda>_. v)),
      (''metrics-cert-path'', \<lambda>v. metricsCertPath_update (\<lambda>_. v)),
      (''metrics-cert-name'', \<lambda>v. metricsCertName_update (\<lambda>_. v)),
      (''metrics-cert-key'', \<lambda>v. metricsCertKey_update (\<lambda>_. v)),
      (''config-path'', \<lambda>v. configPath_update (\<lambda>_. v)),
      (''feature-gates-path'', \<lambda>v. featureGatesPath_update (\<lambda>_. v))]"

definition bool_flags :: "(string \<times> (bool \<Rightarrow> flags \<Rightarrow> flags)) list" where
  "bool_flags =
     [(''leader-elect'', \<lambda>b. enableLeaderElection_update (\<lambda>_. b)),
      (''metrics-secure'', \<lambda>b. secureMetrics_update (\<lambda>_. b)),
      (''enable-http2'', \<lambda>b. enableHTTP2_update (\<lambda>_. b)),
      (''enable-client-registration'', \<lambda>b. enableClientRegistration_update (\<lambda>_. b))]"

text \<open>\<open>strconv.ParseBool\<close>.\<close>

definition ParseBool :: "string \<Rightarrow> bool option" where
  "ParseBool s =
     (if s \<in> set [''1'', ''t'', ''T'', ''TRUE'', ''true'', ''True''] then Some True
      else if s \<in> set [''0'', ''f'', ''F'', ''FALSE'', ''false'', ''False''] then Some False else None)"

text \<open>One argument of the form \<open>-name\<close>, \<open>--name\<close>, \<open>-name=value\<close>: its name and its value.\<close>

definition split_flag :: "string \<Rightarrow> (string \<times> string option) option" where
  "split_flag s =
     (let body = (if HasPrefix s ''--'' then drop 2 s else drop 1 s)
      in if body = [] \<or> HasPrefix body ''-'' \<or> HasPrefix body ''='' then None
         else (case IndexByte body (CHR ''='') of
                 None \<Rightarrow> Some (body, None)
               | Some i \<Rightarrow> Some (take i body, Some (drop (i + 1) body))))"

text \<open>\<open>flag.Parse\<close>; \<open>None\<close> ends the process (an unknown flag or a bad value). The flags that the logging library
  binds are given by \<open>other\<close>: whether a name is one of them and boolean, and which values it accepts.\<close>

record other_flags =
  other_kind :: "string \<Rightarrow> bool option"
  other_accepts :: "string \<Rightarrow> string \<Rightarrow> bool"

fun parse_flags :: "other_flags \<Rightarrow> string list \<Rightarrow> flags \<Rightarrow> flags option" where
  "parse_flags other [] fl = Some fl"
| "parse_flags other (s # args) fl =
     (if \<not> HasPrefix s ''-'' \<or> s = ''-'' then Some fl
      else if s = ''--'' then Some fl
      else case split_flag s of
             None \<Rightarrow> None
           | Some (name, value) \<Rightarrow>
               (case map_of bool_flags name of
                  Some upd \<Rightarrow>
                    (case ParseBool (case value of None \<Rightarrow> ''true'' | Some v \<Rightarrow> v) of
                       None \<Rightarrow> None
                     | Some b \<Rightarrow> parse_flags other args (upd b fl))
                | None \<Rightarrow>
                    (case map_of string_flags name of
                       Some upd \<Rightarrow>
                         (case value of
                            Some v \<Rightarrow> parse_flags other args (upd v fl)
                          | None \<Rightarrow>
                              (case args of
                                 [] \<Rightarrow> None
                               | v # args' \<Rightarrow> parse_flags other args' (upd v fl)))
                     | None \<Rightarrow>
                         (case other_kind other name of
                            None \<Rightarrow> None
                          | Some True \<Rightarrow>
                              if other_accepts other name (case value of None \<Rightarrow> ''true'' | Some v \<Rightarrow> v)
                              then parse_flags other args fl else None
                          | Some False \<Rightarrow>
                              (case value of
                                 Some v \<Rightarrow> if other_accepts other name v then parse_flags other args fl else None
                               | None \<Rightarrow>
                                   (case args of
                                      [] \<Rightarrow> None
                                    | v # args' \<Rightarrow>
                                        if other_accepts other name v then parse_flags other args' fl else None))))))"

section \<open>Slices\<close>

text \<open>A slice refers to a backing array; \<open>append\<close> writes into the array if there is room and otherwise copies
  to a new one, whose capacity the runtime chooses (\<open>grow\<close>, from the old capacity and the needed length).\<close>

record slice =
  sl_array :: nat
  sl_len :: nat
  sl_cap :: nat

record 'a arrays =
  ar_mem :: "nat \<Rightarrow> nat \<Rightarrow> 'a option"
  ar_next :: nat

definition nil_slice :: slice where
  "nil_slice = \<lparr>sl_array = 0, sl_len = 0, sl_cap = 0\<rparr>"

definition no_arrays :: "'a arrays" where
  "no_arrays = \<lparr>ar_mem = (\<lambda>a i. None), ar_next = 1\<rparr>"

definition slice_append :: "(nat \<Rightarrow> nat \<Rightarrow> nat) \<Rightarrow> slice \<Rightarrow> 'a \<Rightarrow> 'a arrays \<Rightarrow> slice \<times> 'a arrays" where
  "slice_append grow s x m =
     (if sl_len s < sl_cap s then
        (s\<lparr>sl_len := sl_len s + 1\<rparr>,
         m\<lparr>ar_mem := (ar_mem m)(sl_array s := (ar_mem m (sl_array s))(sl_len s \<mapsto> x))\<rparr>)
      else
        (\<lparr>sl_array = ar_next m, sl_len = sl_len s + 1, sl_cap = grow (sl_cap s) (sl_len s + 1)\<rparr>,
         m\<lparr>ar_mem := (ar_mem m)(ar_next m := (\<lambda>i. if i < sl_len s then ar_mem m (sl_array s) i else None)(sl_len s \<mapsto> x)),
           ar_next := ar_next m + 1\<rparr>))"

definition slice_elems :: "slice \<Rightarrow> 'a arrays \<Rightarrow> 'a option list" where
  "slice_elems s m = map (ar_mem m (sl_array s)) [0..<sl_len s]"

section \<open>Start-up\<close>

datatype tls_opt = DisableHTTP2 | CertificateOf string   \<comment> \<open>the watcher created for a purpose\<close>

record manager_options =
  mo_metrics_address :: string
  mo_metrics_secure :: bool
  mo_metrics_filtered :: bool
  mo_metrics_tls :: slice
  mo_webhook_tls :: slice
  mo_probe_address :: string
  mo_leader_election :: bool
  mo_leader_election_id :: string

text \<open>The calls of \<open>main\<close> that matter for the order of start-up.\<close>

datatype main_call =
    LoadConfig | OnChangeConfig | WatchConfig | LoadGates | OnChangeGates | WatchGates
  | NewCertWatcher string string string | NewManager manager_options | NewClient
  | RegisterWebhook string | AddCertWatcher string | AddCheck string | StartManager

record main_state =
  ms_configLoader :: "string ConfigLoader"
  ms_gateLoader :: "string FeatureGateLoader"
  ms_arrays :: "tls_opt arrays"
  ms_calls :: "main_call list"
  ms_watching :: "bool \<times> bool"

text \<open>What \<open>main\<close> gets from outside: the files and the decoder of the loaders, the results of starting the file
  watchers, and the errors of the library calls.\<close>

record main_ext =
  mx_config_file :: file_read
  mx_gates_file :: file_read
  mx_unmarshal_config :: "string \<Rightarrow> PlatformConfig \<Rightarrow> error + PlatformConfig"
  mx_unmarshal_gates :: "string \<Rightarrow> FeatureGates \<Rightarrow> error + FeatureGates"
  mx_stat :: "string \<Rightarrow> fs_error option"
  mx_new_watcher :: "string \<Rightarrow> error option"
  mx_watcher_add :: "string \<Rightarrow> error option"
  mx_cert_watcher :: "string \<Rightarrow> string \<Rightarrow> error option"
  mx_manager :: "manager_options \<Rightarrow> error option"
  mx_client :: "error option"
  mx_add :: "string \<Rightarrow> error option"
  mx_start :: "error option"
  mx_grow :: "nat \<Rightarrow> nat \<Rightarrow> nat"
  mx_env :: strmap

text \<open>A step of \<open>main\<close> continues (\<open>Inr\<close>) or calls \<open>os.Exit(1)\<close> (\<open>Inl\<close>).\<close>

type_synonym main_step = "main_state \<Rightarrow> main_state + main_state"

definition andThen :: "main_step \<Rightarrow> main_step \<Rightarrow> main_step" where
  "andThen f g s = (case f s of Inl t \<Rightarrow> Inl t | Inr t \<Rightarrow> g t)"

definition call :: "main_call \<Rightarrow> main_state \<Rightarrow> main_state" where
  "call c s = s\<lparr>ms_calls := ms_calls s @ [c]\<rparr>"

definition fatal_on :: "main_call \<Rightarrow> error option \<Rightarrow> main_step" where
  "fatal_on c err s = (case err of Some e \<Rightarrow> Inl (call c s) | None \<Rightarrow> Inr (call c s))"

text \<open>Sections 1 and 2 of \<open>main\<close>: load, register the callback, start watching; a failing watcher is logged.\<close>

definition start_config :: "main_ext \<Rightarrow> main_step" where
  "start_config x s =
     (case ConfigLoader_Load (mx_unmarshal_config x) (mx_config_file x) (ms_configLoader s) of
        (Some err, l, _) \<Rightarrow> Inl (call LoadConfig (s\<lparr>ms_configLoader := l\<rparr>))
      | (None, l, _) \<Rightarrow>
          (let l' = ConfigLoader_OnChange ''Platform config updated'' l;
               (err, watching) = ConfigLoader_Watch (mx_stat x) (mx_new_watcher x ''config'') (mx_watcher_add x) l'
           in Inr (call WatchConfig (call OnChangeConfig (call LoadConfig
                (s\<lparr>ms_configLoader := l', ms_watching := (watching, snd (ms_watching s))\<rparr>))))))"

definition start_gates :: "main_ext \<Rightarrow> main_step" where
  "start_gates x s =
     (case FeatureGateLoader_Load (mx_unmarshal_gates x) (mx_gates_file x) (ms_gateLoader s) of
        (Some err, l, _) \<Rightarrow> Inl (call LoadGates (s\<lparr>ms_gateLoader := l\<rparr>))
      | (None, l, _) \<Rightarrow>
          (let l' = FeatureGateLoader_OnChange ''Feature gates updated'' l;
               (err, watching) = FeatureGateLoader_Watch (mx_stat x) (mx_new_watcher x ''gates'') (mx_watcher_add x) l'
           in Inr (call WatchGates (call OnChangeGates (call LoadGates
                (s\<lparr>ms_gateLoader := l', ms_watching := (fst (ms_watching s), watching)\<rparr>))))))"

text \<open>\<open>filepath.Join\<close> of two elements.\<close>

definition filepath_Join :: "string \<Rightarrow> string \<Rightarrow> string" where
  "filepath_Join a b = (case filter (\<lambda>e. e \<noteq> []) [a, b] of [] \<Rightarrow> [] | es \<Rightarrow> Clean (Join es ''/''))"

text \<open>A certificate watcher, if a path is given: its option is appended to a copy of the common slice.\<close>

definition cert_options :: "main_ext \<Rightarrow> string \<Rightarrow> string \<Rightarrow> string \<Rightarrow> string \<Rightarrow> slice \<Rightarrow> main_state
    \<Rightarrow> main_state + (slice \<times> main_state)" where
  "cert_options x purpose path name key tlsOpts s =
     (if path = [] then Inr (tlsOpts, s)
      else
        (let c = NewCertWatcher purpose (filepath_Join path name) (filepath_Join path key)
         in case mx_cert_watcher x (filepath_Join path name) (filepath_Join path key) of
              Some err \<Rightarrow> Inl (call c s)
            | None \<Rightarrow>
                (case slice_append (mx_grow x) tlsOpts (CertificateOf purpose) (ms_arrays s) of
                   (opts, m) \<Rightarrow> Inr (opts, call c (s\<lparr>ms_arrays := m\<rparr>)))))"

definition create_manager :: "main_ext \<Rightarrow> flags \<Rightarrow> main_step" where
  "create_manager x fl s =
     (let (tlsOpts, m) = (if enableHTTP2 fl then (nil_slice, ms_arrays s)
                          else slice_append (mx_grow x) nil_slice DisableHTTP2 (ms_arrays s))
      in case cert_options x ''webhook'' (webhookCertPath fl) (webhookCertName fl) (webhookCertKey fl) tlsOpts
                (s\<lparr>ms_arrays := m\<rparr>) of
           Inl t \<Rightarrow> Inl t
         | Inr (webhookTLSOpts, s1) \<Rightarrow>
             (case cert_options x ''metrics'' (metricsCertPath fl) (metricsCertName fl) (metricsCertKey fl) tlsOpts s1 of
                Inl t \<Rightarrow> Inl t
              | Inr (metricsTLSOpts, s2) \<Rightarrow>
                  (let opts = \<lparr>mo_metrics_address = metricsAddr fl, mo_metrics_secure = secureMetrics fl,
                               mo_metrics_filtered = secureMetrics fl, mo_metrics_tls = metricsTLSOpts,
                               mo_webhook_tls = webhookTLSOpts, mo_probe_address = probeAddr fl,
                               mo_leader_election = enableLeaderElection fl,
                               mo_leader_election_id = ''217dbcff.kagenti.ai''\<rparr>
                   in fatal_on (NewManager opts) (mx_manager x opts) s2)))"

text \<open>The webhook is registered unless \<open>ENABLE_WEBHOOKS\<close> is \<open>false\<close>; \<open>SetupAuthBridgeWebhookWithManager\<close> never
  fails.\<close>

definition register_webhook :: "main_ext \<Rightarrow> main_step" where
  "register_webhook x s =
     (if map_get (mx_env x) ''ENABLE_WEBHOOKS'' \<noteq> ''false''
      then Inr (call (RegisterWebhook ''/mutate-workloads-authbridge'') s) else Inr s)"

definition add_cert_watcher :: "main_ext \<Rightarrow> string \<Rightarrow> string \<Rightarrow> main_step" where
  "add_cert_watcher x purpose path s =
     (if path \<noteq> [] then fatal_on (AddCertWatcher purpose) (mx_add x purpose) s else Inr s)"

text \<open>From the manager to \<open>mgr.Start\<close>.\<close>

definition run_manager :: "main_ext \<Rightarrow> flags \<Rightarrow> main_step" where
  "run_manager x fl =
     andThen (create_manager x fl)
     (andThen (fatal_on NewClient (mx_client x))
     (andThen (register_webhook x)
     (andThen (add_cert_watcher x ''metrics'' (metricsCertPath fl))
     (andThen (add_cert_watcher x ''webhook'' (webhookCertPath fl))
     (andThen (fatal_on (AddCheck ''healthz'') (mx_add x ''healthz''))
     (andThen (fatal_on (AddCheck ''readyz'') (mx_add x ''readyz''))
       (fatal_on StartManager (mx_start x))))))))"

definition webhook_main :: "main_ext \<Rightarrow> flags \<Rightarrow> main_step" where
  "webhook_main x fl = andThen (start_config x) (andThen (start_gates x) (run_manager x fl))"

definition initial_state :: "flags \<Rightarrow> main_state" where
  "initial_state fl =
     \<lparr>ms_configLoader = NewConfigLoader (configPath fl), ms_gateLoader = NewFeatureGateLoader (featureGatesPath fl),
      ms_arrays = no_arrays, ms_calls = [], ms_watching = (False, False)\<rparr>"

text \<open>The whole command; \<open>None\<close> is the exit of \<open>flag.Parse\<close> on a bad command line.\<close>

definition webhook_command :: "other_flags \<Rightarrow> main_ext \<Rightarrow> string list \<Rightarrow> (main_state + main_state) option" where
  "webhook_command other x args =
     (case parse_flags other args default_flags of
        None \<Rightarrow> None
      | Some fl \<Rightarrow> Some (webhook_main x fl (initial_state fl)))"

text \<open>The mutator that serves requests reads the loaders at the time of the request.\<close>

definition serving_mutator :: "('w, 'o) client \<Rightarrow> flags \<Rightarrow> main_state \<Rightarrow> ('w, 'o) PodMutator" where
  "serving_mutator k8sClient fl s =
     NewPodMutator k8sClient (enableClientRegistration fl) (ConfigLoader_Get (ms_configLoader s))
       (FeatureGateLoader_Get (ms_gateLoader s))"

definition serving_webhooks :: "('raw \<Rightarrow> error + Pod) \<Rightarrow> (Pod \<Rightarrow> error + 'raw) \<Rightarrow> ('w, 'o) client \<Rightarrow> main_ext \<Rightarrow> flags
    \<Rightarrow> main_state \<Rightarrow> (string \<times> ('w, 'o, 'raw) AuthBridgeWebhook) list" where
  "serving_webhooks decode marshal k8sClient x fl s =
     (if map_get (mx_env x) ''ENABLE_WEBHOOKS'' \<noteq> ''false''
      then snd (SetupAuthBridgeWebhookWithManager decode marshal (serving_mutator k8sClient fl s) []) else [])"

section \<open>The TLS options\<close>

text \<open>The slices of the webhook server and of the metrics server, and the arrays behind them.\<close>

definition tls_slices :: "(nat \<Rightarrow> nat \<Rightarrow> nat) \<Rightarrow> flags \<Rightarrow> slice \<times> slice \<times> tls_opt arrays" where
  "tls_slices grow fl =
     (let (common, m) = (if enableHTTP2 fl then (nil_slice, no_arrays) else slice_append grow nil_slice DisableHTTP2 no_arrays);
          (webhook, m1) = (if webhookCertPath fl = [] then (common, m)
                           else slice_append grow common (CertificateOf ''webhook'') m);
          (metrics, m2) = (if metricsCertPath fl = [] then (common, m1)
                           else slice_append grow common (CertificateOf ''metrics'') m1)
      in (webhook, metrics, m2))"

definition intended_opts :: "flags \<Rightarrow> string \<Rightarrow> string \<Rightarrow> tls_opt list" where
  "intended_opts fl purpose path =
     (if enableHTTP2 fl then [] else [DisableHTTP2]) @ (if path = [] then [] else [CertificateOf purpose])"

lemmas slice_defs = slice_append_def slice_elems_def nil_slice_def no_arrays_def

lemma tls_slices_elems:
  "case tls_slices grow fl of
     (webhook, metrics, m) \<Rightarrow>
       slice_elems metrics m = map Some (intended_opts fl ''metrics'' (metricsCertPath fl))
       \<and> slice_elems webhook m =
          (if grow 0 1 \<le> 1 \<or> enableHTTP2 fl \<or> webhookCertPath fl = [] \<or> metricsCertPath fl = []
           then map Some (intended_opts fl ''webhook'' (webhookCertPath fl))
           else map Some [DisableHTTP2, CertificateOf ''metrics''])"
  by (auto simp: tls_slices_def slice_defs intended_opts_def Let_def split: if_splits prod.split)

section \<open>The plan of start-up\<close>

text \<open>What start-up is meant to do, as a list: each call with the error it gives. A run makes the calls in this
  order up to the first one that fails.\<close>

type_synonym plan = "(main_call \<times> error option) list"

fun until_failure :: "plan \<Rightarrow> main_call list" where
  "until_failure [] = []"
| "until_failure ((c, e) # p) = c # (if e = None then until_failure p else [])"

definition succeeds :: "plan \<Rightarrow> bool" where
  "succeeds p \<longleftrightarrow> list_all (\<lambda>(c, e). e = None) p"

definition error_of :: "error + 'a \<Rightarrow> error option" where
  "error_of r = (case r of Inl e \<Rightarrow> Some e | Inr _ \<Rightarrow> None)"

definition config_plan :: "main_ext \<Rightarrow> plan" where
  "config_plan x = [(LoadConfig, error_of (config_outcome (mx_unmarshal_config x) (mx_config_file x))),
                    (OnChangeConfig, None), (WatchConfig, None)]"

definition gates_plan :: "main_ext \<Rightarrow> plan" where
  "gates_plan x = [(LoadGates, error_of (gates_outcome (mx_unmarshal_gates x) (mx_gates_file x))),
                   (OnChangeGates, None), (WatchGates, None)]"

definition cert_plan :: "main_ext \<Rightarrow> string \<Rightarrow> string \<Rightarrow> string \<Rightarrow> string \<Rightarrow> plan" where
  "cert_plan x purpose path name key =
     (if path = [] then []
      else [(NewCertWatcher purpose (filepath_Join path name) (filepath_Join path key),
             mx_cert_watcher x (filepath_Join path name) (filepath_Join path key))])"

definition manager_opts :: "main_ext \<Rightarrow> flags \<Rightarrow> manager_options" where
  "manager_opts x fl =
     (case tls_slices (mx_grow x) fl of
        (webhook, metrics, m) \<Rightarrow>
          \<lparr>mo_metrics_address = metricsAddr fl, mo_metrics_secure = secureMetrics fl,
           mo_metrics_filtered = secureMetrics fl, mo_metrics_tls = metrics, mo_webhook_tls = webhook,
           mo_probe_address = probeAddr fl, mo_leader_election = enableLeaderElection fl,
           mo_leader_election_id = ''217dbcff.kagenti.ai''\<rparr>)"

definition all_cert_plan :: "main_ext \<Rightarrow> flags \<Rightarrow> plan" where
  "all_cert_plan x fl =
     cert_plan x ''webhook'' (webhookCertPath fl) (webhookCertName fl) (webhookCertKey fl)
     @ cert_plan x ''metrics'' (metricsCertPath fl) (metricsCertName fl) (metricsCertKey fl)"

definition manager_plan :: "main_ext \<Rightarrow> flags \<Rightarrow> plan" where
  "manager_plan x fl =
     all_cert_plan x fl @ [(NewManager (manager_opts x fl), mx_manager x (manager_opts x fl))]"

definition register_plan :: "main_ext \<Rightarrow> plan" where
  "register_plan x =
     (if map_get (mx_env x) ''ENABLE_WEBHOOKS'' = ''false'' then []
      else [(RegisterWebhook ''/mutate-workloads-authbridge'', None)])"

definition add_plan :: "main_ext \<Rightarrow> string \<Rightarrow> string \<Rightarrow> plan" where
  "add_plan x purpose path = (if path = [] then [] else [(AddCertWatcher purpose, mx_add x purpose)])"

definition service_plan :: "main_ext \<Rightarrow> flags \<Rightarrow> plan" where
  "service_plan x fl =
     [(NewClient, mx_client x)] @ register_plan x
     @ add_plan x ''metrics'' (metricsCertPath fl) @ add_plan x ''webhook'' (webhookCertPath fl)
     @ [(AddCheck ''healthz'', mx_add x ''healthz'')] @ [(AddCheck ''readyz'', mx_add x ''readyz'')]
     @ [(StartManager, mx_start x)]"

definition startup_plan :: "main_ext \<Rightarrow> flags \<Rightarrow> plan" where
  "startup_plan x fl = config_plan x @ gates_plan x @ manager_plan x fl @ service_plan x fl"

section \<open>Every step follows its plan\<close>

lemma succeeds_simps [simp]:
  "succeeds []" "succeeds ((c, e) # p) \<longleftrightarrow> e = None \<and> succeeds p" "succeeds (p @ q) \<longleftrightarrow> succeeds p \<and> succeeds q"
  by (auto simp: succeeds_def)

lemma until_failure_append [simp]:
  "until_failure (p @ q) = until_failure p @ (if succeeds p then until_failure q else [])"
  by (induction p rule: until_failure.induct) auto

lemma until_failure_succeeds: "succeeds p \<Longrightarrow> until_failure p = map fst p"
  by (induction p rule: until_failure.induct) auto

lemma error_of_simps [simp]: "error_of (Inl e) = Some e" "error_of (Inr a) = None"
  by (simp_all add: error_of_def)

definition follows :: "main_step \<Rightarrow> plan \<Rightarrow> main_state \<Rightarrow> bool" where
  "follows f p s \<longleftrightarrow>
     (case f s of
        Inl t \<Rightarrow> \<not> succeeds p \<and> ms_calls t = ms_calls s @ until_failure p
      | Inr t \<Rightarrow> succeeds p \<and> ms_calls t = ms_calls s @ until_failure p)"

lemma follows_andThen:
  assumes "follows f p s" and "\<And>t. f s = Inr t \<Longrightarrow> follows g q t"
  shows "follows (andThen f g) (p @ q) s"
  using assms by (cases "f s") (auto simp: follows_def andThen_def split: sum.splits)

lemma follows_fatal_on: "follows (fatal_on c e) [(c, e)] s"
  by (auto simp: follows_def fatal_on_def call_def split: option.split)

lemma follows_register: "follows (register_webhook x) (register_plan x) s"
  by (simp add: follows_def register_webhook_def register_plan_def call_def)

lemma follows_add: "follows (add_cert_watcher x purpose path) (add_plan x purpose path) s"
  by (auto simp: follows_def add_cert_watcher_def add_plan_def fatal_on_def call_def split: option.split)

lemma follows_config: "follows (start_config x) (config_plan x) s"
proof (cases "config_outcome (mx_unmarshal_config x) (mx_config_file x)")
  case (Inl e)
  then show ?thesis using config_loader.load_err [OF Inl, of "ms_configLoader s"]
    by (auto simp: follows_def config_plan_def start_config_def call_def)
next
  case (Inr c)
  then show ?thesis using config_loader.load_ok [OF Inr, of "ms_configLoader s"]
    by (auto simp: follows_def config_plan_def start_config_def call_def Let_def split: prod.split)
qed

lemma follows_gates: "follows (start_gates x) (gates_plan x) s"
proof (cases "gates_outcome (mx_unmarshal_gates x) (mx_gates_file x)")
  case (Inl e)
  then show ?thesis using gate_loader.load_err [OF Inl, of "ms_gateLoader s"]
    by (auto simp: follows_def gates_plan_def start_gates_def call_def)
next
  case (Inr c)
  then show ?thesis using gate_loader.load_ok [OF Inr, of "ms_gateLoader s"]
    by (auto simp: follows_def gates_plan_def start_gates_def call_def Let_def split: prod.split)
qed

lemma cert_options_follows:
  "case cert_options x purpose path name key tlsOpts s of
     Inl t \<Rightarrow> \<not> succeeds (cert_plan x purpose path name key)
       \<and> ms_calls t = ms_calls s @ until_failure (cert_plan x purpose path name key)
   | Inr (opts, t) \<Rightarrow> succeeds (cert_plan x purpose path name key)
       \<and> ms_calls t = ms_calls s @ until_failure (cert_plan x purpose path name key)
       \<and> (opts, ms_arrays t) = (if path = [] then (tlsOpts, ms_arrays s)
                                else slice_append (mx_grow x) tlsOpts (CertificateOf purpose) (ms_arrays s))"
  by (auto simp: cert_options_def cert_plan_def call_def Let_def split: option.split prod.split)

text \<open>Creating the manager: a certificate watcher fails, or \<open>NewManager\<close> is called with the options of
  \<open>manager_opts\<close>, whose slices refer to the arrays of \<open>tls_slices\<close>.\<close>

lemma create_manager_cases:
  assumes "ms_arrays s = no_arrays"
  obtains (failed) t where "create_manager x fl s = Inl t" "\<not> succeeds (all_cert_plan x fl)"
      "ms_calls t = ms_calls s @ until_failure (all_cert_plan x fl)"
  | (created) s2 where "create_manager x fl s = fatal_on (NewManager (manager_opts x fl)) (mx_manager x (manager_opts x fl)) s2"
      "succeeds (all_cert_plan x fl)" "ms_calls s2 = ms_calls s @ until_failure (all_cert_plan x fl)"
      "ms_arrays s2 = snd (snd (tls_slices (mx_grow x) fl))"
proof -
  obtain common m where cm: "(if enableHTTP2 fl then (nil_slice, no_arrays)
      else slice_append (mx_grow x) nil_slice DisableHTTP2 no_arrays) = (common, m)" by fastforce
  note W = cert_options_follows [of x "''webhook''" "webhookCertPath fl" "webhookCertName fl" "webhookCertKey fl" "s\<lparr>ms_arrays := m\<rparr>" common]
  note M = cert_options_follows [where tlsOpts = common, of x "''metrics''" "metricsCertPath fl" "metricsCertName fl" "metricsCertKey fl"]
  show thesis
  proof (cases "cert_options x ''webhook'' (webhookCertPath fl) (webhookCertName fl) (webhookCertKey fl) common (s\<lparr>ms_arrays := m\<rparr>)")
    case (Inl t)
    have "create_manager x fl s = Inl t" unfolding create_manager_def assms cm using Inl by simp
    moreover have "\<not> succeeds (all_cert_plan x fl)" "ms_calls t = ms_calls s @ until_failure (all_cert_plan x fl)"
      using W Inl by (auto simp: all_cert_plan_def)
    ultimately show thesis by (rule failed)
  next
    case w: (Inr r)
    obtain w s1 where r: "r = (w, s1)" by fastforce
    show thesis
    proof (cases "cert_options x ''metrics'' (metricsCertPath fl) (metricsCertName fl) (metricsCertKey fl) common s1")
      case (Inl t)
      have "create_manager x fl s = Inl t" unfolding create_manager_def assms cm using w r Inl by simp
      moreover have "\<not> succeeds (all_cert_plan x fl)" "ms_calls t = ms_calls s @ until_failure (all_cert_plan x fl)"
        using W M [where s = s1] w r Inl by (auto simp: all_cert_plan_def)
      ultimately show thesis by (rule failed)
    next
      case k: (Inr q)
      obtain k s2 where q: "q = (k, s2)" by fastforce
      have tls: "tls_slices (mx_grow x) fl = (w, k, ms_arrays s2)"
        using W M [where s = s1] w k r q unfolding tls_slices_def cm by (auto split: prod.splits)
      note opts = manager_opts_def [of x fl, unfolded tls prod.case]
      show thesis
      proof (rule created [of s2])
        show "create_manager x fl s = fatal_on (NewManager (manager_opts x fl)) (mx_manager x (manager_opts x fl)) s2"
          using w k r q unfolding create_manager_def assms cm opts by (simp add: Let_def)
        show "ms_arrays s2 = snd (snd (tls_slices (mx_grow x) fl))" by (simp add: tls)
      qed (use W M [where s = s1] w k r q in \<open>simp_all add: all_cert_plan_def\<close>)
    qed
  qed
qed

lemma follows_manager:
  assumes "ms_arrays s = no_arrays"
  shows "follows (create_manager x fl) (manager_plan x fl) s"
  by (rule create_manager_cases [OF assms, of x fl])
    (auto simp: follows_def manager_plan_def fatal_on_def call_def split: option.split)

text \<open>C36 (tls_options). Both servers refuse HTTP/2 unless it is enabled, and use the certificate given for them.
  This relies on how the runtime grows slices: both option lists are appended to the same slice, and if its
  array had room for a second element (and both certificates are given) the webhook server would serve the
  certificate of the metrics server.\<close>

theorem tls_options:
  assumes "ms_arrays s = no_arrays" and "create_manager x fl s = Inr t"
  shows "\<exists>opts. last (ms_calls t) = NewManager opts
    \<and> slice_elems (mo_metrics_tls opts) (ms_arrays t) = map Some (intended_opts fl ''metrics'' (metricsCertPath fl))
    \<and> slice_elems (mo_webhook_tls opts) (ms_arrays t) =
        (if mx_grow x 0 1 \<le> 1 \<or> enableHTTP2 fl \<or> webhookCertPath fl = [] \<or> metricsCertPath fl = []
         then map Some (intended_opts fl ''webhook'' (webhookCertPath fl))
         else map Some [DisableHTTP2, CertificateOf ''metrics''])"
proof (rule create_manager_cases [OF assms(1), of x fl])
  fix s2
  assume "create_manager x fl s = fatal_on (NewManager (manager_opts x fl)) (mx_manager x (manager_opts x fl)) s2"
    and "ms_arrays s2 = snd (snd (tls_slices (mx_grow x) fl))"
  then have "last (ms_calls t) = NewManager (manager_opts x fl)" "ms_arrays t = snd (snd (tls_slices (mx_grow x) fl))"
    using assms(2) by (auto simp: fatal_on_def call_def split: option.splits)
  then show ?thesis
    using tls_slices_elems [where grow = "mx_grow x" and fl = fl]
    by (intro exI [of _ "manager_opts x fl"]) (auto simp: manager_opts_def split: prod.splits)
qed (use assms(2) in simp)

definition demo_main_ext :: main_ext where
  "demo_main_ext =
     \<lparr>mx_config_file = Inl NotExist, mx_gates_file = Inl NotExist, mx_unmarshal_config = (\<lambda>d c. Inr c),
      mx_unmarshal_gates = (\<lambda>d g. Inr g), mx_stat = (\<lambda>p. None), mx_new_watcher = (\<lambda>p. None),
      mx_watcher_add = (\<lambda>p. None), mx_cert_watcher = (\<lambda>c k. None), mx_manager = (\<lambda>opts. None), mx_client = None,
      mx_add = (\<lambda>p. None), mx_start = None, mx_grow = (\<lambda>c n. max n (2 * c)), mx_env = Map.empty\<rparr>"

definition demo_flags :: flags where
  "demo_flags = default_flags\<lparr>webhookCertPath := ''/w'', metricsCertPath := ''/m''\<rparr>"

lemma demo_certs: "succeeds (all_cert_plan demo_main_ext fl)" "mx_manager demo_main_ext opts = None"
  by (simp_all add: all_cert_plan_def cert_plan_def demo_main_ext_def split: if_split)

theorem tls_options_witness:
  "\<exists>t (opts :: manager_options). create_manager demo_main_ext demo_flags (initial_state demo_flags) = Inr t
     \<and> slice_elems (mo_webhook_tls opts) (ms_arrays t) = [Some DisableHTTP2, Some (CertificateOf ''webhook'')]"
proof -
  have a: "ms_arrays (initial_state demo_flags) = no_arrays" by (simp add: initial_state_def)
  obtain t where t: "create_manager demo_main_ext demo_flags (initial_state demo_flags) = Inr t"
    by (rule create_manager_cases [OF a, of demo_main_ext demo_flags]) (auto simp: demo_certs fatal_on_def)
  have grow: "mx_grow demo_main_ext 0 1 \<le> 1"
    and opts: "intended_opts demo_flags ''webhook'' (webhookCertPath demo_flags) = [DisableHTTP2, CertificateOf ''webhook'']"
    by (simp_all add: demo_main_ext_def demo_flags_def default_flags_def intended_opts_def)
  from tls_options [OF a t] obtain o1 :: manager_options where "slice_elems (mo_webhook_tls o1) (ms_arrays t) =
      map Some (intended_opts demo_flags ''webhook'' (webhookCertPath demo_flags))"
    unfolding if_P [OF disjI1 [OF grow]] by blast
  then have "slice_elems (mo_webhook_tls o1) (ms_arrays t) = [Some DisableHTTP2, Some (CertificateOf ''webhook'')]"
    by (simp add: opts)
  with t show ?thesis by blast
qed

section \<open>What the steps keep\<close>

lemma start_config_keeps:
  "start_config x s = Inr t \<Longrightarrow>
     config_outcome (mx_unmarshal_config x) (mx_config_file x) = Inr (ConfigLoader_Get (ms_configLoader t))
     \<and> ms_gateLoader t = ms_gateLoader s \<and> ms_arrays t = ms_arrays s"
proof (cases "config_outcome (mx_unmarshal_config x) (mx_config_file x)")
  case (Inl e)
  assume "start_config x s = Inr t"
  then show ?thesis using config_loader.load_err [OF Inl, of "ms_configLoader s"] by (auto simp: start_config_def)
next
  case (Inr c)
  assume "start_config x s = Inr t"
  then show ?thesis using config_loader.load_ok [OF Inr, of "ms_configLoader s"] Inr
    by (auto simp: start_config_def call_def Let_def ConfigLoader_OnChange_def ConfigLoader_Get_def split: prod.splits)
qed

lemma start_gates_keeps:
  "start_gates x s = Inr t \<Longrightarrow>
     gates_outcome (mx_unmarshal_gates x) (mx_gates_file x) = Inr (FeatureGateLoader_Get (ms_gateLoader t))
     \<and> ms_configLoader t = ms_configLoader s \<and> ms_arrays t = ms_arrays s"
proof (cases "gates_outcome (mx_unmarshal_gates x) (mx_gates_file x)")
  case (Inl e)
  assume "start_gates x s = Inr t"
  then show ?thesis using gate_loader.load_err [OF Inl, of "ms_gateLoader s"] by (auto simp: start_gates_def)
next
  case (Inr c)
  assume "start_gates x s = Inr t"
  then show ?thesis using gate_loader.load_ok [OF Inr, of "ms_gateLoader s"] Inr
    by (auto simp: start_gates_def call_def Let_def FeatureGateLoader_OnChange_def FeatureGateLoader_Get_def split: prod.splits)
qed

definition same_loaders :: "main_state \<Rightarrow> main_state \<Rightarrow> bool" where
  "same_loaders s t \<longleftrightarrow> ms_configLoader t = ms_configLoader s \<and> ms_gateLoader t = ms_gateLoader s"

definition keeps :: "main_step \<Rightarrow> bool" where
  "keeps f \<longleftrightarrow> (\<forall>s t. f s = Inr t \<longrightarrow> same_loaders s t)"

lemma keeps_andThen: "keeps f \<Longrightarrow> keeps g \<Longrightarrow> keeps (andThen f g)"
  by (fastforce simp: keeps_def andThen_def same_loaders_def split: sum.splits)

lemma keeps_fatal_on: "keeps (fatal_on c e)"
  by (simp add: keeps_def same_loaders_def fatal_on_def call_def split: option.split)

lemma keeps_register: "keeps (register_webhook x)"
  by (auto simp: keeps_def same_loaders_def register_webhook_def call_def)

lemma keeps_add: "keeps (add_cert_watcher x purpose path)"
  using keeps_fatal_on by (auto simp: keeps_def same_loaders_def add_cert_watcher_def)

lemma cert_options_keeps: "cert_options x purpose path name key tlsOpts s = Inr (opts, t) \<Longrightarrow> same_loaders s t"
  by (auto simp: cert_options_def same_loaders_def call_def Let_def split: if_splits option.splits prod.splits)

lemma keeps_manager: "keeps (create_manager x fl)"
  unfolding keeps_def create_manager_def
  by (auto simp: Let_def same_loaders_def fatal_on_def call_def split: prod.splits sum.splits option.splits if_splits
      dest!: cert_options_keeps)

lemmas keeps_rules = keeps_andThen keeps_fatal_on keeps_register keeps_add keeps_manager
lemmas follows_rules = follows_andThen follows_fatal_on follows_register follows_add

section \<open>Start-up as a whole\<close>

lemma follows_run_manager:
  assumes "ms_arrays s = no_arrays"
  shows "follows (run_manager x fl) (manager_plan x fl @ service_plan x fl) s"
  unfolding run_manager_def service_plan_def by (rule follows_andThen [OF follows_manager [OF assms]] follows_rules)+

lemma follows_main: "follows (webhook_main x fl) (startup_plan x fl) (initial_state fl)"
  unfolding webhook_main_def startup_plan_def
proof (rule follows_andThen [OF follows_config follows_andThen [OF follows_gates follows_run_manager]])
  fix s t assume "start_config x (initial_state fl) = Inr s" "start_gates x s = Inr t"
  then show "ms_arrays t = no_arrays"
    using start_config_keeps start_gates_keeps by (fastforce simp: initial_state_def)
qed

lemma main_loaders:
  assumes "webhook_main x fl (initial_state fl) = Inr t"
  shows "config_outcome (mx_unmarshal_config x) (mx_config_file x) = Inr (ConfigLoader_Get (ms_configLoader t))"
    and "gates_outcome (mx_unmarshal_gates x) (mx_gates_file x) = Inr (FeatureGateLoader_Get (ms_gateLoader t))"
proof -
  have "keeps (run_manager x fl)" unfolding run_manager_def by (intro keeps_rules)
  moreover obtain s1 s2 where s: "start_config x (initial_state fl) = Inr s1" "start_gates x s1 = Inr s2"
    "run_manager x fl s2 = Inr t"
    using assms by (auto simp: webhook_main_def andThen_def split: sum.splits)
  ultimately have "same_loaders s2 t" unfolding keeps_def by blast
  then show "config_outcome (mx_unmarshal_config x) (mx_config_file x) = Inr (ConfigLoader_Get (ms_configLoader t))"
    and "gates_outcome (mx_unmarshal_gates x) (mx_gates_file x) = Inr (FeatureGateLoader_Get (ms_gateLoader t))"
    using start_config_keeps [OF s(1)] start_gates_keeps [OF s(2)] by (simp_all add: same_loaders_def)
qed

text \<open>C15 (webhook_main_starts). The command makes the calls of the plan in order and stops at the first one that
  fails, with exit status 1; the manager starts only after everything before it succeeded, in particular only
  with a platform configuration that validates and with readable feature gates. Failing file watchers are the
  only errors that it survives.\<close>

theorem webhook_main_starts:
  "case webhook_main x fl (initial_state fl) of
     Inl t \<Rightarrow> \<not> succeeds (startup_plan x fl) \<and> ms_calls t = until_failure (startup_plan x fl)
   | Inr t \<Rightarrow> succeeds (startup_plan x fl) \<and> ms_calls t = map fst (startup_plan x fl)
       \<and> Validate (ConfigLoader_Get (ms_configLoader t)) = None
       \<and> gates_outcome (mx_unmarshal_gates x) (mx_gates_file x) = Inr (FeatureGateLoader_Get (ms_gateLoader t))"
proof (cases "webhook_main x fl (initial_state fl)")
  case (Inl t)
  then show ?thesis using follows_main [of x fl] by (simp add: follows_def initial_state_def)
next
  case (Inr t)
  then show ?thesis
    using follows_main [of x fl] main_loaders [OF Inr] config_loader.outcome_good [OF main_loaders(1) [OF Inr]]
    by (simp add: follows_def initial_state_def until_failure_succeeds)
qed

section \<open>Flags read back\<close>

definition flag_arg :: "string \<Rightarrow> string \<Rightarrow> string" where
  "flag_arg name v = ''--'' @ name @ ''='' @ v"

text \<open>A command line that sets every flag.\<close>

definition flag_args :: "flags \<Rightarrow> string list" where
  "flag_args fl =
     [flag_arg ''metrics-bind-address'' (metricsAddr fl), flag_arg ''health-probe-bind-address'' (probeAddr fl),
      flag_arg ''leader-elect'' (FormatBool (enableLeaderElection fl)),
      flag_arg ''metrics-secure'' (FormatBool (secureMetrics fl)),
      flag_arg ''webhook-cert-path'' (webhookCertPath fl), flag_arg ''webhook-cert-name'' (webhookCertName fl),
      flag_arg ''webhook-cert-key'' (webhookCertKey fl), flag_arg ''metrics-cert-path'' (metricsCertPath fl),
      flag_arg ''metrics-cert-name'' (metricsCertName fl), flag_arg ''metrics-cert-key'' (metricsCertKey fl),
      flag_arg ''enable-http2'' (FormatBool (enableHTTP2 fl)),
      flag_arg ''enable-client-registration'' (FormatBool (enableClientRegistration fl)),
      flag_arg ''config-path'' (configPath fl), flag_arg ''feature-gates-path'' (featureGatesPath fl)]"

lemma split_flag_arg:
  assumes "name \<noteq> []" and "hd name \<noteq> CHR ''-''" and "CHR ''='' \<notin> set name"
  shows "split_flag (flag_arg name v) = Some (name, Some v)"
  using assms IndexByte_split [of "CHR ''=''" name v]
  by (cases name) (auto simp: split_flag_def flag_arg_def HasPrefix_def)

lemma ParseBool_FormatBool [simp]: "ParseBool (FormatBool b) = Some b"
  by (simp add: ParseBool_def FormatBool_def)

lemma parse_string_flag:
  assumes "name \<noteq> []" and "hd name \<noteq> CHR ''-''" and "CHR ''='' \<notin> set name" and "map_of bool_flags name = None"
    and "map_of string_flags name = Some upd"
  shows "parse_flags other (flag_arg name v # args) fl = parse_flags other args (upd v fl)"
  using split_flag_arg [OF assms(1-3), of v] assms(4,5) by (simp add: flag_arg_def HasPrefix_def)

lemma parse_bool_flag:
  assumes "name \<noteq> []" and "hd name \<noteq> CHR ''-''" and "CHR ''='' \<notin> set name" and "map_of bool_flags name = Some upd"
  shows "parse_flags other (flag_arg name (FormatBool b) # args) fl = parse_flags other args (upd b fl)"
  using split_flag_arg [OF assms(1-3), of "FormatBool b"] assms(4) by (simp add: flag_arg_def HasPrefix_def)

lemma parse_flag_args: "parse_flags other (flag_args fl) fl0 = Some fl"
  by (simp add: flag_args_def parse_string_flag parse_bool_flag string_flags_def bool_flags_def
      del: parse_flags.simps(2))

text \<open>C35 (flags_roundtrip). The flags that are set on the command line are the flags the command works with,
  whatever values they have and whatever was set before (the last one wins); without arguments the defaults
  hold.\<close>

theorem flags_roundtrip:
  "parse_flags other (flag_args fl) fl0 = Some fl
   \<and> webhook_command other x (flag_args fl) = Some (webhook_main x fl (initial_state fl))
   \<and> webhook_command other x [] = Some (webhook_main x default_flags (initial_state default_flags))"
  by (simp add: webhook_command_def parse_flag_args)

end
