(* ===== verification/Go_Http.thy ===== *)
theory Go_Http
  imports Go_Url "HOL-Library.Monad_Syntax"
begin

text \<open>
  The part of Go's \<open>net/http\<close> that the servers of the quickstart use: headers with canonical keys, the
  \<open>ResponseWriter\<close> of a server with its rule that the first \<open>WriteHeader\<close> counts, \<open>http.Error\<close>, the routing
  of \<open>ServeMux\<close> for the patterns in use, and \<open>http.NewRequest\<close>.

  A header is the list of its keys with their values, in the order in which \<open>range\<close> visits them; Go leaves
  that order open, so theorems speak about \<open>map_of\<close> of a header. A response writer records what the handler
  sends; what the server adds on the wire (date, length, sniffed content type) is left out. A panic of
  \<open>WriteHeader\<close> is \<open>None\<close>.
\<close>

section \<open>Headers\<close>

type_synonym Header = "(string \<times> string list) list"

text \<open>The bytes of a token, of which header keys and methods consist.\<close>

definition token_byte :: "char \<Rightarrow> bool" where
  "token_byte c \<longleftrightarrow> is_alpha c \<or> is_digit c \<or> c \<in> set ''!#$%&'*+-.^_`|~''"

definition ascii_upper :: "char \<Rightarrow> char" where
  "ascii_upper c = (if between CHR ''a'' c CHR ''z'' then char_of (of_char c - 32 :: nat) else c)"

fun canonical_loop :: "bool \<Rightarrow> string \<Rightarrow> string" where
  "canonical_loop upper [] = []"
| "canonical_loop upper (c # s) =
     (if upper then ascii_upper c else ascii_lower c) # canonical_loop (c = CHR ''-'') s"

definition CanonicalHeaderKey :: "string \<Rightarrow> string" where
  "CanonicalHeaderKey s = (if list_all token_byte s then canonical_loop True s else s)"

fun header_append :: "Header \<Rightarrow> string \<Rightarrow> string \<Rightarrow> Header" where
  "header_append [] k v = [(k, [v])]"
| "header_append ((k', vs) # h) k v =
     (if k' = k then (k', vs @ [v]) # h else (k', vs) # header_append h k v)"

definition Header_Add :: "Header \<Rightarrow> string \<Rightarrow> string \<Rightarrow> Header" where
  "Header_Add h key v = header_append h (CanonicalHeaderKey key) v"

definition Header_Del :: "Header \<Rightarrow> string \<Rightarrow> Header" where
  "Header_Del h key = filter (\<lambda>(k, vs). k \<noteq> CanonicalHeaderKey key) h"

definition Header_Set :: "Header \<Rightarrow> string \<Rightarrow> string \<Rightarrow> Header" where
  "Header_Set h key v = Header_Del h key @ [(CanonicalHeaderKey key, [v])]"

definition Header_Get :: "Header \<Rightarrow> string \<Rightarrow> string" where
  "Header_Get h key = (case map_of h (CanonicalHeaderKey key) of Some (v # vs) \<Rightarrow> v | _ \<Rightarrow> [])"

text \<open>The loop that copies every value of a header into another one.\<close>

definition copy_header :: "Header \<Rightarrow> Header \<Rightarrow> Header" where
  "copy_header src dst = foldl (\<lambda>d (k, vs). foldl (\<lambda>d v. Header_Add d k v) d vs) dst src"

text \<open>Headers as the library builds them: canonical keys, each once, each with a value.\<close>

definition wf_header :: "Header \<Rightarrow> bool" where
  "wf_header h \<longleftrightarrow> distinct (map fst h) \<and> (\<forall>(k, vs)\<in>set h. CanonicalHeaderKey k = k \<and> vs \<noteq> [])"

lemma header_append_new: "k \<notin> fst ` set h \<Longrightarrow> header_append h k v = h @ [(k, [v])]"
  by (induction h k v rule: header_append.induct) auto

lemma header_append_last: "k \<notin> fst ` set h \<Longrightarrow> header_append (h @ [(k, vs)]) k v = h @ [(k, vs @ [v])]"
  by (induction h k v rule: header_append.induct) auto

lemma copy_values:
  assumes "CanonicalHeaderKey k = k" and "k \<notin> fst ` set h"
  shows "foldl (\<lambda>d v. Header_Add d k v) (h @ [(k, us)]) vs = h @ [(k, us @ vs)]"
  using assms by (induction vs arbitrary: us) (simp_all add: Header_Add_def header_append_last)

lemma copy_header_append:
  assumes "wf_header (dst @ src)"
  shows "copy_header src dst = dst @ src"
  using assms
proof (induction src arbitrary: dst)
  case (Cons e src)
  obtain k vs where e: "e = (k, vs)" by (cases e)
  with Cons.prems obtain v vs' where v: "vs = v # vs'" "CanonicalHeaderKey k = k" "k \<notin> fst ` set dst"
    by (cases vs) (auto simp: wf_header_def)
  then have "foldl (\<lambda>d v. Header_Add d k v) dst vs = dst @ [(k, vs)]"
    using copy_values [of k dst "[v]" vs'] by (simp add: Header_Add_def header_append_new)
  moreover have "wf_header ((dst @ [e]) @ src)" using Cons.prems by simp
  ultimately show ?case using Cons.IH [of "dst @ [e]"] by (simp add: copy_header_def e)
qed (simp add: copy_header_def)

theorem copy_header_wf: "wf_header h \<Longrightarrow> copy_header h [] = h"
  by (rule copy_header_append [of "[]", simplified])

section \<open>Response writers\<close>

record ResponseWriter =
  rw_Header :: Header             \<comment> \<open>the map returned by \<open>Header()\<close>\<close>
  rw_status :: "int option"       \<comment> \<open>the status, once written\<close>
  rw_sent :: Header               \<comment> \<open>the header as it was when the status was written\<close>
  rw_limit :: "int option"        \<comment> \<open>the declared content length\<close>
  rw_written :: int
  rw_body :: string

definition new_writer :: ResponseWriter where
  "new_writer = \<lparr>rw_Header = [], rw_status = None, rw_sent = [], rw_limit = None, rw_written = 0, rw_body = []\<rparr>"

definition WriteHeader :: "int \<Rightarrow> ResponseWriter \<Rightarrow> ResponseWriter option" where
  "WriteHeader code w =
     (if rw_status w \<noteq> None then Some w
      else if code < 100 \<or> code > 999 then None
      else if 100 \<le> code \<and> code \<le> 199 \<and> code \<noteq> 101 then Some w
      else
        (let cl = Header_Get (rw_Header w) ''Content-Length'';
             limit = (case Atoi cl of Some v \<Rightarrow> if 0 \<le> v then Some v else None | None \<Rightarrow> None)
         in Some (w\<lparr>rw_status := Some code, rw_sent := rw_Header w, rw_limit := limit,
                    rw_Header := (if cl \<noteq> [] \<and> limit = None then Header_Del (rw_Header w) ''Content-Length''
                                  else rw_Header w)\<rparr>)))"

definition bodyAllowed :: "int \<Rightarrow> bool" where
  "bodyAllowed code \<longleftrightarrow> \<not> (100 \<le> code \<and> code \<le> 199) \<and> code \<noteq> 204 \<and> code \<noteq> 304"

text \<open>\<open>Write\<close>: the status defaults to 200; a body that the status does not allow or that exceeds the
  declared length is dropped (the error is ignored by every caller).\<close>

definition Write_body :: "string \<Rightarrow> ResponseWriter \<Rightarrow> ResponseWriter option" where
  "Write_body data w =
     do {
       w \<leftarrow> WriteHeader 200 w;
       Some (if data = [] \<or> \<not> bodyAllowed (the (rw_status w)) then w
             else
               (let written = rw_written w + int (length data);
                    w = w\<lparr>rw_written := written\<rparr>
                in case rw_limit w of
                     Some n \<Rightarrow> if written > n then w else w\<lparr>rw_body := rw_body w @ data\<rparr>
                   | None \<Rightarrow> w\<lparr>rw_body := rw_body w @ data\<rparr>))
     }"

definition http_Error :: "string \<Rightarrow> int \<Rightarrow> ResponseWriter \<Rightarrow> ResponseWriter option" where
  "http_Error msg code w =
     do {
       let h = Header_Set (Header_Set (Header_Del (rw_Header w) ''Content-Length'')
                 ''Content-Type'' ''text/plain; charset=utf-8'') ''X-Content-Type-Options'' ''nosniff'';
       w \<leftarrow> WriteHeader code (w\<lparr>rw_Header := h\<rparr>);
       Write_body (msg @ [CHR 0x0A]) w
     }"

section \<open>Requests and routing\<close>

record Request =
  r_Method :: string
  r_URL :: URL
  r_RequestURI :: string
  r_Header :: Header
  r_Body :: "error + string"      \<comment> \<open>the result of \<open>io.ReadAll\<close> on the body\<close>

text \<open>The outcome of routing: a handler, the redirection to a cleaned path, or an error status.\<close>

datatype 'h route = Dispatch 'h | RedirectTo string string | BadRequest | NotFound

text \<open>A multiplexer with patterns that are exact paths, and possibly the pattern \<open>/\<close> for everything else.\<close>

record 'h ServeMux =
  mux_paths :: "(string \<times> 'h) list"
  mux_root :: "'h option"

definition cleanPath :: "string \<Rightarrow> string" where
  "cleanPath p =
     (if p = [] then ''/''
      else
        (let p' = (if HasPrefix p ''/'' then p else CHR ''/'' # p);
             np = Clean p'
         in if HasSuffix p' ''/'' \<and> np \<noteq> ''/'' then np @ ''/'' else np))"

definition path_segments :: "string \<Rightarrow> string list" where
  "path_segments p =
     map (\<lambda>s. case unescape encodePath s of Some t \<Rightarrow> t | None \<Rightarrow> s) (Split (tl p) (CHR ''/''))"

definition mux_match :: "'h ServeMux \<Rightarrow> string \<Rightarrow> 'h route" where
  "mux_match mux path =
     (if path = [] then NotFound
      else case find (\<lambda>(pat, h). path_segments path = Split (tl pat) (CHR ''/'')) (mux_paths mux) of
             Some (pat, h) \<Rightarrow> Dispatch h
           | None \<Rightarrow> (case mux_root mux of Some h \<Rightarrow> Dispatch h | None \<Rightarrow> NotFound))"

definition find_handler :: "'h ServeMux \<Rightarrow> Request \<Rightarrow> 'h route" where
  "find_handler mux r =
     (let escaped = EscapedPath (r_URL r);
          path = cleanPath escaped
      in if r_RequestURI r = ''*'' then BadRequest
         else if r_Method r = ''CONNECT'' then mux_match mux escaped
         else if path \<noteq> escaped then RedirectTo path (u_RawQuery (r_URL r))
         else mux_match mux path)"

section \<open>Outgoing requests\<close>

record ClientRequest =
  q_Method :: string
  q_URL :: URL
  q_Host :: string
  q_Header :: Header
  q_Body :: string

record ClientResponse =
  p_StatusCode :: int
  p_Header :: Header
  p_Body :: "error + string"      \<comment> \<open>the result of \<open>io.ReadAll\<close> on the body\<close>

text \<open>\<open>removeEmptyPort\<close>.\<close>

definition hasPort :: "string \<Rightarrow> bool" where
  "hasPort s \<longleftrightarrow>
     (case (LastIndexByte s (CHR '':''), LastIndexByte s (CHR '']'')) of
        (None, _) \<Rightarrow> False | (Some i, None) \<Rightarrow> True | (Some i, Some j) \<Rightarrow> j < i)"

definition removeEmptyPort :: "string \<Rightarrow> string" where
  "removeEmptyPort host = (if hasPort host then TrimSuffix host '':'' else host)"

definition NewRequest :: "string \<Rightarrow> string \<Rightarrow> string \<Rightarrow> ClientRequest option" where
  "NewRequest meth url body =
     (let m = (if meth = [] then ''GET'' else meth)
      in if \<not> list_all token_byte m then None
         else
           map_option (\<lambda>u. \<lparr>q_Method = m, q_URL = u\<lparr>u_Host := removeEmptyPort (u_Host u)\<rparr>,
                            q_Host = removeEmptyPort (u_Host u), q_Header = [], q_Body = body\<rparr>)
             (Parse url))"

text \<open>Writing the status and the body once, as the handlers do.\<close>

lemma WriteHeader_fresh:
  assumes "rw_status w = None" and "200 \<le> code" and "code \<le> 999"
  shows "\<exists>w'. WriteHeader code w = Some w' \<and> rw_status w' = Some code \<and> rw_sent w' = rw_Header w
      \<and> rw_written w' = rw_written w \<and> rw_body w' = rw_body w
      \<and> rw_limit w' = (case Atoi (Header_Get (rw_Header w) ''Content-Length'') of
           Some v \<Rightarrow> if 0 \<le> v then Some v else None | None \<Rightarrow> None)"
  using assms by (simp add: WriteHeader_def Let_def)

lemma WriteHeader_again [simp]: "rw_status w = Some s \<Longrightarrow> WriteHeader code w = Some w"
  by (simp add: WriteHeader_def)

end
