(* ===== verification/Auth_Proxy.thy ===== *)
theory Auth_Proxy
  imports Go_Http
begin

text \<open>
  The pass-through server of the quickstart (\<open>AuthBridge/AuthProxy/main.go\<close>): it forwards every request to
  the target service, and requests under \<open>/tls-test\<close> to its HTTPS port. Sending a request with one of the two
  HTTP clients is the argument \<open>Do\<close>, over an abstract world; everything else, the URL handling included,
  is defined.
\<close>

datatype http_client = defaultClient | httpsClient

type_synonym 'w client_Do = "http_client \<Rightarrow> 'w \<Rightarrow> ClientRequest \<Rightarrow> (error + ClientResponse) \<times> 'w"

definition defaultTargetServiceURL :: string where
  "defaultTargetServiceURL = ''http://demo-app-service:8081''"

definition defaultTargetServiceHTTPSURL :: string where
  "defaultTargetServiceHTTPSURL = ''https://demo-app-service:8443''"

definition tlsTestPrefix :: string where
  "tlsTestPrefix = ''/tls-test''"

text \<open>The response of the target is copied: its header, its status, its body. An error while the body is read
  is reported after the status has been written.\<close>

definition relay_response :: "ClientResponse \<Rightarrow> ResponseWriter \<Rightarrow> ResponseWriter option" where
  "relay_response resp w =
     do {
       w \<leftarrow> WriteHeader (p_StatusCode resp) (w\<lparr>rw_Header := copy_header (p_Header resp) (rw_Header w)\<rparr>);
       case p_Body resp of
         Inl err \<Rightarrow> http_Error ''Failed to read response'' 500 w
       | Inr respBody \<Rightarrow> Write_body respBody w
     }"

definition proxyHandlerWithClient :: "'w client_Do \<Rightarrow> 'w \<Rightarrow> ResponseWriter \<Rightarrow> Request \<Rightarrow> string
    \<Rightarrow> http_client \<Rightarrow> ResponseWriter option \<times> 'w" where
  "proxyHandlerWithClient Do wld w r targetServiceURL client =
     (case r_Body r of
        Inl err \<Rightarrow> (http_Error ''Failed to read request body'' 500 w, wld)
      | Inr body \<Rightarrow>
          (case Parse (targetServiceURL @ u_Path (r_URL r)) of
             None \<Rightarrow> (http_Error ''Invalid target URL'' 500 w, wld)
           | Some targetURL \<Rightarrow>
               (case NewRequest (r_Method r) (URL_String targetURL) body of
                  None \<Rightarrow> (http_Error ''Failed to create proxy request'' 500 w, wld)
                | Some proxyReq \<Rightarrow>
                    (case Do client wld (proxyReq\<lparr>q_Header := copy_header (r_Header r) (q_Header proxyReq)\<rparr>) of
                       (Inl err, wld') \<Rightarrow> (http_Error ''Failed to forward request'' 502 w, wld')
                     | (Inr resp, wld') \<Rightarrow> (relay_response resp w, wld')))))"

definition proxyHandler :: "'w client_Do \<Rightarrow> 'w \<Rightarrow> ResponseWriter \<Rightarrow> Request \<Rightarrow> string
    \<Rightarrow> ResponseWriter option \<times> 'w" where
  "proxyHandler Do wld w r targetServiceURL = proxyHandlerWithClient Do wld w r targetServiceURL defaultClient"

text \<open>The handler that \<open>main\<close> registers for \<open>/\<close>.\<close>

definition root_handler :: "'w client_Do \<Rightarrow> string \<Rightarrow> string \<Rightarrow> 'w \<Rightarrow> ResponseWriter \<Rightarrow> Request
    \<Rightarrow> ResponseWriter option \<times> 'w" where
  "root_handler Do targetServiceURL targetServiceHTTPSURL wld w r =
     (if HasPrefix (u_Path (r_URL r)) tlsTestPrefix then
        (let rest = drop (length tlsTestPrefix) (u_Path (r_URL r));
             path = (if rest = [] then ''/'' else rest);
             r' = r\<lparr>r_URL := (r_URL r)\<lparr>u_Path := path\<rparr>\<rparr>
         in proxyHandlerWithClient Do wld w r' targetServiceHTTPSURL httpsClient)
      else proxyHandler Do wld w r targetServiceURL)"

text \<open>\<open>main\<close>: the targets from the environment, and the multiplexer that serves port 8080.\<close>

definition target_urls :: "strmap \<Rightarrow> string \<times> string" where
  "target_urls env =
     (let url = map_get env ''TARGET_SERVICE_URL'';
          httpsURL = map_get env ''TARGET_SERVICE_HTTPS_URL''
      in (if url = [] then defaultTargetServiceURL else url,
          if httpsURL = [] then defaultTargetServiceHTTPSURL else httpsURL))"

definition auth_proxy_mux :: "'w client_Do \<Rightarrow> strmap
    \<Rightarrow> ('w \<Rightarrow> ResponseWriter \<Rightarrow> Request \<Rightarrow> ResponseWriter option \<times> 'w) ServeMux" where
  "auth_proxy_mux Do env =
     (case target_urls env of
        (url, httpsURL) \<Rightarrow> \<lparr>mux_paths = [], mux_root = Some (root_handler Do url httpsURL)\<rparr>)"

text \<open>A request for a clean path reaches the handler.\<close>

lemma auth_proxy_dispatch:
  assumes "r_Method r \<noteq> ''CONNECT''" and "r_RequestURI r \<noteq> ''*''"
    and "cleanPath (EscapedPath (r_URL r)) = EscapedPath (r_URL r)"
  shows "find_handler (auth_proxy_mux Do env) r = Dispatch (root_handler Do (fst (target_urls env)) (snd (target_urls env)))"
proof -
  have "EscapedPath (r_URL r) \<noteq> []" using assms(3) by (auto simp: cleanPath_def)
  with assms show ?thesis
    by (simp add: find_handler_def mux_match_def auth_proxy_mux_def Let_def split: prod.split)
qed

section \<open>What is forwarded\<close>

text \<open>The address of a target service, and what the bytes of a decoded request path must be for the
  forwarded path to be the same.\<close>

definition service_url :: "string \<Rightarrow> string \<Rightarrow> string" where
  "service_url scheme auth = scheme @ ''://'' @ auth"

definition plain_path :: "string \<Rightarrow> bool" where
  "plain_path p \<longleftrightarrow> HasPrefix p ''/'' \<and> (\<forall>c\<in>set p. path_byte c \<and> c \<noteq> CHR ''%'')"


lemma setPath_plain:
  assumes "plain_path p"
  shows "setPath u p = Some (u\<lparr>u_Path := p, u_RawPath := (if p = escape encodePath p then [] else p)\<rparr>)"
proof -
  have "unescape encodePath p = Some p" using assms by (intro unescape_literal) (auto simp: plain_path_def)
  then show ?thesis by (simp add: setPath_def)
qed

text \<open>The request that is sent for an authority and a plain path.\<close>

lemma target_request:
  assumes "plain_scheme scheme" and "plain_path p" and "host \<noteq> []"
    and "parseAuthority auth = Some (user, host)" and "authority_text user host = auth"
    and "\<forall>c\<in>set auth. path_byte c \<and> c \<noteq> CHR ''/''"
    and "m \<noteq> []" and "list_all token_byte m"
  shows "\<exists>targetURL q. Parse (service_url scheme auth @ p) = Some targetURL
     \<and> NewRequest m (URL_String targetURL) body = Some q
     \<and> q_Method q = m \<and> q_Body q = body \<and> q_Header q = [] \<and> u_Scheme (q_URL q) = scheme
     \<and> u_Host (q_URL q) = removeEmptyPort host \<and> q_Host q = removeEmptyPort host \<and> u_Path (q_URL q) = p
     \<and> u_RawQuery (q_URL q) = []"
proof -
  let ?b = "zero_URL\<lparr>u_Scheme := scheme, u_User := user, u_Host := host\<rparr>"
  define v where "v = ?b\<lparr>u_Path := p, u_RawPath := (if p = escape encodePath p then [] else p)\<rparr>"
  then have v: "setPath ?b p = Some v" "u_Path v = p" "u_Scheme v = scheme" "u_Host v = host" "u_RawQuery v = []"
    using setPath_plain [OF assms(2), of ?b] by (simp_all add: zero_URL_def)
  have pre: "HasPrefix p ''/''" "\<forall>c\<in>set p. path_byte c" using assms(2) by (auto simp: plain_path_def)
  have "Parse (service_url scheme auth @ p) = Some v"
    using Parse_authority [OF assms(1,4,6), of p] pre v(1) by (simp add: service_url_def)
  moreover obtain raw where "Parse (URL_String v) = Some (v\<lparr>u_RawPath := raw\<rparr>)"
    using Parse_String [OF assms(1,3) pre(1) _ _ v(1)] assms(4-6) by auto
  ultimately show ?thesis using assms(7,8) v by (simp add: NewRequest_def Let_def)
qed

text \<open>What the handler does once the request for the target is known.\<close>

definition send_and_relay :: "'w client_Do \<Rightarrow> http_client \<Rightarrow> 'w \<Rightarrow> ClientRequest \<Rightarrow> ResponseWriter
    \<Rightarrow> ResponseWriter option \<times> 'w" where
  "send_and_relay Do client wld q w =
     (case Do client wld q of
        (Inl err, wld') \<Rightarrow> (http_Error ''Failed to forward request'' 502 w, wld')
      | (Inr resp, wld') \<Rightarrow> (relay_response resp w, wld'))"

lemma proxy_sends:
  assumes "plain_scheme scheme" and "plain_path (u_Path (r_URL r))" and "host \<noteq> []"
    and "parseAuthority auth = Some (user, host)" and "authority_text user host = auth"
    and "\<forall>c\<in>set auth. path_byte c \<and> c \<noteq> CHR ''/''"
    and "r_Method r \<noteq> []" and "list_all token_byte (r_Method r)"
    and "r_Body r = Inr body" and "wf_header (r_Header r)"
  shows "\<exists>q. proxyHandlerWithClient Do wld w r (service_url scheme auth) client = send_and_relay Do client wld q w
     \<and> q_Method q = r_Method r \<and> q_Header q = r_Header r \<and> q_Body q = body
     \<and> u_Scheme (q_URL q) = scheme \<and> u_Host (q_URL q) = removeEmptyPort host
     \<and> u_Path (q_URL q) = u_Path (r_URL r) \<and> u_RawQuery (q_URL q) = []"
proof -
  obtain targetURL q where tq: "Parse (service_url scheme auth @ u_Path (r_URL r)) = Some targetURL"
    "NewRequest (r_Method r) (URL_String targetURL) body = Some q"
    and q: "q_Method q = r_Method r" "q_Body q = body" "q_Header q = []" "u_Scheme (q_URL q) = scheme"
      "u_Host (q_URL q) = removeEmptyPort host" "u_Path (q_URL q) = u_Path (r_URL r)" "u_RawQuery (q_URL q) = []"
    using target_request [OF assms(1-8), of body] by auto
  then show ?thesis
    using assms(9,10) copy_header_wf
    by (intro exI [of _ "q\<lparr>q_Header := r_Header r\<rparr>"])
      (auto simp: proxyHandlerWithClient_def send_and_relay_def split: prod.split sum.split)
qed





lemma plain_authority_path_bytes: "plain_authority a \<Longrightarrow> \<forall>c\<in>set a. path_byte c \<and> c \<noteq> CHR ''/''"
  using plain_authority_bytes by blast

section \<open>What is answered\<close>

text \<open>The body that the client gets: the target's, or the text of the error if it cannot be read.\<close>

definition relayed_body :: "ClientResponse \<Rightarrow> string" where
  "relayed_body resp =
     (if bodyAllowed (p_StatusCode resp)
      then (case p_Body resp of Inr b \<Rightarrow> b | Inl err \<Rightarrow> ''Failed to read response'' @ [CHR 0x0A]) else [])"

text \<open>A final response with a canonical header, whose body fits the content length that the header declares.\<close>

definition proper_response :: "ClientResponse \<Rightarrow> bool" where
  "proper_response resp \<longleftrightarrow> 200 \<le> p_StatusCode resp \<and> p_StatusCode resp \<le> 999 \<and> wf_header (p_Header resp)
     \<and> (case Atoi (Header_Get (p_Header resp) ''Content-Length'') of
          Some n \<Rightarrow> 0 \<le> n \<longrightarrow> int (length (relayed_body resp)) \<le> n | None \<Rightarrow> True)"

lemma Write_body_fresh:
  assumes "rw_status w = Some code" and "rw_written w = 0" and "rw_body w = []"
    and "\<And>n. bodyAllowed code \<Longrightarrow> rw_limit w = Some n \<Longrightarrow> int (length b) \<le> n"
  shows "\<exists>w'. Write_body b w = Some w' \<and> rw_status w' = Some code \<and> rw_sent w' = rw_sent w
     \<and> rw_body w' = (if bodyAllowed code then b else [])"
  using assms by (auto simp: Write_body_def Let_def split: option.split)

text \<open>The answer of the target is relayed: the client gets its status, its header and, if the status allows one,
  its body. A failure to read the target's body comes too late to change the status: the client sees the
  target's status with the text of the error as the body.\<close>

lemma relay_result:
  assumes "proper_response resp"
  shows "\<exists>w'. relay_response resp new_writer = Some w' \<and> rw_status w' = Some (p_StatusCode resp)
     \<and> rw_sent w' = p_Header resp \<and> rw_body w' = relayed_body resp"
proof -
  let ?w = "new_writer\<lparr>rw_Header := p_Header resp\<rparr>"
  let ?b = "case p_Body resp of Inr b \<Rightarrow> b | Inl err \<Rightarrow> ''Failed to read response'' @ [CHR 0x0A]"
  have copy: "copy_header (p_Header resp) (rw_Header new_writer) = p_Header resp"
    using copy_header_wf assms by (simp add: new_writer_def proper_response_def)
  obtain w1 where w1: "WriteHeader (p_StatusCode resp) ?w = Some w1" "rw_status w1 = Some (p_StatusCode resp)"
    "rw_sent w1 = p_Header resp" "rw_written w1 = 0" "rw_body w1 = []"
    and limit: "rw_limit w1 = (case Atoi (Header_Get (p_Header resp) ''Content-Length'') of
           Some v \<Rightarrow> if 0 \<le> v then Some v else None | None \<Rightarrow> None)"
    using WriteHeader_fresh [of ?w "p_StatusCode resp"] assms by (auto simp: new_writer_def proper_response_def)
  have "int (length ?b) \<le> n" if "bodyAllowed (p_StatusCode resp)" "rw_limit w1 = Some n" for n
    using that limit assms by (auto simp: proper_response_def relayed_body_def split: option.splits if_splits)
  then have wr: "\<exists>w'. Write_body ?b v = Some w' \<and> rw_status w' = Some (p_StatusCode resp)
      \<and> rw_sent w' = p_Header resp \<and> rw_body w' = relayed_body resp"
    if "v = w1\<lparr>rw_Header := h\<rparr>" for v h
    using Write_body_fresh [of v "p_StatusCode resp" ?b] w1 that by (simp add: relayed_body_def)
  show ?thesis
  proof (cases "p_Body resp")
    case (Inl err)
    then show ?thesis using wr copy w1 by (simp add: relay_response_def http_Error_def Let_def)
  next
    case (Inr b')
    then show ?thesis using wr [of w1 "rw_Header w1"] copy w1 by (simp add: relay_response_def)
  qed
qed

lemma late_error_keeps_status:
  "\<exists>w'. relay_response \<lparr>p_StatusCode = 200, p_Header = [], p_Body = Inl ''unexpected EOF''\<rparr> new_writer = Some w'
     \<and> rw_status w' = Some 200 \<and> rw_sent w' = [] \<and> rw_body w' = ''Failed to read response'' @ [CHR 0x0A]"
  using relay_result [of "\<lparr>p_StatusCode = 200, p_Header = [], p_Body = Inl ''unexpected EOF''\<rparr>"]
  by (simp add: proper_response_def relayed_body_def wf_header_def bodyAllowed_def Header_Get_def Atoi_def)





text \<open>A run of the handler on the default targets, with a client that records what it is asked to send.\<close>

definition demo_Do :: "(http_client \<times> ClientRequest) list client_Do" where
  "demo_Do client log q = (Inr \<lparr>p_StatusCode = 200, p_Header = [], p_Body = Inr ''tls-ok''\<rparr>, log @ [(client, q)])"

definition demo_request :: "string \<Rightarrow> Request" where
  "demo_request path =
     \<lparr>r_Method = ''GET'', r_URL = zero_URL\<lparr>u_Path := path, u_RawQuery := ''q=1''\<rparr>, r_RequestURI = path,
      r_Header = [(''Authorization'', [''Bearer t''])], r_Body = Inr []\<rparr>"

lemma digits_8443: "list_all is_digit ''8443''" "list_all is_digit ''8081''"
  by (simp_all add: is_digit_def)

lemma demo_host: "list_all host_char ''demo-app-service''"
  by (simp add: host_char_def char_class_defs)

lemma demo_service_plain:
  "plain_authority ''demo-app-service:8081''" "plain_authority ''demo-app-service:8443''"
  using demo_host digits_8443 unfolding plain_authority_def
  by (intro exI [of _ "''demo-app-service''"] exI [of _ "'':8081''"] exI [of _ "'':8443''"]; simp)+

lemma schemes_plain [simp]: "plain_scheme ''http''" "plain_scheme ''https''"
  by (simp_all add: plain_scheme_def between_def)

lemma default_targets:
  "target_urls Map.empty = (service_url ''http'' ''demo-app-service:8081'', service_url ''https'' ''demo-app-service:8443'')"
  by (simp add: target_urls_def defaultTargetServiceURL_def defaultTargetServiceHTTPSURL_def service_url_def)

lemma demo_request_wf:
  "list_all token_byte (r_Method (demo_request p))" "wf_header (r_Header (demo_request p))"
  by (simp_all add: demo_request_def token_byte_def char_class_defs wf_header_def CanonicalHeaderKey_def
      ascii_upper_def ascii_lower_def)


section \<open>The test prefix is not a path element\<close>

lemma proxy_text_cong:
  assumes "t1 @ u_Path (r_URL r1) = t2 @ u_Path (r_URL r2)"
    and "r_Method r1 = r_Method r2" and "r_Header r1 = r_Header r2" and "r_Body r1 = r_Body r2"
  shows "proxyHandlerWithClient Do wld w r1 t1 c = proxyHandlerWithClient Do wld w r2 t2 c"
  using assms by (simp only: proxyHandlerWithClient_def)

lemma demo_userinfo:
  "parseUserinfo ''demo-app-service:8443'' = Some \<lparr>ui_username = ''demo-app-service'', ui_password = Some ''8443''\<rparr>"
proof -
  have cut: "Cut ''demo-app-service:8443'' (CHR '':'') = (''demo-app-service'', ''8443'')" by (simp add: Cut_def)
  have "unescape encodeUserPassword ''demo-app-service'' = Some ''demo-app-service''"
    "unescape encodeUserPassword ''8443'' = Some ''8443''"
    by (rule unescape_literal; simp)+
  then show ?thesis
    unfolding parseUserinfo_def cut by (simp add: validUserinfo_def char_class_defs)
qed

lemma demo_userinfo_text:
  "Userinfo_String \<lparr>ui_username = ''demo-app-service'', ui_password = Some ''8443''\<rparr> = ''demo-app-service:8443''"
  by (simp add: Userinfo_String_def escape_def shouldEscape_def char_class_defs)

text \<open>C32 (tls_prefix_leaves_host_open). The rest of the path after the test prefix is appended to the address of
  the target without a separator. A request for \<open>/tls-test@\<close> followed by any host name therefore turns the
  configured service into user information and is sent, with all its header fields and its body, to the
  host named in the request.\<close>

theorem tls_prefix_leaves_host_open:
  assumes "u_Path (r_URL r) = ''/tls-test@'' @ evil @ p" and "plain_authority evil" and "plain_path p"
    and "r_Method r \<noteq> []" and "list_all token_byte (r_Method r)" and "wf_header (r_Header r)" and "r_Body r = Inr body"
    and "target_urls Map.empty = (url, httpsURL)"
  shows "\<exists>q. root_handler Do url httpsURL wld w r = send_and_relay Do httpsClient wld q w
     \<and> u_Host (q_URL q) = removeEmptyPort evil \<and> u_Path (q_URL q) = p
     \<and> q_Method q = r_Method r \<and> q_Header q = r_Header r \<and> q_Body q = body"
proof -
  let ?svc = "''demo-app-service:8443''"
  let ?user = "\<lparr>ui_username = ''demo-app-service'', ui_password = Some ''8443''\<rparr>"
  let ?auth = "?svc @ CHR ''@'' # evil"
  let ?r = "r\<lparr>r_URL := (r_URL r)\<lparr>u_Path := p\<rparr>\<rparr>"
  have pa: "parseAuthority ?auth = Some (Some ?user, evil)"
    using parseAuthority_user [OF assms(2) demo_userinfo] .
  have text_eq: "authority_text (Some ?user) evil = ?auth"
    using demo_userinfo_text escape_host_plain [OF assms(2)] by (simp add: authority_text_def)
  have "\<forall>c\<in>set ?svc. path_byte c \<and> c \<noteq> CHR ''/''"
    using plain_authority_path_bytes [OF demo_service_plain(2)] .
  then have bytes: "\<forall>c\<in>set ?auth. path_byte c \<and> c \<noteq> CHR ''/''"
    using plain_authority_path_bytes [OF assms(2)]
    by (simp only: set_append list.set Un_iff insert_iff ball_Un ball_simps) (simp add: path_byte_def ctl_byte_def)
  obtain q where q: "proxyHandlerWithClient Do wld w ?r (service_url ''https'' ?auth) httpsClient
       = send_and_relay Do httpsClient wld q w" "q_Method q = r_Method r" "q_Header q = r_Header r" "q_Body q = body"
       "u_Host (q_URL q) = removeEmptyPort evil" "u_Path (q_URL q) = p"
    using proxy_sends [OF schemes_plain(2) _ plain_authority_nonempty [OF assms(2)] pa text_eq bytes,
        of ?r body Do wld w httpsClient] assms(3-7) by auto
  have "root_handler Do url httpsURL wld w r =
      proxyHandlerWithClient Do wld w (r\<lparr>r_URL := (r_URL r)\<lparr>u_Path := ''@'' @ evil @ p\<rparr>\<rparr>) httpsURL httpsClient"
    by (simp add: root_handler_def assms(1) tlsTestPrefix_def HasPrefix_def)
  also have "\<dots> = proxyHandlerWithClient Do wld w ?r (service_url ''https'' ?auth) httpsClient"
    using assms(8) unfolding default_targets by (intro proxy_text_cong) (auto simp: service_url_def)
  finally show ?thesis using q by (intro exI [of _ q]) simp
qed

theorem tls_prefix_leaves_host_open_witness:
  "\<exists>q. snd (root_handler demo_Do (fst (target_urls Map.empty)) (snd (target_urls Map.empty)) [] new_writer
          (demo_request (''/tls-test@'' @ ''evil'' @ ''/x''))) = [(httpsClient, q)]
     \<and> u_Host (q_URL q) = ''evil'' \<and> q_Header q = [(''Authorization'', [''Bearer t''])]"
proof -
  have evil: "plain_authority ''evil''"
    unfolding plain_authority_def
    by (intro exI [of _ "''evil''"] exI [of _ "[]"]) (simp add: host_char_def char_class_defs)
  have x: "plain_path ''/x''" by (simp add: plain_path_def HasPrefix_def path_byte_def ctl_byte_def)
  have "removeEmptyPort ''evil'' = ''evil''" by (simp add: removeEmptyPort_def hasPort_def LastIndexByte_def)
  then show ?thesis
    using tls_prefix_leaves_host_open [of "demo_request (''/tls-test@'' @ ''evil'' @ ''/x'')", OF _ evil x,
        where body = "[]" and Do = demo_Do and wld = "[]" and w = new_writer, OF _ _ _ _ _ prod.collapse [symmetric]]
      demo_request_wf
    by (auto simp: demo_request_def send_and_relay_def demo_Do_def)
qed

end
