(* ===== verification/Demo_App.thy ===== *)
theory Demo_App
  imports Ext_Proc Go_Http "HOL-Library.List_Lexorder" "HOL-Library.Char_ord"
begin

text \<open>
  The target of the quickstart (\<open>AuthBridge/AuthProxy/quickstart/demo-app/main.go\<close>): an HTTP server that
  validates the bearer token of every request except those for its agent card, and an HTTPS server that
  answers everything. The JWKS cache and the JWT parser are the operations of the record \<open>ext\<close> that the
  external processor uses too; random numbers and certificate creation are arguments.
\<close>

section \<open>Token validation\<close>

definition validateJWT :: "('w, 'c, 'k) ext \<Rightarrow> 'c \<Rightarrow> 'w \<Rightarrow> string \<Rightarrow> string \<Rightarrow> string \<Rightarrow> string
    \<Rightarrow> error option \<times> 'w" where
  "validateJWT x cache w tokenString jwksURL issuer audience =
     (case JwksGet x cache w jwksURL of
        (Inl err, w') \<Rightarrow> (Some (''failed to fetch JWKS: '' @ err), w')
      | (Inr keySet, w') \<Rightarrow>
          (case JwtParse x w' keySet tokenString of
             Inl err \<Rightarrow> (Some (''failed to parse/validate token: '' @ err), w')
           | Inr token \<Rightarrow>
               if Issuer token \<noteq> issuer then
                 (Some (''invalid issuer: expected '' @ issuer @ '', got '' @ Issuer token), w')
               else if \<not> list_ex (\<lambda>aud. aud = audience) (Audience token) then
                 (Some (''invalid audience: expected '' @ audience @ '', got '' @ show_strings (Audience token)), w')
               else (None, w')))"

text \<open>The bodies of the handlers: a status, then a text.\<close>

definition reply :: "int \<Rightarrow> string \<Rightarrow> ResponseWriter \<Rightarrow> ResponseWriter option" where
  "reply code content rw = do { rw \<leftarrow> WriteHeader code rw; Write_body content rw }"

definition authHandler :: "('w, 'c, 'k) ext \<Rightarrow> 'c \<Rightarrow> string \<Rightarrow> string \<Rightarrow> string \<Rightarrow> 'w \<Rightarrow> ResponseWriter \<Rightarrow> Request
    \<Rightarrow> ResponseWriter option \<times> 'w" where
  "authHandler x cache jwksURL issuer audience w rw r =
     (let authHeader = Header_Get (r_Header r) ''Authorization''
      in if authHeader = [] then (reply 401 ''unauthorized: missing Authorization header'' rw, w)
         else
           (let tokenString = TrimPrefix authHeader ''Bearer ''
            in if tokenString = authHeader
               then (reply 401 ''unauthorized: invalid Authorization header format'' rw, w)
               else (case validateJWT x cache w tokenString jwksURL issuer audience of
                       (Some err, w') \<Rightarrow> (reply 401 ''unauthorized'' rw, w')
                     | (None, w') \<Rightarrow> (reply 200 ''authorized'' rw, w'))))"

section \<open>The agent card\<close>

text \<open>\<open>encoding/json\<close> for the values of the card: a map is written with its keys in order, and strings with
  the escapes of the library (the card holds ASCII only).\<close>

datatype json = JString string | JArray "json list" | JObject "(string \<times> json) list"

definition json_byte :: "char \<Rightarrow> string" where
  "json_byte c =
     (if c = CHR 0x22 \<or> c = CHR 0x5C then [CHR 0x5C, c]
      else if c = CHR 0x08 then [CHR 0x5C, CHR ''b''] else if c = CHR 0x0C then [CHR 0x5C, CHR ''f'']
      else if c = CHR 0x0A then [CHR 0x5C, CHR ''n''] else if c = CHR 0x0D then [CHR 0x5C, CHR ''r'']
      else if c = CHR 0x09 then [CHR 0x5C, CHR ''t'']
      else if (of_char c :: nat) < 32 \<or> c \<in> set ''<>&'' then
        [CHR 0x5C] @ ''u00'' @ map ascii_lower [upperhex (of_char c div 16), upperhex (of_char c mod 16)]
      else [c])"

definition json_string :: "string \<Rightarrow> string" where
  "json_string s = quote @ concat (map json_byte s) @ quote"

fun json_encode :: "json \<Rightarrow> string" where
  "json_encode (JString s) = json_string s"
| "json_encode (JArray vs) = ''['' @ Join (map json_encode vs) '','' @ '']''"
| "json_encode (JObject kvs) =
     ''{'' @ Join (map (\<lambda>(k, t). json_string k @ '':'' @ t)
       (sort_key fst (map (\<lambda>(k, v). (k, json_encode v)) kvs))) '','' @ ''}''"

definition agent_card :: json where
  "agent_card = JObject
     [(''name'', JString ''demo-agent''),
      (''description'', JString ''A simple A2A demo agent for AuthBridge quickstart''),
      (''version'', JString ''1.0.0''),
      (''url'', JString ''http://localhost:8081''),
      (''protocolVersion'', JString ''0.2.6''),
      (''capabilities'', JObject []),
      (''defaultInputModes'', JArray [JString ''text/plain'']),
      (''defaultOutputModes'', JArray [JString ''text/plain'']),
      (''skills'', JArray [JObject
         [(''id'', JString ''echo''),
          (''name'', JString ''Echo''),
          (''description'', JString ''Echoes back the input message''),
          (''tags'', JArray [JString ''utility'']),
          (''inputModes'', JArray [JString ''text/plain'']),
          (''outputModes'', JArray [JString ''text/plain''])]])]"

definition agentCardHandler :: "ResponseWriter \<Rightarrow> Request \<Rightarrow> ResponseWriter option" where
  "agentCardHandler rw r =
     (if r_Method r \<noteq> ''GET'' then http_Error ''method not allowed'' 405 rw
      else Write_body (json_encode agent_card @ [CHR 0x0A])
             (rw\<lparr>rw_Header := Header_Set (rw_Header rw) ''Content-Type'' ''application/json''\<rparr>))"

section \<open>Start-up\<close>

text \<open>The certificate of the HTTPS server. The generator of random numbers is part of the world \<open>'w\<close>, keys
  are of type \<open>'key\<close>, and \<open>CreateCertificate\<close> signs the template with the key it describes.\<close>

record certificate_template =
  SerialNumber :: int
  CommonName :: string
  NotBefore :: int
  NotAfter :: int
  KeyUsage :: "string list"
  ExtKeyUsage :: "string list"
  DNSNames :: "string list"

record ('w, 'key) cert_ext =
  GenerateKey :: "'w \<Rightarrow> (error + 'key) \<times> 'w"
  RandInt :: "int \<Rightarrow> 'w \<Rightarrow> (error + int) \<times> 'w"
  ReadClock :: "'w \<Rightarrow> int \<times> 'w"          \<comment> \<open>\<open>time.Now\<close>\<close>
  CreateCertificate :: "certificate_template \<Rightarrow> 'key \<Rightarrow> 'w \<Rightarrow> (error + string) \<times> 'w"

definition generateSelfSignedCert :: "('w, 'key) cert_ext \<Rightarrow> 'w \<Rightarrow> (error + string \<times> 'key) \<times> 'w" where
  "generateSelfSignedCert cx w =
     (case GenerateKey cx w of
        (Inl err, w1) \<Rightarrow> (Inl (''generate key: '' @ err), w1)
      | (Inr key, w1) \<Rightarrow>
          (case RandInt cx (2 ^ 128) w1 of
             (Inl err, w2) \<Rightarrow> (Inl (''generate serial: '' @ err), w2)
           | (Inr serial, w2) \<Rightarrow>
               (case ReadClock cx w2 of
                  (begin_time, w3) \<Rightarrow>
                    (case ReadClock cx w3 of
                       (end_time, w4) \<Rightarrow>
                         (case CreateCertificate cx
                                 \<lparr>SerialNumber = serial, CommonName = ''demo-app'', NotBefore = begin_time,
                                  NotAfter = end_time + 365 * 24 * 3600 * second,
                                  KeyUsage = [''DigitalSignature''], ExtKeyUsage = [''ServerAuth''],
                                  DNSNames = [''demo-app-service'', ''localhost'']\<rparr> key w4 of
                            (Inl err, w5) \<Rightarrow> (Inl (''create certificate: '' @ err), w5)
                          | (Inr certDER, w5) \<Rightarrow> (Inr (certDER, key), w5))))))"

text \<open>The two handlers of the HTTP server; the HTTPS server has one for every path.\<close>

datatype demo_handler = AgentCard | Auth

definition httpMux :: "demo_handler ServeMux" where
  "httpMux = \<lparr>mux_paths = [(''/.well-known/agent.json'', AgentCard)], mux_root = Some Auth\<rparr>"

definition tls_handler :: "ResponseWriter \<Rightarrow> Request \<Rightarrow> ResponseWriter option" where
  "tls_handler rw r = reply 200 ''tls-ok'' rw"

record ('c, 'key) demo_app =
  da_jwksURL :: string
  da_issuer :: string
  da_audience :: string
  da_cache :: 'c
  da_cert :: "string \<times> 'key"

text \<open>\<open>main\<close> up to serving; \<open>Inl\<close> is \<open>log.Fatal\<close>.\<close>

definition demo_main :: "('w, 'key) cert_ext \<Rightarrow> 'c \<Rightarrow> ('c \<Rightarrow> string \<Rightarrow> error + 'c) \<Rightarrow> strmap \<Rightarrow> 'w
    \<Rightarrow> (error + ('c, 'key) demo_app) \<times> 'w" where
  "demo_main cx NewCache Register env w =
     (let jwksURL = map_get env ''JWKS_URL'';
          issuer = map_get env ''ISSUER'';
          audience = map_get env ''AUDIENCE''
      in if jwksURL = [] then (Inl ''JWKS_URL environment variable is required'', w)
         else if issuer = [] then (Inl ''ISSUER environment variable is required'', w)
         else if audience = [] then (Inl ''AUDIENCE environment variable is required'', w)
         else
           (case Register NewCache jwksURL of
              Inl err \<Rightarrow> (Inl (''Failed to register JWKS URL: '' @ err), w)
            | Inr cache \<Rightarrow>
                (case generateSelfSignedCert cx w of
                   (Inl err, w') \<Rightarrow> (Inl (''Failed to generate self-signed TLS certificate: '' @ err), w')
                 | (Inr cert, w') \<Rightarrow>
                     (Inr \<lparr>da_jwksURL = jwksURL, da_issuer = issuer, da_audience = audience, da_cache = cache,
                           da_cert = cert\<rparr>, w'))))"

text \<open>Serving one request on the HTTP port, and on the HTTPS port; the multiplexer's own answers (redirects and
  errors) are \<open>None\<close>.\<close>

definition demo_serve :: "('w, 'c, 'k) ext \<Rightarrow> ('c, 'key) demo_app \<Rightarrow> 'w \<Rightarrow> Request
    \<Rightarrow> (ResponseWriter option \<times> 'w) option" where
  "demo_serve x app w r =
     (case find_handler httpMux r of
        Dispatch AgentCard \<Rightarrow> Some (agentCardHandler new_writer r, w)
      | Dispatch Auth \<Rightarrow>
          Some (authHandler x (da_cache app) (da_jwksURL app) (da_issuer app) (da_audience app) w new_writer r)
      | _ \<Rightarrow> None)"

definition httpsMux :: "unit ServeMux" where
  "httpsMux = \<lparr>mux_paths = [], mux_root = Some ()\<rparr>"

definition demo_serve_tls :: "Request \<Rightarrow> ResponseWriter option option" where
  "demo_serve_tls r = (case find_handler httpsMux r of Dispatch _ \<Rightarrow> Some (tls_handler new_writer r) | _ \<Rightarrow> None)"

section \<open>Who is authorized\<close>

lemma reply_fresh:
  assumes "code = 200 \<or> code = 401"
  shows "\<exists>rw. reply code content new_writer = Some rw \<and> rw_status rw = Some code \<and> rw_body rw = content"
  using assms
  by (auto simp: reply_def WriteHeader_def Write_body_def new_writer_def Header_Get_def Atoi_def Let_def bodyAllowed_def)

text \<open>What a status and a body say about an answer.\<close>

definition answered :: "ResponseWriter option \<Rightarrow> int \<Rightarrow> string \<Rightarrow> bool" where
  "answered rw code content \<longleftrightarrow> (case rw of None \<Rightarrow> False | Some rw \<Rightarrow> rw_status rw = Some code \<and> rw_body rw = content)"

lemma answered_reply [simp]:
  "code = 200 \<or> code = 401 \<Longrightarrow> answered (reply code content new_writer) c t \<longleftrightarrow> c = code \<and> t = content"
  using reply_fresh [of code content] by (auto simp: answered_def)

text \<open>A token is valid for an issuer and an audience: the key set is available, the parser accepts the token,
  and its claims name both.\<close>

definition token_valid :: "('w, 'c, 'k) ext \<Rightarrow> 'c \<Rightarrow> 'w \<Rightarrow> string \<Rightarrow> string \<Rightarrow> string \<Rightarrow> string \<Rightarrow> bool" where
  "token_valid x cache w jwksURL issuer audience tok \<longleftrightarrow>
     (\<exists>keySet w' token. JwksGet x cache w jwksURL = (Inr keySet, w') \<and> JwtParse x w' keySet tok = Inr token
        \<and> Issuer token = issuer \<and> audience \<in> set (Audience token))"

lemma validateJWT_None_iff:
  "fst (validateJWT x cache w tok jwksURL issuer audience) = None \<longleftrightarrow> token_valid x cache w jwksURL issuer audience tok"
  by (auto simp: validateJWT_def token_valid_def list_ex_iff split: prod.splits sum.splits if_splits)

text \<open>The request paths that the multiplexer gives to the agent card.\<close>

definition agent_card_path :: "Request \<Rightarrow> bool" where
  "agent_card_path r \<longleftrightarrow> path_segments (EscapedPath (r_URL r)) = [''.well-known'', ''agent.json'']"

lemma demo_routing:
  assumes "find_handler httpMux r = Dispatch h"
  shows "h = (if agent_card_path r then AgentCard else Auth)"
proof -
  have "Split (tl ''/.well-known/agent.json'') (CHR ''/'') = [''.well-known'', ''agent.json'']" by simp
  then show ?thesis
    using assms
    by (auto simp: find_handler_def mux_match_def httpMux_def agent_card_path_def Let_def split: if_splits)
qed

text \<open>The requests that the multiplexer passes to a handler: not for \<open>*\<close>, and with a clean path; those of the
  method \<open>CONNECT\<close> only need a path.\<close>

definition dispatched :: "Request \<Rightarrow> bool" where
  "dispatched r \<longleftrightarrow> r_RequestURI r \<noteq> ''*''
     \<and> (if r_Method r = ''CONNECT'' then EscapedPath (r_URL r) \<noteq> []
        else cleanPath (EscapedPath (r_URL r)) = EscapedPath (r_URL r))"

lemma cleanPath_nonempty: "cleanPath p = p \<Longrightarrow> p \<noteq> []"
  by (auto simp: cleanPath_def)

lemma dispatched_iff:
  "(\<exists>h. find_handler httpMux r = Dispatch h) \<longleftrightarrow> dispatched r"
  "(\<exists>h. find_handler httpsMux r = Dispatch h) \<longleftrightarrow> dispatched r"
  using cleanPath_nonempty [of "EscapedPath (r_URL r)"]
  by (auto simp: find_handler_def mux_match_def httpMux_def httpsMux_def dispatched_def Let_def split: if_splits)

lemma demo_serve_answers:
  assumes "demo_serve x app w r = Some (rw, w')"
  shows "if agent_card_path r
     then (if r_Method r = ''GET'' then answered rw 200 (json_encode agent_card @ [CHR 0x0A]) \<and> w' = w
           else answered rw 405 (''method not allowed'' @ [CHR 0x0A]) \<and> w' = w)
     else (if \<exists>tok. Header_Get (r_Header r) ''Authorization'' = ''Bearer '' @ tok
                 \<and> token_valid x (da_cache app) w (da_jwksURL app) (da_issuer app) (da_audience app) tok
           then answered rw 200 ''authorized''
           else \<exists>reason. answered rw 401 reason)"
proof (cases "agent_card_path r")
  case True
  then have "rw = agentCardHandler new_writer r \<and> w' = w"
    using assms demo_routing [of r] by (auto simp: demo_serve_def split: route.splits demo_handler.splits)
  then show ?thesis using True
    by (auto simp: agentCardHandler_def answered_def http_Error_def Write_body_def WriteHeader_def new_writer_def
        Header_Set_def Header_Del_def Header_Get_def CanonicalHeaderKey_def token_byte_def char_class_defs
        ascii_upper_def ascii_lower_def Atoi_def Let_def bodyAllowed_def)
next
  case notcard: False
  let ?h = "Header_Get (r_Header r) ''Authorization''"
  let ?v = "\<lambda>tok. validateJWT x (da_cache app) w tok (da_jwksURL app) (da_issuer app) (da_audience app)"
  have rw: "(rw, w') = authHandler x (da_cache app) (da_jwksURL app) (da_issuer app) (da_audience app) w new_writer r"
    using assms notcard demo_routing [of r] by (auto simp: demo_serve_def split: route.splits demo_handler.splits)
  show ?thesis
  proof (cases "\<exists>tok. ?h = ''Bearer '' @ tok")
    case True
    then obtain tok where tok: "?h = ''Bearer '' @ tok" by blast
    then have "TrimPrefix ?h ''Bearer '' = tok" by (simp only: TrimPrefix_append)
    then have "(rw, w') = (case ?v tok of (Some err, w') \<Rightarrow> (reply 401 ''unauthorized'' new_writer, w')
         | (None, w') \<Rightarrow> (reply 200 ''authorized'' new_writer, w'))"
      using rw tok by (simp add: authHandler_def Let_def)
    then show ?thesis
      using notcard tok validateJWT_None_iff [of x "da_cache app" w tok "da_jwksURL app" "da_issuer app" "da_audience app"]
      by (auto split: prod.splits option.splits)
  next
    case False
    then have "TrimPrefix ?h ''Bearer '' = ?h" by (simp add: TrimPrefix_eq_iff HasPrefix_iff)
    then have "\<exists>reason. rw = reply 401 reason new_writer"
      using rw by (auto simp: authHandler_def Let_def split: if_splits)
    then show ?thesis using False notcard by auto
  qed
qed

text \<open>C33 (demo_app_answers). On the HTTP port, a request that the multiplexer passes on (it redirects requests for
  unclean paths and refuses those for \<open>*\<close>) is answered with 200 and \<open>authorized\<close> exactly when it is not for
  the agent card and carries a bearer token that is valid for the configured issuer and audience; the agent
  card is answered without a token, to \<open>GET\<close> only (405 otherwise); any other request passed on is answered
  with 401. On the HTTPS port every request that is passed on is answered with 200 and \<open>tls-ok\<close>, without a
  token.\<close>

theorem demo_app_answers:
  "(case demo_serve x app w r of
      None \<Rightarrow> \<not> dispatched r
    | Some (rw, w') \<Rightarrow> dispatched r \<and>
        (if agent_card_path r
         then (if r_Method r = ''GET'' then answered rw 200 (json_encode agent_card @ [CHR 0x0A]) \<and> w' = w
               else answered rw 405 (''method not allowed'' @ [CHR 0x0A]) \<and> w' = w)
         else (if \<exists>tok. Header_Get (r_Header r) ''Authorization'' = ''Bearer '' @ tok
                     \<and> token_valid x (da_cache app) w (da_jwksURL app) (da_issuer app) (da_audience app) tok
               then answered rw 200 ''authorized''
               else \<exists>reason. answered rw 401 reason)))
   \<and> (case demo_serve_tls r of None \<Rightarrow> \<not> dispatched r | Some rw \<Rightarrow> dispatched r \<and> answered rw 200 ''tls-ok'')"
proof -
  have "demo_serve x app w r = None \<longleftrightarrow> \<not> dispatched r"
    using dispatched_iff(1) [of r] by (auto simp: demo_serve_def split: route.splits demo_handler.splits)
  moreover have "case demo_serve_tls r of None \<Rightarrow> \<not> dispatched r | Some rw \<Rightarrow> dispatched r \<and> answered rw 200 ''tls-ok''"
    using dispatched_iff(2) [of r] by (auto simp: demo_serve_tls_def tls_handler_def split: route.splits)
  ultimately show ?thesis using demo_serve_answers [of x app w r] by (cases "demo_serve x app w r") auto
qed

text \<open>A request for the demonstration.\<close>

definition demo_get :: "string \<Rightarrow> Header \<Rightarrow> Request" where
  "demo_get path h = \<lparr>r_Method = ''GET'', r_URL = zero_URL\<lparr>u_Path := path\<rparr>, r_RequestURI = path, r_Header = h, r_Body = Inr []\<rparr>"

lemma demo_get_simps [simp]: "r_Method (demo_get p h) = ''GET''" "r_RequestURI (demo_get p h) = p" "r_Header (demo_get p h) = h"
  by (simp_all add: demo_get_def)




end
