(* ===== verification/Spec2Isabelle.thy ===== *)
theory Spec2Isabelle
  imports Deployment Actor_Concurrency Deep_Copy Webhook_Main Auth_Proxy Demo_App
begin

text \<open>
  \<^bold>\<open>Verification of kagenti-extensions.\<close>

  The repository holds programs written in Go that together put authentication in front of agent
  workloads on Kubernetes:

  \<^item> the \<^emph>\<open>admission webhook\<close> (\<open>kagenti-webhook/\<close>) rewrites pods when they are created: it adds an
    Envoy proxy, an init container with network rules, helpers for SPIFFE identities and client
    registration, and the volumes they share;
  \<^item> the \<^emph>\<open>external processor\<close> (\<open>AuthBridge/AuthProxy/go-processor/\<close>) runs beside that Envoy, validates the
    tokens of inbound requests and exchanges the tokens of outbound ones;
  \<^item> the \<^emph>\<open>quickstart\<close> has a forwarder (\<open>AuthBridge/AuthProxy/main.go\<close>) and a demo application
    (\<open>AuthBridge/AuthProxy/quickstart/demo-app/\<close>) that is its target and checks tokens itself.

  The first two meet in the pod: the containers that the webhook builds are the environment in which the processor
  starts. Go values are represented as described in \<open>Go_Prelude\<close>: strings are byte strings, errors are
  their texts in the left summand, nil pointers are \<open>None\<close>, fixed-width integers are words, structs are
  records. Logging is left out, and locks appear as the atomicity of steps. Third-party code is never defined here: it is an operation
  of a record or an argument, and the theorems hold for all of its values, unless a law is stated as a
  hypothesis.

  \<^bold>\<open>The Go library.\<close> \<open>Go_Strings\<close> and \<open>Go_Path\<close> model what the sources use of \<open>strings\<close>, \<open>strconv\<close>, \<open>net\<close>
  and \<open>path\<close>: trimming, splitting and joining, decimal numbers with the 64-bit range, case folding,
  \<open>SplitHostPort\<close>, \<open>path.Match\<close> with its character classes and \<open>path.Clean\<close>. Shown: splitting and
  joining are inverse, numbers survive formatting and parsing, cleaned paths are canonical and cleaning
  is idempotent, and what plain patterns and a trailing star match. \<open>Go_Url\<close> models \<open>net/url\<close> (escaping,
  \<open>Parse\<close>, \<open>String\<close>, \<open>EscapedPath\<close>) with its round trips, and \<open>Go_Http\<close> the header maps, response writers,
  multiplexer and requests of \<open>net/http\<close> that the quickstart uses.

  \<^bold>\<open>The external processor.\<close>
  \<^item> \<open>Proc_World\<close>: the record \<open>ext\<close> of everything outside the process (files, clock, HTTP, JWKS cache,
    JWT parser) over an abstract world, and \<open>readFileContent\<close>.
  \<^item> \<open>Resolver\<close> (\<open>internal/resolver/static.go\<close>): \<open>NewStaticResolver\<close>, \<open>Resolve\<close>. The interface
    \<open>TargetResolver\<close> is the locale \<open>target_resolver\<close>, interpreted on the model. Shown: loading a route
    file and resolving a host gives the first matching route, independent of the port.
  \<^item> \<open>Token_Client\<close> (\<open>main.go\<close>): \<open>exchangeToken\<close>, \<open>clientCredentialsGrant\<close> (one locale \<open>token_request\<close>,
    two interpretations) and the actor-token cache. Shown: when exactly an exchange succeeds, that a
    client authenticates in one way only, how long a cached actor token is served, and the wrap-around
    of its expiry.
  \<^item> \<open>Actor_Concurrency\<close> (\<open>main.go\<close>): \<open>getActorToken\<close> as threads whose atomic steps are the locked sections and
    the token request, in any interleaving and with time passing. Shown: one thread alone is the sequential
    function, tokens and expiries are never mixed up, only granted tokens are returned, and an older
    token may replace a newer one.
  \<^item> \<open>Ext_Proc\<close> (\<open>main.go\<close>): \<open>handleInbound\<close>, \<open>handleOutbound\<close>, \<open>validateInboundJWT\<close>, \<open>matchBypassPath\<close>
    and the stream loop \<open>Process\<close> over a script of stream events. Shown: which inbound requests are
    forwarded, which paths bypass validation by default, that outbound requests fail closed once an
    exchange is configured, when they pass unchanged, and that the \<open>i\<close>-th response of a stream is the
    handlers' answer to its \<open>i\<close>-th request.
  \<^item> \<open>Proc_Startup\<close> (\<open>loadConfig\<close>, \<open>waitForCredentials\<close>, \<open>main\<close>): the waiting loop is a partial function;
    it is proved to end, from the law that sleeping lets the time pass. Shown further: which credentials
    are loaded, when inbound validation is on, that derived Keycloak addresses agree, that the globals are
    well formed, and how the process ends.

  \<^bold>\<open>The webhook.\<close>
  \<^item> \<open>Webhook_Main\<close> (\<open>cmd/main.go\<close>): the flags and \<open>flag.Parse\<close>, the start-up sequence as steps that continue or
    exit, and the TLS options as slices over backing arrays. Shown: start-up follows its plan up to the
    first failing call, the manager starts with a valid configuration only, flags are read back, and when
    the two servers get their own certificates.
  \<^item> \<open>Platform_Config\<close> (\<open>config/types.go\<close>, \<open>defaults.go\<close>, \<open>feature_gates.go\<close>) and \<open>Config_Loader\<close>
    (\<open>loader.go\<close>, \<open>feature_gate_loader.go\<close>): the configuration and its two hot-reloading loaders. The
    loaders share the contract \<open>hot_reload\<close>; the watcher goroutine is the step relation \<open>watch_step\<close> with
    notifications, clock, debounce timer and loads that may overlap. Shown: the value in force is the last
    loadable one and always valid; if loads do not overlap and the file did not change before the watcher
    ran, a watcher with nothing left to do has the current file in force, and without these conditions it
    need not.
  \<^item> \<open>Deep_Copy\<close> (\<open>config/types.go\<close>): \<open>DeepCopy\<close> over a store of maps and slices; it implements copying a value,
    which is how the other theories treat configurations, except for the resource claims, which it loses and
    which the other theories therefore do not have.
  \<^item> \<open>Kube_Types\<close>: the part of the Kubernetes API in use, the record \<open>client\<close> of API server operations, and
    the locale \<open>named_items\<close> for lists in which items are found by name, interpreted for containers,
    volumes and mounts.
  \<^item> \<open>Precedence\<close> (\<open>precedence.go\<close>): which sidecars are injected; refines the linear order of the two
    layers that the code has.
  \<^item> \<open>Workload_Config\<close> (\<open>namespace_config.go\<close>, \<open>agentruntime_config.go\<close>, \<open>resolved_config.go\<close>): the
    configuration of a workload, layer by layer.
  \<^item> \<open>Port_Exclusion\<close> and \<open>Container_Builder\<close> (\<open>container_builder.go\<close>): the injected containers. Shown: port
    lists are clean and normal forms, the two configuration modes differ only in that one writes out the
    values to which the other refers (with the references whose key must exist), administrator credentials
    stay in Secrets.
  \<^item> \<open>Envoy_Template\<close> (\<open>envoy_template.go\<close>, \<open>envoy.yaml.tmpl\<close>): the template, the part of \<open>text/template\<close> it uses,
    and \<open>RenderEnvoyConfig\<close>. Shown: rendering succeeds and which ports the result names.
  \<^item> \<open>Volume_Builder\<close> (\<open>volume_builder.go\<close>, \<open>keycloak_client_credentials.go\<close>): volumes and credential
    mounts, with their fixpoint property.
  \<^item> \<open>Pod_Mutator\<close> (\<open>pod_mutator.go\<close>): \<open>InjectAuthBridge\<close>. Shown: when it acts, that it only adds, which
    containers result, that mounts always refer to declared volumes, idempotence, privileges, and its only
    failure.
  \<^item> \<open>Admission_Webhook\<close> (\<open>authbridge_webhook.go\<close>): \<open>Handle\<close> and its registration. Shown: which pods are patched, with what,
    and when the answer is an error; that a patched pod is let through unchanged when the webhook is invoked again.

  \<^bold>\<open>The quickstart.\<close>
  \<^item> \<open>Auth_Proxy\<close>: the forwarder's handlers. Shown: what is forwarded where, what the client gets back, and that
    a request may name a host of its own behind the test prefix.
  \<^item> \<open>Demo_App\<close>: token check, agent card, certificate, start-up and the multiplexers of both ports. Shown: how
    requests to either port are answered, and that the external processor in front of it decides in the same way.

  \<^bold>\<open>Across components.\<close> \<open>Deployment\<close> joins the programs: the processor started in an injected container
  works with the settings of the container builder (starting a container is the kubelet's work and an
  argument, of which \<open>container_start\<close> states the documented laws in use), loaded configurations yield valid ports, a feature gate file
  that switches everything off does not stop the injection, and the generated Envoy configuration fits the
  ports of the pod and of the processor.

  \<^bold>\<open>Bounds.\<close> No definition uses fuel: recursion is structural or has a termination proof, and the one loop
  that may not end (\<open>wait_loop\<close>) is option-valued with its termination proved.

  \<^bold>\<open>Not modelled.\<close> Logging (\<open>logConfig\<close>, \<open>logFeatureGates\<close> and the messages of the handlers); the listeners, gRPC,
  controller-runtime and the kubelet, whose results are arguments; the registration of the webhook in the
  chart, which selects the namespaces; the answers of the HTTP multiplexer itself (redirects
  and errors), and multi-byte text in URLs beyond its bytes; concurrent admission requests, which share
  nothing but the loaders; the helpers of the end-to-end tests (\<open>test/utils\<close>), Python and shell scripts.
  The next steps are, in this order: a declarative specification of \<open>path.Match\<close>, admission requests that
  interleave with reloads, and the text functions of the test utilities.
\<close>

end
